(* ===== verification/Prelude.thy ===== *)
theory Prelude
  imports Complex_Main "HOL-Library.Word" "HOL-Library.Char_ord" "HOL-Library.List_Lexorder"
    "HOL-Library.Sublist"
begin

text \<open>
  Prelude of the XRPL bridge development: the names of the machine types, the outcome of a Go
  call (a value, an error or a panic), Go error values with wrapping, the contract of the
  retry helper the relayer runs its loops under, and generic facts on lists and decimal
  numerals shared by the components.
\<close>

section \<open>Types shared by all components\<close>

type_synonym uint32 = "32 word"
type_synonym uint64 = "64 word"
type_synonym uint128 = "128 word"

text \<open>Addresses of the TX chain and hashes are text in both programs.\<close>

type_synonym addr = string
type_synonym hash = string

text \<open>
  Collections: \<open>go_intro\<close> for the introduction rules of outcomes, \<open>go_elims\<close> for their
  inversions, \<open>spec_defs\<close> for the definitions a property unfolds.
\<close>

named_theorems go_elims "inversion rules of outcomes of calls"
named_theorems spec_defs "definitions unfolded by the properties"

section \<open>Go error values\<close>

text \<open>
  A Go error is a sentinel (a package-level variable compared by identity), a fresh error made
  from a text, or a wrapped one. \<open>Error\<close> is its text, \<open>Is\<close> is \<open>errors.Is\<close>.
\<close>

datatype go_error = Sentinel string | Errorf string | Wrap string go_error

fun Error :: "go_error \<Rightarrow> string" where
  "Error (Sentinel s) = s"
| "Error (Errorf s) = s"
| "Error (Wrap m e) = m @ '': '' @ Error e"

fun Is :: "go_error \<Rightarrow> go_error \<Rightarrow> bool" where
  "Is (Wrap m e) t = (Wrap m e = t \<or> Is e t)"
| "Is e t = (e = t)"

definition ContextCanceled :: go_error where
  "ContextCanceled = Sentinel ''context canceled''"

lemma Is_refl [simp]: "Is e e"
  by (cases e) auto

lemma Error_Wrap_sublist: "sublist (Error e) (Error (Wrap m e))"
proof -
  have "Error (Wrap m e) = (m @ '': '') @ Error e @ []"
    by simp
  then show ?thesis
    unfolding sublist_def by blast
qed

section \<open>Outcomes of Go calls\<close>

text \<open>
  \<open>Ok\<close> is the value with a nil error, \<open>Err\<close> a non-nil error, \<open>Panic\<close> a run-time panic.
\<close>

datatype 'a go = Ok 'a | Err go_error | Panic string

fun go_bind :: "'a go \<Rightarrow> ('a \<Rightarrow> 'b go) \<Rightarrow> 'b go" where
  "go_bind (Ok x) f = f x"
| "go_bind (Err e) f = Err e"
| "go_bind (Panic p) f = Panic p"

text \<open>\<open>errors.Wrap\<close> on the error of a call.\<close>

fun go_wrap :: "string \<Rightarrow> 'a go \<Rightarrow> 'a go" where
  "go_wrap m (Err e) = Err (Wrap m e)"
| "go_wrap m r = r"

text \<open>A loop that collects results and returns at the first failure.\<close>

fun go_mapM :: "('a \<Rightarrow> 'b go) \<Rightarrow> 'a list \<Rightarrow> 'b list go" where
  "go_mapM f [] = Ok []"
| "go_mapM f (x # xs) =
     go_bind (f x) (\<lambda>y. go_bind (go_mapM f xs) (\<lambda>ys. Ok (y # ys)))"

lemma go_bind_Ok [go_elims]: "go_bind m f = Ok y \<longleftrightarrow> (\<exists>x. m = Ok x \<and> f x = Ok y)"
  by (cases m) auto

lemma go_bind_Err [go_elims]:
  "go_bind m f = Err e \<longleftrightarrow> m = Err e \<or> (\<exists>x. m = Ok x \<and> f x = Err e)"
  by (cases m) auto

lemma go_bind_Panic [go_elims]:
  "go_bind m f = Panic p \<longleftrightarrow> m = Panic p \<or> (\<exists>x. m = Ok x \<and> f x = Panic p)"
  by (cases m) auto

lemma go_wrap_Ok [simp]: "go_wrap m r = Ok x \<longleftrightarrow> r = Ok x"
  by (cases r) auto

lemma go_wrap_Panic [simp]: "go_wrap m r = Panic p \<longleftrightarrow> r = Panic p"
  by (cases r) auto

lemma go_mapM_Ok_iff:
  "go_mapM f xs = Ok ys \<longleftrightarrow> list_all2 (\<lambda>x y. f x = Ok y) xs ys"
  by (induction xs arbitrary: ys) (auto simp: go_bind_Ok list_all2_Cons1)

lemma go_mapM_Ok_map: "(\<And>x. x \<in> set xs \<Longrightarrow> f x = Ok (g x)) \<Longrightarrow> go_mapM f xs = Ok (map g xs)"
  by (induction xs) auto

lemma go_mapM_length: "go_mapM f xs = Ok ys \<Longrightarrow> length ys = length xs"
  by (auto simp: go_mapM_Ok_iff dest: list_all2_lengthD)

section \<open>Rust results\<close>

text \<open>\<open>Inl\<close> is the error, \<open>res_bind\<close> the question mark operator.\<close>

fun res_bind :: "'e + 'a \<Rightarrow> ('a \<Rightarrow> 'e + 'b) \<Rightarrow> 'e + 'b" where
  "res_bind (Inl e) f = Inl e"
| "res_bind (Inr x) f = f x"

lemma res_bind_Inr [go_elims]: "res_bind m f = Inr y \<longleftrightarrow> (\<exists>x. m = Inr x \<and> f x = Inr y)"
  by (cases m) auto

lemma res_bind_Inl [go_elims]:
  "res_bind m f = Inl e \<longleftrightarrow> m = Inl e \<or> (\<exists>x. m = Inr x \<and> f x = Inl e)"
  by (cases m) auto

fun res_wrap :: "string \<Rightarrow> go_error + 'a \<Rightarrow> go_error + 'a" where
  "res_wrap m (Inl e) = Inl (Wrap m e)"
| "res_wrap m (Inr x) = Inr x"

lemma res_wrap_Inr [simp]: "res_wrap m r = Inr x \<longleftrightarrow> r = Inr x"
  by (cases r) auto

text \<open>An error value as the outcome of a Go call.\<close>

fun go_of :: "go_error + 'a \<Rightarrow> 'a go" where
  "go_of (Inl e) = Err e"
| "go_of (Inr x) = Ok x"

lemma go_of_Ok [simp]: "go_of r = Ok x \<longleftrightarrow> r = Inr x"
  by (cases r) auto

lemma go_of_not_Panic [simp]: "go_of r \<noteq> Panic p"
  by (cases r) auto

lemma go_of_bind: "go_of (res_bind r f) = go_bind (go_of r) (\<lambda>x. go_of (f x))"
  by (cases r) auto

section \<open>The retry helper\<close>

text \<open>
  \<open>retry.Do(ctx, delay, f)\<close> of coreum-tools calls \<open>f\<close> until it returns nil or an error that
  is not marked retryable, and gives up with the context's error when the context is done while
  it waits. Its closure threads the state \<open>'s\<close> (\<open>None\<close>: the closure does not return).
  \<open>retry_Do f s s' r\<close> is one finished run from
  \<open>s\<close> to \<open>s'\<close> with result \<open>r\<close> (\<open>None\<close> for nil).
\<close>

datatype attempt = Done | Retryable go_error | Fatal go_error

inductive retry_Do :: "('s \<Rightarrow> ('s \<times> attempt) option) \<Rightarrow> 's \<Rightarrow> 's \<Rightarrow> go_error option \<Rightarrow> bool"
  for f :: "'s \<Rightarrow> ('s \<times> attempt) option" where
  retry_done: "f s = Some (s', Done) \<Longrightarrow> retry_Do f s s' None"
| retry_fatal: "f s = Some (s', Fatal e) \<Longrightarrow> retry_Do f s s' (Some e)"
| retry_again: "f s = Some (s1, Retryable e) \<Longrightarrow> retry_Do f s1 s' r \<Longrightarrow> retry_Do f s s' r"
| retry_canceled: "f s = Some (s', Retryable e) \<Longrightarrow> Is e' ContextCanceled \<Longrightarrow> retry_Do f s s' (Some e')"

text \<open>
  \<open>attempts f s s'\<close>: the states a run of the helper goes through, between two attempts. What
  every attempt keeps holds in all of them.
\<close>

inductive attempts :: "('s \<Rightarrow> ('s \<times> attempt) option) \<Rightarrow> 's \<Rightarrow> 's \<Rightarrow> bool"
  for f :: "'s \<Rightarrow> ('s \<times> attempt) option" and s :: 's where
  attempts_refl: "attempts f s s"
| attempts_step: "attempts f s s1 \<Longrightarrow> f s1 = Some (s2, Retryable e) \<Longrightarrow> attempts f s s2"

lemma attempts_invariant:
  assumes "attempts f s s'" and "P s"
    and "\<And>t t' a. P t \<Longrightarrow> f t = Some (t', a) \<Longrightarrow> P t'"
  shows "P s'"
  using assms(1,2) by (induction rule: attempts.induct) (blast intro: assms(3))+

lemma attempts_trans:
  assumes "attempts f s1 s2" and "attempts f s s1"
  shows "attempts f s s2"
  using assms by (induction rule: attempts.induct) (auto intro: attempts_step)

lemma retry_Do_last:
  assumes "retry_Do f s s' r"
  obtains t a where "attempts f s t" and "f t = Some (s', a)" and "r = None \<longleftrightarrow> a = Done"
  using assms
proof (induction arbitrary: thesis rule: retry_Do.induct)
  case (retry_again s s1 e s' r)
  then show ?case
    by (metis attempts.intros attempts_trans)
qed (auto intro: attempts_refl)

text \<open>
  \<open>retry_steps f n s\<close> runs at most \<open>n\<close> attempts and tells where a run stands: it is the
  executable side of \<^const>\<open>retry_Do\<close>, used to show that a loop ends.
\<close>

fun retry_steps :: "('s \<Rightarrow> ('s \<times> attempt) option) \<Rightarrow> nat \<Rightarrow> 's \<Rightarrow> ('s \<times> attempt) option" where
  "retry_steps f 0 s = None"
| "retry_steps f (Suc n) s =
     (case f s of
        None \<Rightarrow> None
      | Some (s', Retryable e) \<Rightarrow> retry_steps f n s'
      | Some (s', a) \<Rightarrow> Some (s', a))"

lemma retry_steps_Done:
  "retry_steps f n s = Some (s', Done) \<Longrightarrow> retry_Do f s s' None"
proof (induction n arbitrary: s)
  case 0
  then show ?case by simp
next
  case (Suc n)
  then show ?case
    by (auto split: option.splits attempt.splits) (metis retry_done, metis retry_again)
qed

section \<open>Lists\<close>

lemma list_all2_same_length_map:
  "list_all2 (\<lambda>x y. y = g x) xs ys \<longleftrightarrow> ys = map g xs"
  by (auto simp: list_all2_conv_all_nth list_eq_iff_nth_eq)

lemma distinct_snoc: "distinct (xs @ [x]) \<longleftrightarrow> distinct xs \<and> x \<notin> set xs"
  by auto

lemma concat_pages_take_drop:
  "concat (map (\<lambda>i. take n (drop (i * n) xs)) [0..<k]) = take (k * n) xs"
proof (induction k)
  case 0
  then show ?case by simp
next
  case (Suc k)
  then show ?case by (simp add: take_add [symmetric] add.commute)
qed

lemma append_sep_cancel:
  assumes "c \<notin> set a" and "c \<notin> set a'" and "a @ c # b = a' @ c # b'"
  shows "a = a' \<and> b = b'"
  using assms by (induction a arbitrary: a') (auto simp: Cons_eq_append_conv append_eq_Cons_conv)

lemma append_sep_cancel_last:
  assumes "c \<notin> set b" and "c \<notin> set b'" and "a @ c # b = a' @ c # b'"
  shows "a = a' \<and> b = b'"
proof -
  have "rev b @ c # rev a = rev b' @ c # rev a'"
    using arg_cong [OF assms(3), of rev] by simp
  then show ?thesis
    using append_sep_cancel [of c "rev b" "rev b'" "rev a" "rev a'"] assms(1,2) by simp
qed

section \<open>Words\<close>

lemma word_less_Suc:
  fixes x :: "'a::len word"
  assumes "x \<noteq> - 1"
  shows "x < x + 1"
proof -
  have "1 + x \<noteq> 0"
    using assms by (metis add.commute add_eq_0_iff)
  then have "unat (1 + x) = Suc (unat x)"
    by (rule unatSuc)
  then show ?thesis by (simp add: word_less_nat_alt add.commute)
qed

lemma of_nat_eq_word_iff:
  fixes w :: "'a::len word"
  assumes "n < 2 ^ LENGTH('a)"
  shows "of_nat n = w \<longleftrightarrow> n = unat w"
  using assms by (auto simp: unat_of_nat)

lemma unat_of_nat_le: "unat (of_nat n :: 'a::len word) \<le> n"
  by (simp add: unat_of_nat)

end
