(* ===== verification/Storage.thy ===== *)
theory Storage
  imports Prelude
begin

text \<open>
  Key-value storage of the contract. The contract keeps its transactions in maps of
  \<open>cw_storage_plus\<close> keyed by text; iteration is in ascending byte order of the keys. The
  interface is the locale \<open>kv_map\<close>; its implementation here is an association list kept in
  ascending order of the keys.
\<close>

section \<open>The interface\<close>

locale kv_map =
  fixes kempty :: "'m"
    and ksave :: "string \<Rightarrow> 'v \<Rightarrow> 'm \<Rightarrow> 'm"
    and kremove :: "string \<Rightarrow> 'm \<Rightarrow> 'm"
    and kload :: "'m \<Rightarrow> string \<Rightarrow> 'v option"
    and krange :: "'m \<Rightarrow> (string \<times> 'v) list"
    and kwf :: "'m \<Rightarrow> bool"
  assumes load_empty: "kload kempty k = None"
    and load_save: "kwf m \<Longrightarrow> kload (ksave k v m) j = (if j = k then Some v else kload m j)"
    and load_remove: "kwf m \<Longrightarrow> kload (kremove k m) j = (if j = k then None else kload m j)"
    and range_load: "kwf m \<Longrightarrow> (k, v) \<in> set (krange m) \<longleftrightarrow> kload m k = Some v"
    and range_ascending: "kwf m \<Longrightarrow> sorted_wrt (<) (map fst (krange m))"
    and wf_empty: "kwf kempty"
    and wf_save: "kwf m \<Longrightarrow> kwf (ksave k v m)"
    and wf_remove: "kwf m \<Longrightarrow> kwf (kremove k m)"
begin

lemma range_distinct: "kwf m \<Longrightarrow> distinct (map fst (krange m))"
  using range_ascending strict_sorted_iff by blast

text \<open>Each stored key is listed once, so the pages of a map list every entry exactly once.\<close>

lemma range_keys: "kwf m \<Longrightarrow> set (map fst (krange m)) = {k. kload m k \<noteq> None}"
proof -
  assume "kwf m"
  then have "k \<in> fst ` set (krange m) \<longleftrightarrow> (\<exists>v. kload m k = Some v)" for k
    by (metis (no_types, lifting) fst_conv image_iff prod.collapse range_load)
  then show ?thesis by auto
qed

lemma range_map_of: "kwf m \<Longrightarrow> map_of (krange m) k = kload m k"
proof (cases "kload m k")
  case None
  assume wf: "kwf m"
  with None have "k \<notin> fst ` set (krange m)"
    using range_keys [OF wf] by auto
  then show ?thesis using None by (simp add: map_of_eq_None_iff)
next
  case (Some v)
  assume wf: "kwf m"
  with Some have "(k, v) \<in> set (krange m)"
    by (simp add: range_load)
  then show ?thesis using Some range_distinct [OF wf] by (simp add: map_of_is_SomeI)
qed

lemma range_rebuild:
  "kwf m \<Longrightarrow> map (\<lambda>k. (k, the (kload m k))) (map fst (krange m)) = krange m"
  by (auto simp: range_load intro!: map_idI)

lemma range_determined:
  assumes "kwf m" and "kwf m'" and "\<And>k. kload m k = kload m' k"
  shows "krange m = krange m'"
proof -
  have "map fst (krange m) = map fst (krange m')"
    using assms range_keys by (intro strict_sorted_equal range_ascending) auto
  then show ?thesis
    using range_rebuild [OF assms(1)] range_rebuild [OF assms(2)] assms(3) by simp
qed

lemma pages_cover:
  assumes "length (krange m) \<le> k * n"
  shows "concat (map (\<lambda>i. take n (drop (i * n) (krange m))) [0..<k]) = krange m"
  using assms by (simp add: concat_pages_take_drop)

end

section \<open>Ascending association lists\<close>

type_synonym 'v kv = "(string \<times> 'v) list"

fun kv_save :: "string \<Rightarrow> 'v \<Rightarrow> 'v kv \<Rightarrow> 'v kv" where
  "kv_save k v [] = [(k, v)]"
| "kv_save k v ((j, w) # m) =
     (if k < j then (k, v) # (j, w) # m
      else if k = j then (k, v) # m
      else (j, w) # kv_save k v m)"

fun kv_remove :: "string \<Rightarrow> 'v kv \<Rightarrow> 'v kv" where
  "kv_remove k [] = []"
| "kv_remove k ((j, w) # m) = (if k = j then m else (j, w) # kv_remove k m)"

definition kv_load :: "'v kv \<Rightarrow> string \<Rightarrow> 'v option" where
  "kv_load m k = map_of m k"

definition kv_has :: "'v kv \<Rightarrow> string \<Rightarrow> bool" where
  "kv_has m k = (kv_load m k \<noteq> None)"

definition kv_range :: "'v kv \<Rightarrow> (string \<times> 'v) list" where
  "kv_range m = m"

definition kv_wf :: "'v kv \<Rightarrow> bool" where
  "kv_wf m = sorted_wrt (<) (map fst m)"

lemma keys_kv_save: "fst ` set (kv_save k v m) = insert k (fst ` set m)"
  by (induction k v m rule: kv_save.induct) auto

lemma keys_kv_remove: "fst ` set (kv_remove k m) \<subseteq> fst ` set m"
  by (induction k m rule: kv_remove.induct) auto

lemma kv_wf_save: "kv_wf m \<Longrightarrow> kv_wf (kv_save k v m)"
  by (induction k v m rule: kv_save.induct) (force simp: kv_wf_def keys_kv_save)+

lemma kv_wf_remove: "kv_wf m \<Longrightarrow> kv_wf (kv_remove k m)"
proof (induction k m rule: kv_remove.induct)
  case (1 k)
  then show ?case by simp
next
  case (2 k j w m)
  then show ?case
    using keys_kv_remove [of k m] by (fastforce simp: kv_wf_def)
qed

lemma kv_load_save: "kv_load (kv_save k v m) j = (if j = k then Some v else kv_load m j)"
  by (induction k v m rule: kv_save.induct) (auto simp: kv_load_def)

lemma kv_load_remove:
  "kv_wf m \<Longrightarrow> kv_load (kv_remove k m) j = (if j = k then None else kv_load m j)"
proof (induction k m rule: kv_remove.induct)
  case (1 k)
  then show ?case by (simp add: kv_load_def)
next
  case (2 k l w m)
  show ?case
  proof (cases "k = l")
    case True
    have "l \<notin> fst ` set m"
      using "2.prems" by (auto simp: kv_wf_def)
    with True show ?thesis by (auto simp: kv_load_def map_of_eq_None_iff)
  next
    case False
    moreover have "kv_wf m"
      using "2.prems" by (simp add: kv_wf_def)
    ultimately show ?thesis using "2.IH" by (auto simp: kv_load_def)
  qed
qed

lemma kv_load_Nil [simp]: "kv_load [] k = None"
  by (simp add: kv_load_def)

lemma kv_wf_Nil [simp]: "kv_wf []"
  by (simp add: kv_wf_def)

lemma kv_distinct: "kv_wf m \<Longrightarrow> distinct (map fst m)"
  unfolding kv_wf_def using strict_sorted_iff by blast

interpretation akv: kv_map "[]" kv_save kv_remove kv_load kv_range kv_wf
proof
  fix m :: "'v kv" and k :: string and v :: 'v
  assume "kv_wf m"
  then show "(k, v) \<in> set (kv_range m) \<longleftrightarrow> kv_load m k = Some v"
    using kv_distinct by (auto simp: kv_range_def kv_load_def dest: map_of_SomeD)
next
  fix m :: "'v kv"
  assume "kv_wf m"
  then show "sorted_wrt (<) (map fst (kv_range m))"
    by (simp add: kv_range_def kv_wf_def)
qed (auto simp: kv_load_save kv_load_remove kv_wf_save kv_wf_remove kv_load_Nil kv_wf_Nil)

lemma kv_has_save [simp]: "kv_has (kv_save k v m) j \<longleftrightarrow> j = k \<or> kv_has m j"
  by (simp add: kv_has_def kv_load_save)

lemma kv_load_SomeD: "kv_load m k = Some v \<Longrightarrow> (k, v) \<in> set m"
  by (simp add: kv_load_def map_of_SomeD)

lemma set_kv_save: "set (kv_save k v m) \<subseteq> insert (k, v) (set m)"
  by (induction k v m rule: kv_save.induct) auto

lemma set_kv_remove: "set (kv_remove k m) \<subseteq> set m"
  by (induction k m rule: kv_remove.induct) auto

end
