(* ===== verification/Go_Std.thy ===== *)
theory Go_Std
  imports Prelude
begin

text \<open>
  The parts of the Go and Rust standard libraries the sources call: text functions
  (\<open>strings\<close>, \<open>str\<close>), decimal text of integers (\<open>strconv\<close>), hexadecimal decoding
  (\<open>encoding/hex\<close>), and the rationals of \<open>math/big\<close> with the number syntax that
  \<open>Rat.SetString\<close> accepts. Text is a list of bytes; the case functions act on the ASCII
  letters.
\<close>

section \<open>Text functions\<close>

definition HasSuffix :: "string \<Rightarrow> string \<Rightarrow> bool" where
  "HasSuffix s suf = suffix suf s"

definition TrimSuffix :: "string \<Rightarrow> string \<Rightarrow> string" where
  "TrimSuffix s suf = (if HasSuffix s suf then take (length s - length suf) s else s)"

definition Contains :: "string \<Rightarrow> string \<Rightarrow> bool" where
  "Contains s sub = sublist sub s"

definition is_upper :: "char \<Rightarrow> bool" where
  "is_upper c = (CHR ''A'' \<le> c \<and> c \<le> CHR ''Z'')"

definition is_lower :: "char \<Rightarrow> bool" where
  "is_lower c = (CHR ''a'' \<le> c \<and> c \<le> CHR ''z'')"

definition is_digit :: "char \<Rightarrow> bool" where
  "is_digit c = (CHR ''0'' \<le> c \<and> c \<le> CHR ''9'')"

definition lower_char :: "char \<Rightarrow> char" where
  "lower_char c = (if is_upper c then char_of (of_char c + 32 :: nat) else c)"

definition upper_char :: "char \<Rightarrow> char" where
  "upper_char c = (if is_lower c then char_of (of_char c - 32 :: nat) else c)"

definition to_lowercase :: "string \<Rightarrow> string" where
  "to_lowercase s = map lower_char s"

definition ToUpper :: "string \<Rightarrow> string" where
  "ToUpper s = map upper_char s"

text \<open>\<open>strings.Split\<close> and \<open>str::split\<close> at a one-byte separator.\<close>

fun Split :: "char \<Rightarrow> string \<Rightarrow> string list" where
  "Split c [] = [[]]"
| "Split c (x # xs) =
     (if x = c then [] # Split c xs
      else (case Split c xs of [] \<Rightarrow> [[x]] | p # ps \<Rightarrow> (x # p) # ps))"

lemma HasSuffix_append [simp]: "HasSuffix (s @ suf) suf"
  by (simp add: HasSuffix_def suffixI)

lemma TrimSuffix_append [simp]: "TrimSuffix (s @ suf) suf = s"
  by (simp add: TrimSuffix_def)

lemma HasSuffix_TrimSuffix: "HasSuffix s suf \<Longrightarrow> TrimSuffix s suf @ suf = s"
  by (auto simp: TrimSuffix_def HasSuffix_def suffix_def)

lemma Contains_append: "Contains (a @ s @ b) s"
  by (auto simp: Contains_def)

lemma Contains_Wrap: "Contains (Error e) s \<Longrightarrow> Contains (Error (Wrap m e)) s"
  unfolding Contains_def using Error_Wrap_sublist sublist_order.order.trans by blast

lemma to_lowercase_append [simp]: "to_lowercase (a @ b) = to_lowercase a @ to_lowercase b"
  by (simp add: to_lowercase_def)

lemma length_to_lowercase [simp]: "length (to_lowercase s) = length s"
  by (simp add: to_lowercase_def)

lemma Split_not_Nil [simp]: "Split c s \<noteq> []"
  by (induction s) (auto split: list.splits)

lemma Split_no_sep: "c \<notin> set s \<Longrightarrow> Split c s = [s]"
  by (induction s) auto

lemma Split_append_sep: "c \<notin> set s \<Longrightarrow> Split c (s @ c # t) = s # Split c t"
  by (induction s) auto

lemma hd_Split: "hd (Split c s) = takeWhile (\<lambda>x. x \<noteq> c) s"
  by (induction s) (auto split: list.splits)

lemma Split_join: "concat (map (\<lambda>p. p @ [c]) (Split c s)) = s @ [c]"
  by (induction s) (auto split: list.splits)

text \<open>Upper-case letters sit 32 below the lower-case ones, so lowering is idempotent.\<close>

lemma of_char_upper:
  "is_upper c \<longleftrightarrow> 65 \<le> (of_char c :: nat) \<and> (of_char c :: nat) \<le> 90"
  by (simp add: is_upper_def less_eq_char_def)

lemma of_char_digit:
  "is_digit c \<longleftrightarrow> 48 \<le> (of_char c :: nat) \<and> (of_char c :: nat) \<le> 57"
  by (simp add: is_digit_def less_eq_char_def)

lemma of_char_lower_char:
  "(of_char (lower_char c) :: nat) = (if is_upper c then of_char c + 32 else of_char c)"
  by (auto simp: lower_char_def of_char_upper)

lemma lower_char_not_upper [simp]: "\<not> is_upper (lower_char c)"
  using of_char_lower_char [of c] by (auto simp: of_char_upper split: if_splits)

lemma lower_char_idem [simp]: "lower_char (lower_char c) = lower_char c"
  using lower_char_not_upper [of c] by (simp add: lower_char_def [of "lower_char c"])

lemma to_lowercase_idem [simp]: "to_lowercase (to_lowercase s) = to_lowercase s"
  by (simp add: to_lowercase_def)

lemma lower_char_eq_nonletter:
  assumes "\<not> is_upper d" and "\<not> is_lower d"
  shows "lower_char c = d \<longleftrightarrow> c = d"
proof
  assume h: "lower_char c = d"
  show "c = d"
  proof (cases "is_upper c")
    case True
    with h have "(of_char d :: nat) = of_char c + 32"
      using of_char_lower_char [of c] by simp
    with True assms(2) show ?thesis
      by (simp add: of_char_upper is_lower_def less_eq_char_def)
  next
    case False
    with h show ?thesis by (simp add: lower_char_def)
  qed
next
  assume "c = d"
  with assms(1) show "lower_char c = d" by (simp add: lower_char_def)
qed

lemma lower_char_dash [simp]: "lower_char c = CHR ''-'' \<longleftrightarrow> c = CHR ''-''"
  by (rule lower_char_eq_nonletter) (simp_all add: is_upper_def is_lower_def less_eq_char_def)

lemma lower_char_digit: "is_digit c \<Longrightarrow> lower_char c = c"
  by (auto simp: lower_char_def of_char_upper of_char_digit)

lemma is_digit_lower_char [simp]: "is_digit (lower_char c) = is_digit c"
  by (auto simp: of_char_digit of_char_lower_char of_char_upper)

section \<open>Decimal text\<close>

definition digit_char :: "nat \<Rightarrow> char" where
  "digit_char d = char_of (48 + d)"

definition char_digit :: "char \<Rightarrow> nat" where
  "char_digit c = of_char c - 48"

fun dec_of_nat :: "nat \<Rightarrow> string" where
  "dec_of_nat n =
     (if n < 10 then [digit_char n] else dec_of_nat (n div 10) @ [digit_char (n mod 10)])"

declare dec_of_nat.simps [simp del]

definition nat_of_dec :: "string \<Rightarrow> nat" where
  "nat_of_dec s = foldl (\<lambda>n c. 10 * n + char_digit c) 0 s"

definition all_digits :: "string \<Rightarrow> bool" where
  "all_digits s = (\<forall>c \<in> set s. is_digit c)"

lemma char_digit_char [simp]: "d < 10 \<Longrightarrow> char_digit (digit_char d) = d"
  by (simp add: char_digit_def digit_char_def)

lemma is_digit_digit_char [simp]: "d < 10 \<Longrightarrow> is_digit (digit_char d)"
  by (simp add: of_char_digit digit_char_def)

lemma char_digit_less: "is_digit c \<Longrightarrow> char_digit c < 10"
  by (auto simp: of_char_digit char_digit_def)

lemma nat_of_dec_Nil [simp]: "nat_of_dec [] = 0"
  by (simp add: nat_of_dec_def)

lemma nat_of_dec_snoc [simp]: "nat_of_dec (s @ [c]) = 10 * nat_of_dec s + char_digit c"
  by (simp add: nat_of_dec_def)

lemma nat_of_dec_append: "nat_of_dec (s @ t) = nat_of_dec s * 10 ^ length t + nat_of_dec t"
  by (induction t rule: rev_induct) (simp_all add: append_assoc [symmetric] algebra_simps
      del: append_assoc)

lemma nat_of_dec_of_nat [simp]: "nat_of_dec (dec_of_nat n) = n"
proof (induction n rule: dec_of_nat.induct)
  case (1 n)
  show ?case
  proof (cases "n < 10")
    case True
    then show ?thesis
      using nat_of_dec_snoc [of "[]" "digit_char n"] by (simp add: dec_of_nat.simps [of n])
  next
    case False
    with "1" show ?thesis by (simp add: dec_of_nat.simps [of n])
  qed
qed

lemma all_digits_dec_of_nat [simp]: "all_digits (dec_of_nat n)"
proof (induction n rule: dec_of_nat.induct)
  case (1 n)
  then show ?case
    by (cases "n < 10") (auto simp: dec_of_nat.simps [of n] all_digits_def)
qed

lemma dec_of_nat_not_Nil [simp]: "dec_of_nat n \<noteq> []"
  by (simp add: dec_of_nat.simps [of n])

lemma dec_of_nat_inject [simp]: "dec_of_nat m = dec_of_nat n \<longleftrightarrow> m = n"
  by (metis nat_of_dec_of_nat)

lemma to_lowercase_digits: "all_digits s \<Longrightarrow> to_lowercase s = s"
  by (auto simp: to_lowercase_def all_digits_def lower_char_digit intro: map_idI)

text \<open>
  \<open>strconv.ParseUint(s, 10, 64)\<close>: digits only, at least one, within 64 bits. Decimal text
  of an \<open>sdkmath.Int\<close> or a \<open>Uint128\<close> is \<^const>\<open>dec_of_nat\<close> after the sign.
\<close>

definition ParseUint :: "string \<Rightarrow> uint64 go" where
  "ParseUint s =
     (if s = [] then Err (Errorf ''invalid syntax'')
      else if \<not> all_digits s then Err (Errorf ''invalid syntax'')
      else if nat_of_dec s < 2 ^ 64 then Ok (of_nat (nat_of_dec s))
      else Err (Errorf ''value out of range''))"

definition dec_of_int :: "int \<Rightarrow> string" where
  "dec_of_int i = (if i < 0 then CHR ''-'' # dec_of_nat (nat (- i)) else dec_of_nat (nat i))"

lemma ParseUint_dec_of_nat: "n < 2 ^ 64 \<Longrightarrow> ParseUint (dec_of_nat n) = Ok (of_nat n)"
  by (simp add: ParseUint_def)

lemma dec_of_int_inject [simp]: "dec_of_int i = dec_of_int j \<longleftrightarrow> i = j"
proof -
  have "CHR ''-'' # s \<noteq> dec_of_nat n" for s n
  proof
    assume "CHR ''-'' # s = dec_of_nat n"
    then have "is_digit (CHR ''-'')"
      using all_digits_dec_of_nat [of n] by (metis all_digits_def list.set_intros(1))
    then show False by (simp add: is_digit_def less_eq_char_def)
  qed
  then show ?thesis
    by (auto simp: dec_of_int_def) (metis)+
qed

section \<open>Hexadecimal text\<close>

definition hex_digit :: "char \<Rightarrow> nat option" where
  "hex_digit c =
     (if is_digit c then Some (of_char c - 48)
      else if CHR ''a'' \<le> c \<and> c \<le> CHR ''f'' then Some (of_char c - 87)
      else if CHR ''A'' \<le> c \<and> c \<le> CHR ''F'' then Some (of_char c - 55)
      else None)"

text \<open>\<open>hex.DecodeString\<close>: two digits per byte, an odd length is an error.\<close>

fun hex_DecodeString :: "string \<Rightarrow> string go" where
  "hex_DecodeString [] = Ok []"
| "hex_DecodeString [c] =
     (case hex_digit c of
        None \<Rightarrow> Err (Errorf ''encoding/hex: invalid byte'')
      | Some _ \<Rightarrow> Err (Errorf ''encoding/hex: odd length hex string''))"
| "hex_DecodeString (c # d # s) =
     (case (hex_digit c, hex_digit d) of
        (Some h, Some l) \<Rightarrow> go_bind (hex_DecodeString s) (\<lambda>r. Ok (char_of (16 * h + l) # r))
      | _ \<Rightarrow> Err (Errorf ''encoding/hex: invalid byte''))"

definition hex_char :: "nat \<Rightarrow> char" where
  "hex_char d = (if d < 10 then char_of (48 + d) else char_of (55 + d))"

text \<open>Upper-case hexadecimal text, as \<open>%X\<close> prints bytes.\<close>

fun hex_EncodeToString :: "string \<Rightarrow> string" where
  "hex_EncodeToString [] = []"
| "hex_EncodeToString (c # s) =
     hex_char (of_char c div 16) # hex_char (of_char c mod 16) # hex_EncodeToString s"

lemma hex_digit_char [simp]: "d < 16 \<Longrightarrow> hex_digit (hex_char d) = Some d"
  by (auto simp: hex_digit_def hex_char_def is_digit_def less_eq_char_def)

lemma hex_DecodeString_Encode: "hex_DecodeString (hex_EncodeToString s) = Ok s"
proof (induction s)
  case Nil
  then show ?case by simp
next
  case (Cons c s)
  have "(of_char c :: nat) div 16 < 16"
    by (rule less_mult_imp_div_less) simp
  moreover have "(of_char c :: nat) mod 16 < 16"
    by simp
  moreover have "16 * ((of_char c :: nat) div 16) + of_char c mod 16 = of_char c"
    by simp
  ultimately show ?case using Cons by simp
qed

section \<open>Parts of a joined text\<close>

lemma Split_append: "Split c (s @ c # t) = Split c s @ Split c t"
  by (induction s) (auto split: list.split)

lemma Split_singleD: "Split c s = [p] \<Longrightarrow> p = s"
  using Split_join [of c s] by simp

text \<open>A text with two separators has only one reading as three parts joined by them.\<close>

lemma Split_three:
  assumes "Split c (i @ c # (x @ c # r)) = [a, b, d]"
  shows "i = a \<and> x = b \<and> r = d"
proof -
  obtain p q s where "Split c i = [p]" "Split c x = [q]" "Split c r = [s]" "[p, q, s] = [a, b, d]"
    using assms
    by (cases "Split c i"; cases "Split c x"; cases "Split c r") (auto simp: Split_append append_eq_Cons_conv)
  then show ?thesis by (auto dest!: Split_singleD)
qed

lemma takeWhile_digits:
  "all_digits s \<Longrightarrow> d \<noteq> [] \<Longrightarrow> \<not> is_digit (hd d) \<Longrightarrow> takeWhile is_digit (s @ d) = s"
  by (cases d) (auto simp: all_digits_def takeWhile_append2)

lemma amount_denom_inject:
  assumes "dec_of_nat m @ d = dec_of_nat n @ e"
    and "d \<noteq> []" "\<not> is_digit (hd d)" "e \<noteq> []" "\<not> is_digit (hd e)"
  shows "m = n \<and> d = e"
proof -
  have "dec_of_nat m = dec_of_nat n"
    using assms takeWhile_digits [of "dec_of_nat m" d] takeWhile_digits [of "dec_of_nat n" e] by simp
  with assms(1) show ?thesis by simp
qed

end
