(* ===== verification/Contract.thy ===== *)
theory Contract
  imports Storage Go_Std
begin

text \<open>
  The CosmWasm contract \<open>threshold-bank-send\<close> (\<open>src/contract/src\<close>): its messages and errors
  (\<open>msg.rs\<close>, \<open>error.rs\<close>), its storage (\<open>state.rs\<close>) and its entry points (\<open>contract.rs\<close>).
  An entry point returns the new storage and the response, or a failure; the chain keeps the
  storage of a successful call only. What the contract takes from its host and from crates
  (address validation, the text of a coin, base58 with checksum, decimal parsing, the single
  coin of a payment) are the fields of the record \<open>host\<close>, an argument of the definitions.
\<close>

section \<open>Messages, errors and storage\<close>

record coin =
  coin_denom :: string
  coin_amount :: uint128

record xrpl_token =
  currency :: string
  issuer :: string
  activation_date :: uint64
  multiplier :: string

record instantiate_msg =
  im_owner :: addr
  im_trusted_addresses :: "addr list"
  im_threshold :: uint32
  im_min_amount :: uint128
  im_max_amount :: uint128
  im_xrpl_tokens :: "xrpl_token list"

datatype execute_msg =
    ThresholdBankSend string coin addr
  | ExecutePending string
  | UpdateMinAmount uint128
  | UpdateMaxAmount uint128
  | UpdateTrustedAddresses "addr list"
  | AddXrplTokens "xrpl_token list"
  | UpdateOwner string

record transaction =
  amount :: coin
  recipient :: addr
  evidence_providers :: "addr list"

definition default_transaction :: transaction where
  "default_transaction =
     \<lparr>amount = \<lparr>coin_denom = [], coin_amount = 0\<rparr>, recipient = [], evidence_providers = []\<rparr>"

datatype contract_error =
    Std string
  | Unauthorized
  | CustomError string
  | InvalidThreshold
  | DuplicatedTrustedAddress
  | DuplicatedXRPLToken
  | InvalidXRPLCurrency string
  | InvalidXRPLIssuer string
  | InvalidMultiplier string
  | TransferAlreadySent
  | EvidenceAlreadyProvided
  | TransactionNotFound
  | TransactionNotConfirmed
  | LowAmount
  | FundsMismatch
  | Payment string

text \<open>The display texts of the errors; the relayer recognises errors by them.\<close>

fun error_text :: "contract_error \<Rightarrow> string" where
  "error_text (Std s) = s"
| "error_text Unauthorized = ''Unauthorized''"
| "error_text (CustomError v) = ''Custom Error val: '' @ [CHR 0x22] @ v @ [CHR 0x22]"
| "error_text InvalidThreshold = ''The threshold must be greater than zero and lower or equal to the trusted addresses number''"
| "error_text DuplicatedTrustedAddress = ''Duplicated trusted address''"
| "error_text DuplicatedXRPLToken = ''Duplicated XRPL token''"
| "error_text (InvalidXRPLCurrency r) = ''Invalid XRPL currency format: '' @ r"
| "error_text (InvalidXRPLIssuer r) = ''Invalid XRPL issuer format: '' @ r"
| "error_text (InvalidMultiplier r) = ''Invalid multiplier format: '' @ r"
| "error_text TransferAlreadySent = ''Transfer already sent''"
| "error_text EvidenceAlreadyProvided = ''Sender already provided the evidence''"
| "error_text TransactionNotFound = ''Transaction not found''"
| "error_text TransactionNotConfirmed = ''Transaction not confirmed''"
| "error_text LowAmount = ''The amount is too low''"
| "error_text FundsMismatch = ''Funds mismatch''"
| "error_text (Payment p) = p"

text \<open>
  A call fails with an error of the enum, or traps: the release profile keeps overflow checks on
  and aborts on panic.
\<close>

datatype failure = Fails contract_error | Traps string

record contract_config =
  owner :: addr
  trusted_addresses :: "addr list"
  threshold :: uint32
  min_amount :: uint128
  max_amount :: uint128
  xrpl_tokens :: "xrpl_token list"
  version :: uint64

record storage =
  CONFIG :: "contract_config option"
  OWNER :: "addr option"
  THRESHOLD :: "uint32 option"
  TRUSTED_ADDRESSES :: "unit kv"
  MIN_AMOUNT :: "uint128 option"
  MAX_AMOUNT :: "uint128 option"
  PENDING_TRANSACTIONS :: "transaction kv"
  SENT_TRANSACTIONS :: "transaction kv"
  contract_info :: "(string \<times> string) option"

definition empty_storage :: storage where
  "empty_storage = \<lparr>CONFIG = None, OWNER = None, THRESHOLD = None, TRUSTED_ADDRESSES = [],
     MIN_AMOUNT = None, MAX_AMOUNT = None, PENDING_TRANSACTIONS = [], SENT_TRANSACTIONS = [],
     contract_info = None\<rparr>"

datatype bank_msg = BankSend addr "coin list"

record response =
  attributes :: "(string \<times> string) list"
  messages :: "bank_msg list"

record message_info =
  sender :: addr
  funds :: "coin list"

record host =
  addr_validate :: "string \<Rightarrow> string + addr"
  coin_display :: "coin \<Rightarrow> string"
  bs58_check_decode :: "string \<Rightarrow> 8 word list option"
  decimal_parse :: "string \<Rightarrow> rat option"
  decimal_display :: "rat \<Rightarrow> string"
  one_coin :: "coin list \<Rightarrow> string + coin"

section \<open>Helpers of the entry points\<close>

definition CONTRACT_NAME :: string where
  "CONTRACT_NAME = ''threshold-bank-send''"

definition CONTRACT_VERSION :: string where
  "CONTRACT_VERSION = ''0.3.0''"

definition DEFAULT_PAGE_LIMIT :: nat where
  "DEFAULT_PAGE_LIMIT = 500"

definition MAX_XRPL_TOKENS :: nat where
  "MAX_XRPL_TOKENS = 200"

definition set_contract_version :: "storage \<Rightarrow> storage" where
  "set_contract_version st = st\<lparr>contract_info := Some (CONTRACT_NAME, CONTRACT_VERSION)\<rparr>"

definition load_config :: "storage \<Rightarrow> failure + contract_config" where
  "load_config st = (case CONFIG st of
     None \<Rightarrow> Inl (Fails (Std ''threshold_bank_send::state::ContractConfig not found'')) | Some c \<Rightarrow> Inr c)"

definition validate_addr :: "host \<Rightarrow> string \<Rightarrow> failure + addr" where
  "validate_addr h a = (case addr_validate h a of Inl e \<Rightarrow> Inl (Fails (Std e)) | Inr r \<Rightarrow> Inr r)"

text \<open>\<open>config.version += 1\<close> with overflow checks.\<close>

definition bump_version :: "contract_config \<Rightarrow> failure + contract_config" where
  "bump_version c =
     (if version c = - 1 then Inl (Traps ''attempt to add with overflow'')
      else Inr (c\<lparr>version := version c + 1\<rparr>))"

definition is_ascii_hexdigit :: "char \<Rightarrow> bool" where
  "is_ascii_hexdigit c = (hex_digit c \<noteq> None)"

definition validate_xrpl_token :: "host \<Rightarrow> xrpl_token \<Rightarrow> failure + unit" where
  "validate_xrpl_token h t =
     (if length (currency t) \<noteq> 40 \<or> \<not> list_all is_ascii_hexdigit (currency t) then
        Inl (Fails (InvalidXRPLCurrency ''Currency must be a 40-character hexadecimal string''))
      else
        (case bs58_check_decode h (issuer t) of
           None \<Rightarrow> Inl (Fails (InvalidXRPLIssuer ''Invalid Base58 format or checksum mismatch''))
         | Some decoded \<Rightarrow>
             (case decoded of
                v # _ \<Rightarrow>
                  if length decoded \<noteq> 21 \<or> v \<noteq> 0 then
                    Inl (Fails (InvalidXRPLIssuer ''Invalid XRPL address version or payload length''))
                  else
                    (case decimal_parse h (multiplier t) of
                       None \<Rightarrow> Inl (Fails (InvalidMultiplier (''Multiplier '' @ [CHR 0x27] @ multiplier t @ [CHR 0x27] @ '' is not a valid decimal'')))
                     | Some val \<Rightarrow>
                         if val < 1 / 10 \<or> val > 10 then
                           Inl (Fails (InvalidMultiplier (''Multiplier '' @ decimal_display h val @ '' is out of allowed range [0.1, 10.0]'')))
                         else Inr ())
              | [] \<Rightarrow> Inl (Fails (InvalidXRPLIssuer ''Invalid XRPL address version or payload length'')))))"

text \<open>The loop over the trusted addresses, in \<open>instantiate\<close> and \<open>update_trusted_addresses\<close>.\<close>

fun check_trusted_addresses :: "host \<Rightarrow> addr list \<Rightarrow> addr list \<Rightarrow> failure + unit" where
  "check_trusted_addresses h seen [] = Inr ()"
| "check_trusted_addresses h seen (a # as) =
     res_bind (validate_addr h a) (\<lambda>_.
       if a \<in> set seen then Inl (Fails DuplicatedTrustedAddress)
       else check_trusted_addresses h (a # seen) as)"

fun validate_tokens :: "host \<Rightarrow> xrpl_token list \<Rightarrow> failure + unit" where
  "validate_tokens h [] = Inr ()"
| "validate_tokens h (t # ts) = res_bind (validate_xrpl_token h t) (\<lambda>_. validate_tokens h ts)"

definition token_key :: "xrpl_token \<Rightarrow> string \<times> string" where
  "token_key t = (issuer t, currency t)"

fun check_token_duplicates :: "(string \<times> string) list \<Rightarrow> xrpl_token list \<Rightarrow> failure + unit" where
  "check_token_duplicates seen [] = Inr ()"
| "check_token_duplicates seen (t # ts) =
     (if token_key t \<in> set seen then Inl (Fails DuplicatedXRPLToken)
      else check_token_duplicates (token_key t # seen) ts)"

text \<open>The loop of \<open>add_xrpl_tokens\<close>: it validates, checks the keys seen and pushes.\<close>

fun push_tokens ::
  "host \<Rightarrow> (string \<times> string) list \<Rightarrow> xrpl_token list \<Rightarrow> xrpl_token list \<Rightarrow> failure + xrpl_token list"
where
  "push_tokens h seen acc [] = Inr acc"
| "push_tokens h seen acc (t # ts) =
     res_bind (validate_xrpl_token h t) (\<lambda>_.
       if token_key t \<in> set seen then Inl (Fails DuplicatedXRPLToken)
       else push_tokens h (token_key t # seen) (acc @ [t]) ts)"

definition normalize_id :: "string \<Rightarrow> string" where
  "normalize_id i = to_lowercase i"

definition build_evidence_id :: "host \<Rightarrow> string \<Rightarrow> coin \<Rightarrow> addr \<Rightarrow> string" where
  "build_evidence_id h i a r = to_lowercase (i @ ''-'' @ coin_display h a @ ''-'' @ r)"

definition extract_id_from_evidence_id :: "string \<Rightarrow> string" where
  "extract_id_from_evidence_id e = hd (Split (CHR ''-'') e)"

section \<open>Entry points\<close>

definition instantiate :: "host \<Rightarrow> storage \<Rightarrow> instantiate_msg \<Rightarrow> failure + (storage \<times> response)" where
  "instantiate h st m =
     (let st1 = set_contract_version st in
      res_bind (validate_addr h (im_owner m)) (\<lambda>_.
      if im_threshold m = 0 \<or> im_threshold m > of_nat (length (im_trusted_addresses m)) then
        Inl (Fails InvalidThreshold)
      else
        res_bind (check_trusted_addresses h [] (im_trusted_addresses m)) (\<lambda>_.
        res_bind (validate_tokens h (im_xrpl_tokens m)) (\<lambda>_.
        res_bind (check_token_duplicates [] (im_xrpl_tokens m)) (\<lambda>_.
          Inr (st1\<lparr>CONFIG := Some
                 \<lparr>owner = im_owner m, trusted_addresses = im_trusted_addresses m,
                  threshold = im_threshold m, min_amount = im_min_amount m,
                  max_amount = im_max_amount m, xrpl_tokens = im_xrpl_tokens m, version = 1\<rparr>\<rparr>,
               \<lparr>attributes = [], messages = []\<rparr>))))))"

definition send_bank_transaction ::
  "host \<Rightarrow> storage \<Rightarrow> transaction \<Rightarrow> string \<Rightarrow> string \<Rightarrow> storage \<times> response" where
  "send_bank_transaction h st tx i evidence_id =
     (st\<lparr>SENT_TRANSACTIONS := kv_save i tx (SENT_TRANSACTIONS st),
         PENDING_TRANSACTIONS := kv_remove evidence_id (PENDING_TRANSACTIONS st)\<rparr>,
      \<lparr>attributes = [(''result'', ''sent''), (''recipient'', recipient tx),
          (''amount'', coin_display h (amount tx)), (''evidence_id'', evidence_id)],
       messages = [BankSend (recipient tx) [amount tx]]\<rparr>)"

definition threshold_bank_send ::
  "host \<Rightarrow> storage \<Rightarrow> message_info \<Rightarrow> string \<Rightarrow> coin \<Rightarrow> addr \<Rightarrow> failure + (storage \<times> response)" where
  "threshold_bank_send h st info raw_id amt rcpt =
     (let i = normalize_id raw_id in
      res_bind (validate_addr h rcpt) (\<lambda>_.
      res_bind (load_config st) (\<lambda>config.
      if sender info \<notin> set (trusted_addresses config) then Inl (Fails Unauthorized)
      else if min_amount config > coin_amount amt then Inl (Fails LowAmount)
      else if kv_has (SENT_TRANSACTIONS st) i then Inl (Fails TransferAlreadySent)
      else
        (let evidence_id = build_evidence_id h i amt rcpt in
         res_bind
           (case kv_load (PENDING_TRANSACTIONS st) evidence_id of
              None \<Rightarrow> Inr \<lparr>amount = amt, recipient = rcpt, evidence_providers = [sender info]\<rparr>
            | Some stored_tx \<Rightarrow>
                if sender info \<in> set (evidence_providers stored_tx) then
                  Inl (Fails EvidenceAlreadyProvided)
                else Inr (stored_tx\<lparr>evidence_providers := evidence_providers stored_tx @ [sender info]\<rparr>))
           (\<lambda>tx.
              if of_nat (length (evidence_providers tx)) = threshold config \<and>
                 max_amount config \<ge> coin_amount amt then
                Inr (send_bank_transaction h st tx i evidence_id)
              else
                Inr (st\<lparr>PENDING_TRANSACTIONS := kv_save evidence_id tx (PENDING_TRANSACTIONS st)\<rparr>,
                     \<lparr>attributes = [(''result'', ''pending''), (''evidence_id'', evidence_id)],
                      messages = []\<rparr>))))))"

definition execute_pending ::
  "host \<Rightarrow> storage \<Rightarrow> message_info \<Rightarrow> string \<Rightarrow> failure + (storage \<times> response)" where
  "execute_pending h st info evidence_id =
     res_bind (load_config st) (\<lambda>config.
       (case kv_load (PENDING_TRANSACTIONS st) evidence_id of
          None \<Rightarrow> Inl (Fails TransactionNotFound)
        | Some tx \<Rightarrow>
            if of_nat (length (evidence_providers tx)) < threshold config then
              Inl (Fails TransactionNotConfirmed)
            else
              (case one_coin h (funds info) of
                 Inl p \<Rightarrow> Inl (Fails (Payment p))
               | Inr funds_sent \<Rightarrow>
                   if funds_sent \<noteq> amount tx then Inl (Fails FundsMismatch)
                   else Inr (send_bank_transaction h st tx
                          (extract_id_from_evidence_id evidence_id) evidence_id))))"

text \<open>The owner check and the version bump the configuration updates share.\<close>

definition version_attr :: "contract_config \<Rightarrow> string \<times> string" where
  "version_attr c = (''version'', dec_of_nat (unat (version c)))"

definition update_min_amount ::
  "storage \<Rightarrow> message_info \<Rightarrow> uint128 \<Rightarrow> failure + (storage \<times> response)" where
  "update_min_amount st info m =
     res_bind (load_config st) (\<lambda>config.
       if sender info \<noteq> owner config then Inl (Fails Unauthorized)
       else res_bind (bump_version (config\<lparr>min_amount := m\<rparr>)) (\<lambda>c.
         Inr (st\<lparr>CONFIG := Some c\<rparr>,
              \<lparr>attributes = [(''action'', ''update_min_amount''),
                  (''min_amount'', dec_of_nat (unat m)), version_attr c], messages = []\<rparr>)))"

definition update_max_amount ::
  "storage \<Rightarrow> message_info \<Rightarrow> uint128 \<Rightarrow> failure + (storage \<times> response)" where
  "update_max_amount st info m =
     res_bind (load_config st) (\<lambda>config.
       if sender info \<noteq> owner config then Inl (Fails Unauthorized)
       else res_bind (bump_version (config\<lparr>max_amount := m\<rparr>)) (\<lambda>c.
         Inr (st\<lparr>CONFIG := Some c\<rparr>,
              \<lparr>attributes = [(''action'', ''update_max_amount''),
                  (''max_amount'', dec_of_nat (unat m)), version_attr c], messages = []\<rparr>)))"

definition update_trusted_addresses ::
  "host \<Rightarrow> storage \<Rightarrow> message_info \<Rightarrow> addr list \<Rightarrow> failure + (storage \<times> response)" where
  "update_trusted_addresses h st info as =
     res_bind (load_config st) (\<lambda>config.
       if sender info \<noteq> owner config then Inl (Fails Unauthorized)
       else res_bind (check_trusted_addresses h [] as) (\<lambda>_.
         res_bind (bump_version (config\<lparr>trusted_addresses := as\<rparr>)) (\<lambda>c.
           Inr (st\<lparr>CONFIG := Some c\<rparr>,
                \<lparr>attributes = [(''action'', ''update_trusted_addresses''), version_attr c],
                 messages = []\<rparr>))))"

definition add_xrpl_tokens ::
  "host \<Rightarrow> storage \<Rightarrow> message_info \<Rightarrow> xrpl_token list \<Rightarrow> failure + (storage \<times> response)" where
  "add_xrpl_tokens h st info new_tokens =
     res_bind (load_config st) (\<lambda>config.
       if sender info \<noteq> owner config then Inl (Fails Unauthorized)
       else res_bind (push_tokens h (map token_key (xrpl_tokens config)) (xrpl_tokens config) new_tokens) (\<lambda>ts.
         if length ts > MAX_XRPL_TOKENS then Inl (Fails (Std ''Maximum token limit reached''))
         else res_bind (bump_version (config\<lparr>xrpl_tokens := ts\<rparr>)) (\<lambda>c.
           Inr (st\<lparr>CONFIG := Some c\<rparr>,
                \<lparr>attributes = [(''action'', ''add_xrpl_tokens''), version_attr c,
                    (''total_tokens'', dec_of_nat (length ts))], messages = []\<rparr>))))"

definition update_owner ::
  "host \<Rightarrow> storage \<Rightarrow> message_info \<Rightarrow> string \<Rightarrow> failure + (storage \<times> response)" where
  "update_owner h st info new_owner =
     res_bind (load_config st) (\<lambda>config.
       if sender info \<noteq> owner config then Inl (Fails Unauthorized)
       else res_bind (validate_addr h new_owner) (\<lambda>validated.
         res_bind (bump_version (config\<lparr>owner := validated\<rparr>)) (\<lambda>c.
           Inr (st\<lparr>CONFIG := Some c\<rparr>,
                \<lparr>attributes = [(''action'', ''update_owner''), (''new_owner'', new_owner),
                    version_attr c], messages = []\<rparr>))))"

fun execute ::
  "host \<Rightarrow> storage \<Rightarrow> message_info \<Rightarrow> execute_msg \<Rightarrow> failure + (storage \<times> response)" where
  "execute h st info (ThresholdBankSend i a r) = threshold_bank_send h st info i a r"
| "execute h st info (ExecutePending e) = execute_pending h st info e"
| "execute h st info (UpdateMinAmount m) = update_min_amount st info m"
| "execute h st info (UpdateMaxAmount m) = update_max_amount st info m"
| "execute h st info (UpdateTrustedAddresses as) = update_trusted_addresses h st info as"
| "execute h st info (AddXrplTokens ts) = add_xrpl_tokens h st info ts"
| "execute h st info (UpdateOwner o') = update_owner h st info o'"

text \<open>\<open>migrate\<close>: the legacy items become a configuration, then an optional owner overwrite.\<close>

definition migrated_threshold :: "uint32 option \<Rightarrow> addr list \<Rightarrow> uint32" where
  "migrated_threshold t as =
     (let th = (case t of None \<Rightarrow> 2 | Some x \<Rightarrow> x) in
      if th = 0 \<or> (as \<noteq> [] \<and> th > of_nat (length as)) then
        (if as = [] then 1 else min 2 (of_nat (length as)))
      else th)"

definition migrated_config :: "storage \<Rightarrow> addr \<Rightarrow> contract_config" where
  "migrated_config st contract_address =
     (let as = map fst (kv_range (TRUSTED_ADDRESSES st)) in
      \<lparr>owner = (case OWNER st of None \<Rightarrow> contract_address | Some x \<Rightarrow> x),
       trusted_addresses = as,
       threshold = migrated_threshold (THRESHOLD st) as,
       min_amount = (case MIN_AMOUNT st of None \<Rightarrow> 100 | Some x \<Rightarrow> x),
       max_amount = (case MAX_AMOUNT st of None \<Rightarrow> 200000000 | Some x \<Rightarrow> x),
       xrpl_tokens = [], version = 1\<rparr>)"

definition migrate ::
  "host \<Rightarrow> storage \<Rightarrow> addr \<Rightarrow> string option \<Rightarrow> failure + (storage \<times> response)" where
  "migrate h st contract_address new_owner =
     (case contract_info st of
        None \<Rightarrow> Inl (Fails (Std ''cw2::ContractVersion not found''))
      | Some (name, _) \<Rightarrow>
          if name \<noteq> CONTRACT_NAME then
            Inl (Fails (Std ''Can only upgrade from same contract name''))
          else
            (let st1 = (if CONFIG st = None then st\<lparr>CONFIG := Some (migrated_config st contract_address)\<rparr> else st) in
             res_bind
               (case new_owner of
                  None \<Rightarrow> Inr st1
                | Some o' \<Rightarrow>
                    res_bind (validate_addr h o') (\<lambda>a.
                    res_bind (load_config st1) (\<lambda>config.
                    res_bind (bump_version (config\<lparr>owner := a\<rparr>)) (\<lambda>c.
                      Inr (st1\<lparr>CONFIG := Some c\<rparr>)))))
               (\<lambda>st2. Inr (set_contract_version st2, \<lparr>attributes = [], messages = []\<rparr>))))"

section \<open>Queries\<close>

record pending_transaction =
  pt_evidence_id :: string
  pt_amount :: coin
  pt_recipient :: addr
  pt_evidence_providers :: "addr list"

record sent_transaction =
  st_id :: string
  st_amount :: coin
  st_recipient :: addr
  st_evidence_providers :: "addr list"

definition get_config :: "storage \<Rightarrow> failure + contract_config" where
  "get_config st = load_config st"

definition get_pending_transaction :: "storage \<Rightarrow> string \<Rightarrow> transaction" where
  "get_pending_transaction st e =
     (case kv_load (PENDING_TRANSACTIONS st) e of None \<Rightarrow> default_transaction | Some t \<Rightarrow> t)"

definition get_sent_transaction :: "storage \<Rightarrow> string \<Rightarrow> transaction" where
  "get_sent_transaction st i =
     (case kv_load (SENT_TRANSACTIONS st) (normalize_id i) of None \<Rightarrow> default_transaction | Some t \<Rightarrow> t)"

text \<open>On wasm32 a \<open>usize\<close> has 32 bits, so the offset is cut to them.\<close>

definition paginate_transactions ::
  "'v kv \<Rightarrow> uint64 option \<Rightarrow> uint32 option \<Rightarrow> (string \<Rightarrow> 'v \<Rightarrow> 'b) \<Rightarrow> 'b list" where
  "paginate_transactions m offset limit mapper =
     (let lim = min (case limit of None \<Rightarrow> DEFAULT_PAGE_LIMIT | Some l \<Rightarrow> unat l) DEFAULT_PAGE_LIMIT;
          off = (case offset of None \<Rightarrow> 0 | Some x \<Rightarrow> unat (ucast x :: uint32))
      in map (\<lambda>(k, v). mapper k v) (take lim (drop off (kv_range m))))"

definition to_pending :: "string \<Rightarrow> transaction \<Rightarrow> pending_transaction" where
  "to_pending k v = \<lparr>pt_evidence_id = k, pt_amount = amount v, pt_recipient = recipient v,
     pt_evidence_providers = evidence_providers v\<rparr>"

definition to_sent :: "string \<Rightarrow> transaction \<Rightarrow> sent_transaction" where
  "to_sent k v = \<lparr>st_id = k, st_amount = amount v, st_recipient = recipient v,
     st_evidence_providers = evidence_providers v\<rparr>"

definition get_pending_transactions ::
  "storage \<Rightarrow> uint64 option \<Rightarrow> uint32 option \<Rightarrow> pending_transaction list" where
  "get_pending_transactions st offset limit =
     paginate_transactions (PENDING_TRANSACTIONS st) offset limit to_pending"

definition get_sent_transactions ::
  "storage \<Rightarrow> uint64 option \<Rightarrow> uint32 option \<Rightarrow> sent_transaction list" where
  "get_sent_transactions st offset limit =
     paginate_transactions (SENT_TRANSACTIONS st) offset limit to_sent"

end
