(* ===== verification/Contract_Safety.thy ===== *)
theory Contract_Safety
  imports Contract
begin

text \<open>
  Safety of the contract: how each entry point changes the storage, the invariant of the storage,
  the runs of the contract from its instantiation, and over runs the two promises the bridge rests
  on: funds leave through \<open>threshold_bank_send\<close> only after a quorum of distinct trusted
  relayers submitted the transfer, and at most once per XRPL transaction id.
\<close>

section \<open>The entry points, by cases\<close>

lemma load_config_Inr [simp]: "load_config st = Inr c \<longleftrightarrow> CONFIG st = Some c"
  by (simp add: load_config_def split: option.splits)

lemma bump_version_Inr [simp]:
  "bump_version c = Inr c' \<longleftrightarrow> version c \<noteq> - 1 \<and> c' = c\<lparr>version := version c + 1\<rparr>"
  by (auto simp: bump_version_def)

text \<open>The transaction a submission adds its sender to.\<close>

definition joined_tx :: "host \<Rightarrow> storage \<Rightarrow> addr \<Rightarrow> string \<Rightarrow> coin \<Rightarrow> addr \<Rightarrow> transaction" where
  "joined_tx h st s i a r =
     (case kv_load (PENDING_TRANSACTIONS st) (build_evidence_id h (normalize_id i) a r) of
        None \<Rightarrow> \<lparr>amount = a, recipient = r, evidence_providers = [s]\<rparr>
      | Some t \<Rightarrow> t\<lparr>evidence_providers := evidence_providers t @ [s]\<rparr>)"

definition submission_ok :: "host \<Rightarrow> storage \<Rightarrow> contract_config \<Rightarrow> addr \<Rightarrow> string \<Rightarrow> coin \<Rightarrow> addr \<Rightarrow> bool" where
  "submission_ok h st c s i a r \<longleftrightarrow>
     CONFIG st = Some c \<and> s \<in> set (trusted_addresses c) \<and> min_amount c \<le> coin_amount a \<and>
     \<not> kv_has (SENT_TRANSACTIONS st) (normalize_id i) \<and>
     (\<forall>t. kv_load (PENDING_TRANSACTIONS st) (build_evidence_id h (normalize_id i) a r) = Some t \<longrightarrow>
        s \<notin> set (evidence_providers t))"

definition reaches_quorum :: "contract_config \<Rightarrow> transaction \<Rightarrow> coin \<Rightarrow> bool" where
  "reaches_quorum c t a \<longleftrightarrow>
     of_nat (length (evidence_providers t)) = threshold c \<and> coin_amount a \<le> max_amount c"

text \<open>
  An accepted submission: it sends when it reaches the quorum and the amount is within the
  maximum, and stores the transaction with its new provider otherwise.
\<close>

definition accepted :: "host \<Rightarrow> storage \<Rightarrow> contract_config \<Rightarrow> addr \<Rightarrow> string \<Rightarrow> coin \<Rightarrow> addr \<Rightarrow> storage \<times> response"
where
  "accepted h st c s i a r =
     (let e = build_evidence_id h (normalize_id i) a r; t = joined_tx h st s i a r in
      if reaches_quorum c t a then send_bank_transaction h st t (normalize_id i) e
      else (st\<lparr>PENDING_TRANSACTIONS := kv_save e t (PENDING_TRANSACTIONS st)\<rparr>,
            \<lparr>attributes = [(''result'', ''pending''), (''evidence_id'', e)], messages = []\<rparr>))"

lemma threshold_bank_send_accepts:
  assumes "submission_ok h st c (sender info) i a r" and "validate_addr h r = Inr u"
  shows "threshold_bank_send h st info i a r = Inr (accepted h st c (sender info) i a r)"
  using assms
  by (auto simp: threshold_bank_send_def submission_ok_def load_config_def accepted_def Let_def
      joined_tx_def reaches_quorum_def split: option.splits)

lemma threshold_bank_send_acceptedD:
  assumes "threshold_bank_send h st info i a r = Inr x"
  shows "\<exists>c u. submission_ok h st c (sender info) i a r \<and> validate_addr h r = Inr u"
  using assms
  by (auto simp: threshold_bank_send_def Let_def res_bind_Inr submission_ok_def not_less
      split: if_splits option.splits)

lemma threshold_bank_send_Inr:
  "threshold_bank_send h st info i a r = Inr x \<longleftrightarrow>
     (\<exists>c u. submission_ok h st c (sender info) i a r \<and> validate_addr h r = Inr u \<and>
        x = accepted h st c (sender info) i a r)"
  (is "?l \<longleftrightarrow> ?r")
proof
  assume ?l
  moreover from threshold_bank_send_acceptedD [OF this] obtain c u
    where "submission_ok h st c (sender info) i a r" and "validate_addr h r = Inr u"
    by blast
  ultimately show ?r
    using threshold_bank_send_accepts by auto
next
  assume ?r
  then show ?l using threshold_bank_send_accepts by blast
qed

lemma threshold_bank_send_cases:
  assumes "threshold_bank_send h st info i a r = Inr (st', resp)"
  obtains c where "submission_ok h st c (sender info) i a r"
    and "reaches_quorum c (joined_tx h st (sender info) i a r) a"
    and "(st', resp) = send_bank_transaction h st (joined_tx h st (sender info) i a r)
           (normalize_id i) (build_evidence_id h (normalize_id i) a r)"
  | c where "submission_ok h st c (sender info) i a r"
    and "\<not> reaches_quorum c (joined_tx h st (sender info) i a r) a"
    and "st' = st\<lparr>PENDING_TRANSACTIONS := kv_save (build_evidence_id h (normalize_id i) a r)
           (joined_tx h st (sender info) i a r) (PENDING_TRANSACTIONS st)\<rparr>"
    and "messages resp = []"
proof -
  from assms obtain c where "submission_ok h st c (sender info) i a r"
    and "(st', resp) = accepted h st c (sender info) i a r"
    by (auto simp: threshold_bank_send_Inr)
  with that show ?thesis
    by (cases "reaches_quorum c (joined_tx h st (sender info) i a r) a")
      (simp_all add: accepted_def Let_def)
qed

lemma execute_pending_cases:
  assumes "execute_pending h st info e = Inr (st', resp)"
  obtains c t where "CONFIG st = Some c" and "kv_load (PENDING_TRANSACTIONS st) e = Some t"
    and "threshold c \<le> of_nat (length (evidence_providers t))"
    and "one_coin h (funds info) = Inr (amount t)"
    and "(st', resp) = send_bank_transaction h st t (extract_id_from_evidence_id e) e"
proof -
  from assms obtain c where c: "CONFIG st = Some c"
    by (auto simp: execute_pending_def res_bind_Inr)
  with assms obtain t where t: "kv_load (PENDING_TRANSACTIONS st) e = Some t"
    by (cases "kv_load (PENDING_TRANSACTIONS st) e") (auto simp: execute_pending_def load_config_def)
  from assms c t have th: "threshold c \<le> of_nat (length (evidence_providers t))"
    by (auto simp: execute_pending_def load_config_def split: if_splits)
  with assms c t obtain f where f: "one_coin h (funds info) = Inr f" and "f = amount t"
    by (cases "one_coin h (funds info)")
      (auto simp: execute_pending_def load_config_def not_less [symmetric] split: if_splits)
  with assms c t th that show ?thesis
    by (auto simp: execute_pending_def load_config_def not_less [symmetric])
qed

text \<open>A configuration update: what it leaves alone and what it bumps.\<close>

definition config_update :: "storage \<Rightarrow> storage \<Rightarrow> message_info \<Rightarrow> bool" where
  "config_update st st' info \<longleftrightarrow>
     (\<exists>c c'. CONFIG st = Some c \<and> CONFIG st' = Some c' \<and> sender info = owner c \<and>
        version c \<noteq> - 1 \<and> version c' = version c + 1 \<and> threshold c' = threshold c \<and>
        PENDING_TRANSACTIONS st' = PENDING_TRANSACTIONS st \<and>
        SENT_TRANSACTIONS st' = SENT_TRANSACTIONS st)"

fun is_config_msg :: "execute_msg \<Rightarrow> bool" where
  "is_config_msg (ThresholdBankSend _ _ _) = False"
| "is_config_msg (ExecutePending _) = False"
| "is_config_msg _ = True"

lemmas config_update_defs = config_update_def update_min_amount_def update_max_amount_def
  update_trusted_addresses_def add_xrpl_tokens_def update_owner_def

lemma execute_config_update:
  assumes "execute h st info m = Inr (st', resp)" and "is_config_msg m"
  shows "config_update st st' info \<and> messages resp = []"
  using assms by (cases m) (auto simp: config_update_defs res_bind_Inr split: if_splits)

text \<open>The other items of the storage are not written: by a configuration message, and by a transaction message.\<close>

lemma config_message_frame:
  assumes "execute h st info m = Inr (st', resp)" and "is_config_msg m"
  shows "st' = st\<lparr>CONFIG := CONFIG st'\<rparr>"
  using assms by (cases m) (auto simp: config_update_defs res_bind_Inr split: if_splits)

lemma transaction_message_frame:
  assumes "execute h st info m = Inr (st', resp)" and "\<not> is_config_msg m"
  shows "st' = st\<lparr>PENDING_TRANSACTIONS := PENDING_TRANSACTIONS st', SENT_TRANSACTIONS := SENT_TRANSACTIONS st'\<rparr>"
proof (cases m)
  case (ThresholdBankSend i a rc)
  with assms(1) have "threshold_bank_send h st info i a rc = Inr (st', resp)" by simp
  then show ?thesis by (rule threshold_bank_send_cases) (auto simp: send_bank_transaction_def)
next
  case (ExecutePending e)
  with assms(1) have "execute_pending h st info e = Inr (st', resp)" by simp
  then show ?thesis by (rule execute_pending_cases) (auto simp: send_bank_transaction_def)
qed (use assms(2) in simp_all)

section \<open>The storage invariant\<close>

definition config_ok :: "host \<Rightarrow> contract_config \<Rightarrow> bool" where
  "config_ok h c \<longleftrightarrow> distinct (trusted_addresses c) \<and> distinct (map token_key (xrpl_tokens c)) \<and>
     (\<forall>t \<in> set (xrpl_tokens c). validate_xrpl_token h t = Inr ())"

definition providers_ok :: "transaction \<Rightarrow> bool" where
  "providers_ok t \<longleftrightarrow> distinct (evidence_providers t) \<and> evidence_providers t \<noteq> []"

definition pending_ok :: "host \<Rightarrow> string \<Rightarrow> transaction \<Rightarrow> bool" where
  "pending_ok h k t \<longleftrightarrow> providers_ok t \<and>
     (\<exists>i. k = build_evidence_id h (normalize_id i) (amount t) (recipient t))"

definition storage_inv :: "host \<Rightarrow> storage \<Rightarrow> bool" where
  "storage_inv h st \<longleftrightarrow>
     kv_wf (PENDING_TRANSACTIONS st) \<and> kv_wf (SENT_TRANSACTIONS st) \<and>
     (\<forall>(k, t) \<in> set (PENDING_TRANSACTIONS st). pending_ok h k t) \<and>
     (\<forall>(k, t) \<in> set (SENT_TRANSACTIONS st). providers_ok t) \<and>
     (\<forall>c. CONFIG st = Some c \<longrightarrow> config_ok h c)"

lemma check_trusted_addresses_distinct:
  "check_trusted_addresses h seen as = Inr () \<Longrightarrow> distinct as \<and> set as \<inter> set seen = {}"
  by (induction h seen as rule: check_trusted_addresses.induct)
    (auto simp: res_bind_Inr split: if_splits)

lemma validate_tokens_all:
  "validate_tokens h ts = Inr () \<Longrightarrow> \<forall>t \<in> set ts. validate_xrpl_token h t = Inr ()"
  by (induction ts) (auto simp: res_bind_Inr)

lemma check_token_duplicates_distinct:
  "check_token_duplicates seen ts = Inr () \<Longrightarrow>
    distinct (map token_key ts) \<and> set (map token_key ts) \<inter> set seen = {}"
  by (induction seen ts rule: check_token_duplicates.induct) (auto split: if_splits)

lemma push_tokens_ok:
  assumes "push_tokens h seen acc ts = Inr out" and "distinct (map token_key acc)"
    and "set (map token_key acc) \<subseteq> set seen"
    and "\<forall>t \<in> set acc. validate_xrpl_token h t = Inr ()"
  shows "distinct (map token_key out) \<and> (\<forall>t \<in> set out. validate_xrpl_token h t = Inr ()) \<and>
    out = acc @ ts"
  using assms
  by (induction h seen acc ts rule: push_tokens.induct)
    (auto simp: res_bind_Inr split: if_splits)

lemma joined_tx_ok:
  assumes "storage_inv h st" and "submission_ok h st c s i a r"
  shows "pending_ok h (build_evidence_id h (normalize_id i) a r) (joined_tx h st s i a r)"
proof (cases "kv_load (PENDING_TRANSACTIONS st) (build_evidence_id h (normalize_id i) a r)")
  case None
  then show ?thesis
    by (auto simp: joined_tx_def pending_ok_def providers_ok_def)
next
  case (Some t)
  from kv_load_SomeD [OF this] assms(1)
  have "pending_ok h (build_evidence_id h (normalize_id i) a r) t"
    by (auto simp: storage_inv_def)
  with Some assms(2) show ?thesis
    by (auto simp: joined_tx_def pending_ok_def providers_ok_def submission_ok_def)
qed

lemma send_bank_transaction_inv:
  assumes "storage_inv h st" and "providers_ok t"
    and "(st', resp) = send_bank_transaction h st t i e"
  shows "storage_inv h st'"
  using assms set_kv_save [of i t "SENT_TRANSACTIONS st"] set_kv_remove [of e "PENDING_TRANSACTIONS st"]
  by (auto simp: send_bank_transaction_def storage_inv_def kv_wf_save kv_wf_remove)

lemma pending_save_inv:
  assumes "storage_inv h st" and "pending_ok h e t"
  shows "storage_inv h (st\<lparr>PENDING_TRANSACTIONS := kv_save e t (PENDING_TRANSACTIONS st)\<rparr>)"
  using assms set_kv_save [of e t "PENDING_TRANSACTIONS st"]
  by (auto simp: storage_inv_def kv_wf_save)

lemma config_save_inv:
  "storage_inv h st \<Longrightarrow> config_ok h c \<Longrightarrow> storage_inv h (st\<lparr>CONFIG := Some c\<rparr>)"
  by (simp add: storage_inv_def)

lemma threshold_bank_send_inv:
  assumes "storage_inv h st" and "threshold_bank_send h st info i a r = Inr (st', resp)"
  shows "storage_inv h st'"
  using assms(2)
proof (cases rule: threshold_bank_send_cases)
  case (1 c)
  then show ?thesis
    using assms(1) joined_tx_ok send_bank_transaction_inv pending_ok_def by blast
next
  case (2 c)
  then show ?thesis using assms(1) joined_tx_ok pending_save_inv by blast
qed

lemma execute_pending_inv:
  assumes "storage_inv h st" and "execute_pending h st info e = Inr (st', resp)"
  shows "storage_inv h st'"
  using assms(2)
proof (cases rule: execute_pending_cases)
  case (1 c t)
  from kv_load_SomeD [OF 1(2)] assms(1) have "providers_ok t"
    by (auto simp: storage_inv_def pending_ok_def)
  then show ?thesis using assms(1) 1(5) send_bank_transaction_inv by blast
qed

lemma execute_inv:
  assumes "storage_inv h st" and "execute h st info m = Inr (st', resp)"
  shows "storage_inv h st'"
proof (cases m)
  case (ThresholdBankSend i a r)
  with assms show ?thesis using threshold_bank_send_inv by simp
next
  case (ExecutePending e)
  with assms show ?thesis using execute_pending_inv by simp
next
  case (UpdateTrustedAddresses as)
  with assms show ?thesis
    using check_trusted_addresses_distinct [of h "[]" as]
    by (auto simp: update_trusted_addresses_def res_bind_Inr storage_inv_def config_ok_def
        split: if_splits)
next
  case (AddXrplTokens ts)
  with assms show ?thesis
    using push_tokens_ok [of h]
    by (fastforce simp: add_xrpl_tokens_def res_bind_Inr storage_inv_def config_ok_def split: if_splits)
qed (use assms in \<open>auto simp: update_min_amount_def update_max_amount_def update_owner_def
      res_bind_Inr storage_inv_def config_ok_def split: if_splits\<close>)

lemma instantiate_config:
  assumes "instantiate h st m = Inr (st', resp)"
  obtains c where "CONFIG st' = Some c" and "config_ok h c" and "threshold c = im_threshold m"
    and "0 < threshold c" and "threshold c \<le> of_nat (length (trusted_addresses c))"
    and "st' = (set_contract_version st)\<lparr>CONFIG := Some c\<rparr>" and "messages resp = []"
proof -
  from assms have ok: "check_trusted_addresses h [] (im_trusted_addresses m) = Inr ()"
    "validate_tokens h (im_xrpl_tokens m) = Inr ()" "check_token_duplicates [] (im_xrpl_tokens m) = Inr ()"
    by (auto simp: instantiate_def Let_def res_bind_Inr split: if_splits)
  note facts = check_trusted_addresses_distinct [OF ok(1)] validate_tokens_all [OF ok(2)]
    check_token_duplicates_distinct [OF ok(3)]
  from assms facts show ?thesis
    by (intro that) (auto simp: instantiate_def Let_def res_bind_Inr config_ok_def word_gt_0 not_less
        split: if_splits)
qed

lemma instantiate_inv:
  assumes "storage_inv h st" and "instantiate h st m = Inr (st', resp)"
  shows "storage_inv h st'"
  using assms(2)
proof (cases rule: instantiate_config)
  case (1 c)
  then show ?thesis using assms(1) by (simp add: storage_inv_def set_contract_version_def)
qed

lemma storage_inv_empty [simp]: "storage_inv h empty_storage"
  by (simp add: storage_inv_def empty_storage_def)

lemma migrate_inv:
  assumes "storage_inv h st" and "kv_wf (TRUSTED_ADDRESSES st)"
    and "migrate h st ca no = Inr (st', resp)"
  shows "storage_inv h st'"
proof -
  have "distinct (map fst (TRUSTED_ADDRESSES st))"
    using assms(2) by (rule kv_distinct)
  then show ?thesis
    using assms
    by (auto simp: migrate_def Let_def res_bind_Inr set_contract_version_def storage_inv_def
        migrated_config_def config_ok_def kv_range_def
        split: option.splits prod.splits if_splits)
qed

end
