(* ===== verification/Contract_Runs.thy ===== *)
theory Contract_Runs
  imports Contract_Safety
begin

text \<open>
  Runs of the contract: a run starts with \<open>instantiate\<close> and continues with accepted
  \<open>execute\<close> and \<open>migrate\<close> calls (a failed call leaves no trace on the chain). The properties
  over runs: every coin that leaves was asked for by a quorum of distinct relayers, trusted when
  they asked; a transfer id is sent at most once by submissions; the version tells the
  configuration. A board of votes is the abstract specification the submissions implement.
\<close>

section \<open>Steps and runs\<close>

record contract_event =
  ce_config :: contract_config
  ce_info :: message_info
  ce_msg :: execute_msg
  ce_resp :: response

inductive contract_run :: "host \<Rightarrow> storage \<Rightarrow> contract_event list \<Rightarrow> bool" for h :: host where
  run_instantiate: "instantiate h empty_storage m = Inr (st, r) \<Longrightarrow> contract_run h st []"
| run_execute: "contract_run h st es \<Longrightarrow> CONFIG st = Some c \<Longrightarrow> execute h st info m = Inr (st', r) \<Longrightarrow>
    contract_run h st' (\<lparr>ce_config = c, ce_info = info, ce_msg = m, ce_resp = r\<rparr> # es)"
| run_migrate: "contract_run h st es \<Longrightarrow> migrate h st ca no = Inr (st', r) \<Longrightarrow> contract_run h st' es"

inductive contract_step :: "host \<Rightarrow> storage \<Rightarrow> storage \<Rightarrow> bool" for h :: host where
  step_execute: "execute h st info m = Inr (st', r) \<Longrightarrow> contract_step h st st'"
| step_migrate: "migrate h st ca no = Inr (st', r) \<Longrightarrow> contract_step h st st'"

text \<open>A submission of \<open>p\<close> for the evidence id \<open>e\<close>, made while \<open>p\<close> was trusted.\<close>

fun msg_evidence :: "host \<Rightarrow> execute_msg \<Rightarrow> string option" where
  "msg_evidence h (ThresholdBankSend i a r) = Some (build_evidence_id h (normalize_id i) a r)"
| "msg_evidence h _ = None"

definition supports :: "host \<Rightarrow> string \<Rightarrow> addr \<Rightarrow> contract_event \<Rightarrow> bool" where
  "supports h e p ev \<longleftrightarrow> msg_evidence h (ce_msg ev) = Some e \<and> sender (ce_info ev) = p \<and>
     p \<in> set (trusted_addresses (ce_config ev))"

text \<open>A submission of the normalized id \<open>i\<close> that sent the coins.\<close>

fun auto_sends :: "string \<Rightarrow> contract_event \<Rightarrow> bool" where
  "auto_sends i ev = (case ce_msg ev of
     ThresholdBankSend j _ _ \<Rightarrow> normalize_id j = i \<and> messages (ce_resp ev) \<noteq> [] | _ \<Rightarrow> False)"

section \<open>What a step keeps\<close>

lemma execute_cases:
  assumes "execute h st info m = Inr (st', r)"
  obtains (send) i a rc where "m = ThresholdBankSend i a rc" "threshold_bank_send h st info i a rc = Inr (st', r)"
  | (pending) e where "m = ExecutePending e" "execute_pending h st info e = Inr (st', r)"
  | (config) "is_config_msg m" "config_update st st' info" "messages r = []"
  using assms execute_config_update [OF assms] by (cases m) auto

lemma migrate_kept:
  assumes "migrate h st ca no = Inr (st', r)"
  shows "PENDING_TRANSACTIONS st' = PENDING_TRANSACTIONS st \<and>
    SENT_TRANSACTIONS st' = SENT_TRANSACTIONS st \<and> TRUSTED_ADDRESSES st' = TRUSTED_ADDRESSES st"
  using assms
  by (auto simp: migrate_def Let_def res_bind_Inr set_contract_version_def
      split: option.splits prod.splits if_splits)

lemma migrate_existing_config:
  assumes "migrate h st ca no = Inr (st', r)" and "CONFIG st = Some c"
  obtains c' where "CONFIG st' = Some c'" and "no = None \<and> c' = c"
  | a c' where "CONFIG st' = Some c'" and "version c \<noteq> - 1" and "c' = c\<lparr>owner := a, version := version c + 1\<rparr>"
  using assms
  by (auto simp: migrate_def Let_def res_bind_Inr set_contract_version_def load_config_def
      split: option.splits prod.splits if_splits)

lemma execute_trusted_map:
  assumes "execute h st info m = Inr (st', r)"
  shows "TRUSTED_ADDRESSES st' = TRUSTED_ADDRESSES st"
proof (cases m)
  case (ThresholdBankSend i a rc)
  with assms show ?thesis
    by (auto simp: threshold_bank_send_Inr accepted_def Let_def send_bank_transaction_def split: if_splits)
next
  case (ExecutePending e)
  then have "execute_pending h st info e = Inr (st', r)" using assms by simp
  then show ?thesis
    by (rule execute_pending_cases) (simp add: send_bank_transaction_def)
qed (use assms in \<open>auto simp: config_update_defs res_bind_Inr split: if_splits\<close>)

lemma send_bank_transaction_config:
  "(st', r) = send_bank_transaction h st t i e \<Longrightarrow> CONFIG st' = CONFIG st"
  by (simp add: send_bank_transaction_def)

lemma execute_config_step:
  assumes "execute h st info m = Inr (st', r)"
  shows "CONFIG st' = CONFIG st \<and> \<not> is_config_msg m \<or> config_update st st' info \<and> is_config_msg m"
  using assms
proof (cases rule: execute_cases)
  case (send i a rc)
  from send(2) show ?thesis
    by (rule threshold_bank_send_cases) (auto simp: send(1) dest: send_bank_transaction_config)
next
  case (pending e)
  from pending(2) show ?thesis
    by (rule execute_pending_cases) (auto simp: pending(1) dest: send_bank_transaction_config)
qed simp

lemma execute_threshold:
  assumes "execute h st info m = Inr (st', r)" and "CONFIG st = Some c"
  obtains c' where "CONFIG st' = Some c'" and "threshold c' = threshold c"
  using execute_config_step [OF assms(1)] assms(2) by (auto simp: config_update_def)

section \<open>Invariants of runs\<close>

definition run_inv :: "host \<Rightarrow> storage \<Rightarrow> bool" where
  "run_inv h st \<longleftrightarrow> storage_inv h st \<and> TRUSTED_ADDRESSES st = [] \<and>
     (\<exists>c. CONFIG st = Some c \<and> 0 < threshold c)"

lemma run_inv_start: "instantiate h empty_storage m = Inr (st, r) \<Longrightarrow> run_inv h st"
  by (elim instantiate_config)
    (auto simp: run_inv_def storage_inv_def empty_storage_def set_contract_version_def)

lemma run_inv_execute:
  assumes "run_inv h st" and "execute h st info m = Inr (st', r)"
  shows "run_inv h st'"
proof -
  from assms(1) obtain c where c: "CONFIG st = Some c" "0 < threshold c"
    by (auto simp: run_inv_def)
  obtain c' where "CONFIG st' = Some c'" "threshold c' = threshold c"
    using execute_threshold [OF assms(2) c(1)] .
  then show ?thesis
    using assms c execute_inv execute_trusted_map by (auto simp: run_inv_def)
qed

lemma run_inv_migrate:
  assumes "run_inv h st" and "migrate h st ca no = Inr (st', r)"
  shows "run_inv h st'"
proof -
  from assms(1) obtain c where c: "CONFIG st = Some c" "0 < threshold c"
    by (auto simp: run_inv_def)
  with migrate_existing_config [OF assms(2) c(1)] obtain c' where "CONFIG st' = Some c'"
    "threshold c' = threshold c"
    by (metis contract_config.select_convs(3) contract_config.surjective contract_config.update_convs(1,7))
  then show ?thesis
    using assms c migrate_inv [OF _ _ assms(2)] migrate_kept [OF assms(2)] by (auto simp: run_inv_def)
qed

lemma run_run_inv: "contract_run h st es \<Longrightarrow> run_inv h st"
  by (induction rule: contract_run.induct) (auto intro: run_inv_start run_inv_execute run_inv_migrate)

text \<open>Every provider of a pending transaction submitted it while trusted.\<close>

definition backed :: "host \<Rightarrow> contract_event list \<Rightarrow> string \<Rightarrow> transaction \<Rightarrow> bool" where
  "backed h es e t \<longleftrightarrow> (\<forall>p \<in> set (evidence_providers t). \<exists>ev \<in> set es. supports h e p ev)"

definition all_backed :: "host \<Rightarrow> contract_event list \<Rightarrow> storage \<Rightarrow> bool" where
  "all_backed h es st \<longleftrightarrow>
     (\<forall>e t. kv_load (PENDING_TRANSACTIONS st) e = Some t \<longrightarrow> backed h es e t)"

lemma backed_mono: "backed h es e t \<Longrightarrow> backed h (ev # es) e t"
  by (auto simp: backed_def)

lemma all_backed_mono: "all_backed h es st \<Longrightarrow> all_backed h (ev # es) st"
  by (auto simp: all_backed_def intro: backed_mono)

lemma joined_tx_backed:
  assumes "all_backed h es st" and "submission_ok h st c (sender info) i a rc"
  shows "backed h (\<lparr>ce_config = c, ce_info = info, ce_msg = ThresholdBankSend i a rc, ce_resp = r\<rparr> # es)
    (build_evidence_id h (normalize_id i) a rc) (joined_tx h st (sender info) i a rc)"
  using assms
  by (auto simp: all_backed_def backed_def joined_tx_def supports_def submission_ok_def
      split: option.splits)

lemma all_backed_remove:
  assumes "all_backed h es st" and "kv_wf (PENDING_TRANSACTIONS st)"
    and "(st', r) = send_bank_transaction h st t i e"
  shows "all_backed h es st'"
  using assms by (simp add: all_backed_def send_bank_transaction_def kv_load_remove)

lemma all_backed_execute:
  assumes "all_backed h es st" and "kv_wf (PENDING_TRANSACTIONS st)" and "CONFIG st = Some c"
    and "execute h st info m = Inr (st', r)"
  shows "all_backed h (\<lparr>ce_config = c, ce_info = info, ce_msg = m, ce_resp = r\<rparr> # es) st'"
  using assms(4)
proof (cases rule: execute_cases)
  case (send i a rc)
  from send(2) show ?thesis
  proof (cases rule: threshold_bank_send_cases)
    case 1
    then show ?thesis using assms(1,2) by (blast intro: all_backed_mono all_backed_remove)
  next
    case (2 c')
    then have "c' = c" using assms(3) by (simp add: submission_ok_def)
    from joined_tx_backed [OF assms(1) 2(1)] show ?thesis
      using assms(1) 2(3) unfolding send(1) \<open>c' = c\<close>
      by (auto simp: all_backed_def kv_load_save intro: backed_mono)
  qed
next
  case (pending e)
  from pending(2) show ?thesis
    by (rule execute_pending_cases) (use assms(1,2) in \<open>blast intro: all_backed_mono all_backed_remove\<close>)
next
  case config
  then have "PENDING_TRANSACTIONS st' = PENDING_TRANSACTIONS st" by (auto simp: config_update_def)
  then show ?thesis using all_backed_mono [OF assms(1)] by (simp add: all_backed_def)
qed

lemma run_all_backed: "contract_run h st es \<Longrightarrow> all_backed h es st"
proof (induction rule: contract_run.induct)
  case (run_instantiate m st r)
  then show ?case
    by (elim instantiate_config)
      (auto simp: all_backed_def empty_storage_def set_contract_version_def)
next
  case (run_execute st es c info m st' r)
  then show ?case
    using run_run_inv all_backed_execute by (auto simp: run_inv_def storage_inv_def)
next
  case (run_migrate st es ca no st' r)
  then show ?case using migrate_kept [OF run_migrate(2)] by (simp add: all_backed_def)
qed

text \<open>A submission that sent is recorded, and what is recorded stays recorded.\<close>

lemma sent_monotone:
  assumes "execute h st info m = Inr (st', r)" and "kv_has (SENT_TRANSACTIONS st) i"
  shows "kv_has (SENT_TRANSACTIONS st') i"
  using assms(1)
proof (cases rule: execute_cases)
  case (send j a rc)
  from send(2) show ?thesis
    by (rule threshold_bank_send_cases) (use assms(2) in \<open>auto simp: send_bank_transaction_def\<close>)
next
  case (pending e)
  from pending(2) show ?thesis
    by (rule execute_pending_cases) (use assms(2) in \<open>auto simp: send_bank_transaction_def\<close>)
next
  case config
  then show ?thesis using assms(2) by (auto simp: config_update_def)
qed

lemma auto_send_first:
  assumes "execute h st info m = Inr (st', r)"
    and "auto_sends i \<lparr>ce_config = c, ce_info = info, ce_msg = m, ce_resp = r\<rparr>"
  shows "\<not> kv_has (SENT_TRANSACTIONS st) i \<and> kv_has (SENT_TRANSACTIONS st') i"
proof -
  from assms(2) obtain j a rc where m: "m = ThresholdBankSend j a rc" "normalize_id j = i" "messages r \<noteq> []"
    by (cases m) auto
  with assms(1) have "threshold_bank_send h st info j a rc = Inr (st', r)" by simp
  then show ?thesis
    by (rule threshold_bank_send_cases)
      (use m in \<open>auto simp: submission_ok_def send_bank_transaction_def\<close>)
qed

lemma run_sent_recorded:
  "contract_run h st es \<Longrightarrow> ev \<in> set es \<Longrightarrow> auto_sends i ev \<Longrightarrow> kv_has (SENT_TRANSACTIONS st) i"
proof (induction rule: contract_run.induct)
  case (run_execute st es c info m st' r)
  then show ?case using sent_monotone auto_send_first by (metis set_ConsD)
next
  case (run_migrate st es ca no st' r)
  then show ?case using migrate_kept [OF run_migrate(2)] by simp
qed simp

section \<open>Versions\<close>

definition config_version :: "storage \<Rightarrow> uint64" where
  "config_version st = (case CONFIG st of None \<Rightarrow> 0 | Some c \<Rightarrow> version c)"

definition config_grows :: "storage \<Rightarrow> storage \<Rightarrow> bool" where
  "config_grows st st' \<longleftrightarrow> CONFIG st' = CONFIG st \<or> config_version st < config_version st'"

lemma step_config_grows:
  assumes "contract_step h st st'" and "CONFIG st = Some c"
  shows "CONFIG st' \<noteq> None \<and> config_grows st st'"
  using assms(1)
proof (cases rule: contract_step.cases)
  case (step_execute info m r)
  from execute_config_step [OF this] show ?thesis
    using assms(2)
    by (auto simp: config_grows_def config_version_def config_update_def intro: word_less_Suc)
next
  case (step_migrate ca no r)
  from this assms(2) show ?thesis
    by (rule migrate_existing_config)
      (auto simp: config_grows_def config_version_def assms(2) intro: word_less_Suc)
qed

lemma steps_config_grows:
  assumes "(contract_step h)\<^sup>*\<^sup>* st st'" and "CONFIG st \<noteq> None"
  shows "CONFIG st' \<noteq> None \<and> config_grows st st'"
  using assms
proof (induction rule: rtranclp_induct)
  case base
  then show ?case by (simp add: config_grows_def)
next
  case (step y z)
  then obtain c where "CONFIG y = Some c" "config_grows st y" by auto
  with step_config_grows [OF step(2)] show ?case
    by (auto simp: config_grows_def config_version_def split: option.splits)
qed

section \<open>The board of votes\<close>

text \<open>
  The specification of submissions: for every evidence id the set of voters of the open vote, and
  the ids that are settled. A vote closes when it is the last of the quorum of an amount within the
  maximum; its id is settled then.
\<close>

record board =
  votes :: "string \<Rightarrow> addr set"
  settled :: "string set"

definition board_vote :: "string \<Rightarrow> string \<Rightarrow> addr \<Rightarrow> nat \<Rightarrow> bool \<Rightarrow> board \<Rightarrow> board \<times> bool" where
  "board_vote i e p quorum small b =
     (let V = insert p (votes b e) in
      if card V = quorum \<and> small then
        (b\<lparr>votes := (votes b)(e := {}), settled := insert i (settled b)\<rparr>, True)
      else (b\<lparr>votes := (votes b)(e := V)\<rparr>, False))"

definition abs_board :: "storage \<Rightarrow> board" where
  "abs_board st = \<lparr>votes = (\<lambda>e. case kv_load (PENDING_TRANSACTIONS st) e of
       None \<Rightarrow> {} | Some t \<Rightarrow> set (evidence_providers t)),
     settled = {i. kv_has (SENT_TRANSACTIONS st) i}\<rparr>"

lemma joined_tx_votes:
  "set (evidence_providers (joined_tx h st s i a r)) =
    insert s (votes (abs_board st) (build_evidence_id h (normalize_id i) a r))"
  by (auto simp: joined_tx_def abs_board_def split: option.splits)

lemma reaches_quorum_card:
  assumes "storage_inv h st" and "submission_ok h st c s i a r"
    and "length (evidence_providers (joined_tx h st s i a r)) < 2 ^ 32"
  shows "reaches_quorum c (joined_tx h st s i a r) a \<longleftrightarrow>
    card (insert s (votes (abs_board st) (build_evidence_id h (normalize_id i) a r))) = unat (threshold c) \<and>
    coin_amount a \<le> max_amount c"
proof -
  let ?P = "evidence_providers (joined_tx h st s i a r)"
  have "distinct ?P"
    using joined_tx_ok [OF assms(1,2)] by (simp add: pending_ok_def providers_ok_def)
  then have "card (insert s (votes (abs_board st) (build_evidence_id h (normalize_id i) a r))) = length ?P"
    using joined_tx_votes distinct_card by metis
  moreover have "of_nat (length ?P) = threshold c \<longleftrightarrow> length ?P = unat (threshold c)"
    using assms(3) by (simp add: of_nat_eq_word_iff)
  ultimately show ?thesis by (auto simp: reaches_quorum_def)
qed

lemma abs_board_send:
  assumes "kv_wf (PENDING_TRANSACTIONS st)" and "(st', r) = send_bank_transaction h st t i e"
  shows "abs_board st' =
    (abs_board st)\<lparr>votes := (votes (abs_board st))(e := {}), settled := insert i (settled (abs_board st))\<rparr>"
  using assms by (auto simp: abs_board_def send_bank_transaction_def kv_load_remove fun_eq_iff)

lemma abs_board_save:
  "abs_board (st\<lparr>PENDING_TRANSACTIONS := kv_save e t (PENDING_TRANSACTIONS st)\<rparr>) =
    (abs_board st)\<lparr>votes := (votes (abs_board st))(e := set (evidence_providers t))\<rparr>"
  by (auto simp: abs_board_def kv_load_save fun_eq_iff)

section \<open>Evidence ids\<close>

lemma to_lowercase_dash [simp]: "CHR ''-'' \<in> set (to_lowercase s) \<longleftrightarrow> CHR ''-'' \<in> set s"
  by (auto simp: to_lowercase_def image_iff) (metis lower_char_dash)+

lemma to_lowercase_Cons [simp]: "to_lowercase (c # s) = lower_char c # to_lowercase s"
  by (simp add: to_lowercase_def)

lemma evidence_id_split:
  "build_evidence_id h i a r =
    to_lowercase i @ CHR ''-'' # (to_lowercase (coin_display h a) @ CHR ''-'' # to_lowercase r)"
proof -
  have "lower_char (CHR ''-'') = CHR ''-''" by simp
  then show ?thesis by (simp add: build_evidence_id_def del: lower_char_dash)
qed

section \<open>A concrete host\<close>

text \<open>A host for concrete runs: it accepts every non-empty address and prints coins as amount and denom.\<close>

definition sample_host :: host where
  "sample_host = \<lparr>addr_validate = (\<lambda>a. if a = [] then Inl ''Invalid input: human address too short'' else Inr a),
     coin_display = (\<lambda>c. dec_of_nat (unat (coin_amount c)) @ coin_denom c),
     bs58_check_decode = (\<lambda>s. if s = ''rIssuer'' then Some (replicate 21 0) else None),
     decimal_parse = (\<lambda>s. if s = ''1.0'' then Some 1 else if s = ''20'' then Some 20 else None),
     decimal_display = (\<lambda>q. ''20''),
     one_coin = (\<lambda>fs. case fs of [] \<Rightarrow> Inl ''No funds sent''
        | [c] \<Rightarrow> if coin_amount c = 0 then Inl ''No funds sent'' else Inr c
        | _ \<Rightarrow> Inl ''Sent more than one denomination'')\<rparr>"

definition sample_init :: instantiate_msg where
  "sample_init = \<lparr>im_owner = ''owner'', im_trusted_addresses = [''r1'', ''r2'', ''r3''],
     im_threshold = 2, im_min_amount = 10, im_max_amount = 20, im_xrpl_tokens = []\<rparr>"

definition sample_config :: contract_config where
  "sample_config = \<lparr>owner = ''owner'', trusted_addresses = [''r1'', ''r2'', ''r3''], threshold = 2,
     min_amount = 10, max_amount = 20, xrpl_tokens = [], version = 1\<rparr>"

definition sample_start :: storage where
  "sample_start = empty_storage\<lparr>CONFIG := Some sample_config,
     contract_info := Some (CONTRACT_NAME, CONTRACT_VERSION)\<rparr>"

definition sample_coin :: "uint128 \<Rightarrow> coin" where
  "sample_coin n = \<lparr>coin_denom = ''ucore'', coin_amount = n\<rparr>"

definition sample_voted :: storage where
  "sample_voted = sample_start\<lparr>PENDING_TRANSACTIONS :=
     [(''ab-15ucore-bob'', \<lparr>amount = sample_coin 15, recipient = ''bob'', evidence_providers = [''r1'']\<rparr>)]\<rparr>"

definition by_sender :: "addr \<Rightarrow> message_info" where
  "by_sender a = \<lparr>sender = a, funds = []\<rparr>"

lemmas sample_defs = sample_host_def sample_init_def sample_config_def sample_start_def
  sample_coin_def sample_voted_def by_sender_def empty_storage_def

lemma sample_instantiate: "instantiate sample_host empty_storage sample_init =
  Inr (sample_start, \<lparr>attributes = [], messages = []\<rparr>)"
  by code_simp

lemma sample_vote: "execute sample_host sample_start (by_sender ''r1'')
    (ThresholdBankSend ''AB'' (sample_coin 15) ''bob'') =
  Inr (sample_voted, \<lparr>attributes = [(''result'', ''pending''), (''evidence_id'', ''ab-15ucore-bob'')], messages = []\<rparr>)"
  by code_simp

end
