(* ===== verification/Contract_Properties.thy ===== *)
theory Contract_Properties
  imports Contract_Runs
begin

text \<open>
  The properties of the contract: quorum and single delivery over runs, the invariant of the
  storage, the meaning of the version, the refinement of the board of votes, the outcomes of
  \<open>execute_pending\<close>, authorization of the updates, evidence ids, migration, and
  the scenarios in which the code falls short of its comments.
\<close>

section \<open>Quorum and single delivery\<close>

text \<open>What one accepted call sends.\<close>

lemma execute_sends:
  assumes "run_inv h st" and "all_backed h es st" and "CONFIG st = Some c"
    and "execute h st info m = Inr (st', r)" and "BankSend to cs \<in> set (messages r)"
  shows "\<exists>i a t. cs = [a] \<and> to = recipient t \<and> a = amount t \<and>
    pending_ok h (build_evidence_id h i a to) t \<and>
    threshold c \<le> of_nat (length (evidence_providers t)) \<and>
    backed h (\<lparr>ce_config = c, ce_info = info, ce_msg = m, ce_resp = r\<rparr> # es) (build_evidence_id h i a to) t"
  using assms(4)
proof (cases rule: execute_cases)
  case (send i a rc)
  let ?t = "joined_tx h st (sender info) i a rc" and ?e = "build_evidence_id h (normalize_id i) a rc"
  from send(2) show ?thesis
  proof (cases rule: threshold_bank_send_cases)
    case (1 c')
    then have "c' = c" using assms(3) by (simp add: submission_ok_def)
    have ok: "pending_ok h ?e ?t"
      using assms(1) 1(1) joined_tx_ok by (simp add: run_inv_def)
    then obtain j where "?e = build_evidence_id h (normalize_id j) (amount ?t) (recipient ?t)"
      by (auto simp: pending_ok_def)
    moreover have "to = recipient ?t" "cs = [amount ?t]"
      using 1(3) assms(5) by (auto simp: send_bank_transaction_def)
    moreover note joined_tx_backed [OF assms(2) 1(1), of r]
    ultimately show ?thesis
      using ok 1(2) unfolding send(1) \<open>c' = c\<close> by (metis reaches_quorum_def order_refl)
  next
    case 2
    then show ?thesis using assms(5) by simp
  qed
next
  case (pending e)
  from pending(2) show ?thesis
  proof (cases rule: execute_pending_cases)
    case (1 c' t)
    have ok: "pending_ok h e t"
      using assms(1) kv_load_SomeD [OF 1(2)] by (auto simp: run_inv_def storage_inv_def)
    then obtain j where "e = build_evidence_id h (normalize_id j) (amount t) (recipient t)"
      by (auto simp: pending_ok_def)
    moreover have "to = recipient t" "cs = [amount t]"
      using 1(5) assms(5) by (auto simp: send_bank_transaction_def)
    moreover have "backed h (\<lparr>ce_config = c, ce_info = info, ce_msg = m, ce_resp = r\<rparr> # es) e t"
      using assms(2) 1(2) by (auto simp: all_backed_def intro: backed_mono)
    ultimately show ?thesis using ok 1(1,3) assms(3) by auto
  qed
next
  case config
  then show ?thesis using assms(5) by simp
qed

lemma run_sends_quorum:
  assumes "contract_run h st es" and "CONFIG st = Some c"
    and "execute h st info m = Inr (st', r)" and "BankSend to cs \<in> set (messages r)"
  shows "\<exists>i a P. cs = [a] \<and> distinct P \<and> P \<noteq> [] \<and> unat (threshold c) \<le> length P \<and>
    (\<forall>p \<in> set P. \<exists>ev \<in> set (\<lparr>ce_config = c, ce_info = info, ce_msg = m, ce_resp = r\<rparr> # es).
       supports h (build_evidence_id h i a to) p ev)"
proof -
  from execute_sends [OF run_run_inv [OF assms(1)] run_all_backed [OF assms(1)] assms(2-4)]
  obtain i a t where t: "cs = [a]" "pending_ok h (build_evidence_id h i a to) t"
    "threshold c \<le> of_nat (length (evidence_providers t))"
    "backed h (\<lparr>ce_config = c, ce_info = info, ce_msg = m, ce_resp = r\<rparr> # es) (build_evidence_id h i a to) t"
    by blast
  have "unat (threshold c) \<le> length (evidence_providers t)"
    using t(3) unat_of_nat_le order_trans unfolding word_le_nat_alt by blast
  with t show ?thesis
    unfolding pending_ok_def providers_ok_def backed_def by blast
qed

text \<open>
  C3: Quorum. In every run of the contract, a coin that an accepted call sends to a recipient was
  asked for under one evidence id, built from that coin and that recipient, by at least
  \<open>threshold\<close> pairwise distinct relayers; each of them submitted it in an accepted call of the
  run (the sending call included) and was a trusted address at that time.
\<close>

theorem sends_backed_by_quorum:
  assumes "contract_run h st es" and "CONFIG st = Some c"
    and "execute h st info m = Inr (st', r)" and "BankSend to cs \<in> set (messages r)"
  shows "\<exists>i a P. cs = [a] \<and> distinct P \<and> P \<noteq> [] \<and> unat (threshold c) \<le> length P \<and>
    (\<forall>p \<in> set P. \<exists>ev \<in> set (\<lparr>ce_config = c, ce_info = info, ce_msg = m, ce_resp = r\<rparr> # es).
       supports h (build_evidence_id h i a to) p ev)"
  by (rule run_sends_quorum [OF assms])

lemma sample_run_voted: "contract_run sample_host sample_voted
    [\<lparr>ce_config = sample_config, ce_info = by_sender ''r1'',
      ce_msg = ThresholdBankSend ''AB'' (sample_coin 15) ''bob'',
      ce_resp = \<lparr>attributes = [(''result'', ''pending''), (''evidence_id'', ''ab-15ucore-bob'')], messages = []\<rparr>\<rparr>]"
  by (rule run_execute [OF run_instantiate [OF sample_instantiate] _ sample_vote])
    (simp add: sample_start_def)

lemma sample_second_vote:
  "execute sample_host sample_voted (by_sender ''r2'') (ThresholdBankSend ''aB'' (sample_coin 15) ''bob'') =
    Inr (sample_start\<lparr>SENT_TRANSACTIONS := [(''ab'', \<lparr>amount = sample_coin 15, recipient = ''bob'',
           evidence_providers = [''r1'', ''r2'']\<rparr>)]\<rparr>,
         \<lparr>attributes = [(''result'', ''sent''), (''recipient'', ''bob''), (''amount'', ''15ucore''),
            (''evidence_id'', ''ab-15ucore-bob'')], messages = [BankSend ''bob'' [sample_coin 15]]\<rparr>)"
  by code_simp

theorem sends_backed_by_quorum_witness:
  "\<exists>i a P. [sample_coin 15] = [a] \<and> distinct P \<and> P \<noteq> [] \<and> unat (threshold sample_config) \<le> length P \<and>
    (\<forall>p \<in> set P. \<exists>ev \<in> set
       [\<lparr>ce_config = sample_config, ce_info = by_sender ''r2'',
         ce_msg = ThresholdBankSend ''aB'' (sample_coin 15) ''bob'',
         ce_resp = \<lparr>attributes = [(''result'', ''sent''), (''recipient'', ''bob''), (''amount'', ''15ucore''),
            (''evidence_id'', ''ab-15ucore-bob'')], messages = [BankSend ''bob'' [sample_coin 15]]\<rparr>\<rparr>,
        \<lparr>ce_config = sample_config, ce_info = by_sender ''r1'',
         ce_msg = ThresholdBankSend ''AB'' (sample_coin 15) ''bob'',
         ce_resp = \<lparr>attributes = [(''result'', ''pending''), (''evidence_id'', ''ab-15ucore-bob'')],
           messages = []\<rparr>\<rparr>].
       supports sample_host (build_evidence_id sample_host i a ''bob'') p ev)"
  by (rule sends_backed_by_quorum [OF sample_run_voted _ sample_second_vote])
    (simp_all add: sample_voted_def sample_start_def)

text \<open>
  C4: Single delivery. Over a whole run, at most one submission of a normalized XRPL transaction
  id sends coins, whatever the configuration changes, migrations and pending executions in between.
\<close>

theorem submissions_send_once:
  assumes "contract_run h st es"
  shows "length (filter (auto_sends i) es) \<le> 1"
  using assms
proof (induction rule: contract_run.induct)
  case (run_execute st es c info m st' r)
  let ?ev = "\<lparr>ce_config = c, ce_info = info, ce_msg = m, ce_resp = r\<rparr>"
  show ?case
  proof (cases "auto_sends i ?ev")
    case True
    from auto_send_first [OF run_execute(3) True] have "\<not> kv_has (SENT_TRANSACTIONS st) i" ..
    then have "filter (auto_sends i) es = []"
      using run_sent_recorded [OF run_execute(1)] by (auto simp: filter_empty_conv)
    then show ?thesis using True by (simp del: auto_sends.simps)
  next
    case False
    then show ?thesis using run_execute.IH by (simp del: auto_sends.simps)
  qed
qed simp_all

theorem submissions_send_once_witness:
  "length (filter (auto_sends ''ab'')
    [\<lparr>ce_config = sample_config, ce_info = by_sender ''r1'',
      ce_msg = ThresholdBankSend ''AB'' (sample_coin 15) ''bob'',
      ce_resp = \<lparr>attributes = [(''result'', ''pending''), (''evidence_id'', ''ab-15ucore-bob'')], messages = []\<rparr>\<rparr>]) \<le> 1"
  by (rule submissions_send_once [OF sample_run_voted])

text \<open>
  C9: The storage invariant holds in every state of a run: keys are ascending and unique, every
  pending transaction is stored under the evidence id of its own coin and recipient with
  distinct providers, sent ones have distinct providers, trusted addresses and tokens of the
  configuration are free of duplicates and every token passed validation; the threshold is positive.
\<close>

theorem run_invariant:
  assumes "contract_run h st es"
  shows "storage_inv h st \<and> (\<exists>c. CONFIG st = Some c \<and> 0 < threshold c)"
  using run_run_inv [OF assms] by (auto simp: run_inv_def)

theorem run_invariant_witness:
  "storage_inv sample_host sample_voted \<and> (\<exists>c. CONFIG sample_voted = Some c \<and> 0 < threshold c)"
  by (rule run_invariant [OF sample_run_voted])

text \<open>
  C10: The version identifies the configuration. Along any sequence of accepted calls the version
  never decreases, and two states with equal version have equal configurations: a reader that
  compares versions misses no change. (A version at its maximum makes every update trap.)
\<close>

theorem version_identifies_config:
  assumes "(contract_step h)\<^sup>*\<^sup>* st st'" and "CONFIG st = Some c"
  shows "\<exists>c'. CONFIG st' = Some c' \<and> version c \<le> version c' \<and> (version c' = version c \<longrightarrow> c' = c)"
  using steps_config_grows [OF assms(1)] assms(2)
  by (auto simp: config_grows_def config_version_def)

lemma sample_update: "contract_step sample_host sample_start
    (sample_start\<lparr>CONFIG := Some (sample_config\<lparr>max_amount := 5, version := 2\<rparr>)\<rparr>)"
proof (rule step_execute)
  show "execute sample_host sample_start (by_sender ''owner'') (UpdateMaxAmount 5) =
    Inr (sample_start\<lparr>CONFIG := Some (sample_config\<lparr>max_amount := 5, version := 2\<rparr>)\<rparr>,
      \<lparr>attributes = [(''action'', ''update_max_amount''), (''max_amount'', ''5''), (''version'', ''2'')],
       messages = []\<rparr>)"
    by code_simp
qed

theorem version_identifies_config_witness:
  "\<exists>c'. CONFIG (sample_start\<lparr>CONFIG := Some (sample_config\<lparr>max_amount := 5, version := 2\<rparr>)\<rparr>) = Some c' \<and>
    version sample_config \<le> version c' \<and> (version c' = version sample_config \<longrightarrow> c' = sample_config)"
  by (rule version_identifies_config [OF r_into_rtranclp [of "contract_step sample_host", OF sample_update]])
    (simp add: sample_start_def)

section \<open>Refinement of the board\<close>

text \<open>
  C11: An accepted submission refines a vote on the board: the new storage abstracts to the board
  after the vote, with the configuration's threshold as quorum and the maximum as limit, and
  coins leave exactly when the vote closes. (The provider count is compared as a 32-bit number.)
\<close>

theorem submission_refines_vote:
  assumes "storage_inv h st" and "CONFIG st = Some c"
    and "threshold_bank_send h st info i a rc = Inr (st', r)"
    and "length (evidence_providers (joined_tx h st (sender info) i a rc)) < 2 ^ 32"
  shows "(abs_board st', messages r \<noteq> []) =
    board_vote (normalize_id i) (build_evidence_id h (normalize_id i) a rc) (sender info)
      (unat (threshold c)) (coin_amount a \<le> max_amount c) (abs_board st)"
  using assms(3)
proof (cases rule: threshold_bank_send_cases)
  case (1 c')
  then have "c' = c" using assms(2) by (simp add: submission_ok_def)
  moreover have "messages r \<noteq> []" using 1(3) by (simp add: send_bank_transaction_def)
  moreover have "kv_wf (PENDING_TRANSACTIONS st)" using assms(1) by (simp add: storage_inv_def)
  ultimately show ?thesis
    using reaches_quorum_card [OF assms(1) 1(1) assms(4)] 1(2) abs_board_send [OF _ 1(3)]
    by (simp add: board_vote_def Let_def)
next
  case (2 c')
  then have "c' = c" using assms(2) by (simp add: submission_ok_def)
  with 2 show ?thesis
    using reaches_quorum_card [OF assms(1) 2(1) assms(4)]
    by (auto simp: board_vote_def Let_def abs_board_save joined_tx_votes)
qed

lemma sample_start_inv: "storage_inv sample_host sample_start"
  using run_run_inv [OF run_instantiate [OF sample_instantiate]] by (simp add: run_inv_def)

theorem submission_refines_vote_witness:
  "(abs_board sample_voted, False) =
    board_vote (normalize_id ''AB'') (build_evidence_id sample_host (normalize_id ''AB'') (sample_coin 15) ''bob'')
      ''r1'' 2 True (abs_board sample_start)"
proof -
  have "threshold_bank_send sample_host sample_start (by_sender ''r1'') ''AB'' (sample_coin 15) ''bob'' =
    Inr (sample_voted, \<lparr>attributes = [(''result'', ''pending''), (''evidence_id'', ''ab-15ucore-bob'')], messages = []\<rparr>)"
    using sample_vote by simp
  note submission_refines_vote [OF sample_start_inv _ this, of sample_config]
  then show ?thesis
    by (simp add: joined_tx_def sample_defs)
qed

section \<open>Configuration updates\<close>

text \<open>
  C13: Only the owner changes the configuration. A configuration message from someone else fails as unauthorized. An accepted
  one comes from the owner, increments the version, keeps the threshold, sends nothing and leaves every other item of
  the storage as it was: the transactions, the contract info and the items of older versions. Any other accepted message
  leaves all but the transactions as it was.
\<close>

theorem config_messages_owner_only:
  assumes "CONFIG st = Some c"
  shows "(is_config_msg m \<and> sender info \<noteq> owner c \<longrightarrow> execute h st info m = Inl (Fails Unauthorized)) \<and>
    (\<forall>st' r. execute h st info m = Inr (st', r) \<longrightarrow>
       (if is_config_msg m then
          sender info = owner c \<and> messages r = [] \<and>
          (\<exists>c'. st' = st\<lparr>CONFIG := Some c'\<rparr> \<and> version c < version c' \<and> version c' = version c + 1 \<and> threshold c' = threshold c)
        else st' = st\<lparr>PENDING_TRANSACTIONS := PENDING_TRANSACTIONS st', SENT_TRANSACTIONS := SENT_TRANSACTIONS st'\<rparr>))"
proof (intro conjI impI allI)
  assume "is_config_msg m \<and> sender info \<noteq> owner c"
  then show "execute h st info m = Inl (Fails Unauthorized)"
    using assms by (cases m) (simp_all add: config_update_defs load_config_def)
next
  fix st' r
  assume ex: "execute h st info m = Inr (st', r)"
  show "if is_config_msg m then
          sender info = owner c \<and> messages r = [] \<and>
          (\<exists>c'. st' = st\<lparr>CONFIG := Some c'\<rparr> \<and> version c < version c' \<and> version c' = version c + 1 \<and> threshold c' = threshold c)
        else st' = st\<lparr>PENDING_TRANSACTIONS := PENDING_TRANSACTIONS st', SENT_TRANSACTIONS := SENT_TRANSACTIONS st'\<rparr>"
  proof (cases "is_config_msg m")
    case True
    have "messages r = [] \<and> config_update st st' info" using execute_config_update [OF ex True] by blast
    moreover have "st' = st\<lparr>CONFIG := CONFIG st'\<rparr>" by (rule config_message_frame [OF ex True])
    ultimately show ?thesis using True assms by (force simp: config_update_def intro: word_less_Suc)
  next
    case False
    then show ?thesis using transaction_message_frame [OF ex] by simp
  qed
qed

theorem config_messages_owner_only_witness:
  "execute sample_host sample_start (by_sender ''r1'') (UpdateOwner ''r1'') = Inl (Fails Unauthorized)"
  using config_messages_owner_only [of sample_start sample_config "UpdateOwner ''r1''" "by_sender ''r1''" sample_host]
  by (simp add: sample_start_def sample_config_def by_sender_def)

section \<open>Evidence ids\<close>

text \<open>
  C20: Evidence ids separate transfers. For ids and recipients without a dash, two submissions
  share an evidence id only if their ids, the texts of their coins and their recipients agree up
  to letter case; and the id recovered from an evidence id is the normalized id it was built from.
\<close>

theorem evidence_id_separates:
  assumes "CHR ''-'' \<notin> set i" and "CHR ''-'' \<notin> set j" and "CHR ''-'' \<notin> set r" and "CHR ''-'' \<notin> set s"
    and "build_evidence_id h (normalize_id i) a r = build_evidence_id h (normalize_id j) b s"
  shows "normalize_id i = normalize_id j \<and>
    to_lowercase (coin_display h a) = to_lowercase (coin_display h b) \<and> to_lowercase r = to_lowercase s \<and>
    extract_id_from_evidence_id (build_evidence_id h (normalize_id i) a r) = normalize_id i"
proof -
  have "to_lowercase i = to_lowercase j \<and>
    to_lowercase (coin_display h a) @ CHR ''-'' # to_lowercase r =
    to_lowercase (coin_display h b) @ CHR ''-'' # to_lowercase s"
    using assms by (intro append_sep_cancel [where c = "CHR ''-''"]) (simp_all add: evidence_id_split normalize_id_def)
  moreover from this have "to_lowercase (coin_display h a) = to_lowercase (coin_display h b) \<and>
    to_lowercase r = to_lowercase s"
    using assms by (intro append_sep_cancel_last [where c = "CHR ''-''"]) simp_all
  moreover have "extract_id_from_evidence_id (build_evidence_id h (normalize_id i) a r) = normalize_id i"
    using assms(1) by (simp add: extract_id_from_evidence_id_def evidence_id_split normalize_id_def Split_append_sep)
  ultimately show ?thesis by (simp add: normalize_id_def)
qed

theorem evidence_id_separates_witness:
  "extract_id_from_evidence_id (build_evidence_id sample_host (normalize_id ''AB'') (sample_coin 7) ''bob'') = ''ab''"
  using evidence_id_separates [of "''AB''" "''AB''" "''bob''" "''bob''" sample_host "sample_coin 7" "sample_coin 7"]
  by (simp add: normalize_id_def) code_simp

section \<open>Migration\<close>

text \<open>
  C22: Migrating a deployment that predates the configuration item succeeds and builds a valid
  configuration: the threshold is positive and, when there are trusted addresses, at most their
  number; a stored threshold that was valid is kept; the trusted addresses are the stored
  keys; pending and sent transactions are untouched.
\<close>

theorem legacy_migration_valid:
  assumes "CONFIG st = None" and "contract_info st = Some (CONTRACT_NAME, v)"
    and "length (TRUSTED_ADDRESSES st) < 2 ^ 32"
  shows "\<exists>st' c. migrate h st ca None = Inr (st', \<lparr>attributes = [], messages = []\<rparr>) \<and>
    CONFIG st' = Some c \<and> 0 < threshold c \<and>
    (trusted_addresses c \<noteq> [] \<longrightarrow> unat (threshold c) \<le> length (trusted_addresses c)) \<and>
    (\<forall>t. THRESHOLD st = Some t \<and> 0 < t \<and> unat t \<le> length (trusted_addresses c) \<longrightarrow> threshold c = t) \<and>
    trusted_addresses c = map fst (TRUSTED_ADDRESSES st) \<and> version c = 1 \<and>
    PENDING_TRANSACTIONS st' = PENDING_TRANSACTIONS st \<and> SENT_TRANSACTIONS st' = SENT_TRANSACTIONS st"
proof -
  have len: "unat (of_nat (length (TRUSTED_ADDRESSES st)) :: uint32) = length (TRUSTED_ADDRESSES st)"
    using assms(3) by (simp add: unat_of_nat)
  let ?as = "map fst (TRUSTED_ADDRESSES st)"
  have "0 < migrated_threshold (THRESHOLD st) ?as \<and>
    (?as \<noteq> [] \<longrightarrow> unat (migrated_threshold (THRESHOLD st) ?as) \<le> length ?as)"
    using len by (auto simp: migrated_threshold_def Let_def word_le_nat_alt word_less_nat_alt
        min_def unat_gt_0 split: option.splits)
  moreover have "THRESHOLD st = Some t \<and> 0 < t \<and> unat t \<le> length ?as \<Longrightarrow>
    migrated_threshold (THRESHOLD st) ?as = t" for t
    using len by (auto simp: migrated_threshold_def word_less_nat_alt)
  ultimately show ?thesis
    using assms by (simp add: migrate_def set_contract_version_def migrated_config_def kv_range_def Let_def)
qed

definition sample_legacy :: storage where
  "sample_legacy = empty_storage\<lparr>OWNER := Some ''owner'', THRESHOLD := Some 5,
     TRUSTED_ADDRESSES := [(''r1'', ()), (''r2'', ()), (''r3'', ())],
     contract_info := Some (CONTRACT_NAME, ''0.1.0'')\<rparr>"

theorem legacy_migration_valid_witness:
  "\<exists>st' c. migrate sample_host sample_legacy ''self'' None = Inr (st', \<lparr>attributes = [], messages = []\<rparr>) \<and>
    CONFIG st' = Some c \<and> 0 < threshold c \<and> trusted_addresses c = [''r1'', ''r2'', ''r3'']"
  using legacy_migration_valid [of sample_legacy "''0.1.0''" sample_host "''self''"]
  by (auto simp: sample_legacy_def empty_storage_def)

section \<open>Scenarios\<close>

fun exec_all ::
  "host \<Rightarrow> storage \<Rightarrow> (message_info \<times> execute_msg) list \<Rightarrow> failure + (storage \<times> contract_event list)" where
  "exec_all h st [] = Inr (st, [])"
| "exec_all h st ((info, m) # ms) =
     res_bind (load_config st) (\<lambda>c.
     res_bind (execute h st info m) (\<lambda>(st1, r).
     res_bind (exec_all h st1 ms) (\<lambda>(st2, out).
       Inr (st2, \<lparr>ce_config = c, ce_info = info, ce_msg = m, ce_resp = r\<rparr> # out))))"

lemma exec_all_run:
  assumes "contract_run h st es" and "exec_all h st ms = Inr (st', new)"
  shows "contract_run h st' (rev new @ es)"
  using assms
proof (induction h st ms arbitrary: es new rule: exec_all.induct)
  case (1 h st)
  then show ?case by simp
next
  case (2 h st info m ms)
  from "2.prems"(2) obtain c st1 r out where ex: "CONFIG st = Some c"
    "execute h st info m = Inr (st1, r)" "exec_all h st1 ms = Inr (st', out)"
    "new = \<lparr>ce_config = c, ce_info = info, ce_msg = m, ce_resp = r\<rparr> # out"
    by (auto simp: res_bind_Inr split: prod.splits)
  from run_execute [OF "2.prems"(1) ex(1,2)] show ?case
    using "2.IH" ex by simp
qed

text \<open>What an event shows: the maximum amount in force, the message, the coins sent.\<close>

definition observed :: "contract_event \<Rightarrow> uint128 \<times> execute_msg \<times> bank_msg list" where
  "observed ev = (max_amount (ce_config ev), ce_msg ev, messages (ce_resp ev))"

definition scenario :: "(message_info \<times> execute_msg) list \<Rightarrow> (uint128 \<times> execute_msg \<times> bank_msg list) list option" where
  "scenario ms = (case exec_all sample_host sample_start ms of Inl _ \<Rightarrow> None | Inr (_, es) \<Rightarrow> Some (map observed es))"

lemma scenario_run:
  assumes "scenario ms = Some L"
  shows "\<exists>st es. contract_run sample_host st es \<and> map observed (rev es) = L"
proof -
  from assms obtain st es where *: "exec_all sample_host sample_start ms = Inr (st, es)" and L: "map observed es = L"
    by (auto simp: scenario_def split: sum.splits)
  from exec_all_run [OF run_instantiate [OF sample_instantiate] *] L show ?thesis
    by (metis append_Nil2 rev_rev_ident)
qed

definition paying :: "addr \<Rightarrow> uint128 \<Rightarrow> message_info" where
  "paying a n = \<lparr>sender = a, funds = [sample_coin n]\<rparr>"

text \<open>
  \<open>execute_pending\<close> does not consult the sent transactions. There is a run in which two
  pending transactions of one XRPL transaction id, each confirmed by two of three relayers but
  with different amounts, are both executed: two transfers of the id \<open>ab\<close> are made, although the
  comment in \<open>threshold_bank_send\<close> says a second execution with the same id is prohibited.
\<close>

lemma execute_pending_can_repeat_id:
  "\<exists>st es. contract_run sample_host st es \<and> map observed (rev es) =
      [(20, ThresholdBankSend ''AB'' (sample_coin 30) ''bob'', []),
       (20, ThresholdBankSend ''AB'' (sample_coin 30) ''bob'', []),
       (20, ThresholdBankSend ''AB'' (sample_coin 40) ''bob'', []),
       (20, ThresholdBankSend ''AB'' (sample_coin 40) ''bob'', []),
       (20, ExecutePending ''ab-30ucore-bob'', [BankSend ''bob'' [sample_coin 30]]),
       (20, ExecutePending ''ab-40ucore-bob'', [BankSend ''bob'' [sample_coin 40]])]"
  by (rule scenario_run [where ms =
      "[(by_sender ''r1'', ThresholdBankSend ''AB'' (sample_coin 30) ''bob''),
        (by_sender ''r2'', ThresholdBankSend ''AB'' (sample_coin 30) ''bob''),
        (by_sender ''r1'', ThresholdBankSend ''AB'' (sample_coin 40) ''bob''),
        (by_sender ''r3'', ThresholdBankSend ''AB'' (sample_coin 40) ''bob''),
        (paying ''bob'' 30, ExecutePending ''ab-30ucore-bob''),
        (paying ''bob'' 40, ExecutePending ''ab-40ucore-bob'')]"]) code_simp

text \<open>
  The coin in the evidence id is only a text, and different coins have the same one. Denoms that differ in case
  meet in one pending transaction, and the first submitter's coin is sent. An amount and a denom can
  also be cut differently: 150 of \<open>ucore\<close>, above the maximum of 20, waits in the record, and a second
  submission of 15 of \<open>0ucore\<close> has the same text; the maximum is compared with these 15, and the contract sends the 150.
\<close>

lemma coin_text_is_ambiguous:
  "(\<exists>st es. contract_run sample_host st es \<and> map observed (rev es) =
      [(20, ThresholdBankSend ''AB'' \<lparr>coin_denom = ''ibc/A'', coin_amount = 15\<rparr> ''bob'', []),
       (20, ThresholdBankSend ''AB'' \<lparr>coin_denom = ''ibc/a'', coin_amount = 15\<rparr> ''bob'',
        [BankSend ''bob'' [\<lparr>coin_denom = ''ibc/A'', coin_amount = 15\<rparr>]])]) \<and>
   (\<exists>st es. contract_run sample_host st es \<and> map observed (rev es) =
      [(20, ThresholdBankSend ''AB'' \<lparr>coin_denom = ''ucore'', coin_amount = 150\<rparr> ''bob'', []),
       (20, ThresholdBankSend ''AB'' \<lparr>coin_denom = ''0ucore'', coin_amount = 15\<rparr> ''bob'',
        [BankSend ''bob'' [\<lparr>coin_denom = ''ucore'', coin_amount = 150\<rparr>]])])"
  by (intro conjI; rule scenario_run [where ms =
        "[(by_sender ''r1'', ThresholdBankSend ''AB'' \<lparr>coin_denom = ''ibc/A'', coin_amount = 15\<rparr> ''bob''),
          (by_sender ''r2'', ThresholdBankSend ''AB'' \<lparr>coin_denom = ''ibc/a'', coin_amount = 15\<rparr> ''bob'')]"]
      scenario_run [where ms =
        "[(by_sender ''r1'', ThresholdBankSend ''AB'' \<lparr>coin_denom = ''ucore'', coin_amount = 150\<rparr> ''bob''),
          (by_sender ''r2'', ThresholdBankSend ''AB'' \<lparr>coin_denom = ''0ucore'', coin_amount = 15\<rparr> ''bob'')]"];
      code_simp)

text \<open>
  \<open>update_trusted_addresses\<close> does not compare the threshold with the new list. An owner may
  leave fewer trusted addresses than the threshold: the update is accepted, and the
  configuration violates what \<open>instantiate\<close> demands.
\<close>

lemma update_trusted_addresses_ignores_threshold:
  assumes "CONFIG st = Some c" and "sender info = owner c" and "version c \<noteq> - 1"
    and "check_trusted_addresses h [] as = Inr ()" and "of_nat (length as) < threshold c"
  shows "\<exists>st' r c'. execute h st info (UpdateTrustedAddresses as) = Inr (st', r) \<and> CONFIG st' = Some c' \<and>
    trusted_addresses c' = as \<and> of_nat (length (trusted_addresses c')) < threshold c'"
  using assms by (simp add: update_trusted_addresses_def load_config_def bump_version_def)

lemma is_ascii_hexdigit_lower: "is_ascii_hexdigit c \<Longrightarrow> is_ascii_hexdigit (lower_char c)"
  by (auto simp: is_ascii_hexdigit_def hex_digit_def less_eq_char_def of_char_lower_char of_char_upper split: if_splits)

lemma validate_lower_token:
  assumes "validate_xrpl_token h t = Inr ()" and "decimal_parse h m = Some v" and "1 / 10 \<le> v" and "v \<le> 10"
  shows "validate_xrpl_token h (t\<lparr>currency := to_lowercase (currency t), multiplier := m\<rparr>) = Inr ()"
proof -
  have "list_all is_ascii_hexdigit (to_lowercase s)" if "list_all is_ascii_hexdigit s" for s
    using that by (auto simp: to_lowercase_def list_all_iff intro: is_ascii_hexdigit_lower)
  with assms show ?thesis
    by (auto simp: validate_xrpl_token_def split: if_splits option.splits list.splits)
qed

text \<open>
  Letter case evades the check for duplicate tokens. Currencies are hexadecimal, but they are
  compared as texts: next to a configured token the owner can add the same currency of the same issuer in
  lower case, with another multiplier.
\<close>

lemma currency_case_evades_duplicate_check:
  assumes "CONFIG st = Some c" and "sender info = owner c" and "version c \<noteq> - 1"
    and "length (xrpl_tokens c) < MAX_XRPL_TOKENS" and "t \<in> set (xrpl_tokens c)" and "validate_xrpl_token h t = Inr ()"
    and "(issuer t, to_lowercase (currency t)) \<notin> set (map token_key (xrpl_tokens c))"
    and "decimal_parse h m = Some v" and "1 / 10 \<le> v" and "v \<le> 10"
  shows "\<exists>st' r c'. execute h st info (AddXrplTokens [t\<lparr>currency := to_lowercase (currency t), multiplier := m\<rparr>]) = Inr (st', r) \<and>
    CONFIG st' = Some c' \<and> t \<in> set (xrpl_tokens c') \<and>
    t\<lparr>currency := to_lowercase (currency t), multiplier := m\<rparr> \<in> set (xrpl_tokens c')"
  using assms validate_lower_token [OF assms(6,8-10)]
  by (auto simp: add_xrpl_tokens_def load_config_def bump_version_def token_key_def)

end
