(* ===== verification/Ripple_Data.thy ===== *)
theory Ripple_Data
  imports Go_Std
begin

text \<open>
  What the relayer uses of \<open>rubblelabs/ripple/data\<close>. Accounts and currencies are arrays of
  bytes; values of amounts (\<open>'v\<close>) and the node effects of transaction metadata (\<open>'n\<close>) are left
  open. The functions of that package are the fields of the record \<open>ripple\<close>, an argument
  of the definitions that call them. \<open>Transaction\<close> is the relayer's own struct (\<open>model.go\<close>).
\<close>

type_synonym account = "8 word list"
type_synonym rcurrency = "8 word list"

text \<open>\<open>Amount\<close> embeds a pointer to its value; \<open>None\<close> is nil.\<close>

record 'v amt =
  Value :: "'v option"
  Currency :: rcurrency
  Issuer :: account

record 'v balance =
  CounterParty :: account
  Balance :: 'v
  Change :: 'v
  bal_Currency :: rcurrency

record ('v, 'n) ripple =
  value_IsNative :: "'v \<Rightarrow> bool"
  value_Rat :: "'v \<Rightarrow> rat"
  value_Add :: "'v \<Rightarrow> 'v \<Rightarrow> go_error + 'v"
  value_Compare :: "'v \<Rightarrow> 'v \<Rightarrow> int"
  NewNativeValue :: "int \<Rightarrow> go_error + 'v"
  account_String :: "account \<Rightarrow> string"
  account_Equals :: "account \<Rightarrow> account \<Rightarrow> bool"
  currency_String :: "rcurrency \<Rightarrow> string"
  currency_Equals :: "rcurrency \<Rightarrow> rcurrency \<Rightarrow> bool"
  Balances :: "'n \<Rightarrow> go_error + (account \<Rightarrow> 'v balance list option)"
  NewAccountFromAddress :: "string \<Rightarrow> go_error + account"
  NewCurrency :: "string \<Rightarrow> go_error + rcurrency"

text \<open>\<open>IsNative\<close> and \<open>Rat\<close> of an amount go through the embedded pointer.\<close>

definition nil_deref :: "'a go" where
  "nil_deref = Panic ''invalid memory address or nil pointer dereference''"

definition IsNative :: "('v, 'n) ripple \<Rightarrow> 'v amt \<Rightarrow> bool go" where
  "IsNative R a = (case Value a of None \<Rightarrow> nil_deref | Some v \<Rightarrow> Ok (value_IsNative R v))"

definition amount_Rat :: "('v, 'n) ripple \<Rightarrow> 'v amt \<Rightarrow> rat go" where
  "amount_Rat R a = (case Value a of None \<Rightarrow> nil_deref | Some v \<Rightarrow> Ok (value_Rat R v))"

text \<open>Instants are nanoseconds since the Unix epoch; a duration is a 64-bit number of them.\<close>

type_synonym instant = int

definition int64 :: "int \<Rightarrow> int" where
  "int64 x = (x + 2 ^ 63) mod 2 ^ 64 - 2 ^ 63"

definition time_Second :: int where
  "time_Second = 1000000000"

text \<open>\<open>time.Unix\<close> keeps the seconds since the year 1 in 64 bits.\<close>

definition time_Unix :: "int \<Rightarrow> instant" where
  "time_Unix s = (int64 (s + 62135596800) - 62135596800) * time_Second"

lemma int64_id: "- (2 ^ 63) \<le> x \<Longrightarrow> x < 2 ^ 63 \<Longrightarrow> int64 x = x"
  by (simp add: int64_def)

section \<open>The transaction model\<close>

definition TransactionTypePayment :: string where
  "TransactionTypePayment = ''Payment''"

definition TransactionResultSuccess :: string where
  "TransactionResultSuccess = ''tesSUCCESS''"

record ('v, 'n) Transaction =
  Account :: string
  Destination :: string
  DeliveryAmount :: "'v amt"
  Memos :: "string list"
  Hash :: string
  TransactionType :: string
  TransactionResult :: string
  LedgerIndex :: int
  Sequence :: int
  Date :: instant
  Validated :: bool
  AffectedNodes :: 'n

end
