(* ===== verification/XRPL_RPC.thy ===== *)
theory XRPL_RPC
  imports Ripple_Data
begin

text \<open>
  The XRPL RPC client (\<open>relayer/client/xrpl/rpc.go\<close>). HTTP, JSON decoding and the context are
  the fields of the record \<open>http_env\<close>: the outcome of the n-th call the client makes, the
  decoders of the response body, and whether the context is done when a transaction is sent to
  the channel. An operation takes the number of its next call. Logging is left out.
  Ledger indexes are JSON numbers far from the ends of their 64 bits, so they are integers.
\<close>

section \<open>Transport objects\<close>

record page_marker =
  pm_Ledger :: int
  pm_Seq :: int

record account_tx_req =
  atr_Account :: string
  atr_Binary :: bool
  atr_Forward :: bool
  LedgerIndexMin :: int
  LedgerIndexMax :: int
  atr_Limit :: int
  atr_Marker :: "page_marker option"

record tx_req =
  txr_Hash :: string
  txr_Binary :: bool

record account_info_req =
  air_Account :: account
  air_SignerLists :: bool

datatype rpc_params =
    AccountTxReq account_tx_req
  | TxReq tx_req
  | AccountInfoRequest account_info_req
  | SubmitRequest string

record rpc_req =
  Method :: string
  Params :: "rpc_params list"

record rpc_err_result =
  rpc_Error :: string
  ErrorCode :: int
  ErrorMessage :: string

record ('v, 'n) meta_res =
  DeliveredAmount :: "'v amt"
  meta_TransactionResult :: string
  meta_AffectedNodes :: 'n

record memo_res =
  MemoData :: string
  MemoType :: string

record base_tx =
  bt_Account :: string
  bt_Destination :: string
  bt_Hash :: string
  bt_TransactionType :: string
  bt_Date :: int
  bt_Sequence :: int
  bt_Memos :: "memo_res list"

record ('v, 'n) tx_item =
  item_base :: base_tx
  item_LedgerIndex :: int
  item_Meta :: "('v, 'n) meta_res"
  item_Validated :: bool

record ('v, 'n) account_tx_res =
  Transactions :: "('v, 'n) tx_item list"
  res_Marker :: page_marker

record account_info_result =
  LedgerSequence :: uint32
  acc_Sequence :: "uint32 option"

record submit_result =
  EngineResult_Success :: bool
  EngineResultMessage :: string

record ('v, 'n) http_env =
  DoJSON :: "nat \<Rightarrow> string \<Rightarrow> rpc_req \<Rightarrow> go_error + string"
  decode_err :: "string \<Rightarrow> go_error + rpc_err_result"
  decode_account_tx :: "string \<Rightarrow> go_error + ('v, 'n) account_tx_res"
  decode_ledger_current :: "string \<Rightarrow> go_error + int"
  decode_tx :: "string \<Rightarrow> go_error + ('v, 'n) tx_item"
  decode_account_info :: "string \<Rightarrow> go_error + account_info_result"
  decode_submit :: "string \<Rightarrow> go_error + submit_result"
  ctx_Done :: "nat \<Rightarrow> nat \<Rightarrow> bool"
  ctx_Err :: go_error

record rpc_config =
  URL :: string
  PageLimit :: int
  WorkerPoolSize :: nat

definition DefaultRPCClientConfig :: "string \<Rightarrow> rpc_config" where
  "DefaultRPCClientConfig url = \<lparr>URL = url, PageLimit = 100, WorkerPoolSize = 20\<rparr>"

section \<open>Conversions\<close>

definition convertHexMemosToStrings :: "memo_res list \<Rightarrow> go_error + string list" where
  "convertHexMemosToStrings memos =
     (case go_mapM (\<lambda>m. hex_DecodeString (MemoData m)) memos of
        Ok ss \<Rightarrow> Inr ss
      | Err e \<Rightarrow> Inl (Wrap ''failed to decode xrpl memo'' e)
      | Panic p \<Rightarrow> Inl (Errorf p))"

text \<open>\<open>time.Date(2000, 1, 1)\<close> plus \<open>time.Duration(date) * time.Second\<close>, a 64-bit product.\<close>

definition convertXRPLDateToTime :: "int \<Rightarrow> instant" where
  "convertXRPLDateToTime date = 946684800 * time_Second + int64 (date * time_Second)"

definition convertTxInfoToTransaction ::
  "base_tx \<Rightarrow> ('v, 'n) meta_res \<Rightarrow> int \<Rightarrow> bool \<Rightarrow> go_error + (('v, 'n) Transaction \<times> bool)" where
  "convertTxInfoToTransaction txn meta ledgerIndex validated =
     res_bind (convertHexMemosToStrings (bt_Memos txn)) (\<lambda>memos.
       Inr (\<lparr>Account = bt_Account txn, Destination = bt_Destination txn,
             DeliveryAmount = DeliveredAmount meta, Memos = memos, Hash = bt_Hash txn,
             TransactionType = bt_TransactionType txn,
             TransactionResult = meta_TransactionResult meta, LedgerIndex = ledgerIndex,
             Sequence = bt_Sequence txn, Date = convertXRPLDateToTime (bt_Date txn),
             Validated = validated, AffectedNodes = meta_AffectedNodes meta\<rparr>, True))"

section \<open>The client\<close>

definition callRPC ::
  "('v, 'n) http_env \<Rightarrow> rpc_config \<Rightarrow> nat \<Rightarrow> rpc_req \<Rightarrow> (string \<Rightarrow> go_error + 'r) \<Rightarrow> go_error + 'r" where
  "callRPC E cfg n req decode =
     res_wrap ''failed to call xrpl RPC''
       (res_bind (DoJSON E n (URL cfg) req) (\<lambda>bytes.
        res_bind (res_wrap (''failed to decode http result to error result, raw http result:'' @ bytes)
            (decode_err E bytes)) (\<lambda>e.
          if ErrorCode e \<noteq> 0 then
            Inl (Errorf (''failed to call xrpl RPC, error:'' @ rpc_Error e @ '', error code:'' @
              dec_of_int (ErrorCode e) @ '', error message:'' @ ErrorMessage e))
          else res_wrap (''failed to decode http result to expected struct, raw http result:'' @ bytes)
            (decode bytes))))"

text \<open>The request of a page: non-positive bounds mean the earliest and the latest ledger.\<close>

definition account_tx_request ::
  "('v, 'n) ripple \<Rightarrow> rpc_config \<Rightarrow> account \<Rightarrow> int \<Rightarrow> int \<Rightarrow> page_marker option \<Rightarrow> rpc_req" where
  "account_tx_request R cfg acc startLedger endLedger marker =
     \<lparr>Method = ''account_tx'',
      Params = [AccountTxReq \<lparr>atr_Account = account_String R acc, atr_Binary = False, atr_Forward = True,
        LedgerIndexMin = startLedger, LedgerIndexMax = endLedger, atr_Limit = PageLimit cfg,
        atr_Marker = marker\<rparr>]\<rparr>"

text \<open>
  The loop over the items of a page: the index of the last item seen, the error it stopped with,
  if any, and what was sent to the channel. On a done context the index returned is 0.
\<close>

fun send_items ::
  "('v, 'n) http_env \<Rightarrow> nat \<Rightarrow> nat \<Rightarrow> int \<Rightarrow> ('v, 'n) tx_item list \<Rightarrow>
   int \<times> go_error option \<times> ('v, 'n) Transaction list" where
  "send_items E n j latestIndex [] = (latestIndex - 1, None, [])"
| "send_items E n j latestIndex (item # items) =
     (case convertTxInfoToTransaction (item_base item) (item_Meta item) (item_LedgerIndex item)
        (item_Validated item) of
        Inl e \<Rightarrow> (item_LedgerIndex item - 1, Some e, [])
      | Inr (txn, ok) \<Rightarrow>
          if \<not> ok then send_items E n (Suc j) (item_LedgerIndex item) items
          else if ctx_Done E n j then (0, Some (ctx_Err E), [])
          else
            (let (l, e, out) = send_items E n (Suc j) (item_LedgerIndex item) items in (l, e, txn # out)))"

definition GetAccountTransactions ::
  "('v, 'n) ripple \<Rightarrow> ('v, 'n) http_env \<Rightarrow> rpc_config \<Rightarrow> nat \<Rightarrow> account \<Rightarrow> int \<Rightarrow> int \<Rightarrow> page_marker option \<Rightarrow>
   int \<times> (go_error + page_marker) \<times> ('v, 'n) Transaction list" where
  "GetAccountTransactions R E cfg n acc startLedger0 endLedger0 marker =
     (let endLedger = (if endLedger0 \<le> 0 then - 1 else endLedger0);
          startLedger = (if startLedger0 \<le> 0 then - 1 else startLedger0)
      in case callRPC E cfg n (account_tx_request R cfg acc startLedger endLedger marker)
            (decode_account_tx E) of
           Inl e \<Rightarrow> (startLedger - 1, Inl (Wrap ''failed to call `account_tx` method'' e), [])
         | Inr res \<Rightarrow>
             (case send_items E n 0 startLedger (Transactions res) of
                (l, Some e, out) \<Rightarrow> (l, Inl e, out)
              | (l, None, out) \<Rightarrow> (l, Inr (res_Marker res), out)))"

text \<open>The paging loop; \<open>None\<close> is a loop that does not end. It returns the number of its next call.\<close>

partial_function (option) subscribe_loop ::
  "('v, 'n) ripple \<Rightarrow> ('v, 'n) http_env \<Rightarrow> rpc_config \<Rightarrow> account \<Rightarrow> int \<Rightarrow> int \<Rightarrow>
   nat \<Rightarrow> page_marker option \<Rightarrow> int \<Rightarrow> ('v, 'n) Transaction list \<Rightarrow>
   (int \<times> go_error option \<times> ('v, 'n) Transaction list \<times> nat) option" where
  [code]: "subscribe_loop R E cfg acc startLedger endLedger n marker maxLatestIndex sent =
     (case GetAccountTransactions R E cfg n acc startLedger endLedger marker of
        (latestIndex, r, out) \<Rightarrow>
          (let m = (if latestIndex > maxLatestIndex then latestIndex else maxLatestIndex) in
           case r of
             Inl e \<Rightarrow> Some (m, Some e, sent @ out, Suc n)
           | Inr next \<Rightarrow>
               if pm_Seq next = 0 \<and> pm_Ledger next = 0 then Some (m, None, sent @ out, Suc n)
               else subscribe_loop R E cfg acc startLedger endLedger (Suc n) (Some next) m (sent @ out)))"

definition SubscribeAccountTransactions ::
  "('v, 'n) ripple \<Rightarrow> ('v, 'n) http_env \<Rightarrow> rpc_config \<Rightarrow> nat \<Rightarrow> account \<Rightarrow> int \<Rightarrow> int \<Rightarrow>
   (int \<times> go_error option \<times> ('v, 'n) Transaction list \<times> nat) option" where
  "SubscribeAccountTransactions R E cfg n acc startLedger endLedger =
     subscribe_loop R E cfg acc startLedger endLedger n None 0 []"

definition GetCurrentLedger :: "('v, 'n) http_env \<Rightarrow> rpc_config \<Rightarrow> nat \<Rightarrow> go_error + int" where
  "GetCurrentLedger E cfg n =
     res_wrap ''failed to call `ledger_current` method''
       (callRPC E cfg n \<lparr>Method = ''ledger_current'', Params = []\<rparr> (decode_ledger_current E))"

definition GetTransaction ::
  "('v, 'n) http_env \<Rightarrow> rpc_config \<Rightarrow> nat \<Rightarrow> string \<Rightarrow> go_error + (('v, 'n) Transaction \<times> bool)" where
  "GetTransaction E cfg n h =
     res_bind (res_wrap ''failed to call `tx` method''
       (callRPC E cfg n \<lparr>Method = ''tx'', Params = [TxReq \<lparr>txr_Hash = ToUpper h, txr_Binary = False\<rparr>]\<rparr>
         (decode_tx E)))
     (\<lambda>r. convertTxInfoToTransaction (item_base r) (item_Meta r) (item_LedgerIndex r) (item_Validated r))"

text \<open>
  \<open>GetTransactions\<close> submits one task per hash to a worker pool. A task that sees an earlier
  error does nothing; one that fails sets the error, also over the error of another task. \<open>order\<close> is the
  order in which the tasks ended: each with its call number, its hash, and whether it looked for an error
  before the tasks that ended before it had set one.
\<close>

fun run_fetches ::
  "('v, 'n) http_env \<Rightarrow> rpc_config \<Rightarrow> (nat \<times> string \<times> bool) list \<Rightarrow> go_error option \<Rightarrow>
   (string \<rightharpoonup> ('v, 'n) Transaction) \<Rightarrow> go_error option \<times> (string \<rightharpoonup> ('v, 'n) Transaction)" where
  "run_fetches E cfg [] fetchErr txs = (fetchErr, txs)"
| "run_fetches E cfg ((n, h, early) # rest) fetchErr txs =
     (if fetchErr \<noteq> None \<and> \<not> early then run_fetches E cfg rest fetchErr txs
      else (case GetTransaction E cfg n h of
              Inl e \<Rightarrow> run_fetches E cfg rest (Some e) txs
            | Inr (txn, ok) \<Rightarrow> run_fetches E cfg rest fetchErr (txs(h \<mapsto> txn))))"

definition GetTransactions ::
  "('v, 'n) http_env \<Rightarrow> rpc_config \<Rightarrow> (nat \<times> string \<times> bool) list \<Rightarrow> go_error + (string \<rightharpoonup> ('v, 'n) Transaction)" where
  "GetTransactions E cfg order =
     (case run_fetches E cfg order None Map.empty of
        (Some e, _) \<Rightarrow> Inl e
      | (None, txs) \<Rightarrow> Inr txs)"

definition AccountInfo ::
  "('v, 'n) http_env \<Rightarrow> rpc_config \<Rightarrow> nat \<Rightarrow> account \<Rightarrow> go_error + account_info_result" where
  "AccountInfo E cfg n acc =
     callRPC E cfg n \<lparr>Method = ''account_info'',
       Params = [AccountInfoRequest \<lparr>air_Account = acc, air_SignerLists = True\<rparr>]\<rparr> (decode_account_info E)"

definition DefaultXRPLBaseFee :: uint32 where
  "DefaultXRPLBaseFee = 10"

text \<open>The fee is computed in 32 bits before it is widened.\<close>

definition calculateFee :: "('v, 'n) ripple \<Rightarrow> uint32 \<Rightarrow> uint32 \<Rightarrow> go_error + 'v" where
  "calculateFee R txSignatureCount baseFee =
     (if txSignatureCount = 0 then Inl (Errorf ''tx signature count must be greater than 0'')
      else if txSignatureCount = 1 then NewNativeValue R (uint baseFee)
      else NewNativeValue R (uint (baseFee * (1 + txSignatureCount))))"

record 'v tx_base =
  base_Fee :: 'v
  base_Account :: account
  base_Sequence :: uint32

definition AutoFillTx ::
  "('v, 'n) ripple \<Rightarrow> ('v, 'n) http_env \<Rightarrow> rpc_config \<Rightarrow> nat \<Rightarrow> 'v tx_base \<Rightarrow> account \<Rightarrow> uint32 \<Rightarrow> 'v tx_base go" where
  "AutoFillTx R E cfg n base acc txSignatureCount =
     (case AccountInfo E cfg n acc of
        Inl e \<Rightarrow> Err e
      | Inr accInfo \<Rightarrow>
          (case calculateFee R txSignatureCount DefaultXRPLBaseFee of
             Inl e \<Rightarrow> Err e
           | Inr fee \<Rightarrow>
               (case acc_Sequence accInfo of
                  None \<Rightarrow> nil_deref
                | Some s \<Rightarrow> Ok (base\<lparr>base_Fee := fee, base_Account := acc, base_Sequence := s\<rparr>))))"

text \<open>\<open>Submit\<close> takes the result of \<open>rippledata.Raw\<close>, the raw bytes printed as upper-case hex.\<close>

definition Submit ::
  "('v, 'n) http_env \<Rightarrow> rpc_config \<Rightarrow> nat \<Rightarrow> go_error + string \<Rightarrow> go_error + submit_result" where
  "Submit E cfg n raw =
     res_bind (res_wrap ''failed to convert transaction to raw data'' raw) (\<lambda>bytes.
       callRPC E cfg n \<lparr>Method = ''submit'', Params = [SubmitRequest (ToUpper (hex_EncodeToString bytes))]\<rparr>
         (decode_submit E))"

text \<open>One attempt of the wait for validation; the state is the number of the next call.\<close>

definition await_attempt :: "('v, 'n) http_env \<Rightarrow> rpc_config \<Rightarrow> string \<Rightarrow> nat \<Rightarrow> (nat \<times> attempt) option" where
  "await_attempt E cfg h n =
     Some (Suc n, case GetTransaction E cfg n h of
        Inl e \<Rightarrow> Retryable e
      | Inr (txn, ok) \<Rightarrow>
          if \<not> ok then Retryable (Errorf ''transaction is not valid'')
          else if \<not> Validated txn then Retryable (Errorf ''transaction is not validated'')
          else Done)"

inductive SubmitAndAwaitSuccess ::
  "('v, 'n) http_env \<Rightarrow> rpc_config \<Rightarrow> nat \<Rightarrow> go_error + string \<Rightarrow> string \<Rightarrow> go_error option \<Rightarrow> bool"
  for E :: "('v, 'n) http_env" and cfg :: rpc_config where
  submit_error: "Submit E cfg n raw = Inl e \<Longrightarrow> SubmitAndAwaitSuccess E cfg n raw h (Some e)"
| submit_failed: "Submit E cfg n raw = Inr res \<Longrightarrow> \<not> EngineResult_Success res \<Longrightarrow>
    SubmitAndAwaitSuccess E cfg n raw h
      (Some (Errorf (''the tx submition is failed, '' @ EngineResultMessage res)))"
| submit_awaited: "Submit E cfg n raw = Inr res \<Longrightarrow> EngineResult_Success res \<Longrightarrow>
    retry_Do (await_attempt E cfg h) (Suc n) n' r \<Longrightarrow> SubmitAndAwaitSuccess E cfg n raw h r"
| submit_timeout: "Submit E cfg n raw = Inr res \<Longrightarrow> EngineResult_Success res \<Longrightarrow>
    attempts (await_attempt E cfg h) (Suc n) n' \<Longrightarrow>
    SubmitAndAwaitSuccess E cfg n raw h (Some (Sentinel ''context deadline exceeded''))"

end
