(* ===== verification/XRPL_Pages.thy ===== *)
theory XRPL_Pages
  imports XRPL_RPC
begin

text \<open>
  Paging of account transactions: what \<open>SubscribeAccountTransactions\<close> has sent to the channel
  when it returns, with or without an error. The server is described by the documented
  behaviour of \<open>account_tx\<close> with \<open>forward\<close> set (predicate \<open>serves\<close>): at the n-th call it knows a history
  of the account in ascending ledger order that only grows at its end; a successful call
  answers a contiguous part of the requested range that starts where the marker points, and
  the marker of the answer is empty only at the end of the range. Any call may fail.
\<close>

section \<open>The server\<close>

definition in_range :: "int \<Rightarrow> int \<Rightarrow> ('v, 'n) tx_item \<Rightarrow> bool" where
  "in_range s f x \<longleftrightarrow> (s \<le> 0 \<or> s \<le> item_LedgerIndex x) \<and> (f \<le> 0 \<or> item_LedgerIndex x \<le> f)"

definition no_marker :: page_marker where
  "no_marker = \<lparr>pm_Ledger = 0, pm_Seq = 0\<rparr>"

type_synonym ('v, 'n) history = "nat \<Rightarrow> ('v, 'n) tx_item list"
type_synonym marker_pos = "int \<Rightarrow> int \<Rightarrow> page_marker option \<Rightarrow> nat"

definition ascending_history :: "('v, 'n) history \<Rightarrow> bool" where
  "ascending_history H \<longleftrightarrow>
     (\<forall>n. sorted (map item_LedgerIndex (H n)) \<and> (\<forall>x \<in> set (H n). 1 \<le> item_LedgerIndex x) \<and>
        prefix (H n) (H (Suc n)))"

definition answers_page :: "marker_pos \<Rightarrow> int \<Rightarrow> int \<Rightarrow> ('v, 'n) tx_item list \<Rightarrow> nat \<Rightarrow> ('v, 'n) account_tx_res \<Rightarrow> bool" where
  "answers_page pos s f L p res \<longleftrightarrow>
     (\<exists>k. Transactions res = take k (drop p L) \<and>
        (if res_Marker res = no_marker then length L \<le> p + k
         else 0 < k \<and> p + k \<le> length L \<and> pos s f (Some (res_Marker res)) = p + k))"

definition serves ::
  "('v, 'n) ripple \<Rightarrow> ('v, 'n) http_env \<Rightarrow> rpc_config \<Rightarrow> account \<Rightarrow> ('v, 'n) history \<Rightarrow> marker_pos \<Rightarrow> bool" where
  "serves R E cfg acc H pos \<longleftrightarrow> ascending_history H \<and>
     (\<forall>s f. pos s f None = 0) \<and>
     (\<forall>n s f m res. callRPC E cfg n (account_tx_request R cfg acc s f m) (decode_account_tx E) = Inr res \<longrightarrow>
        answers_page pos s f (filter (in_range s f) (H n)) (pos s f m) res)"

definition converts :: "('v, 'n) tx_item \<Rightarrow> ('v, 'n) Transaction \<Rightarrow> bool" where
  "converts x t \<longleftrightarrow> convertTxInfoToTransaction (item_base x) (item_Meta x) (item_LedgerIndex x)
     (item_Validated x) = Inr (t, True)"

definition norm_bound :: "int \<Rightarrow> int" where
  "norm_bound b = (if b \<le> 0 then - 1 else b)"

lemma in_range_norm [simp]: "in_range (norm_bound s) (norm_bound f) = in_range s f"
  by (auto simp: in_range_def norm_bound_def fun_eq_iff)

section \<open>Histories\<close>

lemma history_prefix:
  assumes "ascending_history H" and "n \<le> m"
  shows "prefix (H n) (H m)"
  using assms(2)
proof (induction rule: dec_induct)
  case (step k)
  then show ?case
    using assms(1) by (meson ascending_history_def prefix_order.trans)
qed simp

lemma filtered_prefix:
  assumes "ascending_history H" and "n \<le> m"
  obtains new where "filter P (H m) = filter P (H n) @ new"
  using history_prefix [OF assms] by (auto simp: prefix_def)

lemma filtered_sorted:
  "ascending_history H \<Longrightarrow> sorted (map item_LedgerIndex (filter P (H n)))"
  by (simp add: ascending_history_def sorted_filter)

lemma filtered_positive:
  "ascending_history H \<Longrightarrow> x \<in> set (filter P (H n)) \<Longrightarrow> 1 \<le> item_LedgerIndex x"
  by (auto simp: ascending_history_def)

lemma sorted_drop_ge:
  assumes "sorted (map g L)" and "i < length L" and "x \<in> set (drop i L)"
  shows "g (L ! i) \<le> g x"
proof -
  from assms(3) obtain j where "x = drop i L ! j" and "j < length (drop i L)"
    by (metis in_set_conv_nth)
  then have "x = L ! (i + j)" and "i + j < length L"
    using assms(2) by auto
  then show ?thesis
    using sorted_nth_mono [OF assms(1), of i "i + j"] by simp
qed

text \<open>Items after position \<open>i\<close> of the range, now and later, are not below the item at \<open>i\<close>.\<close>

lemma later_items_ge:
  assumes "ascending_history H" and "n \<le> m" and "i < length (filter P (H n))" and "i \<le> j"
    and "x \<in> set (drop j (filter P (H m)))"
  shows "item_LedgerIndex (filter P (H n) ! i) \<le> item_LedgerIndex x"
proof -
  obtain new where L: "filter P (H m) = filter P (H n) @ new"
    using filtered_prefix [OF assms(1,2)] .
  have "x \<in> set (drop i (filter P (H m)))"
    by (rule subsetD [OF set_drop_subset_set_drop [OF assms(4)] assms(5)])
  then show ?thesis
    using sorted_drop_ge [OF filtered_sorted [OF assms(1)], of i P m x] L assms(3)
    by (simp add: nth_append)
qed

section \<open>One page\<close>

text \<open>
  After a page from position \<open>p\<close>: the first \<open>j\<close> items from \<open>p\<close> on are sent, and every other item
  from there on, now or later, lies above the returned index.
\<close>

lemma converts_cases:
  "convertTxInfoToTransaction (item_base x) (item_Meta x) (item_LedgerIndex x) (item_Validated x) = Inr (t, ok) \<Longrightarrow>
    ok \<and> converts x t"
  by (auto simp: converts_def convertTxInfoToTransaction_def res_bind_Inr)

lemma send_items_spec:
  assumes "send_items E n i l0 items = (l, e, out)"
  shows "\<exists>j \<le> length items. list_all2 converts (take j items) out \<and>
    (case e of
       None \<Rightarrow> j = length items \<and> l = (if items = [] then l0 else item_LedgerIndex (last items)) - 1
     | Some e \<Rightarrow> j < length items \<and> (l = 0 \<or> l = item_LedgerIndex (items ! j) - 1))"
  using assms
proof (induction E n i l0 items arbitrary: l e out rule: send_items.induct)
  case (1 E n i l0)
  then show ?case by simp
next
  case (2 E n i l0 x items)
  let ?conv = "convertTxInfoToTransaction (item_base x) (item_Meta x) (item_LedgerIndex x) (item_Validated x)"
  show ?case
  proof (cases ?conv)
    case (Inl err)
    then show ?thesis using "2.prems" by auto
  next
    case (Inr r)
    then obtain t where t: "?conv = Inr (t, True)" "converts x t"
      using converts_cases by (metis surj_pair)
    show ?thesis
    proof (cases "ctx_Done E n i")
      case True
      then show ?thesis using "2.prems" t by auto
    next
      case False
      obtain l' e' out' where rec: "send_items E n (Suc i) (item_LedgerIndex x) items = (l', e', out')"
        by (metis surj_pair)
      then have res: "l = l'" "e = e'" "out = t # out'"
        using "2.prems" t False by auto
      from "2.IH"(2) [OF t(1) refl _ False rec] obtain j where j: "j \<le> length items"
        "list_all2 converts (take j items) out'"
        "case e' of
           None \<Rightarrow> j = length items \<and> l' = (if items = [] then item_LedgerIndex x else item_LedgerIndex (last items)) - 1
         | Some e \<Rightarrow> j < length items \<and> (l' = 0 \<or> l' = item_LedgerIndex (items ! j) - 1)"
        by auto
      then show ?thesis
        using res t by (intro exI [of _ "Suc j"]) (auto split: option.splits)
    qed
  qed
qed

definition lies_above :: "('v, 'n) history \<Rightarrow> (('v, 'n) tx_item \<Rightarrow> bool) \<Rightarrow> nat \<Rightarrow> nat \<Rightarrow> int \<Rightarrow> bool" where
  "lies_above H P n p l \<longleftrightarrow> (\<forall>m \<ge> n. \<forall>x \<in> set (drop p (filter P (H m))). l < item_LedgerIndex x)"

lemma above_start:
  assumes "ascending_history H" and "P = in_range s f"
  shows "lies_above H P n p (norm_bound s - 1)"
  using filtered_positive [OF assms(1), of _ P] assms(2)
  by (fastforce simp: lies_above_def norm_bound_def in_range_def dest: in_set_dropD)

lemma above_zero: "ascending_history H \<Longrightarrow> lies_above H P n p 0"
  using filtered_positive [of H _ P] by (fastforce simp: lies_above_def dest: in_set_dropD)

lemma above_item:
  assumes "ascending_history H" and "i < length (filter P (H n))" and "i \<le> p"
  shows "lies_above H P n p (item_LedgerIndex (filter P (H n) ! i) - 1)"
  using later_items_ge [OF assms(1) _ assms(2,3)] by (force simp: lies_above_def)

lemma above_mono: "lies_above H P n p l \<Longrightarrow> n \<le> m \<Longrightarrow> l' \<le> l \<Longrightarrow> lies_above H P m p l'"
  unfolding lies_above_def by (meson le_less_trans order_trans)

text \<open>The returned index stays within the range, or at its start.\<close>

definition index_within :: "int \<Rightarrow> int \<Rightarrow> int \<Rightarrow> bool" where
  "index_within s f l \<longleftrightarrow> f \<le> 0 \<or> l \<le> max f (max 0 (s - 1))"

lemma within_simps [simp]: "index_within s f 0" "index_within s f (norm_bound s - 1)"
  by (auto simp: index_within_def norm_bound_def)

lemma within_item: "in_range s f x \<Longrightarrow> index_within s f (item_LedgerIndex x - 1)"
  by (auto simp: index_within_def in_range_def)

lemma GetAccountTransactions_norm:
  "GetAccountTransactions R E cfg n acc s f m =
     (case callRPC E cfg n (account_tx_request R cfg acc (norm_bound s) (norm_bound f) m) (decode_account_tx E) of
        Inl e \<Rightarrow> (norm_bound s - 1, Inl (Wrap ''failed to call `account_tx` method'' e), [])
      | Inr res \<Rightarrow> (case send_items E n 0 (norm_bound s) (Transactions res) of
           (l, Some e, out) \<Rightarrow> (l, Inl e, out)
         | (l, None, out) \<Rightarrow> (l, Inr (res_Marker res), out)))"
  by (simp only: GetAccountTransactions_def norm_bound_def Let_def)

lemma page_items_above:
  assumes H: "ascending_history H" and L: "L = filter (in_range s f) (H n)"
    and items: "items = take k (drop p L)" and si: "send_items E n 0 (norm_bound s) items = (l, e, out)"
  shows "\<exists>j. list_all2 converts (take j (drop p L)) out \<and> lies_above H (in_range s f) n (p + j) l \<and>
    (e = None \<longrightarrow> j = length items) \<and> index_within s f l \<and> j \<le> length (drop p L)"
proof -
  from send_items_spec [OF si] obtain j where j: "j \<le> length items" "list_all2 converts (take j items) out"
    "case e of
       None \<Rightarrow> j = length items \<and> l = (if items = [] then norm_bound s else item_LedgerIndex (last items)) - 1
     | Some e \<Rightarrow> j < length items \<and> (l = 0 \<or> l = item_LedgerIndex (items ! j) - 1)"
    by blast
  have "lies_above H (in_range s f) n (p + j) l"
  proof (cases e)
    case None
    show ?thesis
    proof (cases "items = []")
      case True
      then show ?thesis using j(3) None above_start [OF H refl] by simp
    next
      case False
      then have "last items = L ! (p + (j - 1))" and "p + (j - 1) < length L" and "j = length items"
        using j(3) None items by (auto simp: last_conv_nth min_def)
      then show ?thesis
        using above_item [OF H, of "p + (j - 1)" "in_range s f" n "p + j"] L j(3) None False by auto
    qed
  next
    case (Some err)
    then have "p + j < length L" "items ! j = L ! (p + j)"
      using j(3) items by auto
    then show ?thesis
      using above_item [OF H, of "p + j" "in_range s f" n "p + j"] above_zero [OF H] L j(3) Some by auto
  qed
  moreover have "list_all2 converts (take j (drop p L)) out"
    using j(1,2) items by (simp add: min_absorb1)
  moreover have "e = None \<longrightarrow> j = length items" using j(3) by auto
  moreover have "\<forall>x \<in> set items. in_range s f x"
    using items L by (auto dest!: in_set_takeD in_set_dropD)
  then have "index_within s f l"
    using j(3) by (auto split: option.splits if_splits intro!: within_item)
  moreover have "j \<le> length (drop p L)" using j(1) items by simp
  ultimately show ?thesis by blast
qed

text \<open>The position of the next page, or the end of the range.\<close>

definition next_pos :: "marker_pos \<Rightarrow> int \<Rightarrow> int \<Rightarrow> page_marker \<Rightarrow> nat \<Rightarrow> nat \<Rightarrow> nat \<Rightarrow> bool" where
  "next_pos pos s f next len p q \<longleftrightarrow>
     (if next = no_marker then len \<le> q
      else p < q \<and> q \<le> len \<and> pos (norm_bound s) (norm_bound f) (Some next) = q)"

lemma page_spec:
  assumes "serves R E cfg acc H pos" and "GetAccountTransactions R E cfg n acc s f m = (l, r, out)"
    and "p = pos (norm_bound s) (norm_bound f) m" and L: "L = filter (in_range s f) (H n)"
  shows "\<exists>j. list_all2 converts (take j (drop p L)) out \<and> lies_above H (in_range s f) n (p + j) l \<and>
    (\<forall>next. r = Inr next \<longrightarrow> next_pos pos s f next (length L) p (p + j)) \<and> index_within s f l \<and>
    j \<le> length (drop p L)"
proof (cases "callRPC E cfg n (account_tx_request R cfg acc (norm_bound s) (norm_bound f) m) (decode_account_tx E)")
  case (Inl e)
  then show ?thesis
    using assms(1,2) above_start [of H "in_range s f" s f n p]
    by (intro exI [of _ 0]) (auto simp: GetAccountTransactions_norm serves_def)
next
  case (Inr res)
  have H: "ascending_history H" using assms(1) by (simp add: serves_def)
  have "answers_page pos (norm_bound s) (norm_bound f) L p res"
    using assms(1,3) L Inr unfolding serves_def by (metis in_range_norm)
  then obtain k where k: "Transactions res = take k (drop p L)"
    "if res_Marker res = no_marker then length L \<le> p + k
     else 0 < k \<and> p + k \<le> length L \<and> pos (norm_bound s) (norm_bound f) (Some (res_Marker res)) = p + k"
    by (auto simp: answers_page_def)
  obtain l1 e1 out1 where si: "send_items E n 0 (norm_bound s) (Transactions res) = (l1, e1, out1)"
    by (metis surj_pair)
  have res: "l = l1" "out = out1" "r = (case e1 of None \<Rightarrow> Inr (res_Marker res) | Some e \<Rightarrow> Inl e)"
    using Inr si assms(2) by (auto simp: GetAccountTransactions_norm split: option.splits)
  from page_items_above [OF H L k(1) si] obtain j where j: "list_all2 converts (take j (drop p L)) out1"
    "lies_above H (in_range s f) n (p + j) l1" "e1 = None \<longrightarrow> j = length (Transactions res)"
    "index_within s f l1" "j \<le> length (drop p L)"
    by blast
  have "next_pos pos s f next (length L) p (p + j)" if "r = Inr next" for "next"
    using that res(3) j(3) k by (auto simp: next_pos_def split: option.splits if_splits)
  then show ?thesis using j(1,2,4,5) res(1,2) by blast
qed

section \<open>The whole subscription\<close>

text \<open>
  The loop keeps: what was sent are the first \<open>p\<close> items of the range, where \<open>p\<close> is the position
  of the marker, and all other items lie above the highest index seen.
\<close>

definition loop_inv ::
  "('v, 'n) history \<Rightarrow> marker_pos \<Rightarrow> int \<Rightarrow> int \<Rightarrow> nat \<Rightarrow> page_marker option \<Rightarrow> int \<Rightarrow> ('v, 'n) Transaction list \<Rightarrow> bool" where
  "loop_inv H pos s f n m l sent \<longleftrightarrow>
     (let p = pos (norm_bound s) (norm_bound f) m in
      p \<le> length (filter (in_range s f) (H n)) \<and>
      list_all2 converts (take p (filter (in_range s f) (H n))) sent \<and> lies_above H (in_range s f) n p l \<and>
      index_within s f l)"

definition loop_result ::
  "('v, 'n) history \<Rightarrow> int \<Rightarrow> int \<Rightarrow> nat \<Rightarrow> int \<Rightarrow> go_error option \<Rightarrow> ('v, 'n) Transaction list \<Rightarrow> nat \<Rightarrow> bool" where
  "loop_result H s f n l e out n' \<longleftrightarrow> n < n' \<and> index_within s f l \<and>
     (\<exists>p \<le> length (filter (in_range s f) (H (n' - 1))).
        list_all2 converts (take p (filter (in_range s f) (H (n' - 1)))) out \<and>
        lies_above H (in_range s f) (n' - 1) p l \<and>
        (e = None \<longrightarrow> length (filter (in_range s f) (H (n' - 1))) \<le> p))"

lemma lies_above_max:
  "lies_above H P n p l \<Longrightarrow> lies_above H P n p l' \<Longrightarrow> lies_above H P n p (if l' > l then l' else l)"
  by simp

lemma lies_above_drop: "lies_above H P n p l \<Longrightarrow> lies_above H P n (p + j) l"
  unfolding lies_above_def by (meson le_add1 set_drop_subset_set_drop subsetD)

lemma loop_step:
  assumes S: "serves R E cfg acc H pos" and I: "loop_inv H pos s f n m l sent"
    and G: "GetAccountTransactions R E cfg n acc s f m = (l1, r, out)"
    and l2: "l2 = (if l1 > l then l1 else l)"
  shows "r = Inl e \<Longrightarrow> loop_result H s f n l2 (Some e) (sent @ out) (Suc n)"
    and "r = Inr next \<Longrightarrow> next = no_marker \<Longrightarrow> loop_result H s f n l2 None (sent @ out) (Suc n)"
    and "r = Inr next \<Longrightarrow> next \<noteq> no_marker \<Longrightarrow> loop_inv H pos s f (Suc n) (Some next) l2 (sent @ out) \<and>
      pos (norm_bound s) (norm_bound f) m < pos (norm_bound s) (norm_bound f) (Some next)"
proof -
  define P p L where "P = in_range s f" and "p = pos (norm_bound s) (norm_bound f) m"
    and "L = filter P (H n)"
  have H: "ascending_history H" using S by (simp add: serves_def)
  from page_spec [OF S G p_def L_def [unfolded P_def]] obtain j where
    j: "list_all2 converts (take j (drop p L)) out" "lies_above H P n (p + j) l1"
    "\<And>next. r = Inr next \<Longrightarrow> next_pos pos s f next (length L) p (p + j)" "index_within s f l1"
    "j \<le> length (drop p L)"
    unfolding P_def by blast
  have le: "p + j \<le> length L"
    using I j(5) by (auto simp: loop_inv_def Let_def p_def L_def P_def)
  have l2_within: "index_within s f l2"
    using I j(4) l2 by (simp add: loop_inv_def Let_def)
  have sent: "list_all2 converts (take (p + j) L) (sent @ out)"
    using I j(1) unfolding loop_inv_def Let_def take_add
    by (fold P_def p_def, fold L_def) (auto intro: list_all2_appendI)
  have above: "lies_above H P n (p + j) l2"
    using I j(2) lies_above_drop l2 unfolding loop_inv_def Let_def P_def p_def
    by (auto intro: lies_above_max)
  show "r = Inl e \<Longrightarrow> loop_result H s f n l2 (Some e) (sent @ out) (Suc n)"
    using sent above l2_within le by (auto simp: loop_result_def P_def L_def)
  show "r = Inr next \<Longrightarrow> next = no_marker \<Longrightarrow> loop_result H s f n l2 None (sent @ out) (Suc n)"
    using sent above j(3) l2_within le unfolding loop_result_def P_def L_def next_pos_def
    by (intro conjI exI [of _ "p + j"]) auto
  assume "r = Inr next" "next \<noteq> no_marker"
  then have q: "p < p + j" "p + j \<le> length L" "pos (norm_bound s) (norm_bound f) (Some next) = p + j"
    using j(3) by (auto simp: next_pos_def)
  obtain new where "filter P (H (Suc n)) = L @ new"
    using filtered_prefix [OF H, of n "Suc n" P] L_def by auto
  then show "loop_inv H pos s f (Suc n) (Some next) l2 (sent @ out) \<and>
      pos (norm_bound s) (norm_bound f) m < pos (norm_bound s) (norm_bound f) (Some next)"
    using q sent above_mono [OF above, of "Suc n" l2] above l2_within
    by (auto simp: loop_inv_def Let_def P_def p_def)
qed

lemma loop_result_later: "loop_result H s f (Suc n) l e out n' \<Longrightarrow> loop_result H s f n l e out n'"
  by (auto simp: loop_result_def)

lemma no_marker_iff: "pm_Seq next = 0 \<and> pm_Ledger next = 0 \<longleftrightarrow> next = no_marker"
  by (cases "next") (auto simp: no_marker_def)

definition loop_sound ::
  "('v, 'n) history \<Rightarrow> marker_pos \<Rightarrow> ('v, 'n) ripple \<Rightarrow> ('v, 'n) http_env \<Rightarrow> rpc_config \<Rightarrow> account \<Rightarrow> int \<Rightarrow> int \<Rightarrow>
   nat \<Rightarrow> page_marker option \<Rightarrow> int \<Rightarrow> ('v, 'n) Transaction list \<Rightarrow>
   int \<times> go_error option \<times> ('v, 'n) Transaction list \<times> nat \<Rightarrow> bool" where
  "loop_sound H pos R E cfg acc s f n m l sent r \<longleftrightarrow>
     serves R E cfg acc H pos \<longrightarrow> loop_inv H pos s f n m l sent \<longrightarrow>
     (case r of (l', e, out, n') \<Rightarrow> loop_result H s f n l' e out n')"

lemma loop_sound_step:
  assumes IH: "\<And>R E cfg acc s f n m l sent r. loop R E cfg acc s f n m l sent = Some r \<Longrightarrow>
      loop_sound H pos R E cfg acc s f n m l sent r"
    and body: "(case GetAccountTransactions R E cfg n acc s f m of
        (l1, r1, out) \<Rightarrow>
          (let l2 = (if l1 > l then l1 else l) in
           case r1 of
             Inl e \<Rightarrow> Some (l2, Some e, sent @ out, Suc n)
           | Inr next \<Rightarrow>
               if pm_Seq next = 0 \<and> pm_Ledger next = 0 then Some (l2, None, sent @ out, Suc n)
               else loop R E cfg acc s f (Suc n) (Some next) l2 (sent @ out))) = Some r"
  shows "loop_sound H pos R E cfg acc s f n m l sent r"
  unfolding loop_sound_def
proof (intro impI)
  assume S: "serves R E cfg acc H pos" and I: "loop_inv H pos s f n m l sent"
  obtain l1 r1 out where G: "GetAccountTransactions R E cfg n acc s f m = (l1, r1, out)"
    by (metis surj_pair)
  note step = loop_step [OF S I G refl]
  show "case r of (l', e, out, n') \<Rightarrow> loop_result H s f n l' e out n'"
  proof (cases r1)
    case (Inl e)
    then show ?thesis using body G step(1) [OF Inl] by (auto simp: Let_def)
  next
    case (Inr nxt)
    show ?thesis
    proof (cases "nxt = no_marker")
      case True
      then show ?thesis using body G step(2) [OF Inr True] Inr
        by (auto simp: Let_def no_marker_def)
    next
      case False
      then have "loop R E cfg acc s f (Suc n) (Some nxt) (if l1 > l then l1 else l) (sent @ out) = Some r"
        using body G Inr by (simp add: Let_def no_marker_iff del: de_Morgan_conj)
      from IH [OF this] S step(3) [OF Inr False] show ?thesis
        by (auto simp: loop_sound_def intro: loop_result_later split: prod.splits)
    qed
  qed
qed

lemma subscribe_loop_sound:
  assumes "subscribe_loop R E cfg acc s f n m l sent = Some r"
  shows "loop_sound H pos R E cfg acc s f n m l sent r"
  by (rule subscribe_loop.raw_induct [where P = "loop_sound H pos", OF loop_sound_step assms])

lemma subscribe_result:
  assumes "serves R E cfg acc H pos" and "SubscribeAccountTransactions R E cfg n acc s f = Some (l, e, out, n')"
  shows "loop_result H s f n l e out n'"
proof -
  have "loop_inv H pos s f n None 0 []"
    using assms(1) above_zero [of H "in_range s f" n 0] by (simp add: loop_inv_def Let_def serves_def)
  then show ?thesis
    using subscribe_loop_sound [of R E cfg acc s f n None 0 "[]" _ H pos] assms
    by (auto simp: SubscribeAccountTransactions_def loop_sound_def)
qed

text \<open>The loop ends when the range holds a bounded number of transactions.\<close>

lemma subscribe_loop_returns:
  assumes "serves R E cfg acc H pos" and "loop_inv H pos s f n m l sent"
    and "\<And>k. length (filter (in_range s f) (H k)) \<le> B"
  shows "\<exists>y. subscribe_loop R E cfg acc s f n m l sent = Some y"
  using assms(2)
proof (induction "Suc B - pos (norm_bound s) (norm_bound f) m" arbitrary: n m l sent rule: less_induct)
  case less
  obtain l1 r out where G: "GetAccountTransactions R E cfg n acc s f m = (l1, r, out)"
    by (metis surj_pair)
  note step = loop_step [OF assms(1) less.prems G refl]
  show ?case
  proof (cases r)
    case (Inl e)
    then show ?thesis using G by (subst subscribe_loop.simps) (simp add: Let_def)
  next
    case (Inr nxt)
    show ?thesis
    proof (cases "nxt = no_marker")
      case True
      then show ?thesis using G Inr by (subst subscribe_loop.simps) (simp add: Let_def no_marker_def)
    next
      case False
      let ?l = "if l1 > l then l1 else l"
      from step(3) [OF Inr False] have inv: "loop_inv H pos s f (Suc n) (Some nxt) ?l (sent @ out)"
        and lt: "pos (norm_bound s) (norm_bound f) m < pos (norm_bound s) (norm_bound f) (Some nxt)"
        by auto
      have "pos (norm_bound s) (norm_bound f) m \<le> B"
        using less.prems assms(3) [of n] by (auto simp: loop_inv_def Let_def intro: order_trans)
      with lt have "Suc B - pos (norm_bound s) (norm_bound f) (Some nxt) < Suc B - pos (norm_bound s) (norm_bound f) m"
        by simp
      from less.hyps [OF this inv] show ?thesis
        using G Inr False by (subst subscribe_loop.simps) (simp add: Let_def no_marker_iff del: de_Morgan_conj)
    qed
  qed
qed

section \<open>What a returned subscription guarantees\<close>

definition delivered :: "('v, 'n) tx_item \<Rightarrow> ('v, 'n) Transaction list \<Rightarrow> bool" where
  "delivered x out \<longleftrightarrow> (\<exists>t \<in> set out. converts x t)"

lemma list_all2_delivered: "list_all2 converts xs out \<Longrightarrow> x \<in> set xs \<Longrightarrow> delivered x out"
  by (induction rule: list_all2_induct) (auto simp: delivered_def)

lemma list_all2_source: "list_all2 Q xs ys \<Longrightarrow> y \<in> set ys \<Longrightarrow> \<exists>x \<in> set xs. Q x y"
  by (induction rule: list_all2_induct) auto

lemma history_mono: "ascending_history H \<Longrightarrow> k \<le> m \<Longrightarrow> x \<in> set (H k) \<Longrightarrow> x \<in> set (H m)"
  using history_prefix set_mono_prefix by blast

lemma take_filter_later:
  assumes "ascending_history H" and "n \<le> m" and "p \<le> length (filter P (H n))"
  shows "take p (filter P (H m)) = take p (filter P (H n))"
proof -
  obtain new where "filter P (H m) = filter P (H n) @ new"
    using filtered_prefix [OF assms(1,2)] .
  then show ?thesis using assms(3) by simp
qed

lemma subscribe_covers:
  fixes H :: "('v, 'n) history"
  assumes S: "serves R E cfg acc H pos" and R: "SubscribeAccountTransactions R E cfg n acc s f = Some (l, e, out, n')"
    and x: "x \<in> set (H k)" "s \<le> 0 \<or> s \<le> item_LedgerIndex x" "item_LedgerIndex x \<le> l"
  shows "delivered x out"
proof -
  define P :: "('v, 'n) tx_item \<Rightarrow> bool" where "P = in_range s f"
  define m where "m = max k (n' - 1)"
  have H: "ascending_history H" using S by (simp add: serves_def)
  from subscribe_result [OF S R] obtain p where
    p: "list_all2 converts (take p (filter P (H (n' - 1)))) out"
      "lies_above H P (n' - 1) p l" "index_within s f l" "p \<le> length (filter P (H (n' - 1)))"
    by (auto simp: loop_result_def P_def)
  have "1 \<le> item_LedgerIndex x" using H x(1) by (auto simp: ascending_history_def)
  with p(3) x(2,3) have "P x" by (auto simp: index_within_def in_range_def P_def)
  then have "x \<in> set (filter P (H m))"
    using history_mono [OF H _ x(1), of m] by (simp add: m_def)
  moreover have "x \<notin> set (drop p (filter P (H m)))"
    using p(2) x(3) unfolding lies_above_def m_def by (meson leD max.cobounded2)
  ultimately have "x \<in> set (take p (filter P (H m)))"
    by (metis Un_iff append_take_drop_id set_append)
  then show ?thesis
    using list_all2_delivered [OF p(1)] take_filter_later [OF H _ p(4), of m] by (simp add: m_def)
qed

lemma subscribe_complete:
  assumes S: "serves R E cfg acc H pos" and R: "SubscribeAccountTransactions R E cfg n acc s f = Some (l, None, out, n')"
    and x: "x \<in> set (H k)" "k < n'" "in_range s f x"
  shows "delivered x out"
proof -
  have H: "ascending_history H" using S by (simp add: serves_def)
  from subscribe_result [OF S R] have "list_all2 converts (filter (in_range s f) (H (n' - 1))) out"
    by (auto simp: loop_result_def)
  moreover have "x \<in> set (filter (in_range s f) (H (n' - 1)))"
    using history_mono [OF H _ x(1), of "n' - 1"] x(2,3) by simp
  ultimately show ?thesis by (rule list_all2_delivered)
qed

lemma subscribe_sound:
  assumes S: "serves R E cfg acc H pos" and R: "SubscribeAccountTransactions R E cfg n acc s f = Some (l, e, out, n')"
    and t: "t \<in> set out"
  shows "\<exists>x \<in> set (H (n' - 1)). in_range s f x \<and> converts x t"
proof -
  from subscribe_result [OF S R] obtain p where
    "list_all2 converts (take p (filter (in_range s f) (H (n' - 1)))) out"
    by (auto simp: loop_result_def)
  from list_all2_source [OF this t] obtain x
    where "x \<in> set (take p (filter (in_range s f) (H (n' - 1))))" and x: "converts x t" by blast
  from in_set_takeD [OF this(1)] x show ?thesis by auto
qed

lemma subscribe_calls:
  "serves R E cfg acc H pos \<Longrightarrow> SubscribeAccountTransactions R E cfg n acc s f = Some (l, e, out, n') \<Longrightarrow> n < n'"
  by (drule (1) subscribe_result) (simp add: loop_result_def)

end
