(* ===== verification/XRPL_Scanner.thy ===== *)
theory XRPL_Scanner
  imports XRPL_Pages
begin

text \<open>
  The XRPL scanner (\<open>relayer/client/xrpl/scanner.go\<close>). It sees the RPC client through the
  interface \<open>RPCTxProvider\<close>: here the arguments \<open>sub\<close> and \<open>cur\<close> of the definitions and the locale
  \<open>tx_provider\<close> for what the scanner relies on. Each of its goroutines is a loop under the retry
  helper; the state of a loop is its ledger mark, the number of its next RPC call, what it
  sent to the channel and, for the recent scan, the values written to the ledger gauge.
\<close>

section \<open>The scans\<close>

type_synonym 't provider = "nat \<Rightarrow> int \<Rightarrow> int \<Rightarrow> (int \<times> go_error option \<times> 't list \<times> nat) option"

record 't loop_state =
  mark :: int
  next_call :: nat
  sent :: "'t list"
  gauge_writes :: "int list"

record scanner_config =
  RetryDelay :: int
  RecentScanSkipLastIndexes :: int

definition DefaultTxScannerConfig :: scanner_config where
  "DefaultTxScannerConfig = \<lparr>RetryDelay = 30 * time_Second, RecentScanSkipLastIndexes = 20\<rparr>"

text \<open>The closure \<open>doWithResubscribe\<close> retries, and what follows the retry helper.\<close>

definition resubscribe :: "bool \<Rightarrow> go_error option \<Rightarrow> attempt" where
  "resubscribe repeat err =
     (case err of
        Some e \<Rightarrow> if Is e ContextCanceled then Fatal e else Retryable e
      | None \<Rightarrow> if repeat then Retryable (Errorf ''repeat scan'') else Done)"

definition doWithResubscribe_end :: "go_error option \<Rightarrow> unit go" where
  "doWithResubscribe_end r =
     (case r of
        None \<Rightarrow> Ok ()
      | Some e \<Rightarrow>
          if Is e ContextCanceled then Ok ()
          else Panic (Error (Wrap ''unexpected error in scan with retry'' e)))"

definition initial_attempt ::
  "(nat \<Rightarrow> go_error + int) \<Rightarrow> nat \<times> int \<Rightarrow> ((nat \<times> int) \<times> attempt) option" where
  "initial_attempt cur s =
     (case cur (fst s) of
        Inl e \<Rightarrow> Some ((Suc (fst s), 0), resubscribe False (Some e))
      | Inr c \<Rightarrow> Some ((Suc (fst s), c), resubscribe False None))"

definition history_attempt ::
  "'t provider \<Rightarrow> int \<Rightarrow> 't loop_state \<Rightarrow> ('t loop_state \<times> attempt) option" where
  "history_attempt sub endLedger s =
     (case sub (next_call s) (mark s + 1) endLedger of
        None \<Rightarrow> None
      | Some (l, err, out, n) \<Rightarrow>
          Some (s\<lparr>mark := l, next_call := n, sent := sent s @ out\<rparr>, resubscribe False err))"

definition recent_attempt ::
  "'t provider \<Rightarrow> (nat \<Rightarrow> go_error + int) \<Rightarrow> scanner_config \<Rightarrow> 't loop_state \<Rightarrow> ('t loop_state \<times> attempt) option" where
  "recent_attempt sub cur cfg s =
     (case cur (next_call s) of
        Inl e \<Rightarrow> Some (s\<lparr>next_call := Suc (next_call s)\<rparr>, resubscribe True (Some e))
      | Inr currentLedger \<Rightarrow>
          (case sub (Suc (next_call s)) (mark s + 1) (currentLedger - RecentScanSkipLastIndexes cfg) of
             None \<Rightarrow> None
           | Some (l, err, out, n) \<Rightarrow>
               Some (s\<lparr>mark := l, next_call := n, sent := sent s @ out,
                       gauge_writes := gauge_writes s @ [l]\<rparr>, resubscribe True err)))"

definition loop_start :: "int \<Rightarrow> nat \<Rightarrow> 't loop_state" where
  "loop_start m n = \<lparr>mark = m, next_call = n, sent = [], gauge_writes = []\<rparr>"

text \<open>
  \<open>Subscribe\<close>: the check of its argument, the initial ledger, and where its two goroutines may
  stand some time later.
\<close>

definition Subscribe_check :: "int \<Rightarrow> go_error option" where
  "Subscribe_check recentScanIndexesBack =
     (if recentScanIndexesBack \<le> 0 then
        Some (Errorf ''recentScanIndexesBack must be greater than zero'') else None)"

inductive Subscribe ::
  "'t provider \<Rightarrow> (nat \<Rightarrow> go_error + int) \<Rightarrow> scanner_config \<Rightarrow> int \<Rightarrow> int \<Rightarrow> int \<Rightarrow>
   't loop_state \<Rightarrow> 't loop_state \<Rightarrow> bool"
  for sub :: "'t provider" and cur cfg historyScanStartLedger recentScanIndexesBack where
  "Subscribe_check recentScanIndexesBack = None \<Longrightarrow>
   retry_Do (initial_attempt cur) (0, 0) (n, initialLedger) r \<Longrightarrow>
   attempts (history_attempt sub (initialLedger - recentScanIndexesBack))
     (loop_start (historyScanStartLedger - 1) n) hs \<Longrightarrow>
   attempts (recent_attempt sub cur cfg) (loop_start (initialLedger - recentScanIndexesBack) n) rs \<Longrightarrow>
   Subscribe sub cur cfg historyScanStartLedger recentScanIndexesBack initialLedger hs rs"

section \<open>The interface to the RPC client\<close>

locale tx_provider =
  fixes good :: "'e \<Rightarrow> bool"
    and hist :: "'e \<Rightarrow> nat \<Rightarrow> 'i list"
    and ledger :: "'i \<Rightarrow> int"
    and conv :: "'i \<Rightarrow> 't \<Rightarrow> bool"
    and sub :: "'e \<Rightarrow> 't provider"
  assumes covers: "good e \<Longrightarrow> sub e n s f = Some (l, err, out, n') \<Longrightarrow> x \<in> set (hist e k) \<Longrightarrow>
        s \<le> 0 \<or> s \<le> ledger x \<Longrightarrow> ledger x \<le> l \<Longrightarrow> \<exists>t \<in> set out. conv x t"
    and complete: "good e \<Longrightarrow> sub e n s f = Some (l, None, out, n') \<Longrightarrow> x \<in> set (hist e k) \<Longrightarrow> k < n' \<Longrightarrow>
        s \<le> 0 \<or> s \<le> ledger x \<Longrightarrow> f \<le> 0 \<or> ledger x \<le> f \<Longrightarrow> \<exists>t \<in> set out. conv x t"
    and sound: "good e \<Longrightarrow> sub e n s f = Some (l, err, out, n') \<Longrightarrow> t \<in> set out \<Longrightarrow>
        \<exists>k. \<exists>x \<in> set (hist e k). conv x t"
begin

text \<open>No gap: what lies between the start of a scan and its mark has been sent.\<close>

definition scanned :: "'e \<Rightarrow> int \<Rightarrow> 't loop_state \<Rightarrow> bool" where
  "scanned e lo s \<longleftrightarrow> (\<forall>k. \<forall>x \<in> set (hist e k). lo < ledger x \<and> ledger x \<le> mark s \<longrightarrow> (\<exists>t \<in> set (sent s). conv x t)) \<and>
     (\<forall>t \<in> set (sent s). \<exists>k. \<exists>x \<in> set (hist e k). conv x t)"

lemma scanned_start: "scanned e lo (loop_start lo n)"
  by (simp add: scanned_def loop_start_def)

lemma scanned_step:
  assumes "good e" and "scanned e lo s" and "sub e n (mark s + 1) f = Some (l, err, out, n')"
    and "mark s' = l" and "sent s' = sent s @ out"
  shows "scanned e lo s'"
  unfolding scanned_def
proof (intro conjI allI ballI impI)
  fix k x
  assume x: "x \<in> set (hist e k)" "lo < ledger x \<and> ledger x \<le> mark s'"
  show "\<exists>t \<in> set (sent s'). conv x t"
  proof (cases "ledger x \<le> mark s")
    case True
    then show ?thesis using assms(2,5) x unfolding scanned_def by fastforce
  next
    case False
    then show ?thesis using covers [OF assms(1,3) x(1)] x(2) assms(4,5) by auto
  qed
next
  fix t
  assume "t \<in> set (sent s')"
  then show "\<exists>k. \<exists>x \<in> set (hist e k). conv x t"
    using assms(2,5) sound [OF assms(1,3)] unfolding scanned_def by auto
qed

lemma scanned_history:
  assumes "good e" and "scanned e lo s" and "history_attempt (sub e) f s = Some (s', a)"
  shows "scanned e lo s'"
  using assms(3) scanned_step [OF assms(1,2)]
  by (auto simp: history_attempt_def split: option.splits prod.splits)

lemma scanned_recent:
  assumes "good e" and "scanned e lo s" and "recent_attempt (sub e) cur cfg s = Some (s', a)"
  shows "scanned e lo s'"
proof (cases "cur (next_call s)")
  case (Inl err)
  then show ?thesis using assms(2,3) by (auto simp: recent_attempt_def scanned_def)
next
  case (Inr c)
  then show ?thesis
    using assms(3) scanned_step [OF assms(1,2)]
    by (auto simp: recent_attempt_def split: option.splits prod.splits)
qed

lemma history_attempts: "good e \<Longrightarrow> attempts (history_attempt (sub e) f) (loop_start lo n) s \<Longrightarrow> scanned e lo s"
  using attempts_invariant [of _ _ _ "scanned e lo"] scanned_history scanned_start by metis

lemma recent_attempts: "good e \<Longrightarrow> attempts (recent_attempt (sub e) cur cfg) (loop_start lo n) s \<Longrightarrow> scanned e lo s"
  using attempts_invariant [of _ _ _ "scanned e lo"] scanned_recent scanned_start by metis

text \<open>A history scan that returned has sent its whole range.\<close>

lemma history_done:
  assumes "good e" and "retry_Do (history_attempt (sub e) f) (loop_start lo n) s None"
    and "x \<in> set (hist e k)" and "k < next_call s" and "lo < ledger x" and "f \<le> 0 \<or> ledger x \<le> f"
  shows "\<exists>t \<in> set (sent s). conv x t"
proof -
  from assms(2) obtain s0 where at: "attempts (history_attempt (sub e) f) (loop_start lo n) s0"
    and last: "history_attempt (sub e) f s0 = Some (s, Done)"
    by (rule retry_Do_last) auto
  from last obtain l out n' where r: "sub e (next_call s0) (mark s0 + 1) f = Some (l, None, out, n')"
    "s = s0\<lparr>mark := l, next_call := n', sent := sent s0 @ out\<rparr>"
    by (auto simp: history_attempt_def resubscribe_def split: option.splits prod.splits if_splits)
  show ?thesis
  proof (cases "ledger x \<le> mark s0")
    case True
    then show ?thesis
      using history_attempts [OF assms(1) at] assms(3,5) r(2) unfolding scanned_def by fastforce
  next
    case False
    then show ?thesis using complete [OF assms(1) r(1) assms(3)] assms(4,6) r(2) by auto
  qed
qed

text \<open>A pass of the recent scan that ended without error has sent all up to its end ledger.\<close>

lemma recent_pass:
  assumes "good e" and "attempts (recent_attempt (sub e) cur cfg) (loop_start lo n) s0"
    and "recent_attempt (sub e) cur cfg s0 = Some (s, Retryable (Errorf ''repeat scan''))"
    and "cur (next_call s0) = Inr c" and "sub e (Suc (next_call s0)) (mark s0 + 1) (c - RecentScanSkipLastIndexes cfg) = Some (l, None, out, n')"
    and "x \<in> set (hist e k)" and "k < next_call s" and "lo < ledger x"
    and "ledger x \<le> c - RecentScanSkipLastIndexes cfg"
  shows "\<exists>t \<in> set (sent s). conv x t"
proof -
  have s: "s = s0\<lparr>mark := l, next_call := n', sent := sent s0 @ out, gauge_writes := gauge_writes s0 @ [l]\<rparr>"
    using assms(3-5) by (simp add: recent_attempt_def)
  show ?thesis
  proof (cases "ledger x \<le> mark s0")
    case True
    then show ?thesis
      using recent_attempts [OF assms(1,2)] assms(6,8) s unfolding scanned_def by fastforce
  next
    case False
    then show ?thesis using complete [OF assms(1,5,6)] assms(7,9) s by auto
  qed
qed

end

section \<open>The RPC client provides it\<close>

record ('v, 'n) rpc_setup =
  su_ripple :: "('v, 'n) ripple"
  su_env :: "('v, 'n) http_env"
  su_cfg :: rpc_config
  su_account :: account
  su_history :: "('v, 'n) history"
  su_pos :: marker_pos

definition setup_good :: "('v, 'n) rpc_setup \<Rightarrow> bool" where
  "setup_good e = serves (su_ripple e) (su_env e) (su_cfg e) (su_account e) (su_history e) (su_pos e)"

definition rpc_sub :: "('v, 'n) rpc_setup \<Rightarrow> ('v, 'n) Transaction provider" where
  "rpc_sub e n s f = SubscribeAccountTransactions (su_ripple e) (su_env e) (su_cfg e) n (su_account e) s f"

definition rpc_cur :: "('v, 'n) rpc_setup \<Rightarrow> nat \<Rightarrow> go_error + int" where
  "rpc_cur e n = GetCurrentLedger (su_env e) (su_cfg e) n"

interpretation rpc: tx_provider setup_good su_history item_LedgerIndex converts rpc_sub
proof
  fix e :: "('v, 'n) rpc_setup" and n s f l err out n' x k
  assume "setup_good e" "rpc_sub e n s f = Some (l, err, out, n')" "x \<in> set (su_history e k)"
    "s \<le> 0 \<or> s \<le> item_LedgerIndex x" "item_LedgerIndex x \<le> l"
  then show "\<exists>t \<in> set out. converts x t"
    unfolding setup_good_def rpc_sub_def delivered_def [symmetric] by (rule subscribe_covers)
next
  fix e :: "('v, 'n) rpc_setup" and n s f l out n' x k
  assume "setup_good e" "rpc_sub e n s f = Some (l, None, out, n')" "x \<in> set (su_history e k)" "k < n'"
    "s \<le> 0 \<or> s \<le> item_LedgerIndex x" "f \<le> 0 \<or> item_LedgerIndex x \<le> f"
  then show "\<exists>t \<in> set out. converts x t"
    unfolding setup_good_def rpc_sub_def delivered_def [symmetric]
    by (intro subscribe_complete) (auto simp: in_range_def)
next
  fix e :: "('v, 'n) rpc_setup" and n s f l err out n' t
  assume "setup_good e" "rpc_sub e n s f = Some (l, err, out, n')" "t \<in> set out"
  then show "\<exists>k. \<exists>x \<in> set (su_history e k). converts x t"
    unfolding setup_good_def rpc_sub_def using subscribe_sound by blast
qed

section \<open>A concrete server\<close>

text \<open>
  A server with five transactions of the account, in ledgers 5, 5, 7, 10 and 12, that answers the
  history range in two pages and the recent range in one, and refuses every other request.
\<close>

definition sample_ripple :: "(rat, (account \<times> rat balance list) list) ripple" where
  "sample_ripple = \<lparr>value_IsNative = (\<lambda>v. False), value_Rat = (\<lambda>v. v), value_Add = (\<lambda>a b. Inr (a + b)),
     value_Compare = (\<lambda>a b. if a < b then - 1 else if a = b then 0 else 1),
     NewNativeValue = (\<lambda>i. Inr (of_int i)),
     account_String = (\<lambda>a. if a = [1] then ''rIssuer'' else ''rOther''),
     account_Equals = (=),
     currency_String = (\<lambda>c. if c = [7] then ''CUR'' else ''OTH''), currency_Equals = (=),
     Balances = (\<lambda>n. Inr (map_of n)),
     NewAccountFromAddress = (\<lambda>s. if s = ''rIssuer'' then Inr [1] else Inl (Errorf ''invalid address'')),
     NewCurrency = (\<lambda>s. if s = ''CUR'' then Inr [7] else Inl (Errorf ''invalid currency''))\<rparr>"

definition sample_item :: "int \<Rightarrow> (rat, (account \<times> rat balance list) list) tx_item" where
  "sample_item i = \<lparr>item_base = \<lparr>bt_Account = ''rUser'', bt_Destination = ''rIssuer'', bt_Hash = ''AB'',
       bt_TransactionType = ''Payment'', bt_Date = 0, bt_Sequence = 1, bt_Memos = []\<rparr>,
     item_LedgerIndex = i,
     item_Meta = \<lparr>DeliveredAmount = \<lparr>Value = Some 2, Currency = [7], Issuer = [1]\<rparr>,
       meta_TransactionResult = ''tesSUCCESS'', meta_AffectedNodes = []\<rparr>,
     item_Validated = True\<rparr>"

definition sample_marker :: page_marker where
  "sample_marker = \<lparr>pm_Ledger = 5, pm_Seq = 1\<rparr>"

definition sample_DoJSON :: "nat \<Rightarrow> string \<Rightarrow> rpc_req \<Rightarrow> go_error + string" where
  "sample_DoJSON n url req =
     (case Params req of
        [AccountTxReq r] \<Rightarrow>
          if LedgerIndexMin r = 1 \<and> LedgerIndexMax r = 8 \<and> atr_Marker r = None then Inr ''page0''
          else if LedgerIndexMin r = 1 \<and> LedgerIndexMax r = 8 \<and> atr_Marker r = Some sample_marker then Inr ''page1''
          else if LedgerIndexMin r = 9 \<and> LedgerIndexMax r = 18 \<and> atr_Marker r = None then Inr ''page2''
          else Inl (Errorf ''out of range'')
      | [] \<Rightarrow> Inr ''ledger''
      | _ \<Rightarrow> Inl (Errorf ''unknown''))"

definition sample_decode ::
  "string \<Rightarrow> go_error + (rat, (account \<times> rat balance list) list) account_tx_res" where
  "sample_decode b =
     (if b = ''page0'' then Inr \<lparr>Transactions = [sample_item 5, sample_item 5], res_Marker = sample_marker\<rparr>
      else if b = ''page1'' then Inr \<lparr>Transactions = [sample_item 7], res_Marker = no_marker\<rparr>
      else Inr \<lparr>Transactions = [sample_item 10, sample_item 12], res_Marker = no_marker\<rparr>)"

definition sample_env :: "(rat, (account \<times> rat balance list) list) http_env" where
  "sample_env = \<lparr>DoJSON = sample_DoJSON,
     decode_err = (\<lambda>b. Inr \<lparr>rpc_Error = [], ErrorCode = 0, ErrorMessage = []\<rparr>),
     decode_account_tx = sample_decode, decode_ledger_current = (\<lambda>b. Inr 38),
     decode_tx = (\<lambda>b. Inr (sample_item 5)), decode_account_info = (\<lambda>b. Inl (Errorf ''none'')),
     decode_submit = (\<lambda>b. Inl (Errorf ''none'')), ctx_Done = (\<lambda>n j. False), ctx_Err = ContextCanceled\<rparr>"

definition sample_setup :: "(rat, (account \<times> rat balance list) list) rpc_setup" where
  "sample_setup = \<lparr>su_ripple = sample_ripple, su_env = sample_env, su_cfg = DefaultRPCClientConfig ''url'',
     su_account = [1],
     su_history = (\<lambda>n. [sample_item 5, sample_item 5, sample_item 7, sample_item 10, sample_item 12]),
     su_pos = (\<lambda>s f m. if m = None then 0 else 2)\<rparr>"

lemma sample_call:
  assumes "callRPC sample_env cfg n (account_tx_request R cfg acc s f m) (decode_account_tx sample_env) = Inr res"
  shows "(s, f, m, res) \<in>
    {(1, 8, None, \<lparr>Transactions = [sample_item 5, sample_item 5], res_Marker = sample_marker\<rparr>),
     (1, 8, Some sample_marker, \<lparr>Transactions = [sample_item 7], res_Marker = no_marker\<rparr>),
     (9, 18, None, \<lparr>Transactions = [sample_item 10, sample_item 12], res_Marker = no_marker\<rparr>)}"
  using assms
  by (auto simp: callRPC_def sample_env_def sample_DoJSON_def account_tx_request_def res_bind_Inr
      sample_decode_def split: if_splits)

lemma sample_item_ledger [simp]: "item_LedgerIndex (sample_item i) = i"
  by (simp add: sample_item_def)

lemma sample_good: "setup_good sample_setup"
  unfolding setup_good_def serves_def
proof (intro conjI allI impI)
  show "ascending_history (su_history sample_setup)"
    by (simp add: ascending_history_def sample_setup_def)
next
  fix n s f m res
  assume "callRPC (su_env sample_setup) (su_cfg sample_setup) n
    (account_tx_request (su_ripple sample_setup) (su_cfg sample_setup) (su_account sample_setup) s f m)
    (decode_account_tx (su_env sample_setup)) = Inr res"
  then have c: "callRPC sample_env (DefaultRPCClientConfig ''url'') n
    (account_tx_request sample_ripple (DefaultRPCClientConfig ''url'') [1] s f m)
    (decode_account_tx sample_env) = Inr res"
    by (simp add: sample_setup_def)
  consider "s = 1" "f = 8" "m = None" "res = \<lparr>Transactions = [sample_item 5, sample_item 5], res_Marker = sample_marker\<rparr>"
    | "s = 1" "f = 8" "m = Some sample_marker" "res = \<lparr>Transactions = [sample_item 7], res_Marker = no_marker\<rparr>"
    | "s = 9" "f = 18" "m = None" "res = \<lparr>Transactions = [sample_item 10, sample_item 12], res_Marker = no_marker\<rparr>"
    using sample_call [OF c] by auto
  then show "answers_page (su_pos sample_setup) s f (filter (in_range s f) (su_history sample_setup n))
    (su_pos sample_setup s f m) res"
    by cases (auto simp: answers_page_def sample_setup_def in_range_def no_marker_def sample_marker_def
        numeral_2_eq_2 intro: exI [of _ "2 :: nat"] exI [of _ "1 :: nat"])
qed (simp add: sample_setup_def)

end
