(* ===== verification/XRPL_Properties.thy ===== *)
theory XRPL_Properties
  imports XRPL_Scanner
begin

text \<open>
  The properties of the XRPL client and scanner: no account transaction between the start of a scan
  and its mark is lost, whatever calls fail; a finished history scan and a successful pass of
  the recent scan leave no hole; paging ends; the retry loops never panic.
\<close>

section \<open>Runs of the concrete server\<close>

abbreviation sample_tx :: "int \<Rightarrow> (rat, (account \<times> rat balance list) list) Transaction" where
  "sample_tx i \<equiv> \<lparr>Account = ''rUser'', Destination = ''rIssuer'',
     DeliveryAmount = \<lparr>Value = Some 2, Currency = [7], Issuer = [1]\<rparr>, Memos = [], Hash = ''AB'',
     TransactionType = ''Payment'', TransactionResult = ''tesSUCCESS'', LedgerIndex = i, Sequence = 1,
     Date = 946684800000000000, Validated = True, AffectedNodes = []\<rparr>"

lemma sample_history_sub:
  "rpc_sub sample_setup 1 1 8 = Some (6, None, [sample_tx 5, sample_tx 5, sample_tx 7], 3)"
  by code_simp

lemma sample_recent_sub: "rpc_sub sample_setup 2 9 18 = Some (11, None, [sample_tx 10, sample_tx 12], 3)"
  by code_simp

lemma sample_current: "rpc_cur sample_setup n = Inr 38"
  by (simp add: rpc_cur_def GetCurrentLedger_def callRPC_def sample_setup_def sample_env_def sample_DoJSON_def)

section \<open>Completeness of the scans\<close>

text \<open>
  C6: No gap. At every moment between two attempts, whichever RPC calls failed before, the
  history scan has sent every transaction from its start ledger up to its mark, the recent scan
  every one above the split ledger up to its mark, and everything sent is a transaction of the
  account. So resuming at the mark after an error loses nothing.
\<close>

theorem scans_have_no_gap:
  assumes "setup_good e" and "Subscribe (rpc_sub e) (rpc_cur e) cfg start back initial hs rs"
    and "x \<in> set (su_history e k)"
  shows "(start \<le> item_LedgerIndex x \<and> item_LedgerIndex x \<le> mark hs \<longrightarrow> delivered x (sent hs)) \<and>
    (initial - back < item_LedgerIndex x \<and> item_LedgerIndex x \<le> mark rs \<longrightarrow> delivered x (sent rs)) \<and>
    (\<forall>t \<in> set (sent hs @ sent rs). \<exists>j. \<exists>y \<in> set (su_history e j). converts y t)"
  using assms(2)
proof (cases rule: Subscribe.cases)
  case (1 n r)
  note h = rpc.history_attempts [OF assms(1) 1(3)] and r = rpc.recent_attempts [OF assms(1) 1(4)]
  from h assms(3) have "start - 1 < item_LedgerIndex x \<and> item_LedgerIndex x \<le> mark hs \<Longrightarrow> delivered x (sent hs)"
    by (simp add: rpc.scanned_def delivered_def)
  moreover from r assms(3) have "initial - back < item_LedgerIndex x \<and> item_LedgerIndex x \<le> mark rs \<Longrightarrow> delivered x (sent rs)"
    by (simp add: rpc.scanned_def delivered_def)
  moreover from h r have "\<forall>t \<in> set (sent hs @ sent rs). \<exists>j. \<exists>y \<in> set (su_history e j). converts y t"
    unfolding rpc.scanned_def by auto
  ultimately show ?thesis by simp
qed

lemma sample_subscribe: "Subscribe (rpc_sub sample_setup) (rpc_cur sample_setup) DefaultTxScannerConfig 1 30 38
    (loop_start 0 1) \<lparr>mark = 11, next_call = 3, sent = [sample_tx 10, sample_tx 12], gauge_writes = [11]\<rparr>"
proof (rule Subscribe.intros)
  show "retry_Do (initial_attempt (rpc_cur sample_setup)) (0, 0) (1, 38) None"
    by (rule retry_done) (simp add: initial_attempt_def sample_current resubscribe_def)
  show "attempts (recent_attempt (rpc_sub sample_setup) (rpc_cur sample_setup) DefaultTxScannerConfig)
    (loop_start (38 - 30) 1) \<lparr>mark = 11, next_call = 3, sent = [sample_tx 10, sample_tx 12], gauge_writes = [11]\<rparr>"
    by (rule attempts_step [OF attempts_refl])
      (simp add: recent_attempt_def loop_start_def sample_current DefaultTxScannerConfig_def
        sample_recent_sub [simplified] resubscribe_def numeral_2_eq_2 [symmetric])
qed (simp_all add: Subscribe_check_def attempts_refl)

theorem scans_have_no_gap_witness:
  "delivered (sample_item 10) [sample_tx 10, sample_tx 12]"
  using scans_have_no_gap [OF sample_good sample_subscribe, of "sample_item 10" 0]
  by (simp add: sample_setup_def)

lemma scans_meet:
  assumes "setup_good e"
    and "retry_Do (history_attempt (rpc_sub e) (initial - back)) (loop_start (start - 1) n) hs None"
    and "attempts (recent_attempt (rpc_sub e) (rpc_cur e) cfg) (loop_start (initial - back) n) rs"
    and "rpc_cur e (next_call rs) = Inr c"
    and "rpc_sub e (Suc (next_call rs)) (mark rs + 1) (c - RecentScanSkipLastIndexes cfg) = Some (l, None, out, n')"
    and "x \<in> set (su_history e k)" and "k < next_call hs" and "k < n'"
    and "start \<le> item_LedgerIndex x" and "item_LedgerIndex x \<le> c - RecentScanSkipLastIndexes cfg"
  shows "delivered x (sent hs @ sent rs @ out)"
proof (cases "item_LedgerIndex x \<le> initial - back")
  case True
  then have "delivered x (sent hs)"
    using rpc.history_done [OF assms(1,2,6,7)] assms(9) by (simp add: delivered_def)
  then show ?thesis by (auto simp: delivered_def)
next
  case False
  have "recent_attempt (rpc_sub e) (rpc_cur e) cfg rs =
    Some (rs\<lparr>mark := l, next_call := n', sent := sent rs @ out, gauge_writes := gauge_writes rs @ [l]\<rparr>,
      Retryable (Errorf ''repeat scan''))"
    using assms(4,5) by (simp add: recent_attempt_def resubscribe_def)
  from rpc.recent_pass [OF assms(1,3) this assms(4,5,6)] False assms(8,10) show ?thesis by (auto simp: delivered_def)
qed

text \<open>
  C8: Completeness. When the history scan has returned and the recent scan has finished a pass
  without error up to the end ledger \<open>c - skip\<close>, every account transaction the server knew by
  then, from the start ledger to that end, has been sent by one of the two: the ranges meet
  at the split ledger without a hole.
\<close>

theorem scans_complete:
  assumes "setup_good e"
    and "retry_Do (history_attempt (rpc_sub e) (initial - back)) (loop_start (start - 1) n) hs None"
    and "attempts (recent_attempt (rpc_sub e) (rpc_cur e) cfg) (loop_start (initial - back) n) rs"
    and "rpc_cur e (next_call rs) = Inr c"
    and "rpc_sub e (Suc (next_call rs)) (mark rs + 1) (c - RecentScanSkipLastIndexes cfg) = Some (l, None, out, n')"
    and "x \<in> set (su_history e k)" and "k < next_call hs" and "k < n'"
    and "start \<le> item_LedgerIndex x" and "item_LedgerIndex x \<le> c - RecentScanSkipLastIndexes cfg"
  shows "\<exists>rs'. recent_attempt (rpc_sub e) (rpc_cur e) cfg rs = Some (rs', Retryable (Errorf ''repeat scan'')) \<and>
    delivered x (sent hs @ sent rs')"
  using scans_meet [OF assms] assms(4,5) by (simp add: recent_attempt_def resubscribe_def)

lemma sample_history_done:
  "retry_Do (history_attempt (rpc_sub sample_setup) (38 - 30)) (loop_start (1 - 1) 1)
    \<lparr>mark = 6, next_call = 3, sent = [sample_tx 5, sample_tx 5, sample_tx 7], gauge_writes = []\<rparr> None"
  by (rule retry_done)
    (simp add: history_attempt_def loop_start_def sample_history_sub [simplified] resubscribe_def)

theorem scans_complete_witness:
  "\<exists>rs'. recent_attempt (rpc_sub sample_setup) (rpc_cur sample_setup) DefaultTxScannerConfig (loop_start 8 1) =
      Some (rs', Retryable (Errorf ''repeat scan'')) \<and>
    delivered (sample_item 7) ([sample_tx 5, sample_tx 5, sample_tx 7] @ sent rs')"
proof -
  have "\<exists>rs'. recent_attempt (rpc_sub sample_setup) (rpc_cur sample_setup) DefaultTxScannerConfig (loop_start (38 - 30) 1) =
      Some (rs', Retryable (Errorf ''repeat scan'')) \<and>
    delivered (sample_item 7) (sent \<lparr>mark = 6, next_call = 3, sent = [sample_tx 5, sample_tx 5, sample_tx 7],
      gauge_writes = []\<rparr> @ sent rs')"
    by (rule scans_complete [OF sample_good sample_history_done attempts_refl sample_current,
        where l = 11 and out = "[sample_tx 10, sample_tx 12]" and n' = 3 and k = 1])
      (use sample_recent_sub in \<open>simp_all add: loop_start_def DefaultTxScannerConfig_def sample_setup_def numeral_2_eq_2\<close>)
  then show ?thesis by simp
qed

text \<open>
  The scan loops never reach their panic: the retry helper stops either one only with a
  canceled context, or, for the history scan, with success; the recent scan never ends by itself.
\<close>

lemma scan_loops_never_panic:
  "(retry_Do (history_attempt sub f) s s' r \<longrightarrow> doWithResubscribe_end r = Ok ()) \<and>
    (retry_Do (recent_attempt sub cur cfg) s s' r \<longrightarrow> doWithResubscribe_end r = Ok () \<and> r \<noteq> None)"
proof (intro conjI impI)
  assume "retry_Do (history_attempt sub f) s s' r"
  then show "doWithResubscribe_end r = Ok ()"
    by (induction rule: retry_Do.induct)
      (auto simp: doWithResubscribe_end_def history_attempt_def resubscribe_def
        split: option.splits prod.splits if_splits)
next
  assume "retry_Do (recent_attempt sub cur cfg) s s' r"
  then have "doWithResubscribe_end r = Ok () \<and> r \<noteq> None"
    by (induction rule: retry_Do.induct)
      (auto simp: doWithResubscribe_end_def recent_attempt_def resubscribe_def
        split: option.splits prod.splits if_splits sum.splits)
  then show "doWithResubscribe_end r = Ok ()" and "r \<noteq> None" by auto
qed

text \<open>
  C31: Paging ends. If the ledger range of a request never holds more than \<open>B\<close> transactions of the
  account, \<open>SubscribeAccountTransactions\<close> returns, whichever of its calls fail.
\<close>

theorem subscription_returns:
  assumes "serves R E cfg acc H pos" and "\<And>k. length (filter (in_range s f) (H k)) \<le> B"
  shows "\<exists>y. SubscribeAccountTransactions R E cfg n acc s f = Some y"
proof -
  have "loop_inv H pos s f n None 0 []"
    using assms(1) above_zero [of H "in_range s f" n 0] by (simp add: loop_inv_def Let_def serves_def)
  from subscribe_loop_returns [OF assms(1) this assms(2)] show ?thesis
    unfolding SubscribeAccountTransactions_def by blast
qed

theorem subscription_returns_witness:
  "\<exists>y. SubscribeAccountTransactions sample_ripple sample_env (DefaultRPCClientConfig ''url'') 0 [1] 3 40 = Some y"
proof (rule subscription_returns)
  show "serves sample_ripple sample_env (DefaultRPCClientConfig ''url'') [1] (su_history sample_setup) (su_pos sample_setup)"
    using sample_good by (simp add: setup_good_def sample_setup_def)
  show "length (filter (in_range 3 40) (su_history sample_setup k)) \<le> 5" for k
    by (simp add: sample_setup_def in_range_def)
qed

section \<open>Other client operations\<close>

text \<open>
  Memos survive the trip: hex-encoded memo data decodes to the memo texts, in order.
\<close>

lemma memos_roundtrip:
  "convertHexMemosToStrings (map (\<lambda>(d, t). \<lparr>MemoData = hex_EncodeToString d, MemoType = t\<rparr>) ms) = Inr (map fst ms)"
proof -
  have "go_mapM (\<lambda>m. hex_DecodeString (MemoData m))
      (map (\<lambda>(d, t). \<lparr>MemoData = hex_EncodeToString d, MemoType = t\<rparr>) ms) = Ok (map fst ms)"
    by (induction ms) (auto simp: hex_DecodeString_Encode)
  then show ?thesis by (simp add: convertHexMemosToStrings_def)
qed

lemma run_fetches_error: "fetchErr \<noteq> None \<Longrightarrow> fst (run_fetches E cfg order fetchErr txs) \<noteq> None"
  by (induction order arbitrary: fetchErr txs) (auto split: sum.split)

lemma run_fetches_spec:
  assumes "run_fetches E cfg order None txs = (r, txs')"
  shows "(r \<noteq> None \<longleftrightarrow> (\<exists>(n, h, early) \<in> set order. \<exists>e. GetTransaction E cfg n h = Inl e)) \<and>
    (r = None \<longrightarrow> dom txs' = dom txs \<union> (fst \<circ> snd) ` set order \<and>
      (\<forall>h t. txs' h = Some t \<longrightarrow>
        txs h = Some t \<or> (\<exists>n early. (n, h, early) \<in> set order \<and> GetTransaction E cfg n h = Inr (t, True))))"
  using assms
proof (induction order arbitrary: txs)
  case (Cons nh order)
  obtain n h early where nh: "nh = (n, h, early)" by (cases nh)
  show ?case
  proof (cases "GetTransaction E cfg n h")
    case (Inl e)
    then have "r \<noteq> None"
      using Cons.prems nh run_fetches_error [of "Some e" E cfg order txs] by auto
    then show ?thesis using Inl nh by auto
  next
    case (Inr to)
    obtain t ok where "to = (t, ok)" by (cases to)
    with Inr have "ok"
      by (auto simp: GetTransaction_def res_bind_Inr convertTxInfoToTransaction_def)
    with Inr \<open>to = (t, ok)\<close> have t: "GetTransaction E cfg n h = Inr (t, True)" by simp
    then have "run_fetches E cfg order None (txs(h \<mapsto> t)) = (r, txs')"
      using Cons.prems nh by simp
    note IH = Cons.IH [OF this]
    from IH t nh have "r \<noteq> None \<longleftrightarrow> (\<exists>(n, h, early) \<in> set (nh # order). \<exists>e. GetTransaction E cfg n h = Inl e)"
      by simp
    moreover from IH nh have "r = None \<longrightarrow> dom txs' = dom txs \<union> (fst \<circ> snd) ` set (nh # order)"
      by (simp del: fun_upd_apply)
    moreover have "r = None \<longrightarrow> txs' j = Some u \<longrightarrow> txs j = Some u \<or>
      (\<exists>n early. (n, j, early) \<in> set (nh # order) \<and> GetTransaction E cfg n j = Inr (u, True))" for j u
      using IH [THEN conjunct2, rule_format, THEN conjunct2, rule_format, of j u] t nh
      by (cases "j = h") auto
    ultimately show ?thesis by blast
  qed
qed auto

text \<open>
  \<open>GetTransactions\<close> answers for all hashes or fails. It fails exactly when the fetch of some
  hash fails; otherwise the map holds exactly the requested hashes, each with the transaction
  fetched for it. This holds for every order in which the tasks of the pool end, and whatever errors they see.
\<close>

lemma GetTransactions_all_or_error:
  "((\<exists>e. GetTransactions E cfg order = Inl e) \<longleftrightarrow>
      (\<exists>(n, h, early) \<in> set order. \<exists>e. GetTransaction E cfg n h = Inl e)) \<and>
    (\<forall>txs. GetTransactions E cfg order = Inr txs \<longrightarrow>
      dom txs = (fst \<circ> snd) ` set order \<and>
      (\<forall>h t. txs h = Some t \<longrightarrow> (\<exists>n early. (n, h, early) \<in> set order \<and> GetTransaction E cfg n h = Inr (t, True))))"
proof -
  obtain r txs where rf: "run_fetches E cfg order None Map.empty = (r, txs)"
    by (metis surj_pair)
  from run_fetches_spec [OF rf] rf show ?thesis
    by (cases r) (auto simp: GetTransactions_def)
qed

text \<open>
  The multi-signature fee is the base fee times one plus the number of signatures as long as
  that product fits 32 bits; the base fee for one signature; an error for none.
\<close>

lemma calculateFee_exact:
  assumes "uint base * (1 + uint count) < 2 ^ 32"
  shows "calculateFee R count base =
    (if count = 0 then Inl (Errorf ''tx signature count must be greater than 0'')
     else if count = 1 then NewNativeValue R (uint base)
     else NewNativeValue R (uint base * (1 + uint count)))"
proof (cases "base = 0")
  case True
  then show ?thesis by (simp add: calculateFee_def)
next
  case False
  then have "1 \<le> uint base" by (metis int_one_le_iff_zero_less uint_0_iff uint_ge_0 order_less_le)
  then have "1 + uint count \<le> uint base * (1 + uint count)"
    by (metis add_nonneg_nonneg mult_right_mono mult_1 uint_ge_0 zero_le_one)
  with assms have "uint (1 + count) = 1 + uint count"
    by (simp add: uint_word_ariths)
  then have "uint (base * (1 + count)) = uint base * (1 + uint count)"
    using assms by (simp add: uint_word_ariths mod_mult_right_eq)
  then show ?thesis by (simp add: calculateFee_def)
qed

end
