(* ===== verification/Go_Big.thy ===== *)
theory Go_Big
  imports Go_Std
begin

text \<open>
  \<open>math/big\<close> as the sources use it: \<open>big.Int.Quo\<close>, the reduced fraction of a \<open>big.Rat\<close>, and
  \<open>Rat.SetString\<close> with its whole number syntax (signs, fractions, base prefixes, digit
  separators, radix point, decimal and binary exponents). A \<open>big.Rat\<close> is a HOL rational; \<open>Num\<close>
  and \<open>Denom\<close> read its reduced fraction.
\<close>

section \<open>Integers and reduced fractions\<close>

text \<open>\<open>Int.Quo\<close> truncates towards zero; the callers never divide by zero.\<close>

definition Quo :: "int \<Rightarrow> int \<Rightarrow> int" where
  "Quo a b = sgn a * sgn b * (\<bar>a\<bar> div \<bar>b\<bar>)"

definition Num :: "rat \<Rightarrow> int" where
  "Num r = fst (quotient_of r)"

definition Denom :: "rat \<Rightarrow> int" where
  "Denom r = snd (quotient_of r)"

lemma Denom_pos: "0 < Denom r"
  by (simp add: Denom_def quotient_of_denom_pos')

lemma Num_Denom: "of_int (Num r) / of_int (Denom r) = (r :: rat)"
  by (metis Denom_def Num_def quotient_of_div surjective_pairing)

lemma Num_eq_0_iff [simp]: "Num r = 0 \<longleftrightarrow> r = 0"
  using Num_Denom [of r] Denom_pos [of r] by (auto simp: Num_def)

lemma Num_0 [simp]: "Num 0 = 0"
  by simp

lemma Num_nonneg_iff: "0 \<le> Num r \<longleftrightarrow> 0 \<le> r"
proof -
  have "0 \<le> r \<longleftrightarrow> (0 :: rat) \<le> of_int (Num r) / of_int (Denom r)"
    by (simp add: Num_Denom)
  also have "\<dots> \<longleftrightarrow> 0 \<le> Num r"
    using Denom_pos [of r] by (auto simp: zero_le_divide_iff)
  finally show ?thesis by simp
qed

text \<open>Scaling a numerator and dividing by the denominator is the floor of the scaled rational.\<close>

lemma Quo_Num_Denom:
  assumes "0 \<le> r" and "0 \<le> k"
  shows "Quo (k * Num r) (Denom r) = \<lfloor>of_int k * r\<rfloor>"
proof -
  have "0 \<le> k * Num r"
    using assms by (simp add: Num_nonneg_iff)
  then have "Quo (k * Num r) (Denom r) = k * Num r div Denom r"
    using Denom_pos [of r] by (auto simp: Quo_def sgn_if)
  also have "\<dots> = \<lfloor>(of_int (k * Num r) / of_int (Denom r) :: rat)\<rfloor>"
    by (rule floor_divide_of_int_eq [symmetric])
  also have "(of_int (k * Num r) / of_int (Denom r) :: rat) = of_int k * r"
    by (metis Num_Denom of_int_mult times_divide_eq_right)
  finally show ?thesis .
qed

section \<open>Rat.SetString\<close>

text \<open>
  \<open>prev\<close> of the scanner: the class of the previous character. A separator may only follow a
  digit (or a base prefix).
\<close>

datatype prev = PrevSep | PrevDigit | PrevOther

definition scan_digit :: "char \<Rightarrow> nat" where
  "scan_digit c =
     (if is_digit c then of_char c - 48
      else if is_lower c then of_char c - 87
      else if is_upper c then of_char c - 55
      else 63)"

record scan_state =
  sc_val :: nat
  sc_count :: nat
  sc_dp :: "nat option"
  sc_prev :: prev
  sc_inval :: bool

text \<open>The digit loop of \<open>nat.scan\<close> in base \<open>b\<close>; the text it leaves is not consumed.\<close>

fun scan_digits :: "nat \<Rightarrow> bool \<Rightarrow> scan_state \<Rightarrow> string \<Rightarrow> scan_state \<times> string" where
  "scan_digits b fracOk st [] = (st, [])"
| "scan_digits b fracOk st (ch # r) =
     (if ch = CHR ''.'' \<and> fracOk then
        scan_digits b False
          (st\<lparr>sc_inval := sc_inval st \<or> sc_prev st = PrevSep, sc_prev := PrevOther,
              sc_dp := Some (sc_count st)\<rparr>) r
      else if ch = CHR ''_'' then
        scan_digits b fracOk
          (st\<lparr>sc_inval := sc_inval st \<or> sc_prev st \<noteq> PrevDigit, sc_prev := PrevSep\<rparr>) r
      else if scan_digit ch \<ge> b then (st, ch # r)
      else
        scan_digits b fracOk
          (st\<lparr>sc_val := b * sc_val st + scan_digit ch, sc_count := Suc (sc_count st),
              sc_prev := PrevDigit\<rparr>) r)"

definition scan_start :: "prev \<Rightarrow> nat \<Rightarrow> scan_state" where
  "scan_start p n = \<lparr>sc_val = 0, sc_count = n, sc_dp = None, sc_prev = p, sc_inval = False\<rparr>"

text \<open>
  The end of \<open>nat.scan\<close>: a misplaced separator and a number without digits are errors, except
  that a lone octal prefix \<open>0\<close> is the number 0. The count is minus the number of digits after
  the radix point, if there is one.
\<close>

fun scan_end :: "nat \<Rightarrow> bool \<Rightarrow> scan_state \<times> string \<Rightarrow> (nat \<times> nat \<times> int \<times> string) option" where
  "scan_end b octal (st, r) =
     (if sc_inval st \<or> sc_prev st = PrevSep then None
      else if sc_count st = 0 then (if octal then Some (0, 10, 1, r) else None)
      else Some (sc_val st, b,
        (case sc_dp st of None \<Rightarrow> int (sc_count st) | Some dp \<Rightarrow> int dp - int (sc_count st)), r))"

definition nat_scan :: "bool \<Rightarrow> string \<Rightarrow> (nat \<times> nat \<times> int \<times> string) option" where
  "nat_scan fracOk s =
     (case s of
        ch # r \<Rightarrow>
          if ch = CHR ''0'' then
            (case r of
               [] \<Rightarrow> scan_end 10 False (scan_start PrevDigit 1, [])
             | c # r' \<Rightarrow>
                 if c = CHR ''b'' \<or> c = CHR ''B'' then
                   scan_end 2 False (scan_digits 2 fracOk (scan_start PrevDigit 0) r')
                 else if c = CHR ''o'' \<or> c = CHR ''O'' then
                   scan_end 8 False (scan_digits 8 fracOk (scan_start PrevDigit 0) r')
                 else if c = CHR ''x'' \<or> c = CHR ''X'' then
                   scan_end 16 False (scan_digits 16 fracOk (scan_start PrevDigit 0) r')
                 else if \<not> fracOk then
                   scan_end 8 True (scan_digits 8 fracOk (scan_start PrevDigit 0) (c # r'))
                 else scan_end 10 False (scan_digits 10 fracOk (scan_start PrevDigit 1) (c # r')))
          else scan_end 10 False (scan_digits 10 fracOk (scan_start PrevOther 0) (ch # r))
      | [] \<Rightarrow> None)"

definition scan_sign :: "string \<Rightarrow> (bool \<times> string) option" where
  "scan_sign s =
     (case s of
        [] \<Rightarrow> None
      | c # r \<Rightarrow>
          if c = CHR ''-'' then Some (True, r)
          else if c = CHR ''+'' then Some (False, r)
          else Some (False, c # r))"

text \<open>The digits of an exponent: \<open>(digits, previous, invalid, rest)\<close>.\<close>

fun scan_exp_digits :: "string \<Rightarrow> prev \<Rightarrow> bool \<Rightarrow> string \<Rightarrow> string \<times> prev \<times> bool \<times> string" where
  "scan_exp_digits ds p bad [] = (ds, p, bad, [])"
| "scan_exp_digits ds p bad (c # r) =
     (if is_digit c then scan_exp_digits (ds @ [c]) PrevDigit bad r
      else if c = CHR ''_'' then scan_exp_digits ds PrevSep (bad \<or> p \<noteq> PrevDigit) r
      else (ds, p, bad, c # r))"

definition scan_exp_number :: "string \<Rightarrow> (int \<times> string) option" where
  "scan_exp_number s =
     (let (neg, r) = (case s of
            c # r' \<Rightarrow> if c = CHR ''-'' then (True, r') else if c = CHR ''+'' then (False, r') else (False, s)
          | [] \<Rightarrow> (False, []));
          (ds, p, bad, rest) = scan_exp_digits [] PrevOther False r;
          n = nat_of_dec ds
      in if ds = [] then None
         else if (if neg then n > 2 ^ 63 else n \<ge> 2 ^ 63) then None
         else if bad \<or> p = PrevSep then None
         else Some (if neg then - int n else int n, rest))"

text \<open>\<open>scanExponent\<close>: exponent, its base (10 or 2) and the rest.\<close>

definition scan_exponent :: "string \<Rightarrow> (int \<times> nat \<times> string) option" where
  "scan_exponent s =
     (case s of
        [] \<Rightarrow> Some (0, 10, [])
      | c # r \<Rightarrow>
          if c = CHR ''e'' \<or> c = CHR ''E'' then
            map_option (\<lambda>(e, rest). (e, 10, rest)) (scan_exp_number r)
          else if c = CHR ''p'' \<or> c = CHR ''P'' then
            map_option (\<lambda>(e, rest). (e, 2, rest)) (scan_exp_number r)
          else Some (0, 10, c # r))"

definition rat_pow :: "nat \<Rightarrow> int \<Rightarrow> rat" where
  "rat_pow b e = (if 0 \<le> e then of_nat b ^ nat e else 1 / of_nat b ^ nat (- e))"

text \<open>
  The value of a scanned float: mantissa \<open>m\<close> in base \<open>b\<close> with \<open>fc\<close> (negative when there is a
  radix point) and exponent \<open>ex\<close> of base \<open>eb\<close>, split into powers of 5 and 2 whose size is
  bounded.
\<close>

definition float_value :: "bool \<Rightarrow> nat \<Rightarrow> nat \<Rightarrow> int \<Rightarrow> int \<Rightarrow> nat \<Rightarrow> rat option" where
  "float_value neg m b fc ex eb =
     (let d = (if fc < 0 then fc else 0);
          exp5 = (if b = 10 then d else 0) + (if eb = 10 then ex else 0);
          exp2 = (if b = 10 \<or> b = 2 then d else if b = 8 then 3 * d else 4 * d) + ex
      in if \<bar>exp5\<bar> > 1000000 then None
         else if exp2 < - 10000000 \<or> exp2 > 10000000 then None
         else Some ((if neg then - 1 else 1) * of_nat m * rat_pow 5 exp5 * rat_pow 2 exp2))"

definition set_float :: "string \<Rightarrow> rat option" where
  "set_float s =
     (case scan_sign s of
        None \<Rightarrow> None
      | Some (neg, r) \<Rightarrow>
          (case nat_scan True r of
             None \<Rightarrow> None
           | Some (m, b, fc, r1) \<Rightarrow>
               (case scan_exponent r1 of
                  None \<Rightarrow> None
                | Some (ex, eb, r2) \<Rightarrow>
                    if r2 \<noteq> [] then None
                    else if m = 0 then Some 0
                    else float_value neg m b fc ex eb)))"

definition set_fraction :: "string \<Rightarrow> string \<Rightarrow> rat option" where
  "set_fraction a b =
     (case scan_sign a of
        None \<Rightarrow> None
      | Some (neg, r) \<Rightarrow>
          (case nat_scan False r of
             Some (n, _, _, []) \<Rightarrow>
               (case nat_scan False b of
                  Some (d, _, _, []) \<Rightarrow>
                    if d = 0 then None
                    else Some ((if neg then - 1 else 1) * of_nat n / of_nat d)
                | _ \<Rightarrow> None)
           | _ \<Rightarrow> None))"

definition SetString :: "string \<Rightarrow> rat option" where
  "SetString s =
     (if s = [] then None
      else if CHR ''/'' \<in> set s then
        set_fraction (takeWhile (\<lambda>c. c \<noteq> CHR ''/'') s) (tl (dropWhile (\<lambda>c. c \<noteq> CHR ''/'') s))
      else set_float s)"

section \<open>Decimal numerals\<close>

text \<open>
  On plain decimal text, the only form the contract lets into its token list, \<open>SetString\<close> is the
  value of the numeral.
\<close>

lemma scan_digit_dec: "is_digit c \<Longrightarrow> scan_digit c = char_digit c"
  by (simp add: scan_digit_def char_digit_def)

lemma dec_not_special:
  "is_digit c \<Longrightarrow> c \<noteq> CHR ''.'' \<and> c \<noteq> CHR ''_'' \<and> c \<noteq> CHR ''/'' \<and> c \<noteq> CHR ''-'' \<and> c \<noteq> CHR ''+''"
  by (auto simp: is_digit_def less_eq_char_def)

lemma scan_digits_dec:
  assumes "all_digits ds" and "ds \<noteq> []"
  shows "scan_digits 10 fr st (ds @ r) =
    scan_digits 10 fr
      (st\<lparr>sc_val := sc_val st * 10 ^ length ds + nat_of_dec ds,
          sc_count := sc_count st + length ds, sc_prev := PrevDigit\<rparr>) r"
  using assms
proof (induction ds arbitrary: st)
  case Nil
  then show ?case by simp
next
  case (Cons c cs)
  then have c: "is_digit c" and cs: "all_digits cs"
    by (auto simp: all_digits_def)
  let ?st = "st\<lparr>sc_val := 10 * sc_val st + char_digit c, sc_count := Suc (sc_count st),
    sc_prev := PrevDigit\<rparr>"
  have step: "scan_digits 10 fr st ((c # cs) @ r) = scan_digits 10 fr ?st (cs @ r)"
    using c char_digit_less [OF c] by (simp add: dec_not_special scan_digit_dec)
  have dec: "nat_of_dec (c # cs) = char_digit c * 10 ^ length cs + nat_of_dec cs"
    using nat_of_dec_append [of "[c]" cs] nat_of_dec_snoc [of "[]" c] by simp
  show ?case
  proof (cases "cs = []")
    case True
    with step dec show ?thesis by (simp add: mult.commute)
  next
    case False
    with step dec Cons.IH [OF cs] show ?thesis by (simp add: algebra_simps)
  qed
qed

definition dec_state :: "string \<Rightarrow> scan_state" where
  "dec_state ds = \<lparr>sc_val = nat_of_dec ds, sc_count = length ds, sc_dp = None,
     sc_prev = PrevDigit, sc_inval = False\<rparr>"

lemma dec_not_prefix:
  "is_digit c \<or> c = CHR ''.'' \<Longrightarrow>
    c \<noteq> CHR ''b'' \<and> c \<noteq> CHR ''B'' \<and> c \<noteq> CHR ''o'' \<and> c \<noteq> CHR ''O'' \<and> c \<noteq> CHR ''x'' \<and> c \<noteq> CHR ''X''"
  by (auto simp: is_digit_def less_eq_char_def)

lemma nat_scan_dec:
  assumes ds: "all_digits ds" "ds \<noteq> []" and r: "r = [] \<or> hd r = CHR ''.''"
  shows "nat_scan True (ds @ r) = scan_end 10 False (scan_digits 10 True (dec_state ds) r)"
proof (cases ds)
  case (Cons d ds')
  with ds have d: "is_digit d" and ds': "all_digits ds'"
    by (auto simp: all_digits_def)
  show ?thesis
  proof (cases "d = CHR ''0''")
    case False
    then have "nat_scan True (ds @ r) =
        scan_end 10 False (scan_digits 10 True (scan_start PrevOther 0) (ds @ r))"
      using Cons by (simp add: nat_scan_def del: scan_digits.simps)
    then show ?thesis
      by (simp add: scan_digits_dec [OF ds] scan_start_def dec_state_def)
  next
    case zero: True
    have z: "nat_of_dec (d # t) = nat_of_dec t" for t
      using nat_of_dec_append [of "[d]" t] nat_of_dec_snoc [of "[]" d] zero
      by (simp add: char_digit_def)
    show ?thesis
    proof (cases "ds' @ r")
      case Nil
      with zero Cons z [of "[]"] show ?thesis
        by (simp add: nat_scan_def scan_start_def dec_state_def)
    next
      case (Cons c t)
      have "is_digit c \<or> c = CHR ''.''"
        using Cons r ds' by (cases ds') (auto simp: all_digits_def)
      then have "nat_scan True (ds @ r) = scan_end 10 False (scan_digits 10 True (scan_start PrevDigit 1) (ds' @ r))"
        using zero \<open>ds = d # ds'\<close> Cons dec_not_prefix [of c] by (simp add: nat_scan_def)
      also have "scan_digits 10 True (scan_start PrevDigit 1) (ds' @ r) = scan_digits 10 True (dec_state ds) r"
        using scan_digits_dec [OF ds', of True "scan_start PrevDigit 1" r] \<open>ds = d # ds'\<close> z
        by (cases "ds' = []") (simp_all add: scan_start_def dec_state_def)
      finally show ?thesis .
    qed
  qed
qed (use ds in simp)

lemma scan_sign_dec:
  "all_digits ds \<Longrightarrow> ds \<noteq> [] \<Longrightarrow> scan_sign (ds @ r) = Some (False, ds @ r)"
  by (cases ds) (auto simp: scan_sign_def all_digits_def dec_not_special)

lemma rat_pow_10: "rat_pow 5 (- int k) * rat_pow 2 (- int k) = 1 / 10 ^ k"
proof -
  have "(10 :: rat) ^ k = 5 ^ k * 2 ^ k"
    by (simp add: power_mult_distrib [symmetric])
  then show ?thesis
    by (cases k) (auto simp: rat_pow_def nat_add_distrib)
qed

lemma no_slash_dec: "all_digits ds \<Longrightarrow> CHR ''/'' \<notin> set ds"
  using dec_not_special by (auto simp: all_digits_def)

lemma SetString_integer:
  assumes "all_digits ds" and "ds \<noteq> []"
  shows "SetString ds = Some (of_nat (nat_of_dec ds))"
proof -
  have "nat_scan True ds = Some (nat_of_dec ds, 10, int (length ds), [])"
    using nat_scan_dec [OF assms, of "[]"] assms by (simp add: dec_state_def)
  then show ?thesis
    using assms scan_sign_dec [OF assms, of "[]"] no_slash_dec [OF assms(1)]
    by (simp add: SetString_def set_float_def scan_exponent_def float_value_def rat_pow_def)
qed

lemma SetString_decimal:
  assumes ds: "all_digits ds" "ds \<noteq> []" and fs: "all_digits fs" "fs \<noteq> []" "length fs \<le> 1000000"
  shows "SetString (ds @ ''.'' @ fs) = Some (of_nat (nat_of_dec (ds @ fs)) / 10 ^ length fs)"
proof -
  have "nat_scan True (ds @ ''.'' @ fs) =
      Some (nat_of_dec (ds @ fs), 10, - int (length fs), [])"
    using nat_scan_dec [OF ds, of "''.'' @ fs"] scan_digits_dec [OF fs(1,2), of False _ "[]"] ds fs
    by (simp add: dec_state_def nat_of_dec_append)
  moreover have "CHR ''/'' \<notin> set (ds @ ''.'' @ fs)"
    using no_slash_dec [OF ds(1)] no_slash_dec [OF fs(1)] by simp
  moreover have "nat_of_dec (ds @ fs) \<noteq> 0 \<Longrightarrow>
      float_value False (nat_of_dec (ds @ fs)) 10 (- int (length fs)) 0 10 =
      Some (of_nat (nat_of_dec (ds @ fs)) / 10 ^ length fs)"
    using fs rat_pow_10 [of "length fs"] by (simp add: float_value_def Let_def mult.assoc)
  ultimately show ?thesis
    using ds scan_sign_dec [OF ds, of "''.'' @ fs"]
    by (simp add: SetString_def set_float_def scan_exponent_def)
qed

end
