(* ===== verification/Finder.thy ===== *)
theory Finder
  imports Ripple_Data Go_Big
begin

text \<open>
  The finder (\<open>relayer/finder/finder.go\<close>): from the transactions of the scanner it keeps the
  validated burns of its token with a destination memo and turns each into a pending transfer on
  the TX chain. What it uses of the Cosmos SDK are the fields of the record \<open>sdk\<close>.
\<close>

section \<open>Types\<close>

type_synonym acc_address = "8 word list"

record sdk_coin =
  sc_Denom :: string
  Amount :: int

record sdk =
  AccAddressFromBech32 :: "string \<Rightarrow> go_error + acc_address"
  AccAddress_String :: "acc_address \<Rightarrow> string"
  NewIntFromBigInt :: "int \<Rightarrow> int go"
  NewCoin :: "string \<Rightarrow> int \<Rightarrow> sdk_coin go"

record PendingTXSendTransaction =
  TXDestination :: acc_address
  TXAmount :: sdk_coin
  XRPLTxHash :: string

record finder_config =
  XRPLIssuer :: account
  XRPLCurrency :: rcurrency
  ActivationDate :: instant
  Multiplier :: string
  XRPLHistoryScanStartLedger :: int
  XRPLRecentScanIndexesBack :: int
  XRPLMemoSuffix :: string
  TXDenom :: string
  TXDecimals :: int

section \<open>Conversions\<close>

fun ExtractAddressFromMemo :: "sdk \<Rightarrow> string list \<Rightarrow> string \<Rightarrow> acc_address option" where
  "ExtractAddressFromMemo S [] suf = None"
| "ExtractAddressFromMemo S (memo # memos) suf =
     (if \<not> HasSuffix memo suf then ExtractAddressFromMemo S memos suf
      else (case AccAddressFromBech32 S (TrimSuffix memo suf) of
              Inl e \<Rightarrow> ExtractAddressFromMemo S memos suf
            | Inr a \<Rightarrow> Some a))"

text \<open>\<open>Exp\<close> with a nil modulus and a non-positive exponent is 1.\<close>

definition big_Exp :: "int \<Rightarrow> int \<Rightarrow> int" where
  "big_Exp x y = (if y \<le> 0 then 1 else x ^ nat y)"

definition ConvertXRPLAmountToTXAmount ::
  "('v, 'n) ripple \<Rightarrow> sdk \<Rightarrow> 'v option \<Rightarrow> int \<Rightarrow> string \<Rightarrow> int go" where
  "ConvertXRPLAmountToTXAmount R S xrplAmount decimals multiplier0 =
     (case xrplAmount of
        None \<Rightarrow> Ok 0
      | Some v \<Rightarrow>
          (let multiplier = (if multiplier0 = [] \<or> multiplier0 = ''0'' then ''1.0'' else multiplier0) in
           case SetString multiplier of
             None \<Rightarrow> Ok 0
           | Some multiplierRat0 \<Rightarrow>
               (let multiplierRat = (if Num multiplierRat0 = 0 then 1 else multiplierRat0);
                    tenPowerDecimals = big_Exp 10 decimals;
                    xrplRatAmount = value_Rat R v * multiplierRat
                in NewIntFromBigInt S
                     (Quo (tenPowerDecimals * Num xrplRatAmount) (Denom xrplRatAmount)))))"

definition convertXRPLAmountToTXCoin ::
  "('v, 'n) ripple \<Rightarrow> sdk \<Rightarrow> finder_config \<Rightarrow> 'v option \<Rightarrow> sdk_coin go" where
  "convertXRPLAmountToTXCoin R S cfg v =
     go_bind (ConvertXRPLAmountToTXAmount R S v (TXDecimals cfg) (Multiplier cfg))
       (\<lambda>amount. NewCoin S (TXDenom cfg) amount)"

section \<open>The burn check\<close>

definition balanceReconciliationEpsilon :: rat where
  "balanceReconciliationEpsilon = 1 / 100000000000000"

text \<open>The loop over the balances of the account: the sum of the changes, if any, and the largest balance.\<close>

fun sum_changes ::
  "('v, 'n) ripple \<Rightarrow> account \<Rightarrow> 'v amt \<Rightarrow> 'v balance list \<Rightarrow> 'v option \<Rightarrow> rat \<Rightarrow> ('v option \<times> rat) go" where
  "sum_changes R acc d [] tot mag = Ok (tot, mag)"
| "sum_changes R acc d (b # bs) tot mag =
     (if \<not> currency_Equals R (bal_Currency b) (Currency d) then sum_changes R acc d bs tot mag
      else
        go_bind (IsNative R d) (\<lambda>native.
        if \<not> native \<and> \<not> account_Equals R (Issuer d) acc \<and> \<not> account_Equals R (CounterParty b) (Issuer d) then
          sum_changes R acc d bs tot mag
        else
          (let m = \<bar>value_Rat R (Balance b)\<bar>; mag' = (if m > mag then m else mag) in
           case tot of
             None \<Rightarrow> sum_changes R acc d bs (Some (Change b)) mag'
           | Some t \<Rightarrow>
               (case value_Add R t (Change b) of
                  Inl e \<Rightarrow> Err (Wrap ''failed to sum the balance changes'' e)
                | Inr s \<Rightarrow> sum_changes R acc d bs (Some s) mag'))))"

definition receivedAtLeastDeliveredAmount ::
  "('v, 'n) ripple \<Rightarrow> 'n \<Rightarrow> account \<Rightarrow> 'v amt \<Rightarrow> bool go" where
  "receivedAtLeastDeliveredAmount R nodes acc d =
     (case Balances R nodes of
        Inl e \<Rightarrow> Err (Wrap ''failed to compute balance changes from the XRPL tx metadata'' e)
      | Inr balances \<Rightarrow>
          (case balances acc of
             None \<Rightarrow> Ok False
           | Some accountBalances \<Rightarrow>
               go_bind (sum_changes R acc d accountBalances None 0) (\<lambda>(found, maxBalanceMag).
                 case found of
                   None \<Rightarrow> Ok False
                 | Some tot \<Rightarrow>
                     (case Value d of
                        None \<Rightarrow> nil_deref
                      | Some dv \<Rightarrow>
                          if value_Compare R tot dv \<ge> 0 then Ok True
                          else if value_IsNative R dv then Ok False
                          else
                            (let d' = \<bar>value_Rat R dv\<bar>;
                                 scale = (if d' > maxBalanceMag then d' else maxBalanceMag);
                                 shortfall = value_Rat R dv - value_Rat R tot;
                                 tolerance = scale * balanceReconciliationEpsilon
                             in Ok (shortfall \<le> tolerance))))))"

section \<open>The finder\<close>

text \<open>\<open>Ok None\<close>: the transaction does not match.\<close>

definition buildPendingTransaction ::
  "('v, 'n) ripple \<Rightarrow> sdk \<Rightarrow> finder_config \<Rightarrow> ('v, 'n) Transaction \<Rightarrow> PendingTXSendTransaction option go" where
  "buildPendingTransaction R S cfg txn =
     (if \<not> Validated txn \<or> TransactionResult txn \<noteq> TransactionResultSuccess \<or>
         TransactionType txn \<noteq> TransactionTypePayment then Ok None
      else if Date txn < ActivationDate cfg then Ok None
      else if Memos txn = [] then Ok None
      else
        (case ExtractAddressFromMemo S (Memos txn) (XRPLMemoSuffix cfg) of
           None \<Rightarrow> Ok None
         | Some txDestination \<Rightarrow>
             go_bind (IsNative R (DeliveryAmount txn)) (\<lambda>native.
             if native then Ok None
             else if currency_String R (Currency (DeliveryAmount txn)) \<noteq> currency_String R (XRPLCurrency cfg) \<or>
                     account_String R (Issuer (DeliveryAmount txn)) \<noteq> account_String R (XRPLIssuer cfg) then Ok None
             else if Destination txn \<noteq> account_String R (XRPLIssuer cfg) then Ok None
             else
               (case receivedAtLeastDeliveredAmount R (AffectedNodes txn) (XRPLIssuer cfg) (DeliveryAmount txn) of
                  Panic p \<Rightarrow> Panic p
                | Err e \<Rightarrow> Ok None
                | Ok burned \<Rightarrow>
                    if \<not> burned then Ok None
                    else
                      go_bind (convertXRPLAmountToTXCoin R S cfg (Value (DeliveryAmount txn))) (\<lambda>txCoin.
                      if Amount txCoin = 0 then Ok None
                      else Ok (Some \<lparr>TXDestination = txDestination, TXAmount = txCoin, XRPLTxHash = Hash txn\<rparr>))))))"

text \<open>What the goroutine of \<open>SubscribeTXSendTransactions\<close> forwards of the transactions it received.\<close>

fun SubscribeTXSendTransactions ::
  "('v, 'n) ripple \<Rightarrow> sdk \<Rightarrow> finder_config \<Rightarrow> ('v, 'n) Transaction list \<Rightarrow> PendingTXSendTransaction list go" where
  "SubscribeTXSendTransactions R S cfg [] = Ok []"
| "SubscribeTXSendTransactions R S cfg (txn # txns) =
     go_bind (buildPendingTransaction R S cfg txn) (\<lambda>p.
     go_bind (SubscribeTXSendTransactions R S cfg txns) (\<lambda>ps.
       Ok (case p of None \<Rightarrow> ps | Some x \<Rightarrow> x # ps)))"

section \<open>Facts\<close>

text \<open>What the finder relies on of the SDK: a big integer or a coin is what it was made from, or a panic.\<close>

definition sdk_ok :: "sdk \<Rightarrow> bool" where
  "sdk_ok S \<longleftrightarrow> (\<forall>i j. NewIntFromBigInt S i = Ok j \<longrightarrow> j = i) \<and>
     (\<forall>d a c. NewCoin S d a = Ok c \<longrightarrow> c = \<lparr>sc_Denom = d, Amount = a\<rparr>)"

lemma ExtractAddressFromMemo_Some:
  assumes "ExtractAddressFromMemo S memos suf = Some a"
  shows "\<exists>pre s post. memos = pre @ (s @ suf) # post \<and> AccAddressFromBech32 S s = Inr a \<and>
    (\<forall>m \<in> set pre. \<forall>s' a'. m = s' @ suf \<longrightarrow> AccAddressFromBech32 S s' \<noteq> Inr a')"
  using assms
proof (induction memos)
  case (Cons memo memos)
  show ?case
  proof (cases "\<exists>s a'. memo = s @ suf \<and> AccAddressFromBech32 S s = Inr a'")
    case True
    then obtain s a' where "memo = s @ suf" "AccAddressFromBech32 S s = Inr a'" by blast
    with Cons.prems show ?thesis by (intro exI [of _ "[]"] exI [of _ s] exI [of _ memos]) auto
  next
    case False
    have "ExtractAddressFromMemo S memos suf = Some a"
    proof (cases "HasSuffix memo suf")
      case True
      from HasSuffix_TrimSuffix [OF this] False show ?thesis
        using Cons.prems True by (metis ExtractAddressFromMemo.simps(2) old.sum.exhaust sum.case(1))
    next
      case False
      then show ?thesis using Cons.prems by simp
    qed
    then obtain pre s post where ih: "memos = pre @ (s @ suf) # post" "AccAddressFromBech32 S s = Inr a"
      "\<forall>m \<in> set pre. \<forall>s' a'. m = s' @ suf \<longrightarrow> AccAddressFromBech32 S s' \<noteq> Inr a'"
      using Cons.IH by blast
    with False show ?thesis by (intro exI [of _ "memo # pre"] exI [of _ s] exI [of _ post]) auto
  qed
qed simp

text \<open>The multiplier a token's text stands for: an empty, zero or zero-valued text means one.\<close>

definition multiplier_of :: "string \<Rightarrow> rat option" where
  "multiplier_of m =
     (if m = [] \<or> m = ''0'' then Some 1
      else map_option (\<lambda>q. if q = 0 then 1 else q) (SetString m))"

lemma SetString_one: "SetString ''1.0'' = Some 1"
  using SetString_decimal [of "''1''" "''0''"] by (simp add: all_digits_def is_digit_def nat_of_dec_def char_digit_def)

lemma multiplier_used:
  "(case SetString (if m = [] \<or> m = ''0'' then ''1.0'' else m) of
      None \<Rightarrow> None | Some q \<Rightarrow> Some (if Num q = 0 then 1 else q)) = multiplier_of m"
  by (auto simp: multiplier_of_def SetString_one split: option.splits)

lemma big_Exp_10: "big_Exp 10 d = 10 ^ nat d"
  by (simp add: big_Exp_def)

lemma ConvertXRPLAmountToTXAmount_floor:
  assumes "0 \<le> value_Rat R v" and "multiplier_of m = Some q" and "0 \<le> q"
  shows "ConvertXRPLAmountToTXAmount R S (Some v) d m = NewIntFromBigInt S \<lfloor>10 ^ nat d * (value_Rat R v * q)\<rfloor>"
proof -
  have "0 \<le> value_Rat R v * q" using assms(1,3) by simp
  from Quo_Num_Denom [OF this, of "10 ^ nat d"]
  have "Quo (10 ^ nat d * Num (value_Rat R v * q)) (Denom (value_Rat R v * q)) = \<lfloor>10 ^ nat d * (value_Rat R v * q)\<rfloor>"
    by simp
  then show ?thesis
    using assms(2) multiplier_used [of m]
    by (auto simp: ConvertXRPLAmountToTXAmount_def Let_def big_Exp_10 split: option.splits)
qed

lemma ConvertXRPLAmountToTXAmount_unparsed:
  assumes "multiplier_of m = None"
  shows "ConvertXRPLAmountToTXAmount R S v d m = Ok 0"
  using assms multiplier_used [of m]
  by (auto simp: ConvertXRPLAmountToTXAmount_def Let_def split: option.splits)

lemma buildPendingTransaction_iff:
  "buildPendingTransaction R S cfg txn = Ok (Some p) \<longleftrightarrow>
     Validated txn \<and> TransactionResult txn = ''tesSUCCESS'' \<and> TransactionType txn = ''Payment'' \<and>
     ActivationDate cfg \<le> Date txn \<and>
     ExtractAddressFromMemo S (Memos txn) (XRPLMemoSuffix cfg) = Some (TXDestination p) \<and>
     (\<exists>v. Value (DeliveryAmount txn) = Some v \<and> \<not> value_IsNative R v) \<and>
     currency_String R (Currency (DeliveryAmount txn)) = currency_String R (XRPLCurrency cfg) \<and>
     account_String R (Issuer (DeliveryAmount txn)) = account_String R (XRPLIssuer cfg) \<and>
     Destination txn = account_String R (XRPLIssuer cfg) \<and>
     receivedAtLeastDeliveredAmount R (AffectedNodes txn) (XRPLIssuer cfg) (DeliveryAmount txn) = Ok True \<and>
     convertXRPLAmountToTXCoin R S cfg (Value (DeliveryAmount txn)) = Ok (TXAmount p) \<and>
     Amount (TXAmount p) \<noteq> 0 \<and> XRPLTxHash p = Hash txn"
  (is "?l \<longleftrightarrow> ?r")
proof
  assume ?r
  then show ?l
    by (cases p) (auto simp: buildPendingTransaction_def TransactionResultSuccess_def TransactionTypePayment_def
        IsNative_def)
next
  assume l: ?l
  then show ?r
    by (auto simp: buildPendingTransaction_def TransactionResultSuccess_def TransactionTypePayment_def
        IsNative_def nil_deref_def go_bind_Ok split: if_splits option.splits go.splits)
qed

end
