(* ===== verification/Finder_Properties.thy ===== *)
theory Finder_Properties
  imports Finder XRPL_Scanner
begin

text \<open>
  The properties of the finder: the arithmetic of the amount, what the burn check guarantees, and from both
  what backs a transfer that leaves the finder.
\<close>

section \<open>A concrete SDK\<close>

definition sample_sdk :: sdk where
  "sample_sdk = \<lparr>AccAddressFromBech32 = (\<lambda>s. if s = ''core1bob'' then Inr [9] else Inl (Errorf ''decoding bech32 failed'')),
     AccAddress_String = (\<lambda>a. if a = [9] then ''core1bob'' else []),
     NewIntFromBigInt = (\<lambda>i. if \<bar>i\<bar> < 2 ^ 256 then Ok i else Panic ''NewIntFromBigInt() out of bound''),
     NewCoin = (\<lambda>d a. if a < 0 then Panic ''negative coin amount'' else Ok \<lparr>sc_Denom = d, Amount = a\<rparr>)\<rparr>"

lemma sample_sdk_ok: "sdk_ok sample_sdk"
  by (simp add: sdk_ok_def sample_sdk_def)

definition sample_finder_config :: finder_config where
  "sample_finder_config = \<lparr>XRPLIssuer = [1], XRPLCurrency = [7], ActivationDate = 0, Multiplier = ''1.5'',
     XRPLHistoryScanStartLedger = 1, XRPLRecentScanIndexesBack = 30, XRPLMemoSuffix = ''/net'',
     TXDenom = ''ucore'', TXDecimals = 1\<rparr>"

definition sample_burn :: "(rat, (account \<times> rat balance list) list) Transaction" where
  "sample_burn = \<lparr>Account = ''rUser'', Destination = ''rIssuer'',
     DeliveryAmount = \<lparr>Value = Some 2, Currency = [7], Issuer = [1]\<rparr>,
     Memos = [''hello/net'', ''core1bob/net''], Hash = ''AB'',
     TransactionType = ''Payment'', TransactionResult = ''tesSUCCESS'', LedgerIndex = 5, Sequence = 1,
     Date = 5, Validated = True,
     AffectedNodes = [([1], [\<lparr>CounterParty = [2], Balance = 0, Change = 2, bal_Currency = [7]\<rparr>])]\<rparr>"

section \<open>The amount of a transfer\<close>

lemma sample_burn_pending:
  "buildPendingTransaction sample_ripple sample_sdk sample_finder_config sample_burn =
    Ok (Some \<lparr>TXDestination = [9], TXAmount = \<lparr>sc_Denom = ''ucore'', Amount = 30\<rparr>, XRPLTxHash = ''AB''\<rparr>)"
  by code_simp

text \<open>
  C30: The converted amount is the product of the delivered value, the multiplier and the power of
  ten of the decimals, rounded down: the bridge never mints more than that product and loses less
  than one base unit. An empty, zero or zero-valued multiplier counts as one.
\<close>

theorem converted_amount_rounds_down:
  assumes "sdk_ok S" and "0 \<le> value_Rat R v" and "multiplier_of m = Some q" and "0 \<le> q"
    and "ConvertXRPLAmountToTXAmount R S (Some v) d m = Ok a"
  shows "of_int a \<le> 10 ^ nat d * (value_Rat R v * q) \<and> 10 ^ nat d * (value_Rat R v * q) < of_int a + 1"
proof -
  have "a = \<lfloor>10 ^ nat d * (value_Rat R v * q)\<rfloor>"
    using assms(1,5) ConvertXRPLAmountToTXAmount_floor [OF assms(2-4)] by (simp add: sdk_ok_def)
  then show ?thesis by linarith
qed

lemma sample_multiplier: "multiplier_of ''1.5'' = Some (3 / 2)"
  using SetString_decimal [of "''1''" "''5''"]
  by (simp add: multiplier_of_def all_digits_def is_digit_def nat_of_dec_def char_digit_def)

theorem converted_amount_rounds_down_witness:
  "of_int (10 :: int) \<le> 10 ^ nat 1 * (value_Rat sample_ripple (7 / 10) * (3 / 2)) \<and>
    10 ^ nat 1 * (value_Rat sample_ripple (7 / 10) * (3 / 2)) < of_int (10 :: int) + 1"
proof (rule converted_amount_rounds_down [OF sample_sdk_ok _ sample_multiplier])
  show "ConvertXRPLAmountToTXAmount sample_ripple sample_sdk (Some (7 / 10)) 1 ''1.5'' = Ok 10"
    by code_simp
qed (simp_all add: sample_ripple_def)

section \<open>The burn check\<close>

text \<open>The balance entries of the account that count for the delivered amount.\<close>

definition counts :: "('v, 'n) ripple \<Rightarrow> account \<Rightarrow> 'v amt \<Rightarrow> 'v \<Rightarrow> 'v balance \<Rightarrow> bool" where
  "counts R acc d dv b \<longleftrightarrow> currency_Equals R (bal_Currency b) (Currency d) \<and>
     (value_IsNative R dv \<or> account_Equals R (Issuer d) acc \<or> account_Equals R (CounterParty b) (Issuer d))"

fun add_changes :: "('v, 'n) ripple \<Rightarrow> 'v \<Rightarrow> 'v balance list \<Rightarrow> go_error + 'v" where
  "add_changes R t [] = Inr t"
| "add_changes R t (b # bs) = res_bind (value_Add R t (Change b)) (\<lambda>s. add_changes R s bs)"

definition larger_balance :: "('v, 'n) ripple \<Rightarrow> 'v balance \<Rightarrow> rat \<Rightarrow> rat" where
  "larger_balance R b mag =
     (if \<bar>value_Rat R (Balance b)\<bar> > mag then \<bar>value_Rat R (Balance b)\<bar> else mag)"

lemma sum_changes_counting:
  assumes "Value d = Some dv"
  shows "sum_changes R acc d (b # bs) tot mag =
    (if counts R acc d dv b then
       (case tot of
          None \<Rightarrow> sum_changes R acc d bs (Some (Change b)) (larger_balance R b mag)
        | Some t \<Rightarrow>
            (case value_Add R t (Change b) of
               Inl e \<Rightarrow> Err (Wrap ''failed to sum the balance changes'' e)
             | Inr s \<Rightarrow> sum_changes R acc d bs (Some s) (larger_balance R b mag)))
     else sum_changes R acc d bs tot mag)"
  unfolding larger_balance_def using assms by (auto simp: counts_def IsNative_def Let_def)

lemma sum_changes_Some:
  assumes "Value d = Some dv" and "sum_changes R acc d bs (Some t) mag = Ok (found, mag')"
  shows "\<exists>s. found = Some s \<and> add_changes R t (filter (counts R acc d dv) bs) = Inr s \<and>
    mag' = fold (larger_balance R) (filter (counts R acc d dv) bs) mag"
  using assms(2)
proof (induction bs arbitrary: t mag)
  case (Cons b bs)
  show ?case
  proof (cases "counts R acc d dv b")
    case True
    then obtain s where s: "value_Add R t (Change b) = Inr s"
      "sum_changes R acc d bs (Some s) (larger_balance R b mag) = Ok (found, mag')"
      using Cons.prems unfolding sum_changes_counting [OF assms(1)] by (auto split: sum.splits)
    from Cons.IH [OF s(2)] s(1) True show ?thesis by simp
  next
    case False
    then show ?thesis using Cons unfolding sum_changes_counting [OF assms(1)] by simp
  qed
qed simp

lemma sum_changes_None:
  assumes "Value d = Some dv" and "sum_changes R acc d bs None mag = Ok (found, mag')"
  shows "case filter (counts R acc d dv) bs of
      [] \<Rightarrow> found = None
    | b # rest \<Rightarrow> \<exists>s. found = Some s \<and> add_changes R (Change b) rest = Inr s \<and>
        mag' = fold (larger_balance R) (b # rest) mag"
  using assms(2)
proof (induction bs)
  case (Cons b bs)
  show ?case
  proof (cases "counts R acc d dv b")
    case True
    then have "sum_changes R acc d bs (Some (Change b)) (larger_balance R b mag) = Ok (found, mag')"
      using Cons.prems unfolding sum_changes_counting [OF assms(1)] by simp
    from sum_changes_Some [OF assms(1) this] True show ?thesis by simp
  next
    case False
    then show ?thesis using Cons unfolding sum_changes_counting [OF assms(1)] by simp
  qed
qed simp

text \<open>The sum of the issuer's balance changes behind a positive answer.\<close>

lemma burn_sum:
  assumes "\<And>a b. 0 \<le> value_Compare R a b \<Longrightarrow> value_Rat R b \<le> value_Rat R a"
    and "receivedAtLeastDeliveredAmount R nodes acc d = Ok True" and "Value d = Some dv"
  shows "\<exists>balances bs b rest tot. Balances R nodes = Inr balances \<and> balances acc = Some bs \<and>
    filter (counts R acc d dv) bs = b # rest \<and> add_changes R (Change b) rest = Inr tot \<and>
    value_Rat R dv - max \<bar>value_Rat R dv\<bar> (fold (larger_balance R) (b # rest) 0) / 100000000000000 \<le> value_Rat R tot"
proof -
  from assms(2) obtain balances bs where b: "Balances R nodes = Inr balances" "balances acc = Some bs"
    by (auto simp: receivedAtLeastDeliveredAmount_def split: sum.splits option.splits)
  with assms(2,3) obtain tot mag where s: "sum_changes R acc d bs None 0 = Ok (Some tot, mag)"
    and ok: "0 \<le> value_Compare R tot dv \<or>
      value_Rat R dv - value_Rat R tot \<le> max \<bar>value_Rat R dv\<bar> mag * balanceReconciliationEpsilon"
    by (auto simp: receivedAtLeastDeliveredAmount_def go_bind_Ok Let_def max_def not_less
        split: option.splits if_splits)
  from sum_changes_None [OF assms(3) s] obtain b rest where
    f: "filter (counts R acc d dv) bs = b # rest" "add_changes R (Change b) rest = Inr tot"
      "mag = fold (larger_balance R) (b # rest) 0"
    by (auto split: list.splits)
  have "0 \<le> max \<bar>value_Rat R dv\<bar> mag / 100000000000000" by simp
  with ok assms(1) [of tot dv]
  have "value_Rat R dv - max \<bar>value_Rat R dv\<bar> mag / 100000000000000 \<le> value_Rat R tot"
    by (auto simp: balanceReconciliationEpsilon_def field_simps)
  with b f show ?thesis by blast
qed

text \<open>
  C29: A confirmed burn is backed by the ledger. When the check answers yes, the metadata list balance
  changes of the issuer for the delivered currency, and their sum reaches the delivered value up
  to the rounding tolerance of \<open>1e-14\<close> times the larger of the delivered value and the listed
  balances. (Comparison of values is by their rational values.)
\<close>

theorem burn_check_backed:
  assumes "\<And>a b. 0 \<le> value_Compare R a b \<Longrightarrow> value_Rat R b \<le> value_Rat R a"
    and "receivedAtLeastDeliveredAmount R nodes acc d = Ok True" and "Value d = Some dv"
  shows "\<exists>balances bs b rest tot. Balances R nodes = Inr balances \<and> balances acc = Some bs \<and>
    filter (counts R acc d dv) bs = b # rest \<and> add_changes R (Change b) rest = Inr tot \<and>
    value_Rat R dv - max \<bar>value_Rat R dv\<bar> (fold (larger_balance R) (b # rest) 0) / 100000000000000 \<le> value_Rat R tot"
  by (rule burn_sum [OF assms])

theorem burn_check_backed_witness:
  "\<exists>balances bs b rest tot. Balances sample_ripple (AffectedNodes sample_burn) = Inr balances \<and> balances [1] = Some bs \<and>
    filter (counts sample_ripple [1] (DeliveryAmount sample_burn) 2) bs = b # rest \<and>
    add_changes sample_ripple (Change b) rest = Inr tot \<and>
    value_Rat sample_ripple 2 - max \<bar>value_Rat sample_ripple 2\<bar> (fold (larger_balance sample_ripple) (b # rest) 0) / 100000000000000
      \<le> value_Rat sample_ripple tot"
proof (rule burn_check_backed)
  show "receivedAtLeastDeliveredAmount sample_ripple (AffectedNodes sample_burn) [1] (DeliveryAmount sample_burn) = Ok True"
    by code_simp
  show "0 \<le> value_Compare sample_ripple a b \<Longrightarrow> value_Rat sample_ripple b \<le> value_Rat sample_ripple a" for a b
    by (simp add: sample_ripple_def split: if_splits)
qed (simp add: sample_burn_def)

text \<open>What an accepted transaction gives for its transfer.\<close>

lemma accepted_transfer_backed:
  assumes "buildPendingTransaction R S cfg txn = Ok (Some p)" and "sdk_ok S"
    and "\<And>a b. 0 \<le> value_Compare R a b \<Longrightarrow> value_Rat R b \<le> value_Rat R a"
    and "multiplier_of (Multiplier cfg) = Some q" and "0 \<le> q" and "\<And>v. Value (DeliveryAmount txn) = Some v \<Longrightarrow> 0 \<le> value_Rat R v"
  shows "\<exists>v balances bs b rest tot. Value (DeliveryAmount txn) = Some v \<and> Balances R (AffectedNodes txn) = Inr balances \<and>
    balances (XRPLIssuer cfg) = Some bs \<and> filter (counts R (XRPLIssuer cfg) (DeliveryAmount txn) v) bs = b # rest \<and>
    add_changes R (Change b) rest = Inr tot \<and>
    of_int (Amount (TXAmount p)) \<le> 10 ^ nat (TXDecimals cfg) * q *
      (value_Rat R tot + max (value_Rat R v) (fold (larger_balance R) (b # rest) 0) / 100000000000000) \<and>
    10 ^ nat (TXDecimals cfg) * q * value_Rat R v < of_int (Amount (TXAmount p)) + 1 \<and> sc_Denom (TXAmount p) = TXDenom cfg"
proof -
  from assms(1) obtain v where v: "Value (DeliveryAmount txn) = Some v"
    and burn: "receivedAtLeastDeliveredAmount R (AffectedNodes txn) (XRPLIssuer cfg) (DeliveryAmount txn) = Ok True"
    and conv: "convertXRPLAmountToTXCoin R S cfg (Some v) = Ok (TXAmount p)"
    by (auto simp: buildPendingTransaction_iff)
  let ?f = "10 ^ nat (TXDecimals cfg) * q :: rat"
  from conv have a: "ConvertXRPLAmountToTXAmount R S (Some v) (TXDecimals cfg) (Multiplier cfg) = Ok (Amount (TXAmount p))"
      "sc_Denom (TXAmount p) = TXDenom cfg"
    using assms(2) unfolding convertXRPLAmountToTXCoin_def go_bind_Ok sdk_ok_def by force+
  have "Amount (TXAmount p) = \<lfloor>10 ^ nat (TXDecimals cfg) * (value_Rat R v * q)\<rfloor>"
    using a(1) assms(2) ConvertXRPLAmountToTXAmount_floor [OF assms(6) [OF v] assms(4,5)] by (simp add: sdk_ok_def)
  then have amt: "of_int (Amount (TXAmount p)) \<le> ?f * value_Rat R v" "?f * value_Rat R v < of_int (Amount (TXAmount p)) + 1"
    by (simp_all add: algebra_simps) linarith
  from burn_sum [OF assms(3) burn v] obtain balances bs b rest tot where
    s: "Balances R (AffectedNodes txn) = Inr balances" "balances (XRPLIssuer cfg) = Some bs"
      "filter (counts R (XRPLIssuer cfg) (DeliveryAmount txn) v) bs = b # rest" "add_changes R (Change b) rest = Inr tot"
    and le: "value_Rat R v - max \<bar>value_Rat R v\<bar> (fold (larger_balance R) (b # rest) 0) / 100000000000000 \<le> value_Rat R tot"
    by blast
  have "?f * value_Rat R v \<le> ?f * (value_Rat R tot + max (value_Rat R v) (fold (larger_balance R) (b # rest) 0) / 100000000000000)"
    using le assms(5) assms(6) [OF v] by (intro mult_left_mono) simp_all
  with amt(1) have "of_int (Amount (TXAmount p)) \<le>
      ?f * (value_Rat R tot + max (value_Rat R v) (fold (larger_balance R) (b # rest) 0) / 100000000000000)"
    by linarith
  with v s amt(2) a(2) show ?thesis by blast
qed

lemma forwarded_accepted:
  "SubscribeTXSendTransactions R S cfg txns = Ok ps \<Longrightarrow> p \<in> set ps \<Longrightarrow>
    \<exists>txn \<in> set txns. buildPendingTransaction R S cfg txn = Ok (Some p)"
  by (induction txns arbitrary: ps) (fastforce simp: go_bind_Ok split: option.splits)+

lemma forwarded_order:
  "SubscribeTXSendTransactions R S cfg txns = Ok ps \<Longrightarrow> subseq (map XRPLTxHash ps) (map Hash txns)"
  by (induction txns arbitrary: ps) (auto simp: go_bind_Ok buildPendingTransaction_iff split: option.splits)

text \<open>
  C7: Every transfer that leaves the finder is covered by a burn. It comes from a transaction of the ledger, at most one transfer from each
  and in their order, and the metadata of that transaction list balance changes of the issuer
  for the delivered currency. The amount is at most the sum of these changes, raised by the rounding tolerance, times the
  multiplier and the power of ten of the decimals; and less than one base unit of the delivered value
  is lost. (Values are compared by their rational values, and delivered values are not negative.)
\<close>

theorem forwarded_transfers_backed:
  assumes "SubscribeTXSendTransactions R S cfg txns = Ok ps" and "p \<in> set ps" and "sdk_ok S"
    and "\<And>a b. 0 \<le> value_Compare R a b \<Longrightarrow> value_Rat R b \<le> value_Rat R a"
    and "multiplier_of (Multiplier cfg) = Some q" and "0 \<le> q"
    and "\<And>txn v. txn \<in> set txns \<Longrightarrow> Value (DeliveryAmount txn) = Some v \<Longrightarrow> 0 \<le> value_Rat R v"
  shows "subseq (map XRPLTxHash ps) (map Hash txns) \<and>
    (\<exists>txn v balances bs b rest tot. txn \<in> set txns \<and> Hash txn = XRPLTxHash p \<and> Value (DeliveryAmount txn) = Some v \<and>
      Balances R (AffectedNodes txn) = Inr balances \<and> balances (XRPLIssuer cfg) = Some bs \<and>
      filter (counts R (XRPLIssuer cfg) (DeliveryAmount txn) v) bs = b # rest \<and> add_changes R (Change b) rest = Inr tot \<and>
      of_int (Amount (TXAmount p)) \<le> 10 ^ nat (TXDecimals cfg) * q *
        (value_Rat R tot + max (value_Rat R v) (fold (larger_balance R) (b # rest) 0) / 100000000000000) \<and>
      10 ^ nat (TXDecimals cfg) * q * value_Rat R v < of_int (Amount (TXAmount p)) + 1 \<and> sc_Denom (TXAmount p) = TXDenom cfg)"
proof -
  from forwarded_accepted [OF assms(1,2)] obtain txn where txn: "txn \<in> set txns"
    and acc: "buildPendingTransaction R S cfg txn = Ok (Some p)" by blast
  from acc have "Hash txn = XRPLTxHash p" by (simp add: buildPendingTransaction_iff)
  with txn accepted_transfer_backed [OF acc assms(3-6) assms(7) [OF txn]] forwarded_order [OF assms(1)] show ?thesis
    by blast
qed

text \<open>The sample burn of 2, with the multiplier 1.5 and one decimal, makes a transfer of 30.\<close>

theorem forwarded_transfers_backed_witness:
  "\<exists>balances bs b rest tot. Balances sample_ripple (AffectedNodes sample_burn) = Inr balances \<and> balances [1] = Some bs \<and>
    filter (counts sample_ripple [1] (DeliveryAmount sample_burn) 2) bs = b # rest \<and>
    add_changes sample_ripple (Change b) rest = Inr tot \<and>
    30 \<le> 15 * (value_Rat sample_ripple tot + max 2 (fold (larger_balance sample_ripple) (b # rest) 0) / 100000000000000)"
proof -
  let ?p = "\<lparr>TXDestination = [9], TXAmount = \<lparr>sc_Denom = ''ucore'', Amount = 30\<rparr>, XRPLTxHash = ''AB''\<rparr>"
  have "SubscribeTXSendTransactions sample_ripple sample_sdk sample_finder_config [sample_burn] = Ok [?p]"
    by (simp add: sample_burn_pending)
  moreover have "multiplier_of (Multiplier sample_finder_config) = Some (3 / 2)"
    using sample_multiplier by (simp add: sample_finder_config_def)
  moreover have "value_Rat sample_ripple b \<le> value_Rat sample_ripple a" if "0 \<le> value_Compare sample_ripple a b" for a b
    using that by (simp add: sample_ripple_def split: if_splits)
  moreover have "0 \<le> value_Rat sample_ripple v" if "txn \<in> set [sample_burn]" and "Value (DeliveryAmount txn) = Some v" for txn v
    using that by (auto simp: sample_burn_def sample_ripple_def)
  ultimately obtain txn v balances bs b rest tot where "txn \<in> set [sample_burn]" "Value (DeliveryAmount txn) = Some v"
    and "Balances sample_ripple (AffectedNodes txn) = Inr balances" "balances (XRPLIssuer sample_finder_config) = Some bs"
      "filter (counts sample_ripple (XRPLIssuer sample_finder_config) (DeliveryAmount txn) v) bs = b # rest"
      "add_changes sample_ripple (Change b) rest = Inr tot"
    and "of_int (Amount (TXAmount ?p)) \<le> 10 ^ nat (TXDecimals sample_finder_config) * (3 / 2) *
      (value_Rat sample_ripple tot + max (value_Rat sample_ripple v) (fold (larger_balance sample_ripple) (b # rest) 0) / 100000000000000)"
    using forwarded_transfers_backed [where R = sample_ripple and S = sample_sdk and cfg = sample_finder_config
        and txns = "[sample_burn]" and ps = "[?p]" and p = ?p and q = "3 / 2"] sample_sdk_ok
    by auto
  moreover from this(1,2) have "txn = sample_burn" "v = 2" by (simp_all add: sample_burn_def)
  moreover have "XRPLIssuer sample_finder_config = [1]" "TXDecimals sample_finder_config = 1" "value_Rat sample_ripple 2 = 2"
    by (simp_all add: sample_finder_config_def sample_ripple_def)
  ultimately have "Balances sample_ripple (AffectedNodes sample_burn) = Inr balances \<and> balances [1] = Some bs \<and>
    filter (counts sample_ripple [1] (DeliveryAmount sample_burn) 2) bs = b # rest \<and>
    add_changes sample_ripple (Change b) rest = Inr tot \<and>
    30 \<le> 15 * (value_Rat sample_ripple tot + max 2 (fold (larger_balance sample_ripple) (b # rest) 0) / 100000000000000)"
    by simp
  then show ?thesis by blast
qed

end
