(* ===== verification/Contract_Client.thy ===== *)
theory Contract_Client
  imports Finder
begin

text \<open>
  The client of the contract (\<open>relayer/client/tx/contract.go\<close>). JSON, smart queries, broadcasting and
  the SDK's coins are the fields of the record \<open>wasm_env\<close>; queries and broadcasts take the number
  of the call. Requests are kept typed and pass through the marshaller of the environment.
\<close>

section \<open>Requests, messages and responses\<close>

record XRPLToken =
  tok_Currency :: string
  tok_Issuer :: string
  tok_ActivationDate :: uint64
  tok_Multiplier :: string

record Config =
  cfg_Owner :: string
  cfg_TrustedAddresses :: "string list"
  cfg_Threshold :: uint32
  cfg_MinAmount :: int
  cfg_MaxAmount :: int
  cfg_XRPLTokens :: "XRPLToken list"
  cfg_Version :: uint64

record ThresholdBankSendRequest =
  req_ID :: string
  req_Amount :: sdk_coin
  req_Recipient :: string

text \<open>The list of tokens of a deployment may be a nil slice, \<open>None\<close>, which is marshalled otherwise than an empty one.\<close>

record DeployAndInstantiateConfig =
  dep_Owner :: string
  dep_Admin :: string
  dep_TrustedAddresses :: "string list"
  dep_Threshold :: uint32
  dep_MinAmount :: int
  dep_MaxAmount :: int
  dep_XRPLTokens :: "XRPLToken list option"
  dep_Label :: string

text \<open>A slice of a request may be nil (\<open>None\<close>), as the slices of the commands never are.\<close>

datatype exec_request =
    Req_threshold_bank_send ThresholdBankSendRequest
  | Req_execute_pending string
  | Req_update_min_amount int
  | Req_update_max_amount int
  | Req_update_trusted_addresses "acc_address list option"
  | Req_add_xrpl_tokens "XRPLToken list option"
  | Req_update_owner string

record instantiateRequest =
  ir_Owner :: string
  ir_TrustedAddresses :: "string list"
  ir_Threshold :: uint32
  ir_MinAmount :: int
  ir_MaxAmount :: int
  ir_XRPLTokens :: "XRPLToken list option"

datatype query_request =
    Query_get_config
  | Query_get_pending_transaction string
  | Query_get_pending_transactions "uint64 option" "uint32 option"
  | Query_get_sent_transaction string
  | Query_get_sent_transactions "uint64 option" "uint32 option"

record tx_Transaction =
  tx_Amount :: sdk_coin
  tx_Recipient :: string
  tx_EvidenceProviders :: "string list"

record PendingTransaction =
  EvidenceID :: string
  ptx :: tx_Transaction

record SentTransaction =
  SentID :: string
  stx :: tx_Transaction

datatype sdk_msg =
    MsgExecuteContract string string string "sdk_coin list"
  | MsgMigrateContract string string uint64 string
  | MsgStoreCode string string
  | MsgInstantiateContract string string uint64 string string
  | OtherMsg string

record EventAttribute =
  attr_Key :: string
  attr_Value :: string
  attr_Index :: bool

record Event =
  ev_Type :: string
  ev_Attributes :: "EventAttribute list"

text \<open>
  The SDK's transaction response. \<open>tx_Tx\<close> is the cached value of its \<open>Tx\<close>: the messages, or \<open>None\<close> if it is
  not a transaction of the SDK.
\<close>

record tx_response =
  tx_Height :: int
  TxHash :: string
  tx_Code :: uint32
  tx_Tx :: "sdk_msg list option"
  tx_Timestamp :: string
  tx_Events :: "Event list"

record wasm_env =
  Marshal_exec :: "exec_request \<Rightarrow> go_error + string"
  Marshal_instantiate :: "instantiateRequest \<Rightarrow> go_error + string"
  Marshal_query :: "query_request \<Rightarrow> go_error + string"
  SmartContractState :: "nat \<Rightarrow> string \<Rightarrow> string \<Rightarrow> go_error + string"
  Unmarshal_config :: "string \<Rightarrow> go_error + Config"
  Unmarshal_tx :: "string \<Rightarrow> go_error + tx_Transaction"
  Unmarshal_pending_txs :: "string \<Rightarrow> go_error + PendingTransaction list"
  Unmarshal_sent_txs :: "string \<Rightarrow> go_error + SentTransaction list"
  BroadcastTx :: "nat \<Rightarrow> acc_address \<Rightarrow> sdk_msg list \<Rightarrow> go_error + tx_response"
  FindStringEventAttribute :: "tx_response \<Rightarrow> string \<Rightarrow> string \<Rightarrow> go_error + string"
  FindUint64EventAttribute :: "tx_response \<Rightarrow> string \<Rightarrow> string \<Rightarrow> go_error + uint64"
  NewCoins :: "sdk_coin list \<Rightarrow> sdk_coin list go"
  Bytecode :: string

record ContractClientConfig =
  ContractAddress :: "acc_address option"
  cc_TXDenom :: string
  GasMultiplier :: rat
  GasPriceMultiplier :: rat
  ContractPageSize :: uint32

definition DefaultContractClientConfig :: "acc_address option \<Rightarrow> string \<Rightarrow> ContractClientConfig" where
  "DefaultContractClientConfig addr denom =
     \<lparr>ContractAddress = addr, cc_TXDenom = denom, GasMultiplier = 3 / 2, GasPriceMultiplier = 6 / 5,
      ContractPageSize = 500\<rparr>"

section \<open>Errors of the contract\<close>

definition isError :: "go_error option \<Rightarrow> string \<Rightarrow> bool" where
  "isError err s = (case err of None \<Rightarrow> False | Some e \<Rightarrow> Contains (Error e) s)"

definition IsUnauthorizedError :: "go_error option \<Rightarrow> bool" where
  "IsUnauthorizedError err = isError err ''Unauthorized''"

definition IsEvidenceProvidedError :: "go_error option \<Rightarrow> bool" where
  "IsEvidenceProvidedError err = isError err ''Sender already provided the evidence''"

definition IsTransferSentError :: "go_error option \<Rightarrow> bool" where
  "IsTransferSentError err = isError err ''Transfer already sent''"

definition IsTransactionNotFoundError :: "go_error option \<Rightarrow> bool" where
  "IsTransactionNotFoundError err = isError err ''Transaction not found''"

definition IsTransactionNotConfirmedError :: "go_error option \<Rightarrow> bool" where
  "IsTransactionNotConfirmedError err = isError err ''Transaction not confirmed''"

definition IsLowAmountError :: "go_error option \<Rightarrow> bool" where
  "IsLowAmountError err = isError err ''The amount is too low''"

definition IsFundsMismatchError :: "go_error option \<Rightarrow> bool" where
  "IsFundsMismatchError err = isError err ''Funds mismatch''"

section \<open>Building and broadcasting\<close>

definition need_address :: "ContractClientConfig \<Rightarrow> go_error + acc_address" where
  "need_address c = (case ContractAddress c of
     None \<Rightarrow> Inl (Errorf ''failed to execute with empty contract address'') | Some a \<Rightarrow> Inr a)"

definition buildExecuteWithFunds ::
  "sdk \<Rightarrow> wasm_env \<Rightarrow> ContractClientConfig \<Rightarrow> acc_address \<Rightarrow> sdk_coin list \<Rightarrow> exec_request \<Rightarrow> go_error + sdk_msg" where
  "buildExecuteWithFunds S E c sender funds req =
     res_bind (need_address c) (\<lambda>addr.
     res_bind (res_wrap (''can'' @ [CHR 0x27] @ ''t marshal payload'') (Marshal_exec E req)) (\<lambda>payload.
       Inr (MsgExecuteContract (AccAddress_String S sender) (AccAddress_String S addr) payload funds)))"

definition executeWithFunds ::
  "sdk \<Rightarrow> wasm_env \<Rightarrow> ContractClientConfig \<Rightarrow> nat \<Rightarrow> acc_address \<Rightarrow> sdk_coin list \<Rightarrow> exec_request \<Rightarrow> go_error + tx_response" where
  "executeWithFunds S E c n sender funds req =
     res_bind (buildExecuteWithFunds S E c sender funds req) (\<lambda>msg. BroadcastTx E n sender [msg])"

text \<open>The loop of \<open>execute\<close> marshals every request; its messages carry no funds.\<close>

fun build_all ::
  "sdk \<Rightarrow> wasm_env \<Rightarrow> acc_address \<Rightarrow> acc_address \<Rightarrow> exec_request list \<Rightarrow> go_error + sdk_msg list" where
  "build_all S E sender addr [] = Inr []"
| "build_all S E sender addr (req # reqs) =
     res_bind (res_wrap (''can'' @ [CHR 0x27] @ ''t marshal payload'') (Marshal_exec E req)) (\<lambda>payload.
     res_bind (build_all S E sender addr reqs) (\<lambda>msgs.
       Inr (MsgExecuteContract (AccAddress_String S sender) (AccAddress_String S addr) payload [] # msgs)))"

definition exec_requests ::
  "sdk \<Rightarrow> wasm_env \<Rightarrow> ContractClientConfig \<Rightarrow> nat \<Rightarrow> acc_address \<Rightarrow> exec_request list \<Rightarrow> go_error + tx_response" where
  "exec_requests S E c n sender reqs =
     res_bind (need_address c) (\<lambda>addr.
     res_bind (build_all S E sender addr reqs) (\<lambda>msgs. BroadcastTx E n sender msgs))"

definition failed_method :: "string \<Rightarrow> string" where
  "failed_method m = ''failed to execute '' @ m @ '' Method''"

definition ThresholdBankSend ::
  "sdk \<Rightarrow> wasm_env \<Rightarrow> ContractClientConfig \<Rightarrow> nat \<Rightarrow> acc_address \<Rightarrow> ThresholdBankSendRequest list \<Rightarrow> go_error + tx_response" where
  "ThresholdBankSend S E c n sender requests =
     res_wrap (failed_method ''threshold_bank_send'')
       (exec_requests S E c n sender (map Req_threshold_bank_send requests))"

definition UpdateMinAmount ::
  "sdk \<Rightarrow> wasm_env \<Rightarrow> ContractClientConfig \<Rightarrow> nat \<Rightarrow> acc_address \<Rightarrow> int \<Rightarrow> go_error + tx_response" where
  "UpdateMinAmount S E c n sender m =
     res_wrap (failed_method ''update_min_amount'') (exec_requests S E c n sender [Req_update_min_amount m])"

definition UpdateMaxAmount ::
  "sdk \<Rightarrow> wasm_env \<Rightarrow> ContractClientConfig \<Rightarrow> nat \<Rightarrow> acc_address \<Rightarrow> int \<Rightarrow> go_error + tx_response" where
  "UpdateMaxAmount S E c n sender m =
     res_wrap (failed_method ''update_max_amount'') (exec_requests S E c n sender [Req_update_max_amount m])"

definition UpdateOwner ::
  "sdk \<Rightarrow> wasm_env \<Rightarrow> ContractClientConfig \<Rightarrow> nat \<Rightarrow> acc_address \<Rightarrow> string \<Rightarrow> go_error + tx_response" where
  "UpdateOwner S E c n sender o' =
     res_wrap (failed_method ''update_owner'') (exec_requests S E c n sender [Req_update_owner o'])"

definition ExecutePending ::
  "sdk \<Rightarrow> wasm_env \<Rightarrow> ContractClientConfig \<Rightarrow> nat \<Rightarrow> acc_address \<Rightarrow> sdk_coin \<Rightarrow> string \<Rightarrow> tx_response go" where
  "ExecutePending S E c n sender funds evidenceID =
     go_bind (NewCoins E [funds]) (\<lambda>coins. go_of (res_wrap (failed_method ''execute_pending'')
       (executeWithFunds S E c n sender coins (Req_execute_pending evidenceID))))"

definition BuildUpdateTrustedAddressesTransaction ::
  "sdk \<Rightarrow> wasm_env \<Rightarrow> ContractClientConfig \<Rightarrow> acc_address \<Rightarrow> acc_address list option \<Rightarrow> sdk_msg go" where
  "BuildUpdateTrustedAddressesTransaction S E c sender as =
     go_bind (NewCoins E []) (\<lambda>coins. go_of (res_wrap ''failed to build tx for update_trusted_addresses Method''
       (buildExecuteWithFunds S E c sender coins (Req_update_trusted_addresses as))))"

definition UpdateTrustedAddresses ::
  "sdk \<Rightarrow> wasm_env \<Rightarrow> ContractClientConfig \<Rightarrow> nat \<Rightarrow> acc_address \<Rightarrow> acc_address list option \<Rightarrow> tx_response go" where
  "UpdateTrustedAddresses S E c n sender as =
     go_bind (BuildUpdateTrustedAddressesTransaction S E c sender as) (\<lambda>msg.
       go_of (res_wrap ''failed to update trusted addresses'' (BroadcastTx E n sender [msg])))"

definition BuildAddXRPLTokensTransaction ::
  "sdk \<Rightarrow> wasm_env \<Rightarrow> ContractClientConfig \<Rightarrow> acc_address \<Rightarrow> XRPLToken list option \<Rightarrow> sdk_msg go" where
  "BuildAddXRPLTokensTransaction S E c sender ts =
     go_bind (NewCoins E []) (\<lambda>coins. go_of (res_wrap ''failed to build tx for add_xrpl_tokens Method''
       (buildExecuteWithFunds S E c sender coins (Req_add_xrpl_tokens ts))))"

definition AddXRPLTokens ::
  "sdk \<Rightarrow> wasm_env \<Rightarrow> ContractClientConfig \<Rightarrow> nat \<Rightarrow> acc_address \<Rightarrow> XRPLToken list option \<Rightarrow> tx_response go" where
  "AddXRPLTokens S E c n sender ts =
     go_bind (BuildAddXRPLTokensTransaction S E c sender ts) (\<lambda>msg.
       go_of (res_wrap ''failed to add XRPL tokens'' (BroadcastTx E n sender [msg])))"

definition SetContractAddress :: "ContractClientConfig \<Rightarrow> acc_address \<Rightarrow> go_error + ContractClientConfig" where
  "SetContractAddress c addr =
     (if ContractAddress c \<noteq> None then Inl (Errorf ''contract address is already set'')
      else Inr (c\<lparr>ContractAddress := Some addr\<rparr>))"

text \<open>
  \<open>BuildMigrateContractMessage\<close> reads the address without a check; the text of a nil address is empty.
\<close>

definition BuildMigrateContractMessage ::
  "sdk \<Rightarrow> ContractClientConfig \<Rightarrow> acc_address \<Rightarrow> uint64 \<Rightarrow> string option \<Rightarrow> sdk_msg" where
  "BuildMigrateContractMessage S c sender codeID msgPayload =
     MsgMigrateContract (AccAddress_String S sender)
       (case ContractAddress c of None \<Rightarrow> AccAddress_String S [] | Some a \<Rightarrow> AccAddress_String S a) codeID
       (case msgPayload of None \<Rightarrow> ''{}'' | Some p \<Rightarrow> p)"

definition MigrateContract ::
  "sdk \<Rightarrow> wasm_env \<Rightarrow> ContractClientConfig \<Rightarrow> nat \<Rightarrow> acc_address \<Rightarrow> uint64 \<Rightarrow> string option \<Rightarrow> go_error + tx_response" where
  "MigrateContract S E c n sender codeID msgPayload =
     res_wrap (''failed to migrate contract, codeID:'' @ dec_of_nat (unat codeID))
       (BroadcastTx E n sender [BuildMigrateContractMessage S c sender codeID msgPayload])"

definition Deploy :: "sdk \<Rightarrow> wasm_env \<Rightarrow> nat \<Rightarrow> acc_address \<Rightarrow> go_error + uint64" where
  "Deploy S E n sender =
     res_bind (res_wrap (''can'' @ [CHR 0x27] @ ''t deploy wasm bytecode'')
       (BroadcastTx E n sender [MsgStoreCode (AccAddress_String S sender) (Bytecode E)])) (\<lambda>res.
     res_wrap (''can'' @ [CHR 0x27] @ ''t find code ID in the tx result'')
       (FindUint64EventAttribute E res ''store_code'' ''code_id''))"

definition DeployAndInstantiate ::
  "sdk \<Rightarrow> wasm_env \<Rightarrow> nat \<Rightarrow> acc_address \<Rightarrow> DeployAndInstantiateConfig \<Rightarrow> go_error + acc_address" where
  "DeployAndInstantiate S E n sender config =
     res_bind (Deploy S E n sender) (\<lambda>codeID.
     res_bind (res_wrap (''can'' @ [CHR 0x27] @ ''t marshal instantiate payload'')
       (Marshal_instantiate E \<lparr>ir_Owner = dep_Owner config, ir_TrustedAddresses = dep_TrustedAddresses config,
          ir_Threshold = dep_Threshold config, ir_MinAmount = dep_MinAmount config,
          ir_MaxAmount = dep_MaxAmount config, ir_XRPLTokens = dep_XRPLTokens config\<rparr>)) (\<lambda>payload.
     res_bind (res_wrap (''can'' @ [CHR 0x27] @ ''t instantiate bytecode'')
       (BroadcastTx E (Suc n) sender
          [MsgInstantiateContract (AccAddress_String S sender) (dep_Admin config) codeID (dep_Label config) payload])) (\<lambda>res.
     res_bind (res_wrap (''can'' @ [CHR 0x27] @ ''t find contract address in the tx result'')
       (FindStringEventAttribute E res ''instantiate'' ''_contract_address'')) (\<lambda>contractAddr.
     res_wrap (''can'' @ [CHR 0x27] @ ''t convert contrac address to sdk.AccAddress'')
       (AccAddressFromBech32 S contractAddr)))))"

section \<open>Queries\<close>

definition query ::
  "sdk \<Rightarrow> wasm_env \<Rightarrow> ContractClientConfig \<Rightarrow> nat \<Rightarrow> query_request \<Rightarrow> (string \<Rightarrow> go_error + 'r) \<Rightarrow> go_error + 'r" where
  "query S E c n request decode =
     res_bind (need_address c) (\<lambda>addr.
     res_bind (res_wrap (''can'' @ [CHR 0x27] @ ''t marshal query request'') (Marshal_query E request)) (\<lambda>payload.
     res_bind (res_wrap ''query failed'' (SmartContractState E n (AccAddress_String S addr) payload)) (\<lambda>resp.
       res_wrap (''can'' @ [CHR 0x27] @ ''t unmarshal wasm contract response, raw response:'' @ resp) (decode resp))))"

definition GetContractConfig :: "sdk \<Rightarrow> wasm_env \<Rightarrow> ContractClientConfig \<Rightarrow> nat \<Rightarrow> go_error + Config" where
  "GetContractConfig S E c n =
     res_wrap ''failed to query get_config'' (query S E c n Query_get_config (Unmarshal_config E))"

definition GetPendingTx :: "sdk \<Rightarrow> wasm_env \<Rightarrow> ContractClientConfig \<Rightarrow> nat \<Rightarrow> string \<Rightarrow> go_error + tx_Transaction" where
  "GetPendingTx S E c n e =
     res_wrap ''failed to query get_pending_transaction''
       (query S E c n (Query_get_pending_transaction e) (Unmarshal_tx E))"

definition GetPendingTxs ::
  "sdk \<Rightarrow> wasm_env \<Rightarrow> ContractClientConfig \<Rightarrow> nat \<Rightarrow> uint64 option \<Rightarrow> uint32 option \<Rightarrow> go_error + PendingTransaction list" where
  "GetPendingTxs S E c n offset limit =
     res_wrap ''failed to query get_pending_transactions''
       (query S E c n (Query_get_pending_transactions offset limit) (Unmarshal_pending_txs E))"

definition GetSentTx :: "sdk \<Rightarrow> wasm_env \<Rightarrow> ContractClientConfig \<Rightarrow> nat \<Rightarrow> string \<Rightarrow> go_error + tx_Transaction" where
  "GetSentTx S E c n i =
     res_wrap ''failed to query get_sent_transaction''
       (query S E c n (Query_get_sent_transaction i) (Unmarshal_tx E))"

definition GetSentTxs ::
  "sdk \<Rightarrow> wasm_env \<Rightarrow> ContractClientConfig \<Rightarrow> nat \<Rightarrow> uint64 option \<Rightarrow> uint32 option \<Rightarrow> go_error + SentTransaction list" where
  "GetSentTxs S E c n offset limit =
     res_wrap ''failed to query get_sent_transactions''
       (query S E c n (Query_get_sent_transactions offset limit) (Unmarshal_sent_txs E))"

text \<open>The paging loop; \<open>None\<close> is a loop that does not end.\<close>

definition unapproved :: "uint32 \<Rightarrow> PendingTransaction \<Rightarrow> bool" where
  "unapproved th p = ((of_nat (length (tx_EvidenceProviders (ptx p))) :: uint32) < th)"

partial_function (option) pending_loop ::
  "(nat \<Rightarrow> uint64 \<Rightarrow> uint32 \<Rightarrow> go_error + PendingTransaction list) \<Rightarrow> uint32 \<Rightarrow> uint32 \<Rightarrow>
   nat \<Rightarrow> uint64 \<Rightarrow> uint32 \<Rightarrow> PendingTransaction list \<Rightarrow> PendingTransaction list \<Rightarrow>
   (go_error + PendingTransaction list \<times> PendingTransaction list) option" where
  [code]: "pending_loop q pageSize th n offset limit unapp app =
     (case q n offset limit of
        Inl e \<Rightarrow> Some (Inl e)
      | Inr pendingTxs \<Rightarrow>
          if pendingTxs = [] then Some (Inr (unapp, app))
          else pending_loop q pageSize th (Suc n) (offset + ucast pageSize) (limit + pageSize)
                 (unapp @ filter (unapproved th) pendingTxs) (app @ filter (\<lambda>p. \<not> unapproved th p) pendingTxs))"

definition GetAllPendingTransactions ::
  "sdk \<Rightarrow> wasm_env \<Rightarrow> ContractClientConfig \<Rightarrow> nat \<Rightarrow>
   (go_error + PendingTransaction list \<times> PendingTransaction list) option" where
  "GetAllPendingTransactions S E c n =
     (case GetContractConfig S E c n of
        Inl e \<Rightarrow> Some (Inl e)
      | Inr contractCfg \<Rightarrow>
          pending_loop (\<lambda>n offset limit. GetPendingTxs S E c n (Some offset) (Some limit)) (ContractPageSize c)
            (cfg_Threshold contractCfg) (Suc n) 0 (ContractPageSize c) [] [])"

fun sprint_strings :: "string list \<Rightarrow> string" where
  "sprint_strings [] = []"
| "sprint_strings [s] = s"
| "sprint_strings (s # t # ts) = s @ '' '' @ sprint_strings (t # ts)"

text \<open>The loop of \<open>BuildExecutePendingMessages\<close>; \<open>ids\<close> are the keys left in the map of requested ids.\<close>

fun build_pending_msgs ::
  "sdk \<Rightarrow> wasm_env \<Rightarrow> ContractClientConfig \<Rightarrow> acc_address \<Rightarrow> bool \<Rightarrow> string list \<Rightarrow> PendingTransaction list \<Rightarrow>
   (sdk_msg list \<times> string list) go" where
  "build_pending_msgs S E c sender includeAll ids [] = Ok ([], ids)"
| "build_pending_msgs S E c sender includeAll ids (txn # txns) =
     (if includeAll \<or> EvidenceID txn \<in> set ids then
        go_bind (NewCoins E [tx_Amount (ptx txn)]) (\<lambda>coins.
        go_bind (go_of (res_wrap (failed_method ''execute_pending'')
          (buildExecuteWithFunds S E c sender coins (Req_execute_pending (EvidenceID txn))))) (\<lambda>msg.
        go_bind (build_pending_msgs S E c sender includeAll (removeAll (EvidenceID txn) ids) txns) (\<lambda>(msgs, rest).
          Ok (msg # msgs, rest))))
      else build_pending_msgs S E c sender includeAll ids txns)"

definition BuildExecutePendingMessages ::
  "sdk \<Rightarrow> wasm_env \<Rightarrow> ContractClientConfig \<Rightarrow> nat \<Rightarrow> acc_address \<Rightarrow> string list \<Rightarrow> sdk_msg list go option" where
  "BuildExecutePendingMessages S E c n sender evidenceIDs =
     (case GetAllPendingTransactions S E c n of
        None \<Rightarrow> None
      | Some r \<Rightarrow> Some
          (go_bind (go_of r) (\<lambda>(_, approvedTransactions).
           go_bind (build_pending_msgs S E c sender (evidenceIDs = []) (remdups evidenceIDs) approvedTransactions)
             (\<lambda>(msgs, rest).
                if rest \<noteq> [] then
                  Err (Errorf (''some of evidence ids are not found in the approved pending transactions: ['' @ sprint_strings rest @ '']''))
                else Ok msgs))))"

end
