(* ===== verification/Client_Properties.thy ===== *)
theory Client_Properties
  imports Contract_Client Contract_Properties Finder_Properties
begin

text \<open>
  The client against the contract: paging through the pending transactions, the messages built to
  execute them, and the recognition of the contract's errors by their texts.
\<close>

section \<open>The contract behind the queries\<close>

text \<open>What the contract's queries are in the client's types.\<close>

definition coin_to_go :: "coin \<Rightarrow> sdk_coin" where
  "coin_to_go a = \<lparr>sc_Denom = coin_denom a, Amount = uint (coin_amount a)\<rparr>"

definition pending_to_go :: "pending_transaction \<Rightarrow> PendingTransaction" where
  "pending_to_go p = \<lparr>EvidenceID = pt_evidence_id p,
     ptx = \<lparr>tx_Amount = coin_to_go (pt_amount p), tx_Recipient = pt_recipient p,
            tx_EvidenceProviders = pt_evidence_providers p\<rparr>\<rparr>"

definition token_to_go :: "xrpl_token \<Rightarrow> XRPLToken" where
  "token_to_go t = \<lparr>tok_Currency = currency t, tok_Issuer = issuer t,
     tok_ActivationDate = activation_date t, tok_Multiplier = multiplier t\<rparr>"

definition config_to_go :: "contract_config \<Rightarrow> Config" where
  "config_to_go c = \<lparr>cfg_Owner = owner c, cfg_TrustedAddresses = trusted_addresses c,
     cfg_Threshold = threshold c, cfg_MinAmount = uint (min_amount c), cfg_MaxAmount = uint (max_amount c),
     cfg_XRPLTokens = map token_to_go (xrpl_tokens c), cfg_Version = version c\<rparr>"

definition contract_pages :: "storage \<Rightarrow> nat \<Rightarrow> uint64 \<Rightarrow> uint32 \<Rightarrow> go_error + PendingTransaction list" where
  "contract_pages st n offset limit =
     Inr (map pending_to_go (get_pending_transactions st (Some offset) (Some limit)))"

definition all_pending :: "storage \<Rightarrow> PendingTransaction list" where
  "all_pending st = map (pending_to_go \<circ> (\<lambda>(e, t). to_pending e t)) (PENDING_TRANSACTIONS st)"

section \<open>The interface of a paged query\<close>

text \<open>
  The interface the paging loop relies on: a page of at most 500 entries from the offset, which the
  server reads with 32 bits.
\<close>

locale paged_query =
  fixes q :: "'e \<Rightarrow> nat \<Rightarrow> uint64 \<Rightarrow> uint32 \<Rightarrow> go_error + PendingTransaction list"
    and entries :: "'e \<Rightarrow> PendingTransaction list"
  assumes page: "q e n offset limit =
    Inr (take (min (unat limit) 500) (drop (unat (ucast offset :: uint32)) (entries e)))"
begin

lemma page_500:
  assumes "500 * Suc k < 2 ^ 32"
  shows "q e n (of_nat (500 * k)) (of_nat (500 * Suc k)) = Inr (take 500 (drop (500 * k) (entries e)))"
proof -
  have "unat (of_nat (500 * Suc k) :: uint32) = 500 * Suc k"
    using assms by (subst unat_of_nat) simp
  then have l: "min (unat (of_nat (500 * Suc k) :: uint32)) 500 = 500"
    by (simp add: min_def)
  have "unat (ucast (of_nat (500 * k) :: uint64) :: uint32) = 500 * k"
    using assms by (simp add: unat_of_nat unsigned_ucast_eq take_bit_nat_eq_self del: of_nat_mult)
  then show ?thesis by (simp only: page l)
qed

text \<open>The loop reads every entry once, split by the threshold.\<close>

lemma loop_from:
  assumes "length (entries e) + 1000 < 2 ^ 32" and "500 * k \<le> length (entries e) + 500"
  shows "pending_loop (q e) 500 th n (of_nat (500 * k)) (of_nat (500 * Suc k)) U A =
    Some (Inr (U @ filter (unapproved th) (drop (500 * k) (entries e)),
               A @ filter (\<lambda>p. \<not> unapproved th p) (drop (500 * k) (entries e))))"
  using assms(2)
proof (induction "length (entries e) + 500 - 500 * k" arbitrary: k n U A rule: less_induct)
  case less
  have bound: "500 * Suc k < 2 ^ 32" using assms(1) less.prems by simp
  show ?case
  proof (cases "length (entries e) \<le> 500 * k")
    case True
    then show ?thesis
      by (subst pending_loop.simps) (simp add: page_500 [OF bound] del: of_nat_mult mult_Suc_right)
  next
    case False
    let ?p = "take 500 (drop (500 * k) (entries e))"
    have ne: "?p \<noteq> []" using False by simp
    have steps: "(of_nat (500 * k) :: uint64) + ucast (500 :: uint32) = of_nat (500 * Suc k)"
      "(of_nat (500 * Suc k) :: uint32) + 500 = of_nat (500 * Suc (Suc k))"
      by simp_all
    have split: "?p @ drop (500 * Suc k) (entries e) = drop (500 * k) (entries e)"
      by (metis add.commute append_take_drop_id drop_drop mult_Suc_right)
    have "pending_loop (q e) 500 th n (of_nat (500 * k)) (of_nat (500 * Suc k)) U A =
      pending_loop (q e) 500 th (Suc n) (of_nat (500 * Suc k)) (of_nat (500 * Suc (Suc k)))
        (U @ filter (unapproved th) ?p) (A @ filter (\<lambda>p. \<not> unapproved th p) ?p)"
      by (subst pending_loop.simps) (simp only: page_500 [OF bound] sum.case ne if_False steps)
    also have "\<dots> = Some (Inr
        ((U @ filter (unapproved th) ?p) @ filter (unapproved th) (drop (500 * Suc k) (entries e)),
         (A @ filter (\<lambda>p. \<not> unapproved th p) ?p) @ filter (\<lambda>p. \<not> unapproved th p) (drop (500 * Suc k) (entries e))))"
      using less.prems False by (intro less.hyps) auto
    finally show ?thesis
      using arg_cong [OF split, of "filter (unapproved th)"]
        arg_cong [OF split, of "filter (\<lambda>p. \<not> unapproved th p)"] by simp
  qed
qed

lemma loop_reads_all:
  assumes "length (entries e) + 1000 < 2 ^ 32"
  shows "pending_loop (q e) 500 th n 0 500 [] [] =
    Some (Inr (filter (unapproved th) (entries e), filter (\<lambda>p. \<not> unapproved th p) (entries e)))"
  using loop_from [OF assms, of 0 th n "[]" "[]"] by simp

end

interpretation cpages: paged_query contract_pages all_pending
proof
  fix st n and offset :: uint64 and limit :: uint32
  show "contract_pages st n offset limit =
    Inr (take (min (unat limit) 500) (drop (unat (ucast offset :: uint32)) (all_pending st)))"
    by (simp add: contract_pages_def get_pending_transactions_def paginate_transactions_def all_pending_def
        DEFAULT_PAGE_LIMIT_def kv_range_def take_map drop_map)
qed

section \<open>Reading the pending transactions\<close>

text \<open>
  With the default page size the client reads every pending transaction exactly once and ends:
  when its queries are answered from one storage of the contract, the result is the list of pending
  transactions in key order, split by whether they have fewer providers than the threshold.
\<close>

lemma all_pending_read_once:
  assumes "ContractPageSize c = 500" and "GetContractConfig S E c n = Inr contractCfg"
    and "\<And>n offset limit. GetPendingTxs S E c n (Some offset) (Some limit) = contract_pages st n offset limit"
    and "length (PENDING_TRANSACTIONS st) + 1000 < 2 ^ 32"
  shows "GetAllPendingTransactions S E c n =
    Some (Inr (filter (unapproved (cfg_Threshold contractCfg)) (all_pending st),
               filter (\<lambda>p. \<not> unapproved (cfg_Threshold contractCfg) p) (all_pending st)))"
proof -
  have "(\<lambda>n offset limit. GetPendingTxs S E c n (Some offset) (Some limit)) = contract_pages st"
    using assms(3) by blast
  then show ?thesis
    using assms(1,2,4) cpages.loop_reads_all [of st]
    by (simp add: GetAllPendingTransactions_def all_pending_def)
qed

text \<open>A chain whose queries run the contract model on a storage with three pending transactions.\<close>

definition sample_tx_of :: "addr list \<Rightarrow> transaction" where
  "sample_tx_of ps = \<lparr>amount = sample_coin 15, recipient = ''bob'', evidence_providers = ps\<rparr>"

definition sample_three :: storage where
  "sample_three = sample_start\<lparr>PENDING_TRANSACTIONS :=
     [(''a'', sample_tx_of [''r1'']), (''b'', sample_tx_of [''r1'', ''r2'']), (''c'', sample_tx_of [''r3''])]\<rparr>"

definition sample_marshal :: "query_request \<Rightarrow> go_error + string" where
  "sample_marshal r = (case r of
     Query_get_config \<Rightarrow> Inr ''c''
   | Query_get_pending_transactions (Some off) _ \<Rightarrow> Inr (if off = 0 then ''p'' else ''e'')
   | _ \<Rightarrow> Inl (Errorf ''unsupported''))"

definition starts_with_letter :: "string \<Rightarrow> bool" where
  "starts_with_letter d \<longleftrightarrow> d \<noteq> [] \<and> \<not> is_digit (hd d)"

definition sample_wasm :: wasm_env where
  "sample_wasm = \<lparr>Marshal_exec = (\<lambda>r. case r of Req_execute_pending e \<Rightarrow> Inr e | _ \<Rightarrow> Inr []),
     Marshal_instantiate = (\<lambda>r. Inr []), Marshal_query = sample_marshal,
     SmartContractState = (\<lambda>n addr payload. Inr payload),
     Unmarshal_config = (\<lambda>b. Inr (config_to_go sample_config)),
     Unmarshal_tx = (\<lambda>b. Inl (Errorf ''unsupported'')),
     Unmarshal_pending_txs = (\<lambda>b. Inr (if b = ''p'' then all_pending sample_three else [])),
     Unmarshal_sent_txs = (\<lambda>b. Inr []),
     BroadcastTx = (\<lambda>n s ms. Inr \<lparr>tx_Height = 1, TxHash = [], tx_Code = 0, tx_Tx = None, tx_Timestamp = [], tx_Events = []\<rparr>),
     FindStringEventAttribute = (\<lambda>r t k. Inl (Errorf ''no attribute'')),
     FindUint64EventAttribute = (\<lambda>r t k. Inl (Errorf ''no attribute'')),
     NewCoins = (\<lambda>cs. let coins = filter (\<lambda>c. Amount c \<noteq> 0) cs in
       if \<exists>c \<in> set coins. Amount c < 0 \<or> \<not> starts_with_letter (sc_Denom c) then Panic ''invalid coins'' else Ok coins),
     Bytecode = []\<rparr>"

definition sample_client :: ContractClientConfig where
  "sample_client = DefaultContractClientConfig (Some [3]) ''ucore''"

text \<open>
  The loop raises the limit with the offset. With a page size below the contract's cap of 500 the
  pages overlap: with page size 1 and three pending transactions the last one is returned twice.
\<close>

lemma small_page_size_repeats_entries:
  "map_option (map_sum id (\<lambda>(u, a). (map EvidenceID u, map EvidenceID a)))
     (pending_loop (contract_pages sample_three) 1 2 0 0 1 [] []) = Some (Inr ([''a'', ''c'', ''c''], [''b'']))"
  by code_simp

section \<open>Executing approved transactions\<close>

definition pending_msg ::
  "sdk \<Rightarrow> acc_address \<Rightarrow> acc_address \<Rightarrow> (exec_request \<Rightarrow> string) \<Rightarrow> (PendingTransaction \<Rightarrow> sdk_coin list) \<Rightarrow> PendingTransaction \<Rightarrow> sdk_msg"
where
  "pending_msg S who addr enc coins t =
     MsgExecuteContract (AccAddress_String S who) (AccAddress_String S addr) (enc (Req_execute_pending (EvidenceID t))) (coins t)"

lemma pending_built:
  assumes "ContractAddress c = Some addr" and "\<And>r. Marshal_exec E r = Inr (enc r)"
  shows "buildExecuteWithFunds S E c who (coins t) (Req_execute_pending (EvidenceID t)) = Inr (pending_msg S who addr enc coins t)"
  using assms by (simp add: buildExecuteWithFunds_def need_address_def pending_msg_def)

lemma build_pending_msgs_selects:
  assumes "ContractAddress c = Some addr" and "\<And>r. Marshal_exec E r = Inr (enc r)"
    and "\<And>t. t \<in> set A \<Longrightarrow> all \<or> EvidenceID t \<in> set ids \<Longrightarrow> NewCoins E [tx_Amount (ptx t)] = Ok (coins t)"
    and "distinct (map EvidenceID A)"
  shows "build_pending_msgs S E c who all ids A =
    Ok (map (pending_msg S who addr enc coins) (filter (\<lambda>t. all \<or> EvidenceID t \<in> set ids) A),
        filter (\<lambda>i. i \<notin> EvidenceID ` {t \<in> set A. all \<or> EvidenceID t \<in> set ids}) ids)"
  using assms(3,4)
proof (induction A arbitrary: ids)
  case (Cons t A)
  have sel: "filter (\<lambda>x. all \<or> EvidenceID x \<in> set (removeAll (EvidenceID t) ids)) A =
      filter (\<lambda>x. all \<or> EvidenceID x \<in> set ids) A"
    using Cons.prems by (intro filter_cong) (auto simp: image_iff)
  have img: "EvidenceID t \<notin> EvidenceID ` set A" using Cons.prems by simp
  have rest: "filter (\<lambda>i. i \<notin> EvidenceID ` {x \<in> set A. all \<or> EvidenceID x \<in> set (removeAll (EvidenceID t) ids)})
        (removeAll (EvidenceID t) ids) =
      filter (\<lambda>i. i \<notin> EvidenceID ` {x \<in> set (t # A). all \<or> EvidenceID x \<in> set ids}) ids"
    if "all \<or> EvidenceID t \<in> set ids"
    unfolding removeAll_filter_not_eq filter_filter using that img by (intro filter_cong) auto
  have skip: "filter (\<lambda>i. i \<notin> EvidenceID ` {x \<in> set A. all \<or> EvidenceID x \<in> set ids}) ids =
      filter (\<lambda>i. i \<notin> EvidenceID ` {x \<in> set (t # A). all \<or> EvidenceID x \<in> set ids}) ids"
    if "\<not> (all \<or> EvidenceID t \<in> set ids)"
    using that by (intro filter_cong) auto
  show ?case
  proof (cases "all \<or> EvidenceID t \<in> set ids")
    case True
    have "build_pending_msgs S E c who all (removeAll (EvidenceID t) ids) A =
      Ok (map (pending_msg S who addr enc coins) (filter (\<lambda>x. all \<or> EvidenceID x \<in> set (removeAll (EvidenceID t) ids)) A),
        filter (\<lambda>i. i \<notin> EvidenceID ` {x \<in> set A. all \<or> EvidenceID x \<in> set (removeAll (EvidenceID t) ids)}) (removeAll (EvidenceID t) ids))"
      by (rule Cons.IH) (use Cons.prems in auto)
    moreover have "NewCoins E [tx_Amount (ptx t)] = Ok (coins t)" using Cons.prems(1) [of t] True by simp
    ultimately show ?thesis
      using True sel rest [OF True] pending_built [OF assms(1,2), of S who coins t] by simp
  next
    case False
    then show ?thesis using Cons.IH [of ids] Cons.prems skip by simp
  qed
qed simp

text \<open>One coin among the selected ones that \<open>sdk.NewCoins\<close> does not accept ends the whole loop in a panic.\<close>

lemma build_pending_msgs_panics:
  assumes "ContractAddress c = Some addr" and "\<And>r. Marshal_exec E r = Inr (enc r)"
    and "\<And>t. t \<in> set A \<Longrightarrow> (\<exists>fs. NewCoins E [tx_Amount (ptx t)] = Ok fs) \<or> (\<exists>p. NewCoins E [tx_Amount (ptx t)] = Panic p)"
    and "\<exists>t \<in> set A. \<exists>p. NewCoins E [tx_Amount (ptx t)] = Panic p"
  shows "\<exists>p. build_pending_msgs S E c who True ids A = Panic p"
  using assms(3,4)
proof (induction A arbitrary: ids)
  case (Cons t A)
  show ?case
  proof (cases "\<exists>p. NewCoins E [tx_Amount (ptx t)] = Panic p")
    case False
    with Cons.prems(1) [of t] obtain fs where fs: "NewCoins E [tx_Amount (ptx t)] = Ok fs" by auto
    from False Cons.prems(2) have "\<exists>t \<in> set A. \<exists>p. NewCoins E [tx_Amount (ptx t)] = Panic p" by simp
    with Cons.IH Cons.prems(1) obtain p where "build_pending_msgs S E c who True (removeAll (EvidenceID t) ids) A = Panic p"
      by (metis list.set_intros(2))
    with fs show ?thesis using pending_built [OF assms(1,2), of S who "\<lambda>_. fs" t] by simp
  qed auto
qed simp

text \<open>
  The messages to execute pending transactions. For no requested ids there is one message per
  approved transaction; otherwise one per requested id, or an error if some id is not approved. Each
  message carries the evidence id and the coins made of the amount of its transaction as funds.
\<close>

lemma pending_messages_built:
  assumes "GetAllPendingTransactions S E c n = Some (Inr (U, A))" and "ContractAddress c = Some addr"
    and "\<And>r. Marshal_exec E r = Inr (enc r)"
    and "\<And>t. t \<in> set A \<Longrightarrow> NewCoins E [tx_Amount (ptx t)] = Ok (coins t)" and "distinct (map EvidenceID A)"
  shows "if set ids \<subseteq> EvidenceID ` set A
    then BuildExecutePendingMessages S E c n who ids =
      Some (Ok (map (pending_msg S who addr enc coins) (filter (\<lambda>t. ids = [] \<or> EvidenceID t \<in> set ids) A)))
    else \<exists>e. BuildExecutePendingMessages S E c n who ids = Some (Err e)"
proof -
  have b: "build_pending_msgs S E c who (ids = []) (remdups ids) A =
    Ok (map (pending_msg S who addr enc coins) (filter (\<lambda>t. ids = [] \<or> EvidenceID t \<in> set (remdups ids)) A),
        filter (\<lambda>i. i \<notin> EvidenceID ` {t \<in> set A. ids = [] \<or> EvidenceID t \<in> set (remdups ids)}) (remdups ids))"
    by (rule build_pending_msgs_selects [OF assms(2,3)]) (use assms(4,5) in auto)
  have "filter (\<lambda>i. i \<notin> EvidenceID ` {t \<in> set A. ids = [] \<or> EvidenceID t \<in> set (remdups ids)}) (remdups ids) = [] \<longleftrightarrow>
    set ids \<subseteq> EvidenceID ` set A"
    by (auto simp: filter_empty_conv)
  with b show ?thesis
    using assms(1) by (simp add: BuildExecutePendingMessages_def)
qed

section \<open>Errors by their texts\<close>

definition fixed_errors :: "contract_error list" where
  "fixed_errors = [Unauthorized, InvalidThreshold, DuplicatedTrustedAddress, DuplicatedXRPLToken,
     TransferAlreadySent, EvidenceAlreadyProvided, TransactionNotFound, TransactionNotConfirmed,
     LowAmount, FundsMismatch]"

definition recognised :: "(go_error option \<Rightarrow> bool) \<Rightarrow> contract_error list" where
  "recognised is = filter (\<lambda>e. is (Some (Errorf (error_text e)))) fixed_errors"

text \<open>
  The client's error predicates fit the contract's texts: among the errors with a fixed text each
  predicate holds for its own error and no other, and it still holds when the chain and the
  client put text around the contract's error.
\<close>

lemma contract_errors_recognised:
  "recognised IsUnauthorizedError = [Unauthorized] \<and>
   recognised IsEvidenceProvidedError = [EvidenceAlreadyProvided] \<and>
   recognised IsTransferSentError = [TransferAlreadySent] \<and>
   recognised IsTransactionNotFoundError = [TransactionNotFound] \<and>
   recognised IsTransactionNotConfirmedError = [TransactionNotConfirmed] \<and>
   recognised IsLowAmountError = [LowAmount] \<and> recognised IsFundsMismatchError = [FundsMismatch] \<and>
   IsEvidenceProvidedError (Some (Wrap m (Errorf (p @ error_text EvidenceAlreadyProvided @ s)))) \<and>
   IsTransferSentError (Some (Wrap m (Errorf (p @ error_text TransferAlreadySent @ s))))"
proof -
  have wrapped: "isError (Some (Wrap m (Errorf (p @ t @ s)))) t" for t
    by (auto simp: isError_def simp del: Error.simps intro!: Contains_Wrap) (simp add: Contains_append)
  have "recognised IsUnauthorizedError = [Unauthorized]" by code_simp
  moreover have "recognised IsEvidenceProvidedError = [EvidenceAlreadyProvided]" by code_simp
  moreover have "recognised IsTransferSentError = [TransferAlreadySent]" by code_simp
  moreover have "recognised IsTransactionNotFoundError = [TransactionNotFound]" by code_simp
  moreover have "recognised IsTransactionNotConfirmedError = [TransactionNotConfirmed]" by code_simp
  moreover have "recognised IsLowAmountError = [LowAmount]" by code_simp
  moreover have "recognised IsFundsMismatchError = [FundsMismatch]" by code_simp
  moreover have "IsEvidenceProvidedError (Some (Wrap m (Errorf (p @ error_text EvidenceAlreadyProvided @ s))))"
    unfolding IsEvidenceProvidedError_def error_text.simps by (rule wrapped)
  moreover have "IsTransferSentError (Some (Wrap m (Errorf (p @ error_text TransferAlreadySent @ s))))"
    unfolding IsTransferSentError_def error_text.simps by (rule wrapped)
  ultimately show ?thesis by blast
qed

end
