(* ===== verification/Executor.thy ===== *)
theory Executor
  imports Client_Properties
begin

text \<open>
  The executor (\<open>relayer/executor/executor.go\<close>). It sees the contract through its interface
  \<open>ContractClient\<close>: the arguments \<open>get\<close> (\<open>GetContractConfig\<close>) and \<open>send\<close> (\<open>ThresholdBankSend\<close>),
  numbered calls, and the locale \<open>contract_port\<close> for the chain behind them. Every pending transfer
  of the finders is submitted under the retry helper.
\<close>

section \<open>The executor\<close>

record executor_config =
  SenderAddress :: acc_address
  exec_RetryDelay :: int

definition exec_DefaultConfig :: "acc_address \<Rightarrow> executor_config" where
  "exec_DefaultConfig a = \<lparr>SenderAddress = a, exec_RetryDelay = 30 * time_Second\<rparr>"

definition send_request :: "sdk \<Rightarrow> PendingTXSendTransaction \<Rightarrow> ThresholdBankSendRequest" where
  "send_request S txn = \<lparr>req_ID = XRPLTxHash txn, req_Amount = TXAmount txn,
     req_Recipient = AccAddress_String S (TXDestination txn)\<rparr>"

text \<open>One attempt of the closure; the state is the number of the next call.\<close>

definition execute_attempt ::
  "sdk \<Rightarrow> (nat \<Rightarrow> go_error + Config) \<Rightarrow> (nat \<Rightarrow> ThresholdBankSendRequest list \<Rightarrow> go_error + 'r) \<Rightarrow>
   PendingTXSendTransaction \<Rightarrow> nat \<Rightarrow> (nat \<times> attempt) option" where
  "execute_attempt S get send txn n =
     (case get n of
        Inl e \<Rightarrow> Some (Suc n, Retryable e)
      | Inr contractCfg \<Rightarrow>
          if cfg_MinAmount contractCfg > Amount (TXAmount txn) then Some (Suc n, Done)
          else
            (case send (Suc n) [send_request S txn] of
               Inr r \<Rightarrow> Some (n + 2, Done)
             | Inl e \<Rightarrow>
                 Some (n + 2,
                   if IsEvidenceProvidedError (Some e) then Done
                   else if IsTransferSentError (Some e) then Done
                   else Retryable e)))"

definition execute_end :: "go_error option \<Rightarrow> unit go" where
  "execute_end r =
     (case r of
        Some e \<Rightarrow> if \<not> Is e ContextCanceled then Panic (Error e) else Ok ()
      | None \<Rightarrow> Ok ())"

text \<open>
  \<open>Start\<close> handles the transfers it receives one after another until the context is done: \<open>None\<close>
  as outcome of a transfer is success, an error is a canceled context.
\<close>

inductive Start ::
  "sdk \<Rightarrow> (nat \<Rightarrow> go_error + Config) \<Rightarrow> (nat \<Rightarrow> ThresholdBankSendRequest list \<Rightarrow> go_error + 'r) \<Rightarrow>
   PendingTXSendTransaction list \<Rightarrow> nat \<Rightarrow> nat \<Rightarrow> unit go \<Rightarrow> bool"
  for S get and send :: "nat \<Rightarrow> ThresholdBankSendRequest list \<Rightarrow> go_error + 'r" where
  start_done: "Start S get send txns n n (Ok ())"
| start_next: "retry_Do (execute_attempt S get send txn) n n1 r \<Longrightarrow> execute_end r = Ok () \<Longrightarrow>
    Start S get send txns n1 n' out \<Longrightarrow> Start S get send (txn # txns) n n' out"
| start_panic: "retry_Do (execute_attempt S get send txn) n n1 r \<Longrightarrow> execute_end r = Panic p \<Longrightarrow>
    Start S get send (txn # txns) n n1 (Panic p)"

section \<open>The chain behind the interface\<close>

text \<open>The contract message of a request; the JSON of an amount is read as a 128-bit number.\<close>

definition request_coin :: "ThresholdBankSendRequest \<Rightarrow> coin" where
  "request_coin r = \<lparr>coin_denom = sc_Denom (req_Amount r), coin_amount = of_int (Amount (req_Amount r))\<rparr>"

definition request_msg :: "ThresholdBankSendRequest \<Rightarrow> execute_msg" where
  "request_msg r = Contract.ThresholdBankSend (req_ID r) (request_coin r) (req_Recipient r)"

text \<open>The transfer is on record for a relayer: sent, or pending with its evidence.\<close>

definition on_record :: "host \<Rightarrow> storage \<Rightarrow> addr \<Rightarrow> ThresholdBankSendRequest \<Rightarrow> bool" where
  "on_record h st who r \<longleftrightarrow>
     kv_has (SENT_TRANSACTIONS st) (normalize_id (req_ID r)) \<or>
     (\<exists>t. kv_load (PENDING_TRANSACTIONS st)
            (build_evidence_id h (normalize_id (req_ID r)) (request_coin r) (req_Recipient r)) = Some t \<and>
          who \<in> set (evidence_providers t))"

lemma accepted_on_record:
  assumes "execute h st \<lparr>sender = who, funds = fs\<rparr> (request_msg r) = Inr (st', resp)"
  shows "on_record h st' who r"
proof -
  have "threshold_bank_send h st \<lparr>sender = who, funds = fs\<rparr> (req_ID r) (request_coin r) (req_Recipient r) =
    Inr (st', resp)"
    using assms by (simp add: request_msg_def)
  then show ?thesis
    by (rule threshold_bank_send_cases)
      (auto simp: on_record_def send_bank_transaction_def kv_load_save joined_tx_def split: option.splits)
qed

lemma refused_on_record:
  assumes "execute h st \<lparr>sender = who, funds = fs\<rparr> (request_msg r) = Inl (Fails e)"
    and "e = TransferAlreadySent \<or> e = EvidenceAlreadyProvided"
  shows "on_record h st who r"
  using assms
  by (auto simp: request_msg_def threshold_bank_send_def Let_def res_bind_Inl validate_addr_def load_config_def
      on_record_def split: if_splits option.splits sum.splits)

text \<open>
  The interface: \<open>before n\<close> and \<open>after n\<close> are the contract's storage around call \<open>n\<close> (others may act
  between two calls). An accepted call was executed by the contract; the two texts the executor looks
  for appear only in errors the contract answered with; queries tell the stored configuration.
\<close>

locale contract_port =
  fixes linked :: "'e \<Rightarrow> bool"
    and h :: "'e \<Rightarrow> host"
    and before after :: "'e \<Rightarrow> nat \<Rightarrow> storage"
    and who :: "'e \<Rightarrow> addr"
    and get :: "'e \<Rightarrow> nat \<Rightarrow> go_error + Config"
    and send :: "'e \<Rightarrow> nat \<Rightarrow> ThresholdBankSendRequest list \<Rightarrow> go_error + 'r"
  assumes sent_ok: "linked e \<Longrightarrow> send e n [r] = Inr x \<Longrightarrow>
      \<exists>resp. execute (h e) (before e n) \<lparr>sender = who e, funds = []\<rparr> (request_msg r) = Inr (after e n, resp)"
    and sent_err: "linked e \<Longrightarrow> send e n [r] = Inl err \<Longrightarrow>
      IsEvidenceProvidedError (Some err) \<or> IsTransferSentError (Some err) \<Longrightarrow>
      after e n = before e n \<and>
      (\<exists>c. execute (h e) (before e n) \<lparr>sender = who e, funds = []\<rparr> (request_msg r) = Inl (Fails c) \<and>
         (c = TransferAlreadySent \<or> c = EvidenceAlreadyProvided))"
    and got: "linked e \<Longrightarrow> get e n = Inr c \<Longrightarrow> \<exists>cc. CONFIG (before e n) = Some cc \<and> c = config_to_go cc"
begin

text \<open>
  A transfer the executor is done with is on record, or was below the minimum the contract had.
\<close>

lemma done_on_record:
  assumes "linked e" and "retry_Do (execute_attempt S (get e) (send e) txn) n n' None"
  shows "\<exists>k<n'. (\<exists>cc. CONFIG (before e k) = Some cc \<and> Amount (TXAmount txn) < uint (min_amount cc)) \<or>
    on_record (h e) (after e k) (who e) (send_request S txn)"
proof -
  from assms(2) obtain k where done_at: "execute_attempt S (get e) (send e) txn k = Some (n', Done)"
    by (rule retry_Do_last) auto
  have later: "k < n'" "cfg_MinAmount c \<le> Amount (TXAmount txn) \<Longrightarrow> get e k = Inr c \<Longrightarrow> Suc k < n'" for c
    using done_at by (auto simp: execute_attempt_def split: sum.splits if_splits)
  from done_at obtain c where c: "get e k = Inr c"
    by (cases "get e k") (auto simp: execute_attempt_def)
  from got [OF assms(1) c] obtain cc where cc: "CONFIG (before e k) = Some cc" "c = config_to_go cc"
    by blast
  show ?thesis
  proof (cases "Amount (TXAmount txn) < uint (min_amount cc)")
    case True
    then show ?thesis using cc later(1) by blast
  next
    case False
    then have next_call: "Suc k < n'" using later(2) [OF _ c] cc(2) by (simp add: config_to_go_def)
    show ?thesis
    proof (cases "send e (Suc k) [send_request S txn]")
      case (Inr x)
      from sent_ok [OF assms(1) Inr] show ?thesis using accepted_on_record next_call by blast
    next
      case (Inl err)
      then have "IsEvidenceProvidedError (Some err) \<or> IsTransferSentError (Some err)"
        using done_at c cc(2) False by (auto simp: execute_attempt_def config_to_go_def split: if_splits)
      from sent_err [OF assms(1) Inl this] show ?thesis using refused_on_record next_call by metis
    qed
  qed
qed

end

section \<open>The contract client provides it\<close>

record port_setup =
  po_sdk :: sdk
  po_env :: wasm_env
  po_cfg :: ContractClientConfig
  po_sender :: acc_address
  po_addr :: acc_address
  po_host :: host
  po_before :: "nat \<Rightarrow> storage"
  po_after :: "nat \<Rightarrow> storage"

text \<open>
  The chain: a broadcast of a submission that succeeds was executed by the contract on the storage of
  that moment; one that fails with one of the two texts was refused by the contract for that reason;
  a smart query of the configuration reads the storage. Marshalling of a submission does not fail.
\<close>

definition submission_msg :: "port_setup \<Rightarrow> string \<Rightarrow> sdk_msg" where
  "submission_msg e payload = MsgExecuteContract (AccAddress_String (po_sdk e) (po_sender e))
     (AccAddress_String (po_sdk e) (po_addr e)) payload []"

definition by_relayer :: "port_setup \<Rightarrow> message_info" where
  "by_relayer e = \<lparr>sender = AccAddress_String (po_sdk e) (po_sender e), funds = []\<rparr>"

definition answers_submission :: "port_setup \<Rightarrow> ThresholdBankSendRequest \<Rightarrow> string \<Rightarrow> nat \<Rightarrow> bool" where
  "answers_submission e r payload n \<longleftrightarrow>
     (case BroadcastTx (po_env e) n (po_sender e) [submission_msg e payload] of
        Inr x \<Rightarrow> (\<exists>resp. execute (po_host e) (po_before e n) (by_relayer e) (request_msg r) = Inr (po_after e n, resp))
      | Inl err \<Rightarrow>
          (Contains (Error err) (error_text EvidenceAlreadyProvided) \<or> Contains (Error err) (error_text TransferAlreadySent)) \<longrightarrow>
          po_after e n = po_before e n \<and>
          (\<exists>c. execute (po_host e) (po_before e n) (by_relayer e) (request_msg r) = Inl (Fails c) \<and>
             (c = TransferAlreadySent \<or> c = EvidenceAlreadyProvided)))"

definition chain_linked :: "port_setup \<Rightarrow> bool" where
  "chain_linked e \<longleftrightarrow> ContractAddress (po_cfg e) = Some (po_addr e) \<and>
     (\<forall>r. \<exists>payload. Marshal_exec (po_env e) (Req_threshold_bank_send r) = Inr payload) \<and>
     (\<forall>r payload n. Marshal_exec (po_env e) (Req_threshold_bank_send r) = Inr payload \<longrightarrow>
        answers_submission e r payload n) \<and>
     (\<forall>payload n resp c. Marshal_query (po_env e) Query_get_config = Inr payload \<longrightarrow>
        SmartContractState (po_env e) n (AccAddress_String (po_sdk e) (po_addr e)) payload = Inr resp \<longrightarrow>
        Unmarshal_config (po_env e) resp = Inr c \<longrightarrow>
        (\<exists>cc. CONFIG (po_before e n) = Some cc \<and> c = config_to_go cc))"

definition port_get :: "port_setup \<Rightarrow> nat \<Rightarrow> go_error + Config" where
  "port_get e n = GetContractConfig (po_sdk e) (po_env e) (po_cfg e) n"

definition port_send :: "port_setup \<Rightarrow> nat \<Rightarrow> ThresholdBankSendRequest list \<Rightarrow> go_error + tx_response" where
  "port_send e n reqs = Contract_Client.ThresholdBankSend (po_sdk e) (po_env e) (po_cfg e) n (po_sender e) reqs"

definition port_who :: "port_setup \<Rightarrow> addr" where
  "port_who e = AccAddress_String (po_sdk e) (po_sender e)"

text \<open>The text the client puts in front of an error cannot complete one of the searched texts.\<close>

lemma sublist_append_skip:
  assumes "sublist (c # s) (p @ q)" and "c \<notin> set p"
  shows "sublist (c # s) q"
proof -
  from assms(1) obtain a b where "p @ q = a @ (c # s) @ b"
    by (auto simp: sublist_def)
  with assms(2) show ?thesis
    by (auto simp: append_eq_append_conv2 append_eq_Cons_conv sublist_def Cons_eq_append_conv)
qed

lemma linked_marshals:
  assumes "chain_linked e"
  obtains payload where "Marshal_exec (po_env e) (Req_threshold_bank_send r) = Inr payload"
  using assms unfolding chain_linked_def by blast

lemma linked_answers:
  "chain_linked e \<Longrightarrow> Marshal_exec (po_env e) (Req_threshold_bank_send r) = Inr payload \<Longrightarrow>
    answers_submission e r payload n"
  unfolding chain_linked_def by blast

lemma port_send_wrapped:
  assumes "chain_linked e" and "port_send e n [r] = Inl err"
  obtains payload err' where "Marshal_exec (po_env e) (Req_threshold_bank_send r) = Inr payload"
    and "BroadcastTx (po_env e) n (po_sender e) [submission_msg e payload] = Inl err'"
    and "err = Wrap (failed_method ''threshold_bank_send'') err'"
proof -
  obtain payload where "Marshal_exec (po_env e) (Req_threshold_bank_send r) = Inr payload"
    using linked_marshals [OF assms(1)] .
  moreover have "ContractAddress (po_cfg e) = Some (po_addr e)"
    using assms(1) by (simp add: chain_linked_def)
  ultimately show ?thesis
    using assms(2) that
    by (cases "BroadcastTx (po_env e) n (po_sender e) [submission_msg e payload]")
      (auto simp: port_send_def ThresholdBankSend_def exec_requests_def need_address_def submission_msg_def)
qed

lemma wrap_recognised:
  assumes "IsEvidenceProvidedError (Some (Wrap (failed_method ''threshold_bank_send'') err)) \<or>
    IsTransferSentError (Some (Wrap (failed_method ''threshold_bank_send'') err))"
  shows "Contains (Error err) (error_text EvidenceAlreadyProvided) \<or> Contains (Error err) (error_text TransferAlreadySent)"
proof -
  let ?p = "failed_method ''threshold_bank_send'' @ '': ''"
  have p: "CHR ''S'' \<notin> set ?p" "CHR ''T'' \<notin> set ?p"
    by (simp_all add: failed_method_def)
  have "Error (Wrap (failed_method ''threshold_bank_send'') err) = ?p @ Error err" by simp
  then show ?thesis
    using assms sublist_append_skip [OF _ p(1), of _ "Error err"] sublist_append_skip [OF _ p(2), of _ "Error err"]
    by (auto simp: IsEvidenceProvidedError_def IsTransferSentError_def isError_def Contains_def
        simp del: Error.simps append_assoc)
qed

interpretation port: contract_port chain_linked po_host po_before po_after port_who port_get port_send
proof
  fix e n r x
  assume e: "chain_linked e" and s: "port_send e n [r] = Inr x"
  obtain payload where m: "Marshal_exec (po_env e) (Req_threshold_bank_send r) = Inr payload"
    using linked_marshals [OF e] .
  have "ContractAddress (po_cfg e) = Some (po_addr e)"
    using e by (simp add: chain_linked_def)
  with s m have "BroadcastTx (po_env e) n (po_sender e) [submission_msg e payload] = Inr x"
    by (simp add: port_send_def ThresholdBankSend_def exec_requests_def need_address_def submission_msg_def)
  with linked_answers [OF e m, of n]
  show "\<exists>resp. execute (po_host e) (po_before e n) \<lparr>sender = port_who e, funds = []\<rparr> (request_msg r) =
      Inr (po_after e n, resp)"
    by (simp add: answers_submission_def by_relayer_def port_who_def)
next
  fix e n r err
  assume e: "chain_linked e" and s: "port_send e n [r] = Inl err"
    and rec: "IsEvidenceProvidedError (Some err) \<or> IsTransferSentError (Some err)"
  from port_send_wrapped [OF e s] obtain payload err' where
    m: "Marshal_exec (po_env e) (Req_threshold_bank_send r) = Inr payload"
      "BroadcastTx (po_env e) n (po_sender e) [submission_msg e payload] = Inl err'"
      "err = Wrap (failed_method ''threshold_bank_send'') err'" .
  from rec have "Contains (Error err') (error_text EvidenceAlreadyProvided) \<or>
      Contains (Error err') (error_text TransferAlreadySent)"
    unfolding m(3) by (rule wrap_recognised)
  with linked_answers [OF e m(1), of n] m(2) show "po_after e n = po_before e n \<and>
      (\<exists>c. execute (po_host e) (po_before e n) \<lparr>sender = port_who e, funds = []\<rparr> (request_msg r) = Inl (Fails c) \<and>
        (c = TransferAlreadySent \<or> c = EvidenceAlreadyProvided))"
    by (simp add: answers_submission_def by_relayer_def port_who_def del: error_text.simps)
next
  fix e n c
  assume "chain_linked e" "port_get e n = Inr c"
  then show "\<exists>cc. CONFIG (po_before e n) = Some cc \<and> c = config_to_go cc"
    by (auto simp: port_get_def GetContractConfig_def query_def need_address_def chain_linked_def res_bind_Inr)
qed

end
