(* ===== verification/Watcher.thy ===== *)
theory Watcher
  imports Executor
begin

text \<open>
  The configuration watcher (\<open>relayer/watcher\<close>) and the properties of executor and watcher that
  rest on the contract. A poll is a tick with the outcome of the configuration query, or the end of
  the context.
\<close>

section \<open>The watcher\<close>

record watcher_config =
  w_ContractAddress :: acc_address
  PollInterval :: int

definition watcher_DefaultConfig :: "acc_address \<Rightarrow> watcher_config" where
  "watcher_DefaultConfig a = \<lparr>w_ContractAddress = a, PollInterval = 300 * time_Second\<rparr>"

definition ErrConfigChanged :: go_error where
  "ErrConfigChanged = Sentinel ''contract configuration has changed''"

definition Initialize :: "(nat \<Rightarrow> go_error + Config) \<Rightarrow> nat \<Rightarrow> go_error + uint64" where
  "Initialize get n =
     res_bind (res_wrap ''failed to query initial contract config version'' (get n)) (\<lambda>config.
       Inr (cfg_Version config))"

datatype poll = Tick "go_error + Config" | CtxDone

text \<open>\<open>Watch\<close> over the polls so far; \<open>None\<close>: it is still watching.\<close>

fun Watch :: "uint64 \<Rightarrow> poll list \<Rightarrow> go_error option" where
  "Watch currentVersion [] = None"
| "Watch currentVersion (CtxDone # polls) = Some ContextCanceled"
| "Watch currentVersion (Tick (Inl e) # polls) = Watch currentVersion polls"
| "Watch currentVersion (Tick (Inr config) # polls) =
     (if cfg_Version config \<noteq> currentVersion then Some ErrConfigChanged else Watch currentVersion polls)"

lemma Watch_changed_iff:
  "Watch v polls = Some ErrConfigChanged \<longleftrightarrow>
    (\<exists>c \<in> {c. Tick (Inr c) \<in> set (takeWhile (\<lambda>p. p \<noteq> CtxDone) polls)}. cfg_Version c \<noteq> v)"
  by (induction v polls rule: Watch.induct) (auto simp: ErrConfigChanged_def ContextCanceled_def)

section \<open>Properties of the executor\<close>

text \<open>A relayer with one transfer to submit, on a chain that executes its second call.\<close>

definition relayer_sdk :: sdk where
  "relayer_sdk = sample_sdk\<lparr>AccAddress_String :=
     (\<lambda>a. if a = [1] then ''r1'' else if a = [2] then ''r2'' else if a = [9] then ''bob'' else [])\<rparr>"

definition sample_transfer :: PendingTXSendTransaction where
  "sample_transfer = \<lparr>TXDestination = [9], TXAmount = \<lparr>sc_Denom = ''ucore'', Amount = 15\<rparr>, XRPLTxHash = ''AB''\<rparr>"

definition relayer_wasm :: "string \<Rightarrow> wasm_env" where
  "relayer_wasm w = sample_wasm\<lparr>
     Marshal_exec := (\<lambda>r. Inr (if r = Req_threshold_bank_send (send_request relayer_sdk sample_transfer) then ''s'' else [])),
     BroadcastTx := (\<lambda>n s ms. if n = 1 \<and> ms = [MsgExecuteContract w [] ''s'' []]
        then Inr \<lparr>tx_Height = 1, TxHash = ''H'', tx_Code = 0, tx_Tx = None, tx_Timestamp = [], tx_Events = []\<rparr> else Inl (Errorf ''out of gas''))\<rparr>"

text \<open>The relayer \<open>a\<close> whose submission takes the contract from \<open>st\<close> to \<open>st'\<close>.\<close>

definition relayer_port :: "acc_address \<Rightarrow> storage \<Rightarrow> storage \<Rightarrow> port_setup" where
  "relayer_port a st st' = \<lparr>po_sdk = relayer_sdk, po_env = relayer_wasm (AccAddress_String relayer_sdk a), po_cfg = sample_client,
     po_sender = a, po_addr = [3], po_host = sample_host, po_before = (\<lambda>n. if n \<le> 1 then st else st'),
     po_after = (\<lambda>n. if n = 0 then st else st')\<rparr>"

abbreviation sample_port :: port_setup where
  "sample_port \<equiv> relayer_port [1] sample_start sample_voted"

lemma sample_transfer_msg: "request_msg (send_request relayer_sdk sample_transfer) =
    Contract.ThresholdBankSend ''AB'' (sample_coin 15) ''bob''"
  by (simp add: request_msg_def send_request_def request_coin_def sample_transfer_def relayer_sdk_def sample_coin_def)

lemma relayer_port_linked:
  assumes "execute sample_host st (by_sender (AccAddress_String relayer_sdk a))
      (Contract.ThresholdBankSend ''AB'' (sample_coin 15) ''bob'') = Inr (st', resp)"
    and "CONFIG st = Some sample_config" and "CONFIG st' = Some sample_config"
  shows "chain_linked (relayer_port a st st')"
proof -
  have other: "\<not> Contains ''out of gas'' (error_text EvidenceAlreadyProvided)"
    "\<not> Contains ''out of gas'' (error_text TransferAlreadySent)"
    by code_simp+
  let ?w = "AccAddress_String relayer_sdk a" and ?e = "relayer_port a st st'"
  have "answers_submission ?e r payload n"
    if "Marshal_exec (relayer_wasm ?w) (Req_threshold_bank_send r) = Inr payload" for r payload n
  proof (cases "n = 1 \<and> payload = ''s''")
    case True
    then have "r = send_request relayer_sdk sample_transfer"
      using that by (auto simp: relayer_wasm_def split: if_splits)
    then show ?thesis
      using True sample_transfer_msg assms(1)
      by (auto simp: answers_submission_def relayer_port_def relayer_wasm_def submission_msg_def by_relayer_def
          by_sender_def relayer_sdk_def simp del: execute.simps)
  next
    case False
    then have "BroadcastTx (po_env ?e) n (po_sender ?e) [submission_msg ?e payload] = Inl (Errorf ''out of gas'')"
      by (auto simp: relayer_port_def relayer_wasm_def submission_msg_def)
    then show ?thesis
      using other by (simp add: answers_submission_def del: error_text.simps)
  qed
  moreover have "CONFIG (po_before ?e n) = Some sample_config" for n
    using assms(2,3) by (simp add: relayer_port_def)
  ultimately show ?thesis
    by (auto simp: chain_linked_def relayer_port_def sample_client_def DefaultContractClientConfig_def
        relayer_wasm_def sample_wasm_def)
qed

lemma sample_port_linked: "chain_linked sample_port"
  by (rule relayer_port_linked [where resp = "\<lparr>attributes = [(''result'', ''pending''), (''evidence_id'', ''ab-15ucore-bob'')], messages = []\<rparr>"])
    (use sample_vote in \<open>simp_all add: relayer_sdk_def sample_start_def sample_voted_def del: execute.simps\<close>)

text \<open>
  C14: A transfer the executor is done with is on record at the contract: it is sent, or pending with
  the relayer among its evidence providers; or its amount was below the contract's minimum. This
  holds whatever failed before and whatever others did to the contract in the meantime.
\<close>

theorem executor_done_is_on_record:
  assumes "chain_linked e"
    and "retry_Do (execute_attempt S (port_get e) (port_send e) txn) n n' None"
  shows "\<exists>k<n'. (\<exists>c. CONFIG (po_before e k) = Some c \<and> Amount (TXAmount txn) < uint (min_amount c)) \<or>
    on_record (po_host e) (po_after e k) (port_who e) (send_request S txn)"
  using assms by (rule port.done_on_record)

theorem executor_done_is_on_record_witness:
  "\<exists>k<2. (\<exists>c. CONFIG (po_before sample_port k) = Some c \<and> Amount (TXAmount sample_transfer) < uint (min_amount c)) \<or>
    on_record (po_host sample_port) (po_after sample_port k) (port_who sample_port)
      (send_request relayer_sdk sample_transfer)"
proof (rule executor_done_is_on_record [OF sample_port_linked])
  show "retry_Do (execute_attempt relayer_sdk (port_get sample_port) (port_send sample_port) sample_transfer) 0 2 None"
    by (rule retry_done) code_simp
qed

text \<open>
  The executor never reaches its panic: the closure returns no error that is not retryable, so
  the retry helper stops with success or with a canceled context.
\<close>

lemma executor_never_panics:
  assumes "Start S get send txns n n' out"
  shows "out = Ok ()"
  using assms
proof (induction rule: Start.induct)
  case (start_panic txn n n1 r p txns)
  have "execute_end r = Ok ()"
    using start_panic(1)
    by (induction rule: retry_Do.induct)
      (auto simp: execute_end_def execute_attempt_def split: sum.splits if_splits)
  then show ?case using start_panic(2) by simp
qed auto

lemma sample_executor_run:
  "Start relayer_sdk (port_get sample_port) (port_send sample_port) [sample_transfer] 0 2 (Ok ())"
proof (rule start_next)
  show "retry_Do (execute_attempt relayer_sdk (port_get sample_port) (port_send sample_port) sample_transfer) 0 2 None"
    by (rule retry_done) code_simp
qed (simp_all add: execute_end_def start_done)

section \<open>The watcher sees every change\<close>

text \<open>
  C32: The watcher stops with the change error exactly when some successful poll, before the context
  ended, saw a configuration different from the one it was initialized with, provided the polls
  read states the contract reached from that one.
\<close>

theorem watcher_detects_exactly_changes:
  assumes "CONFIG st = Some c0" and "Initialize (\<lambda>_. Inr (config_to_go c0)) n = Inr v"
    and "\<And>c. Tick (Inr c) \<in> set polls \<Longrightarrow>
      \<exists>st' cc. (contract_step h)\<^sup>*\<^sup>* st st' \<and> CONFIG st' = Some cc \<and> c = config_to_go cc"
  shows "Watch v polls = Some ErrConfigChanged \<longleftrightarrow>
    (\<exists>c. Tick (Inr (config_to_go c)) \<in> set (takeWhile (\<lambda>p. p \<noteq> CtxDone) polls) \<and>
       (\<exists>st'. (contract_step h)\<^sup>*\<^sup>* st st' \<and> CONFIG st' = Some c) \<and> c \<noteq> c0)"
proof -
  have v: "v = version c0" using assms(2) by (simp add: Initialize_def config_to_go_def)
  have same: "version cc = version c0 \<longleftrightarrow> cc = c0"
    if "(contract_step h)\<^sup>*\<^sup>* st st'" "CONFIG st' = Some cc" for st' cc
    using steps_config_grows [OF that(1)] assms(1) that(2) by (auto simp: config_grows_def config_version_def)
  have ver: "cfg_Version (config_to_go cc) = version cc" for cc
    by (simp add: config_to_go_def)
  show ?thesis
    unfolding Watch_changed_iff v using assms(3) same ver set_takeWhileD by (smt (verit) mem_Collect_eq)
qed

theorem watcher_detects_exactly_changes_witness:
  "Watch 1 [Tick (Inl (Errorf ''timeout'')), Tick (Inr (config_to_go (sample_config\<lparr>max_amount := 5, version := 2\<rparr>)))] =
    Some ErrConfigChanged"
proof -
  let ?c = "sample_config\<lparr>max_amount := 5, version := 2\<rparr>"
  let ?polls = "[Tick (Inl (Errorf ''timeout'')), Tick (Inr (config_to_go ?c))]"
  have st: "(contract_step sample_host)\<^sup>*\<^sup>* sample_start (sample_start\<lparr>CONFIG := Some ?c\<rparr>)"
    using sample_update by (rule r_into_rtranclp)
  have "Watch 1 ?polls = Some ErrConfigChanged \<longleftrightarrow>
    (\<exists>c. Tick (Inr (config_to_go c)) \<in> set (takeWhile (\<lambda>p. p \<noteq> CtxDone) ?polls) \<and>
       (\<exists>st'. (contract_step sample_host)\<^sup>*\<^sup>* sample_start st' \<and> CONFIG st' = Some c) \<and> c \<noteq> sample_config)"
    by (rule watcher_detects_exactly_changes [where n = 0])
      (use st in \<open>auto simp: sample_start_def Initialize_def config_to_go_def sample_config_def\<close>)
  moreover have "Tick (Inr (config_to_go ?c)) \<in> set (takeWhile (\<lambda>p. p \<noteq> CtxDone) ?polls)"
    by simp
  moreover have "?c \<noteq> sample_config"
    by (simp add: sample_config_def)
  moreover have "CONFIG (sample_start\<lparr>CONFIG := Some ?c\<rparr>) = Some ?c"
    by simp
  ultimately show ?thesis using st by blast
qed

end
