(* ===== verification/Delivery.thy ===== *)
theory Delivery
  imports Watcher
begin

text \<open>
  From evidence to payment: when enough relayers are done with a transfer, the contract has sent it.
  Evidence ids of the right shape determine the coin and the recipient up to letter case; what is on record
  stays on record; and as long as the maximum amount is not raised, no pending transaction within
  the maximum has a quorum.
\<close>

section \<open>Evidence ids of plain transfers\<close>

text \<open>A denom begins with something else than a digit; the texts of a plain transfer have no dashes.\<close>

definition plain_denom :: "string \<Rightarrow> bool" where
  "plain_denom d \<longleftrightarrow> d \<noteq> [] \<and> \<not> is_digit (hd d)"

definition plain_transfer :: "sdk \<Rightarrow> PendingTXSendTransaction \<Rightarrow> bool" where
  "plain_transfer S p \<longleftrightarrow> CHR ''-'' \<notin> set (XRPLTxHash p @ sc_Denom (TXAmount p) @ AccAddress_String S (TXDestination p)) \<and>
     plain_denom (sc_Denom (TXAmount p))"

text \<open>The text of a coin is its amount followed by its denom.\<close>

definition displays_coins :: "host \<Rightarrow> bool" where
  "displays_coins h \<longleftrightarrow> (\<forall>c. coin_display h c = dec_of_nat (unat (coin_amount c)) @ coin_denom c)"

text \<open>An evidence id with two dashes: it has one reading as id, coin and recipient.\<close>

definition three_parts :: "string \<Rightarrow> bool" where
  "three_parts e \<longleftrightarrow> length (Split (CHR ''-'') e) = 3"

lemma three_partsE:
  assumes "three_parts e"
  obtains x y z where "Split (CHR ''-'') e = [x, y, z]"
  using assms by (auto simp: three_parts_def numeral_3_eq_3 length_Suc_conv)

lemma digits_lower [simp]:
  "to_lowercase (dec_of_nat n) = dec_of_nat n" "CHR ''-'' \<notin> set (dec_of_nat n)"
  using all_digits_dec_of_nat [of n] to_lowercase_digits [of "dec_of_nat n"] by (auto simp: all_digits_def is_digit_def)

lemma evidence_parts:
  assumes "displays_coins h"
  shows "build_evidence_id h i a r = to_lowercase i @ CHR ''-'' #
    ((dec_of_nat (unat (coin_amount a)) @ to_lowercase (coin_denom a)) @ CHR ''-'' # to_lowercase r)"
  using assms by (simp add: evidence_id_split displays_coins_def)

lemma three_parts_evidence:
  assumes "displays_coins h" and "CHR ''-'' \<notin> set j" "CHR ''-'' \<notin> set (coin_denom b)" "CHR ''-'' \<notin> set s"
  shows "three_parts (build_evidence_id h j b s)"
  unfolding three_parts_def evidence_parts [OF assms(1)] Split_append
  using assms(2-4) by (simp add: Split_no_sep)

lemma low_denom:
  assumes "plain_denom d"
  shows "to_lowercase d \<noteq> []" "\<not> is_digit (hd (to_lowercase d))"
  using assms by (cases d; auto simp: plain_denom_def)+

lemma same_evidence_same_transfer:
  assumes "build_evidence_id h i a r = build_evidence_id h j b s" and "three_parts (build_evidence_id h j b s)"
    and "displays_coins h" and "plain_denom (coin_denom a)" "plain_denom (coin_denom b)"
  shows "to_lowercase i = to_lowercase j \<and> coin_amount a = coin_amount b \<and>
    to_lowercase (coin_denom a) = to_lowercase (coin_denom b) \<and> to_lowercase r = to_lowercase s"
proof -
  obtain x y z where e: "Split (CHR ''-'') (build_evidence_id h j b s) = [x, y, z]"
    using assms(2) by (rule three_partsE)
  let ?d = "\<lambda>c. dec_of_nat (unat (coin_amount c)) @ to_lowercase (coin_denom c)"
  note b = e [unfolded evidence_parts [OF assms(3)]]
  note a = e [folded assms(1), unfolded evidence_parts [OF assms(3)]]
  have parts: "to_lowercase i = to_lowercase j" "?d a = ?d b" "to_lowercase r = to_lowercase s"
    using Split_three [OF a] Split_three [OF b] by auto
  from amount_denom_inject [OF parts(2) low_denom [OF assms(4)] low_denom [OF assms(5)]] parts show ?thesis
    by (simp add: word_eq_iff_unsigned [where 'a = nat])
qed

section \<open>Records stay\<close>

lemma extract_id_three_parts:
  assumes "three_parts (build_evidence_id h i a r)" and "displays_coins h"
  shows "extract_id_from_evidence_id (build_evidence_id h i a r) = to_lowercase i"
proof -
  obtain x y z where e: "Split (CHR ''-'') (build_evidence_id h i a r) = [x, y, z]"
    using assms(1) by (rule three_partsE)
  from Split_three [OF e [unfolded evidence_parts [OF assms(2)]]] e show ?thesis
    by (simp add: extract_id_from_evidence_id_def)
qed

abbreviation request_evidence :: "host \<Rightarrow> ThresholdBankSendRequest \<Rightarrow> string" where
  "request_evidence h r \<equiv> build_evidence_id h (normalize_id (req_ID r)) (request_coin r) (req_Recipient r)"

lemma on_record_removed:
  assumes "on_record h st q r" and "(st', resp) = send_bank_transaction h st t i e"
    and "e = request_evidence h r \<Longrightarrow> i = normalize_id (req_ID r)" and "kv_wf (PENDING_TRANSACTIONS st)"
  shows "on_record h st' q r"
  using assms by (auto simp: on_record_def send_bank_transaction_def kv_load_remove)

lemma on_record_step:
  assumes "contract_step h st st'" and "storage_inv h st" and "on_record h st q r"
    and "three_parts (request_evidence h r)" and "displays_coins h"
  shows "on_record h st' q r"
  using assms(1)
proof cases
  case (step_execute info m resp)
  have wf: "kv_wf (PENDING_TRANSACTIONS st)" using assms(2) by (simp add: storage_inv_def)
  from step_execute show ?thesis
  proof (cases rule: execute_cases)
    case (send i a rc)
    from send(2) show ?thesis
    proof (cases rule: threshold_bank_send_cases)
      case (1 c)
      have "normalize_id i = normalize_id (req_ID r)"
        if "build_evidence_id h (normalize_id i) a rc = request_evidence h r"
      proof -
        from that assms(4) have "three_parts (build_evidence_id h (normalize_id i) a rc)" by simp
        from extract_id_three_parts [OF this assms(5)] extract_id_three_parts [OF assms(4,5)] that
        show ?thesis by (simp add: normalize_id_def)
      qed
      with on_record_removed [OF assms(3) 1(3) _ wf] show ?thesis by blast
    next
      case (2 c)
      then show ?thesis using assms(3) wf
        by (auto simp: on_record_def kv_load_save joined_tx_def split: option.splits)
    qed
  next
    case (pending e)
    from pending(2) show ?thesis
    proof (cases rule: execute_pending_cases)
      case (1 c t)
      have "extract_id_from_evidence_id e = normalize_id (req_ID r)" if "e = request_evidence h r"
        using extract_id_three_parts [OF assms(4,5)] that by (simp add: normalize_id_def)
      with on_record_removed [OF assms(3) 1(5) _ wf] show ?thesis by blast
    qed
  next
    case config
    then show ?thesis using assms(3) by (auto simp: config_update_def on_record_def)
  qed
next
  case (step_migrate ca no resp)
  then show ?thesis using migrate_kept [OF step_migrate] assms(3) by (simp add: on_record_def)
qed

section \<open>No quorum stays pending\<close>

text \<open>Messages that do not raise the maximum, and submit coins of plain denoms only.\<close>

fun steady_msg :: "execute_msg \<Rightarrow> bool" where
  "steady_msg (UpdateMaxAmount _) = False"
| "steady_msg (ThresholdBankSend _ a _) = plain_denom (coin_denom a)"
| "steady_msg _ = True"

definition open_votes :: "storage \<Rightarrow> bool" where
  "open_votes st \<longleftrightarrow> (\<forall>c e t. CONFIG st = Some c \<longrightarrow> kv_load (PENDING_TRANSACTIONS st) e = Some t \<longrightarrow>
     plain_denom (coin_denom (amount t)) \<and>
     (three_parts e \<longrightarrow> length (evidence_providers t) < unat (threshold c) \<or> max_amount c < coin_amount (amount t)))"

lemma open_votesI:
  assumes "\<And>e t. kv_load (PENDING_TRANSACTIONS st) e = Some t \<Longrightarrow> plain_denom (coin_denom (amount t)) \<and>
     (three_parts e \<longrightarrow> length (evidence_providers t) < unat (threshold c) \<or> max_amount c < coin_amount (amount t))"
    and "CONFIG st = Some c"
  shows "open_votes st"
  using assms unfolding open_votes_def by simp

lemma open_votesD:
  assumes "open_votes st" and "CONFIG st = Some c" and "kv_load (PENDING_TRANSACTIONS st) e = Some t"
  shows "plain_denom (coin_denom (amount t))"
    and "three_parts e \<Longrightarrow> length (evidence_providers t) < unat (threshold c) \<or> max_amount c < coin_amount (amount t)"
  using assms unfolding open_votes_def by blast+

text \<open>One more vote: below the threshold it may reach it, and then it sends or is above the maximum.\<close>

lemma one_more_vote:
  assumes "length ps < unat (t :: uint32)" and "of_nat (Suc (length ps)) \<noteq> t"
  shows "Suc (length ps) < unat t"
proof -
  have "Suc (length ps) \<noteq> unat t"
  proof
    assume eq: "Suc (length ps) = unat t"
    have "of_nat (unat t) = t" by simp
    with eq assms(2) show False by metis
  qed
  with assms(1) show ?thesis by simp
qed

lemma joined_tx_open:
  assumes "open_votes st" and "storage_inv h st" and "displays_coins h" and "plain_denom (coin_denom a)"
    and "submission_ok h st c s i a rc" and "\<not> reaches_quorum c (joined_tx h st s i a rc) a" and "0 < threshold c"
  shows "plain_denom (coin_denom (amount (joined_tx h st s i a rc))) \<and>
    (three_parts (build_evidence_id h (normalize_id i) a rc) \<longrightarrow>
      length (evidence_providers (joined_tx h st s i a rc)) < unat (threshold c) \<or>
      max_amount c < coin_amount (amount (joined_tx h st s i a rc)))"
proof (cases "kv_load (PENDING_TRANSACTIONS st) (build_evidence_id h (normalize_id i) a rc)")
  case None
  have "0 < unat (threshold c)" using assms(7) by (simp add: word_gt_0 unat_gt_0)
  then show ?thesis
    using None assms(4,6) one_more_vote [of "[]" "threshold c"]
    by (auto simp: joined_tx_def reaches_quorum_def not_le)
next
  case (Some t)
  let ?e = "build_evidence_id h (normalize_id i) a rc"
  have c: "CONFIG st = Some c" using assms(5) by (simp add: submission_ok_def)
  note t = open_votesD [OF assms(1) c Some]
  from Some have j: "joined_tx h st s i a rc = t\<lparr>evidence_providers := evidence_providers t @ [s]\<rparr>"
    by (simp add: joined_tx_def)
  have "length (evidence_providers t @ [s]) < unat (threshold c) \<or> max_amount c < coin_amount (amount t)"
    if three: "three_parts ?e"
  proof -
    from assms(2) kv_load_SomeD [OF Some] obtain k where
      "build_evidence_id h (normalize_id i) a rc = build_evidence_id h (normalize_id k) (amount t) (recipient t)"
      by (auto simp: storage_inv_def pending_ok_def)
    from same_evidence_same_transfer [OF this [symmetric] three assms(3) t(1) assms(4)]
    have "coin_amount a = coin_amount (amount t)" by simp
    then show ?thesis
      using t(2) [OF three] assms(6) one_more_vote [of "evidence_providers t" "threshold c"]
      by (auto simp: j reaches_quorum_def not_le)
  qed
  then show ?thesis using t(1) by (simp add: j)
qed

lemma execute_max:
  assumes "execute h st info m = Inr (st', r)" and "CONFIG st = Some c" and "steady_msg m"
  obtains c' where "CONFIG st' = Some c'" and "threshold c' = threshold c" and "max_amount c' = max_amount c"
proof -
  have "\<exists>c'. CONFIG st' = Some c' \<and> threshold c' = threshold c \<and> max_amount c' = max_amount c"
  proof (cases "is_config_msg m")
    case True
    then show ?thesis
      using assms by (cases m) (auto simp: config_update_defs res_bind_Inr split: if_splits)
  next
    case False
    then show ?thesis using execute_config_step [OF assms(1)] assms(2) by auto
  qed
  with that show ?thesis by blast
qed

lemma open_votes_execute:
  assumes "execute h st info m = Inr (st', r)" and "open_votes st" and "run_inv h st" and "displays_coins h" and "steady_msg m"
  shows "open_votes st'"
proof -
  from assms(3) obtain c where c: "CONFIG st = Some c" "0 < threshold c" by (auto simp: run_inv_def)
  obtain c' where c': "CONFIG st' = Some c'" "threshold c' = threshold c" "max_amount c' = max_amount c"
    using execute_max [OF assms(1) c(1) assms(5)] .
  have inv: "storage_inv h st" "kv_wf (PENDING_TRANSACTIONS st)"
    using assms(3) by (auto simp: run_inv_def storage_inv_def)
  note old = open_votesD [OF assms(2) c(1)]
  from assms(1) show ?thesis
  proof (cases rule: execute_cases)
    case (send i a rc)
    have plain: "plain_denom (coin_denom a)" using send(1) assms(5) by simp
    from send(2) show ?thesis
    proof (cases rule: threshold_bank_send_cases)
      case (1 c1)
      then have "PENDING_TRANSACTIONS st' = kv_remove (build_evidence_id h (normalize_id i) a rc) (PENDING_TRANSACTIONS st)"
        by (simp add: send_bank_transaction_def)
      with old c' inv(2) show ?thesis
        by (intro open_votesI [OF _ c'(1)]) (simp add: kv_load_remove split: if_splits)
    next
      case (2 c1)
      then have "c1 = c" using c(1) by (simp add: submission_ok_def)
      from joined_tx_open [OF assms(2) inv(1) assms(4) plain 2(1,2)] 2(3) old c(2) c' inv(2) \<open>c1 = c\<close> show ?thesis
        by (intro open_votesI [OF _ c'(1)]) (simp add: kv_load_save split: if_splits)
    qed
  next
    case (pending e)
    from pending(2) show ?thesis
    proof (cases rule: execute_pending_cases)
      case (1 c1 t)
      then have "PENDING_TRANSACTIONS st' = kv_remove e (PENDING_TRANSACTIONS st)"
        by (simp add: send_bank_transaction_def)
      with old c' inv(2) show ?thesis
        by (intro open_votesI [OF _ c'(1)]) (simp add: kv_load_remove split: if_splits)
    qed
  next
    case config
    then have "PENDING_TRANSACTIONS st' = PENDING_TRANSACTIONS st" by (auto simp: config_update_def)
    with old c' show ?thesis by (intro open_votesI [OF _ c'(1)]) simp
  qed
qed

lemma run_open_votes:
  assumes "contract_run h st es" and "displays_coins h" and "\<forall>ev \<in> set es. steady_msg (ce_msg ev)"
  shows "open_votes st"
  using assms(1,3)
proof (induction rule: contract_run.induct)
  case (run_instantiate m st r)
  then show ?case
    by (elim instantiate_config) (simp add: open_votes_def empty_storage_def set_contract_version_def)
next
  case (run_execute st es c info m st' r)
  then show ?case using open_votes_execute [OF run_execute(3) _ run_run_inv [OF run_execute(1)] assms(2)] by simp
next
  case (run_migrate st es ca no st' r)
  then have old: "open_votes st" by blast
  from run_run_inv [OF run_migrate(1)] obtain c where c: "CONFIG st = Some c" by (auto simp: run_inv_def)
  note kept = migrate_kept [OF run_migrate(2)]
  from run_migrate(2) c show ?case
    by (rule migrate_existing_config) (use old c kept in \<open>auto simp: open_votes_def\<close>)
qed

text \<open>A transfer within the maximum that is on record for a quorum of relayers has been sent.\<close>

lemma quorum_sent:
  assumes "contract_run h st es" and "displays_coins h" and "\<forall>ev \<in> set es. steady_msg (ce_msg ev)"
    and "CONFIG st = Some c" and "\<forall>q \<in> set Q. on_record h st q r" and "distinct Q" and "unat (threshold c) \<le> length Q"
    and "three_parts (request_evidence h r)" and "plain_denom (coin_denom (request_coin r))"
    and "coin_amount (request_coin r) \<le> max_amount c"
  shows "kv_has (SENT_TRANSACTIONS st) (normalize_id (req_ID r))"
proof (rule ccontr)
  assume unsent: "\<not> ?thesis"
  have inv: "storage_inv h st" "0 < unat (threshold c)"
    using run_run_inv [OF assms(1)] assms(4) by (auto simp: run_inv_def word_gt_0 unat_gt_0)
  then have "Q \<noteq> []" using assms(7) by auto
  with assms(5) unsent obtain t where t: "kv_load (PENDING_TRANSACTIONS st) (request_evidence h r) = Some t"
    by (auto simp: on_record_def neq_Nil_conv)
  note votes = open_votesD [OF run_open_votes [OF assms(1-3)] assms(4) t]
  from inv(1) kv_load_SomeD [OF t] obtain k where
    "request_evidence h r = build_evidence_id h (normalize_id k) (amount t) (recipient t)"
    by (auto simp: storage_inv_def pending_ok_def)
  from same_evidence_same_transfer [OF this [symmetric] assms(8,2) votes(1) assms(9)] votes(2) [OF assms(8)] assms(10)
  have "length (evidence_providers t) < unat (threshold c)" by auto
  moreover have "set Q \<subseteq> set (evidence_providers t)"
    using assms(5) unsent t by (auto simp: on_record_def)
  then have "card (set Q) \<le> card (set (evidence_providers t))" by (intro card_mono) simp_all
  then have "length Q \<le> length (evidence_providers t)"
    using distinct_card [OF assms(6)] card_length [of "evidence_providers t"] by linarith
  ultimately show False using assms(7) by simp
qed

section \<open>Delivery\<close>

text \<open>A state of a run, and a later one.\<close>

definition leads_to :: "host \<Rightarrow> storage \<Rightarrow> storage \<Rightarrow> bool" where
  "leads_to h st0 st \<longleftrightarrow> (\<exists>es. contract_run h st0 es) \<and> (contract_step h)\<^sup>*\<^sup>* st0 st"

lemma step_run_inv: "contract_step h st st' \<Longrightarrow> run_inv h st \<Longrightarrow> run_inv h st'"
  by (induction rule: contract_step.induct) (auto intro: run_inv_execute run_inv_migrate)

lemma on_record_later:
  assumes "leads_to h st0 st" and "on_record h st0 q r" and "three_parts (request_evidence h r)" and "displays_coins h"
  shows "on_record h st q r"
proof -
  from assms(1) obtain es where "contract_run h st0 es" and steps: "(contract_step h)\<^sup>*\<^sup>* st0 st"
    by (auto simp: leads_to_def)
  from run_run_inv [OF this(1)] have inv: "run_inv h st0" .
  from steps have "run_inv h st \<and> on_record h st q r"
  proof (induction rule: rtranclp_induct)
    case base
    show ?case using inv assms(2) ..
  next
    case (step y z)
    then show ?case using step_run_inv on_record_step [OF step(2) _ _ assms(3,4)] by (auto simp: run_inv_def)
  qed
  then show ?thesis ..
qed

lemma plain_transfer_evidence:
  assumes "plain_transfer S p" and "displays_coins h"
  shows "three_parts (request_evidence h (send_request S p))" "plain_denom (coin_denom (request_coin (send_request S p)))"
  using assms three_parts_evidence [OF assms(2)]
  by (simp_all add: plain_transfer_def send_request_def request_coin_def normalize_id_def)

text \<open>
  When as many relayers as the threshold are done with a transfer of at least the minimum amount, each
  on its own connection to the contract, then in every later state the transfer has been sent,
  if its amount is within the maximum, the maximum has not been changed and all coins submitted
  had denoms that begin with a letter. Nothing is assumed of what other relayers submitted or of the order of
  the calls.
\<close>

lemma done_transfers_are_paid:
  assumes "contract_run h st es" and "\<And>ev. ev \<in> set es \<Longrightarrow> steady_msg (ce_msg ev)" and "displays_coins h"
    and "CONFIG st = Some c" and "distinct (map (\<lambda>(e, m). port_who e) Q)" and "unat (threshold c) \<le> length Q"
    and "\<And>e m. (e, m) \<in> set Q \<Longrightarrow> chain_linked e \<and> po_host e = h \<and>
      (\<exists>n n'. n' \<le> m \<and> retry_Do (execute_attempt S (port_get e) (port_send e) p) n n' None)"
    and "\<And>e m k. (e, m) \<in> set Q \<Longrightarrow> k < m \<Longrightarrow> leads_to h (po_after e k) st"
    and "\<And>e m k cc. (e, m) \<in> set Q \<Longrightarrow> k < m \<Longrightarrow> CONFIG (po_before e k) = Some cc \<Longrightarrow> uint (min_amount cc) \<le> Amount (TXAmount p)"
    and "plain_transfer S p" and "0 \<le> Amount (TXAmount p)" and "Amount (TXAmount p) \<le> uint (max_amount c)"
  shows "kv_has (SENT_TRANSACTIONS st) (normalize_id (XRPLTxHash p))"
proof -
  note plain = plain_transfer_evidence [OF assms(10,3)]
  have rec: "on_record h st (port_who e) (send_request S p)" if "(e, m) \<in> set Q" for e m
  proof -
    from assms(7) [OF that] obtain n n' where e: "chain_linked e" "po_host e = h" "n' \<le> m"
      "retry_Do (execute_attempt S (port_get e) (port_send e) p) n n' None" by auto
    from port.done_on_record [OF e(1,4)] assms(9) [OF that] obtain k where
      "k < m" "on_record h (po_after e k) (port_who e) (send_request S p)"
      using e(2,3) by (metis not_less order_less_le_trans)
    with on_record_later [OF assms(8) [OF that] _ plain(1) assms(3)] show ?thesis by blast
  qed
  have "Amount (TXAmount p) < 2 ^ 128" using assms(12) uint_bounded [of "max_amount c"] by simp
  then have "uint (coin_amount (request_coin (send_request S p))) = Amount (TXAmount p)"
    using assms(11) by (simp add: request_coin_def send_request_def uint_word_of_int_eq take_bit_int_eq_self)
  then have "coin_amount (request_coin (send_request S p)) \<le> max_amount c"
    using assms(12) by (simp add: word_le_def)
  moreover have "\<forall>q \<in> set (map (\<lambda>(e, m). port_who e) Q). on_record h st q (send_request S p)" using rec by auto
  ultimately show ?thesis
    using quorum_sent [OF assms(1,3) _ assms(4) _ assms(5) _ plain] assms(2,6) by (simp add: send_request_def)
qed

text \<open>Two relayers that pay the sample transfer.\<close>

definition sample_paid :: storage where
  "sample_paid = sample_start\<lparr>SENT_TRANSACTIONS := [(''ab'', \<lparr>amount = sample_coin 15, recipient = ''bob'',
     evidence_providers = [''r1'', ''r2'']\<rparr>)]\<rparr>"

definition sample_paid_resp :: response where
  "sample_paid_resp = \<lparr>attributes = [(''result'', ''sent''), (''recipient'', ''bob''), (''amount'', ''15ucore''),
     (''evidence_id'', ''ab-15ucore-bob'')], messages = [BankSend ''bob'' [sample_coin 15]]\<rparr>"

lemma sample_payment: "execute sample_host sample_voted (by_sender ''r2'')
    (Contract.ThresholdBankSend ''AB'' (sample_coin 15) ''bob'') = Inr (sample_paid, sample_paid_resp)"
  by code_simp

abbreviation second_port :: port_setup where
  "second_port \<equiv> relayer_port [2] sample_voted sample_paid"

lemma second_port_linked: "chain_linked second_port"
  by (rule relayer_port_linked [where resp = sample_paid_resp])
    (use sample_payment in \<open>simp_all add: relayer_sdk_def sample_start_def sample_voted_def sample_paid_def del: execute.simps\<close>)

lemma sample_states:
  "contract_run sample_host sample_start []"
  "contract_run sample_host sample_paid
    [\<lparr>ce_config = sample_config, ce_info = by_sender ''r2'', ce_msg = Contract.ThresholdBankSend ''AB'' (sample_coin 15) ''bob'',
      ce_resp = sample_paid_resp\<rparr>,
     \<lparr>ce_config = sample_config, ce_info = by_sender ''r1'', ce_msg = Contract.ThresholdBankSend ''AB'' (sample_coin 15) ''bob'',
      ce_resp = \<lparr>attributes = [(''result'', ''pending''), (''evidence_id'', ''ab-15ucore-bob'')], messages = []\<rparr>\<rparr>]"
  by (rule run_instantiate [OF sample_instantiate], rule run_execute [OF sample_run_voted _ sample_payment])
    (simp add: sample_voted_def sample_start_def)

lemma sample_leads:
  "leads_to sample_host sample_start sample_paid" "leads_to sample_host sample_voted sample_paid"
  "leads_to sample_host sample_paid sample_paid"
  unfolding leads_to_def
  using sample_states sample_run_voted step_execute [OF sample_vote] step_execute [OF sample_payment]
  by (meson r_into_rtranclp rtranclp.rtrancl_refl converse_rtranclp_into_rtranclp)+

end
