(* ===== verification/Relayer_Run.thy ===== *)
theory Relayer_Run
  imports Delivery
begin

text \<open>
  The goroutines of one relayer and their channels: the goroutine every finder starts in
  \<open>SubscribeTXSendTransactions\<close> (\<open>finder.go\<close>) and the goroutine of the executor's \<open>Start\<close>
  (\<open>executor.go\<close>), as interleaved steps. Channels are not buffered: a value goes over when the sender
  stands at its send and the receiver at its \<open>select\<close>. What the two scans of a finder
  send is given as lists; the order in which the finder receives from them is free. A panic of a goroutine
  ends the process. Here the goroutine that panics has no step, and the steps the others still have
  are more than the program makes.
\<close>

section \<open>States\<close>

datatype finder_pc = Selecting | Offering PendingTXSendTransaction | Returned

record ('v, 'n) finder_proc =
  fin_cfg :: finder_config
  fin_history :: "('v, 'n) Transaction list"
  fin_recent :: "('v, 'n) Transaction list"
  fin_pc :: finder_pc
  fin_received :: "('v, 'n) Transaction list"

datatype executor_pc = Waiting | Submitting PendingTXSendTransaction | Finished

text \<open>
  \<open>rel_taken\<close> is what the executor received so far, with the number of the finder; \<open>rel_outcomes\<close> what
  the retry helper returned for it; \<open>rel_retries\<close> counts the attempts that failed.
\<close>

record ('v, 'n) relayer_state =
  rel_finders :: "('v, 'n) finder_proc list"
  rel_executor :: executor_pc
  rel_calls :: nat
  rel_canceled :: bool
  rel_taken :: "(nat \<times> PendingTXSendTransaction) list"
  rel_outcomes :: "(PendingTXSendTransaction \<times> go_error option) list"
  rel_retries :: nat

definition finder_start :: "finder_config \<Rightarrow> ('v, 'n) Transaction list \<Rightarrow> ('v, 'n) Transaction list \<Rightarrow> ('v, 'n) finder_proc" where
  "finder_start cfg hs rs = \<lparr>fin_cfg = cfg, fin_history = hs, fin_recent = rs, fin_pc = Selecting, fin_received = []\<rparr>"

definition relayer_start :: "(finder_config \<times> ('v, 'n) Transaction list \<times> ('v, 'n) Transaction list) list \<Rightarrow> ('v, 'n) relayer_state" where
  "relayer_start fs = \<lparr>rel_finders = map (\<lambda>(cfg, hs, rs). finder_start cfg hs rs) fs, rel_executor = Waiting, rel_calls = 0,
     rel_canceled = False, rel_taken = [], rel_outcomes = [], rel_retries = 0\<rparr>"

section \<open>Steps\<close>

text \<open>Receiving from one of the two scans, and what the finder does with the transaction.\<close>

inductive receives :: "('v, 'n) finder_proc \<Rightarrow> ('v, 'n) Transaction \<Rightarrow> ('v, 'n) finder_proc \<Rightarrow> bool" where
  from_history: "fin_history f = x # xs \<Longrightarrow> receives f x (f\<lparr>fin_history := xs, fin_received := fin_received f @ [x]\<rparr>)"
| from_recent: "fin_recent f = x # xs \<Longrightarrow> receives f x (f\<lparr>fin_recent := xs, fin_received := fin_received f @ [x]\<rparr>)"

definition after_build :: "PendingTXSendTransaction option \<Rightarrow> finder_pc" where
  "after_build res = (case res of None \<Rightarrow> Selecting | Some p \<Rightarrow> Offering p)"

inductive relayer_step ::
  "('v, 'n) ripple \<Rightarrow> sdk \<Rightarrow> (nat \<Rightarrow> go_error + Config) \<Rightarrow> (nat \<Rightarrow> ThresholdBankSendRequest list \<Rightarrow> go_error + 'r) \<Rightarrow>
   ('v, 'n) relayer_state \<Rightarrow> ('v, 'n) relayer_state \<Rightarrow> bool"
  for R S get and send :: "nat \<Rightarrow> ThresholdBankSendRequest list \<Rightarrow> go_error + 'r" where
  finder_receives: "i < length (rel_finders s) \<Longrightarrow> fin_pc (rel_finders s ! i) = Selecting \<Longrightarrow>
    receives (rel_finders s ! i) x f \<Longrightarrow> buildPendingTransaction R S (fin_cfg f) x = Ok res \<Longrightarrow>
    relayer_step R S get send s (s\<lparr>rel_finders := (rel_finders s)[i := f\<lparr>fin_pc := after_build res\<rparr>]\<rparr>)"
| finder_returns: "i < length (rel_finders s) \<Longrightarrow> fin_pc (rel_finders s ! i) = Selecting \<Longrightarrow> rel_canceled s \<Longrightarrow>
    relayer_step R S get send s (s\<lparr>rel_finders := (rel_finders s)[i := (rel_finders s ! i)\<lparr>fin_pc := Returned\<rparr>]\<rparr>)"
| hands_over: "i < length (rel_finders s) \<Longrightarrow> fin_pc (rel_finders s ! i) = Offering p \<Longrightarrow> rel_executor s = Waiting \<Longrightarrow>
    relayer_step R S get send s (s\<lparr>rel_finders := (rel_finders s)[i := (rel_finders s ! i)\<lparr>fin_pc := Selecting\<rparr>],
      rel_executor := Submitting p, rel_taken := rel_taken s @ [(i, p)]\<rparr>)"
| submits: "rel_executor s = Submitting p \<Longrightarrow> execute_attempt S get send p (rel_calls s) = Some (n, Done) \<Longrightarrow>
    relayer_step R S get send s (s\<lparr>rel_executor := Waiting, rel_calls := n, rel_outcomes := rel_outcomes s @ [(p, None)]\<rparr>)"
| tries_again: "rel_executor s = Submitting p \<Longrightarrow> execute_attempt S get send p (rel_calls s) = Some (n, Retryable e) \<Longrightarrow>
    relayer_step R S get send s (s\<lparr>rel_calls := n, rel_retries := Suc (rel_retries s)\<rparr>)"
| gives_up: "rel_executor s = Submitting p \<Longrightarrow> execute_attempt S get send p (rel_calls s) = Some (n, Retryable e) \<Longrightarrow>
    rel_canceled s \<Longrightarrow> Is e' ContextCanceled \<Longrightarrow>
    relayer_step R S get send s (s\<lparr>rel_executor := Waiting, rel_calls := n, rel_outcomes := rel_outcomes s @ [(p, Some e')]\<rparr>)"
| executor_returns: "rel_executor s = Waiting \<Longrightarrow> rel_canceled s \<Longrightarrow> relayer_step R S get send s (s\<lparr>rel_executor := Finished\<rparr>)"
| cancels: "\<not> rel_canceled s \<Longrightarrow> relayer_step R S get send s (s\<lparr>rel_canceled := True\<rparr>)"

lemmas relayer_step_defs = relayer_start_def finder_start_def after_build_def

section \<open>Nothing is lost between the goroutines\<close>

text \<open>What a goroutine has in its hands.\<close>

fun offered :: "finder_pc \<Rightarrow> PendingTXSendTransaction list" where
  "offered (Offering p) = [p]"
| "offered _ = []"

fun submitted :: "executor_pc \<Rightarrow> PendingTXSendTransaction list" where
  "submitted (Submitting p) = [p]"
| "submitted _ = []"

definition taken_from :: "nat \<Rightarrow> ('v, 'n) relayer_state \<Rightarrow> PendingTXSendTransaction list" where
  "taken_from i s = map snd (filter (\<lambda>(j, _). j = i) (rel_taken s))"

text \<open>
  A finder that started as \<open>f0\<close>: it received an interleaving of prefixes of its two scans, and what the
  sequential loop of \<open>SubscribeTXSendTransactions\<close> forwards of it is what the executor took, in order, and the offer.
\<close>

definition finder_inv ::
  "('v, 'n) ripple \<Rightarrow> sdk \<Rightarrow> finder_config \<times> ('v, 'n) Transaction list \<times> ('v, 'n) Transaction list \<Rightarrow>
   PendingTXSendTransaction list \<Rightarrow> ('v, 'n) finder_proc \<Rightarrow> bool" where
  "finder_inv R S f0 taken f \<longleftrightarrow> fin_cfg f = fst f0 \<and>
     (\<exists>hs rs. fst (snd f0) = hs @ fin_history f \<and> snd (snd f0) = rs @ fin_recent f \<and> fin_received f \<in> shuffles hs rs) \<and>
     SubscribeTXSendTransactions R S (fin_cfg f) (fin_received f) = Ok (taken @ offered (fin_pc f))"

lemma shuffles_single: "ys @ [x] \<in> shuffles [x] ys"
  by (induction ys) (auto simp: Cons_in_shuffles_iff)

lemma shuffles_snoc:
  "zs \<in> shuffles xs ys \<Longrightarrow> zs @ [x] \<in> shuffles (xs @ [x]) ys"
  by (induction xs ys arbitrary: zs rule: shuffles.induct) (auto simp: Cons_in_shuffles_iff shuffles_single)

lemma shuffles_snoc_right: "zs \<in> shuffles xs ys \<Longrightarrow> zs @ [y] \<in> shuffles xs (ys @ [y])"
  using shuffles_snoc [of zs ys xs y] by (simp add: shuffles_commutes)

lemma Subscribe_snoc:
  assumes "SubscribeTXSendTransactions R S cfg xs = Ok ps" and "buildPendingTransaction R S cfg x = Ok res"
  shows "SubscribeTXSendTransactions R S cfg (xs @ [x]) = Ok (ps @ (case res of None \<Rightarrow> [] | Some p \<Rightarrow> [p]))"
  using assms(1)
proof (induction xs arbitrary: ps)
  case Nil
  then show ?case using assms(2) by (simp split: option.split)
next
  case (Cons y ys)
  from Cons.prems obtain q qs where q: "buildPendingTransaction R S cfg y = Ok q" "SubscribeTXSendTransactions R S cfg ys = Ok qs"
    "ps = (case q of None \<Rightarrow> qs | Some z \<Rightarrow> z # qs)"
    by (auto simp: go_bind_Ok)
  from Cons.IH [OF q(2)] q show ?case by (simp split: option.split)
qed

lemma offered_after_build [simp]: "offered (after_build res) = (case res of None \<Rightarrow> [] | Some p \<Rightarrow> [p])"
  by (simp add: after_build_def split: option.split)

lemma finder_inv_receives:
  assumes "finder_inv R S f0 taken f" and "fin_pc f = Selecting" and "receives f x f'"
    and "buildPendingTransaction R S (fin_cfg f') x = Ok res"
  shows "finder_inv R S f0 taken (f'\<lparr>fin_pc := after_build res\<rparr>)"
proof -
  from assms(1) obtain hs rs where i: "fst (snd f0) = hs @ fin_history f" "snd (snd f0) = rs @ fin_recent f"
    "fin_received f \<in> shuffles hs rs" "fin_cfg f = fst f0"
    by (auto simp: finder_inv_def)
  have kept: "fin_cfg f' = fin_cfg f" "fin_received f' = fin_received f @ [x]"
    using assms(3) by (auto elim: receives.cases)
  have "\<exists>hs rs. fst (snd f0) = hs @ fin_history f' \<and> snd (snd f0) = rs @ fin_recent f' \<and> fin_received f' \<in> shuffles hs rs"
    using assms(3)
  proof cases
    case (from_history xs)
    with i show ?thesis using shuffles_snoc [OF i(3)] by (intro exI [of _ "hs @ [x]"] exI [of _ rs]) simp
  next
    case (from_recent xs)
    with i show ?thesis using shuffles_snoc_right [OF i(3)] by (intro exI [of _ hs] exI [of _ "rs @ [x]"]) simp
  qed
  moreover have "SubscribeTXSendTransactions R S (fin_cfg f) (fin_received f) = Ok taken"
    using assms(1,2) by (auto simp: finder_inv_def)
  from Subscribe_snoc [OF this assms(4) [unfolded kept]] have
    "SubscribeTXSendTransactions R S (fin_cfg f') (fin_received f') = Ok (taken @ offered (after_build res))"
    by (simp add: kept)
  ultimately show ?thesis using i(4) kept by (simp add: finder_inv_def)
qed

lemma attempts_retry: "attempts f s t \<Longrightarrow> retry_Do f t s' r \<Longrightarrow> retry_Do f s s' r"
  by (induction arbitrary: s' r rule: attempts.induct) (auto intro: retry_again)

lemma attempt_later: "execute_attempt S get send p n = Some (n', a) \<Longrightarrow> n < n'"
  by (auto simp: execute_attempt_def split: sum.splits if_splits)

text \<open>Where the submission of the executor stands, and the ends of the finished ones.\<close>

definition executor_inv ::
  "sdk \<Rightarrow> (nat \<Rightarrow> go_error + Config) \<Rightarrow> (nat \<Rightarrow> ThresholdBankSendRequest list \<Rightarrow> go_error + 'r) \<Rightarrow> ('v, 'n) relayer_state \<Rightarrow> bool" where
  "executor_inv S get send s \<longleftrightarrow>
     map snd (rel_taken s) = map fst (rel_outcomes s) @ submitted (rel_executor s) \<and>
     (\<forall>p r. (p, r) \<in> set (rel_outcomes s) \<longrightarrow>
        (\<exists>n n'. n' \<le> rel_calls s \<and> retry_Do (execute_attempt S get send p) n n' r)) \<and>
     (\<forall>p. rel_executor s = Submitting p \<longrightarrow> (\<exists>n. attempts (execute_attempt S get send p) n (rel_calls s)))"

text \<open>Goroutines return and submissions are given up only after the context is canceled.\<close>

definition cancel_inv :: "('v, 'n) relayer_state \<Rightarrow> bool" where
  "cancel_inv s \<longleftrightarrow> rel_canceled s \<or> rel_executor s \<noteq> Finished \<and> (\<forall>f \<in> set (rel_finders s). fin_pc f \<noteq> Returned) \<and>
     (\<forall>p r. (p, r) \<in> set (rel_outcomes s) \<longrightarrow> r = None)"

definition finders_inv ::
  "('v, 'n) ripple \<Rightarrow> sdk \<Rightarrow> (finder_config \<times> ('v, 'n) Transaction list \<times> ('v, 'n) Transaction list) list \<Rightarrow> ('v, 'n) relayer_state \<Rightarrow> bool" where
  "finders_inv R S fs s \<longleftrightarrow> length (rel_finders s) = length fs \<and>
     (\<forall>i < length fs. finder_inv R S (fs ! i) (taken_from i s) (rel_finders s ! i))"

lemma taken_from_same [simp]:
  "taken_from i (s\<lparr>rel_finders := fs\<rparr>) = taken_from i s" "taken_from i (s\<lparr>rel_executor := e\<rparr>) = taken_from i s"
  "taken_from i (s\<lparr>rel_calls := n\<rparr>) = taken_from i s" "taken_from i (s\<lparr>rel_canceled := b\<rparr>) = taken_from i s"
  "taken_from i (s\<lparr>rel_outcomes := rs\<rparr>) = taken_from i s" "taken_from i (s\<lparr>rel_retries := k\<rparr>) = taken_from i s"
  "taken_from i (s\<lparr>rel_taken := rel_taken s @ [(j, p)]\<rparr>) = taken_from i s @ (if j = i then [p] else [])"
  by (auto simp: taken_from_def)

lemma finders_inv_update:
  assumes "finders_inv R S fs s" and "j < length (rel_finders s)" and "finder_inv R S (fs ! j) ts f"
    and "rel_finders s' = (rel_finders s)[j := f]" and "\<And>i. taken_from i s' = (if i = j then ts else taken_from i s)"
  shows "finders_inv R S fs s'"
  using assms by (auto simp: finders_inv_def nth_list_update)

lemma finders_inv_step:
  assumes "relayer_step R S get send s s'" and "finders_inv R S fs s"
  shows "finders_inv R S fs s'"
  using assms
proof (induction rule: relayer_step.induct)
  case (finder_receives i s x f res)
  then have "finder_inv R S (fs ! i) (taken_from i s) (rel_finders s ! i)" by (simp add: finders_inv_def)
  note kept = finder_inv_receives [OF this finder_receives(2-4)]
  show ?case by (rule finders_inv_update [OF finder_receives.prems finder_receives(1) kept]) simp_all
next
  case (finder_returns i s)
  then have "finder_inv R S (fs ! i) (taken_from i s) (rel_finders s ! i)" by (simp add: finders_inv_def)
  with finder_returns(2) have kept: "finder_inv R S (fs ! i) (taken_from i s) ((rel_finders s ! i)\<lparr>fin_pc := Returned\<rparr>)"
    by (auto simp: finder_inv_def)
  show ?case by (rule finders_inv_update [OF finder_returns.prems finder_returns(1) kept]) simp_all
next
  case (hands_over i s p)
  then have "finder_inv R S (fs ! i) (taken_from i s) (rel_finders s ! i)" by (simp add: finders_inv_def)
  with hands_over(2) have kept: "finder_inv R S (fs ! i) (taken_from i s @ [p]) ((rel_finders s ! i)\<lparr>fin_pc := Selecting\<rparr>)"
    by (auto simp: finder_inv_def)
  show ?case by (rule finders_inv_update [OF hands_over.prems hands_over(1) kept]) (simp_all add: taken_from_def)
qed (auto simp: finders_inv_def)

lemma outcomes_later:
  assumes "executor_inv S get send s" and "rel_calls s \<le> n" and "(q, x) \<in> set (rel_outcomes s)"
  shows "\<exists>k k'. k' \<le> n \<and> retry_Do (execute_attempt S get send q) k k' x"
  using assms unfolding executor_inv_def by (meson le_trans)

lemma executor_inv_outcome:
  assumes "executor_inv S get send s" and "rel_executor s = Submitting p" and "rel_calls s < n"
    and "\<And>n0. attempts (execute_attempt S get send p) n0 (rel_calls s) \<Longrightarrow> retry_Do (execute_attempt S get send p) n0 n r"
  shows "executor_inv S get send (s\<lparr>rel_executor := Waiting, rel_calls := n, rel_outcomes := rel_outcomes s @ [(p, r)]\<rparr>)"
proof -
  obtain n0 where new: "retry_Do (execute_attempt S get send p) n0 n r"
    using assms by (auto simp: executor_inv_def)
  note old = outcomes_later [OF assms(1) less_imp_le [OF assms(3)]]
  have "map snd (rel_taken s) = map fst (rel_outcomes s) @ [p]"
    using assms(1,2) by (simp add: executor_inv_def)
  with new old show ?thesis unfolding executor_inv_def by auto
qed

lemma executor_inv_step:
  assumes "relayer_step R S get send s s'" and "executor_inv S get send s"
  shows "executor_inv S get send s'"
  using assms
proof (induction rule: relayer_step.induct)
  case (hands_over i s p)
  then show ?case by (auto simp: executor_inv_def intro: attempts_refl)
next
  case (submits s p n)
  show ?case
    by (rule executor_inv_outcome [OF submits.prems submits(1) attempt_later [OF submits(2)]])
      (rule attempts_retry [OF _ retry_done [where f = "execute_attempt S get send p", OF submits(2)]])
next
  case (tries_again s p n e)
  have "rel_calls s \<le> n" using attempt_later [OF tries_again(2)] by simp
  moreover obtain n0 where "attempts (execute_attempt S get send p) n0 (rel_calls s)"
    using tries_again by (auto simp: executor_inv_def)
  then have "attempts (execute_attempt S get send p) n0 n" using tries_again(2) by (rule attempts_step)
  ultimately show ?case
    using outcomes_later [OF tries_again.prems] tries_again.prems tries_again(1) unfolding executor_inv_def by auto
next
  case (gives_up s p n e e')
  show ?case
    by (rule executor_inv_outcome [OF gives_up.prems gives_up(1) attempt_later [OF gives_up(2)]])
      (rule attempts_retry [OF _ retry_canceled [where f = "execute_attempt S get send p", OF gives_up(2,4)]])
qed (auto simp: executor_inv_def)

lemma cancel_inv_step:
  assumes "relayer_step R S get send s s'" and "cancel_inv s"
  shows "cancel_inv s'"
  using assms
proof (induction rule: relayer_step.induct)
  case (finder_receives i s x f res)
  then show ?case by (auto simp: cancel_inv_def after_build_def dest!: set_update_subset_insert [THEN subsetD] split: option.splits)
next
  case (hands_over i s p)
  then show ?case by (auto simp: cancel_inv_def dest!: set_update_subset_insert [THEN subsetD])
qed (auto simp: cancel_inv_def)

lemma relayer_invs:
  assumes "(relayer_step R S get send)\<^sup>*\<^sup>* (relayer_start fs) s"
  shows "finders_inv R S fs s \<and> executor_inv S get send s \<and> cancel_inv s"
  using assms
proof (induction rule: rtranclp_induct)
  case base
  show ?case
    by (auto simp: relayer_start_def finders_inv_def executor_inv_def cancel_inv_def finder_inv_def finder_start_def
        taken_from_def split_beta)
next
  case (step y z)
  then show ?case using finders_inv_step executor_inv_step cancel_inv_step by blast
qed

text \<open>
  C18: The channels lose and invent nothing. In every reachable state of a relayer's goroutines, whatever their
  interleaving, what the executor took from a finder and the finder's offer are, in order, exactly
  what the sequential finder forwards of the transactions it received, and these are an
  interleaving of what its two scans have sent; the executor ended the submissions in the order it took the
  transfers, each by a run of the retry helper, and at most one is under way.
\<close>

theorem channels_lose_nothing:
  assumes "(relayer_step R S get send)\<^sup>*\<^sup>* (relayer_start fs) s" and "i < length fs" and "fs ! i = (cfg, history, recent)"
  shows "(\<exists>hs rs. history = hs @ fin_history (rel_finders s ! i) \<and> recent = rs @ fin_recent (rel_finders s ! i) \<and>
      fin_received (rel_finders s ! i) \<in> shuffles hs rs) \<and>
    SubscribeTXSendTransactions R S cfg (fin_received (rel_finders s ! i)) =
      Ok (taken_from i s @ offered (fin_pc (rel_finders s ! i))) \<and>
    map snd (rel_taken s) = map fst (rel_outcomes s) @ submitted (rel_executor s) \<and>
    (\<forall>p r. (p, r) \<in> set (rel_outcomes s) \<longrightarrow>
      (\<exists>n n'. n' \<le> rel_calls s \<and> retry_Do (execute_attempt S get send p) n n' r))"
proof -
  from relayer_invs [OF assms(1)] have "finder_inv R S (cfg, history, recent) (taken_from i s) (rel_finders s ! i)"
    and ex: "executor_inv S get send s"
    using assms(2,3) unfolding finders_inv_def by auto
  then show ?thesis unfolding finder_inv_def executor_inv_def by auto
qed

section \<open>Progress\<close>

text \<open>What is still to do: three steps for a transaction, two for an offer, one for a submission.\<close>

definition finder_weight :: "('v, 'n) finder_proc \<Rightarrow> nat" where
  "finder_weight f = 3 * length (fin_history f @ fin_recent f) + 2 * length (offered (fin_pc f))"

definition weight :: "('v, 'n) relayer_state \<Rightarrow> nat" where
  "weight s = sum_list (map finder_weight (rel_finders s)) + length (submitted (rel_executor s))"

lemma sum_list_map_update:
  "i < length xs \<Longrightarrow> sum_list (map f (xs[i := x])) + f (xs ! i) = sum_list (map f xs) + (f x :: nat)"
  by (induction xs arbitrary: i) (auto split: nat.splits)

lemma receives_weight:
  "receives f x f' \<Longrightarrow> fin_pc f = Selecting \<Longrightarrow> finder_weight (f'\<lparr>fin_pc := after_build res\<rparr>) < finder_weight f"
  by (induction rule: receives.induct) (auto simp: finder_weight_def split: option.split)

lemma weight_step:
  assumes "relayer_step R S get send s s'" and "\<not> rel_canceled s'"
  shows "\<not> rel_canceled s \<and> weight s' + rel_retries s < weight s + rel_retries s' \<or>
    \<not> rel_canceled s \<and> weight s' = weight s \<and> rel_retries s' = Suc (rel_retries s)"
  using assms
proof (induction rule: relayer_step.induct)
  case (finder_receives i s x f res)
  then show ?case
    using receives_weight [OF finder_receives(3,2), of res]
      sum_list_map_update [OF finder_receives(1), of finder_weight "f\<lparr>fin_pc := after_build res\<rparr>"]
    by (simp add: weight_def)
next
  case (hands_over i s p)
  let ?f = "(rel_finders s ! i)\<lparr>fin_pc := Selecting\<rparr>"
  have "finder_weight ?f + 2 = finder_weight (rel_finders s ! i)"
    using hands_over(2) by (simp add: finder_weight_def)
  then show ?case
    using hands_over sum_list_map_update [OF hands_over(1), of finder_weight ?f] by (simp add: weight_def)
qed (simp_all add: weight_def)

lemma steps_bounded:
  assumes "(relayer_step R S get send ^^ k) s0 s" and "\<not> rel_canceled s"
  shows "k + weight s + rel_retries s0 \<le> weight s0 + rel_retries s \<and> \<not> rel_canceled s0"
  using assms
proof (induction k arbitrary: s)
  case 0
  then show ?case by simp
next
  case (Suc k)
  from Suc.prems(1) obtain t where t: "(relayer_step R S get send ^^ k) s0 t" "relayer_step R S get send t s"
    by auto
  from weight_step [OF t(2) Suc.prems(2)] Suc.IH [OF t(1)] show ?case by auto
qed

text \<open>No deadlock: with something left to do and a live context, some goroutine can move.\<close>

lemma attempt_outcome:
  obtains n where "execute_attempt S get send p k = Some (n, Done)"
  | n e where "execute_attempt S get send p k = Some (n, Retryable e)"
proof -
  have "\<exists>n. execute_attempt S get send p k = Some (n, Done) \<or> (\<exists>e. execute_attempt S get send p k = Some (n, Retryable e))"
    by (auto simp: execute_attempt_def split: sum.split)
  with that show ?thesis by blast
qed

lemma can_receive:
  assumes "fin_history f @ fin_recent f \<noteq> []"
  obtains x f' where "receives f x f'" and "x \<in> set (fin_history f @ fin_recent f)" and "fin_cfg f' = fin_cfg f"
proof (cases "fin_history f")
  case (Cons x xs)
  from that [OF from_history [OF this]] Cons show ?thesis by simp
next
  case Nil
  with assms obtain x xs where r: "fin_recent f = x # xs" by (auto simp: neq_Nil_conv)
  from that [OF from_recent [OF this]] r show ?thesis by simp
qed

lemma no_deadlock:
  assumes "cancel_inv s" and "\<not> rel_canceled s" and "0 < weight s"
    and "\<And>f x. f \<in> set (rel_finders s) \<Longrightarrow> x \<in> set (fin_history f @ fin_recent f) \<Longrightarrow>
      \<exists>res. buildPendingTransaction R S (fin_cfg f) x = Ok res"
  shows "\<exists>s'. relayer_step R S get send s s' \<and> \<not> rel_canceled s'"
proof (cases "rel_executor s")
  case (Submitting p)
  show ?thesis
    by (cases rule: attempt_outcome [of S get send p "rel_calls s"])
      (use submits [OF Submitting] tries_again [OF Submitting] assms(2) in \<open>fastforce+\<close>)
next
  case Waiting
  show ?thesis
  proof (cases "\<exists>i < length (rel_finders s). \<exists>p. fin_pc (rel_finders s ! i) = Offering p")
    case True
    then show ?thesis using hands_over [OF _ _ Waiting] assms(2) by fastforce
  next
    case False
    then have sel: "fin_pc (rel_finders s ! i) = Selecting" if "i < length (rel_finders s)" for i
      using that assms(1,2) unfolding cancel_inv_def by (metis finder_pc.exhaust nth_mem)
    have "\<not> (\<forall>f \<in> set (rel_finders s). finder_weight f = 0)"
    proof
      assume "\<forall>f \<in> set (rel_finders s). finder_weight f = 0"
      then have "sum_list (map finder_weight (rel_finders s)) = 0" by (simp add: sum_list_eq_0_iff)
      with assms(3) Waiting show False by (simp add: weight_def)
    qed
    then obtain f where "f \<in> set (rel_finders s)" "finder_weight f \<noteq> 0" by blast
    then obtain i where i: "i < length (rel_finders s)" "finder_weight (rel_finders s ! i) \<noteq> 0"
      by (auto simp: in_set_conv_nth)
    with sel have "fin_history (rel_finders s ! i) @ fin_recent (rel_finders s ! i) \<noteq> []"
      by (simp add: finder_weight_def)
    then obtain x f' where x: "receives (rel_finders s ! i) x f'"
      "x \<in> set (fin_history (rel_finders s ! i) @ fin_recent (rel_finders s ! i))" "fin_cfg f' = fin_cfg (rel_finders s ! i)"
      by (rule can_receive)
    from assms(4) [OF nth_mem [OF i(1)] x(2)] obtain res where "buildPendingTransaction R S (fin_cfg f') x = Ok res"
      using x(3) by auto
    from finder_receives [OF i(1) sel [OF i(1)] x(1) this] assms(2) show ?thesis by fastforce
  qed
next
  case Finished
  then show ?thesis using assms(1,2) by (simp add: cancel_inv_def)
qed

lemma Subscribe_forwards:
  "SubscribeTXSendTransactions R S cfg xs = Ok ps \<Longrightarrow> x \<in> set xs \<Longrightarrow> buildPendingTransaction R S cfg x = Ok (Some p) \<Longrightarrow> p \<in> set ps"
  by (induction xs arbitrary: ps) (auto simp: go_bind_Ok split: option.splits)

text \<open>In a state with nothing left to do, every transfer of every finder was submitted with success.\<close>

lemma quiet_handled:
  assumes "(relayer_step R S get send)\<^sup>*\<^sup>* (relayer_start fs) s" and "\<not> rel_canceled s" and "weight s = 0"
    and "(cfg, hs, rs) \<in> set fs" and "x \<in> set (hs @ rs)" and "buildPendingTransaction R S cfg x = Ok (Some p)"
  shows "(p, None) \<in> set (rel_outcomes s)"
proof -
  note inv = relayer_invs [OF assms(1)]
  from assms(4) obtain i where i: "i < length fs" "fs ! i = (cfg, hs, rs)" by (auto simp: in_set_conv_nth)
  let ?f = "rel_finders s ! i"
  from inv i have f: "finder_inv R S (cfg, hs, rs) (taken_from i s) ?f" and len: "i < length (rel_finders s)"
    by (auto simp: finders_inv_def)
  have quiet: "fin_history ?f = []" "fin_recent ?f = []" "offered (fin_pc ?f) = []" "submitted (rel_executor s) = []"
    using assms(3) nth_mem [OF len] by (auto simp: weight_def finder_weight_def sum_list_eq_0_iff)
  have "SubscribeTXSendTransactions R S cfg (fin_received ?f) = Ok (taken_from i s)" "fin_received ?f \<in> shuffles hs rs"
    using f quiet by (auto simp: finder_inv_def)
  with assms(5,6) have "p \<in> set (taken_from i s)"
    by (intro Subscribe_forwards [of R S cfg "fin_received ?f"]) (auto simp: set_shuffles)
  then have "p \<in> set (map snd (rel_taken s))" by (auto simp: taken_from_def)
  moreover have "map snd (rel_taken s) = map fst (rel_outcomes s)"
    using inv quiet(4) by (simp add: executor_inv_def)
  ultimately obtain r where "(p, r) \<in> set (rel_outcomes s)" by (metis (no_types, lifting) imageE list.set_map prod.collapse)
  moreover have "r = None" if "(p, r) \<in> set (rel_outcomes s)" for r
    using that inv assms(2) by (auto simp: cancel_inv_def)
  ultimately show ?thesis by blast
qed

lemma left_inputs:
  assumes "finders_inv R S fs s" and "f \<in> set (rel_finders s)" and "x \<in> set (fin_history f @ fin_recent f)"
  shows "\<exists>cfg hs rs. (cfg, hs, rs) \<in> set fs \<and> fin_cfg f = cfg \<and> x \<in> set (hs @ rs)"
proof -
  from assms(2) obtain i where i: "i < length (rel_finders s)" "f = rel_finders s ! i" by (auto simp: in_set_conv_nth)
  with assms(1) have fi: "finder_inv R S (fs ! i) (taken_from i s) f" "fs ! i \<in> set fs" by (auto simp: finders_inv_def)
  then have "fin_cfg f = fst (fs ! i) \<and> x \<in> set (fst (snd (fs ! i)) @ snd (snd (fs ! i)))"
    using assms(3) by (auto simp: finder_inv_def)
  with fi(2) show ?thesis by (metis prod.collapse)
qed

text \<open>
  C19: The goroutines get everything done. As long as the context is live, a run of the relayer's goroutines takes at most three
  steps for each transaction of the scans and one for each failed attempt; and it can always
  go on until every transfer the finders build of these transactions has been submitted with success: there is no deadlock.
\<close>

theorem relayer_gets_everything_done:
  assumes "(relayer_step R S get send ^^ k) (relayer_start fs) s" and "\<not> rel_canceled s"
    and "\<And>cfg hs rs x. (cfg, hs, rs) \<in> set fs \<Longrightarrow> x \<in> set (hs @ rs) \<Longrightarrow> \<exists>res. buildPendingTransaction R S cfg x = Ok res"
  shows "k \<le> 3 * sum_list (map (\<lambda>(_, hs, rs). length hs + length rs) fs) + rel_retries s \<and>
    ((\<exists>s'. relayer_step R S get send s s' \<and> \<not> rel_canceled s') \<or>
     (\<forall>cfg hs rs x p. (cfg, hs, rs) \<in> set fs \<and> x \<in> set (hs @ rs) \<and> buildPendingTransaction R S cfg x = Ok (Some p) \<longrightarrow>
        (p, None) \<in> set (rel_outcomes s)))"
proof -
  have reach: "(relayer_step R S get send)\<^sup>*\<^sup>* (relayer_start fs) s" using assms(1) by (rule relpowp_imp_rtranclp)
  note inv = relayer_invs [OF reach]
  have "weight (relayer_start fs) = 3 * sum_list (map (\<lambda>(_, hs, rs). length hs + length rs) fs)"
    by (induction fs) (auto simp: weight_def relayer_start_def finder_start_def finder_weight_def)
  moreover have "rel_retries (relayer_start fs) = 0" by (simp add: relayer_start_def)
  ultimately have bound: "k \<le> 3 * sum_list (map (\<lambda>(_, hs, rs). length hs + length rs) fs) + rel_retries s"
    using steps_bounded [OF assms(1,2)] by simp
  show ?thesis
  proof (cases "weight s = 0")
    case True
    then show ?thesis using bound quiet_handled [OF reach assms(2)] by blast
  next
    case False
    have "\<exists>s'. relayer_step R S get send s s' \<and> \<not> rel_canceled s'"
    proof (rule no_deadlock)
      show "cancel_inv s" "\<not> rel_canceled s" "0 < weight s" using inv assms(2) False by auto
      show "\<exists>res. buildPendingTransaction R S (fin_cfg f) x = Ok res"
        if "f \<in> set (rel_finders s)" "x \<in> set (fin_history f @ fin_recent f)" for f x
        using left_inputs [OF _ that] inv assms(3) by blast
    qed
    then show ?thesis using bound by blast
  qed
qed

section \<open>Shutting down\<close>

text \<open>
  C39: A finder can hang after the shutdown. The finder sends its transfer without looking at the context: when the executor has
  returned while a finder stands at its send, that goroutine never returns, however the run
  goes on. Every restart after a change of the configuration may leave such goroutines behind.
\<close>

theorem offering_finder_never_returns:
  assumes "rel_executor s = Finished" and "i < length (rel_finders s)" and "fin_pc (rel_finders s ! i) = Offering p"
    and "(relayer_step R S get send)\<^sup>*\<^sup>* s s'"
  shows "fin_pc (rel_finders s' ! i) = Offering p"
proof -
  from assms(4) have "rel_executor s' = Finished \<and> i < length (rel_finders s') \<and> fin_pc (rel_finders s' ! i) = Offering p"
  proof (induction rule: rtranclp_induct)
    case base
    show ?case using assms(1-3) by simp
  next
    case (step y z)
    from step(2,3) show ?case
      by (induction rule: relayer_step.induct) (auto simp: nth_list_update)
  qed
  then show ?thesis by simp
qed

section \<open>A concrete relayer\<close>

text \<open>One finder with the sample burn in its history, on the connection of the first sample relayer.\<close>

definition sample_rate :: finder_config where
  "sample_rate = sample_finder_config\<lparr>Multiplier := ''0.75''\<rparr>"

abbreviation sample_relayer :: "(rat, (account \<times> rat balance list) list) Transaction \<Rightarrow> (rat, (account \<times> rat balance list) list) relayer_state" where
  "sample_relayer x \<equiv> relayer_start [(sample_rate, [x], [])]"

definition sample_accepts :: "(rat, (account \<times> rat balance list) list) Transaction \<Rightarrow> bool" where
  "sample_accepts x \<longleftrightarrow> buildPendingTransaction sample_ripple relayer_sdk sample_rate x = Ok (Some sample_transfer)"

lemma sample_burn_accepted: "sample_accepts sample_burn"
  unfolding sample_accepts_def by code_simp

definition sample_finder_at :: "(rat, (account \<times> rat balance list) list) Transaction \<Rightarrow> finder_pc \<Rightarrow> (rat, (account \<times> rat balance list) list) finder_proc" where
  "sample_finder_at x pc = \<lparr>fin_cfg = sample_rate, fin_history = [], fin_recent = [], fin_pc = pc, fin_received = [x]\<rparr>"

definition sample_offered :: "(rat, (account \<times> rat balance list) list) Transaction \<Rightarrow> bool \<Rightarrow> (rat, (account \<times> rat balance list) list) relayer_state" where
  "sample_offered x b = (sample_relayer x)\<lparr>rel_finders := [sample_finder_at x (Offering sample_transfer)], rel_canceled := b\<rparr>"

definition sample_relayer_done :: "(rat, (account \<times> rat balance list) list) Transaction \<Rightarrow> (rat, (account \<times> rat balance list) list) relayer_state" where
  "sample_relayer_done x = (sample_relayer x)\<lparr>rel_finders := [sample_finder_at x Selecting], rel_calls := 2,
     rel_taken := [(0, sample_transfer)], rel_outcomes := [(sample_transfer, None)]\<rparr>"

lemma sample_offer:
  assumes "sample_accepts x"
  shows "relayer_step sample_ripple relayer_sdk get send (sample_relayer x) (sample_offered x False)"
proof -
  have "receives (rel_finders (sample_relayer x) ! 0) x (sample_finder_at x Selecting)"
    using from_history [of "rel_finders (sample_relayer x) ! 0" x "[]"]
    by (simp add: relayer_start_def finder_start_def sample_finder_at_def)
  from finder_receives [OF _ _ this, of sample_ripple relayer_sdk "Some sample_transfer" get send] assms
  show ?thesis
    by (simp add: relayer_start_def finder_start_def sample_finder_at_def sample_offered_def after_build_def sample_accepts_def)
qed

lemma sample_relayer_run:
  assumes "sample_accepts x" and "execute_attempt relayer_sdk get send sample_transfer 0 = Some (2, Done)"
  shows "(relayer_step sample_ripple relayer_sdk get send ^^ 3) (sample_relayer x) (sample_relayer_done x)"
proof -
  let ?s = "sample_offered x False"
  let ?t = "?s\<lparr>rel_finders := [sample_finder_at x Selecting], rel_executor := Submitting sample_transfer,
    rel_taken := [(0, sample_transfer)]\<rparr>"
  have 1: "relayer_step sample_ripple relayer_sdk get send ?s ?t"
    using hands_over [of 0 ?s sample_transfer sample_ripple relayer_sdk get send]
    by (simp add: sample_offered_def sample_finder_at_def relayer_start_def)
  have 2: "relayer_step sample_ripple relayer_sdk get send ?t (sample_relayer_done x)"
    using submits [of ?t sample_transfer relayer_sdk get send 2 sample_ripple] assms(2)
    by (simp add: sample_offered_def sample_relayer_done_def relayer_start_def)
  from sample_offer [OF assms(1)] 1 2 show ?thesis by (auto simp: numeral_3_eq_3 relcompp_apply)
qed

lemma sample_attempt:
  "execute_attempt relayer_sdk (port_get sample_port) (port_send sample_port) sample_transfer 0 = Some (2, Done)"
  by code_simp

lemmas sample_burn_run = sample_relayer_run [OF sample_burn_accepted sample_attempt]

theorem channels_lose_nothing_witness:
  "SubscribeTXSendTransactions sample_ripple relayer_sdk sample_rate [sample_burn] = Ok [sample_transfer]"
proof -
  have "(relayer_step sample_ripple relayer_sdk (port_get sample_port) (port_send sample_port))\<^sup>*\<^sup>* (sample_relayer sample_burn) (sample_relayer_done sample_burn)"
    using sample_burn_run by (rule relpowp_imp_rtranclp)
  from channels_lose_nothing [OF this, of 0] show ?thesis
    by (simp add: sample_relayer_done_def sample_finder_at_def taken_from_def)
qed

theorem relayer_gets_everything_done_witness: "3 \<le> 3 * (1 :: nat) + rel_retries (sample_relayer_done sample_burn)"
proof -
  have "\<exists>res. buildPendingTransaction sample_ripple relayer_sdk cfg x = Ok res"
    if "(cfg, hs, rs) \<in> set [(sample_rate, [sample_burn], [])]" "x \<in> set (hs @ rs)" for cfg hs rs x
    using that sample_burn_accepted by (auto simp: sample_accepts_def)
  moreover have "\<not> rel_canceled (sample_relayer_done sample_burn)" by (simp add: sample_relayer_done_def relayer_start_def)
  ultimately show ?thesis
    using relayer_gets_everything_done [OF sample_burn_run] by simp
qed

theorem offering_finder_never_returns_witness:
  "\<exists>s. (relayer_step sample_ripple relayer_sdk (port_get sample_port) (port_send sample_port))\<^sup>*\<^sup>* (sample_relayer sample_burn) s \<and>
    rel_canceled s \<and> rel_executor s = Finished \<and> fin_pc (rel_finders s ! 0) = Offering sample_transfer"
proof -
  let ?step = "relayer_step sample_ripple relayer_sdk (port_get sample_port) (port_send sample_port)"
  let ?s = "(sample_offered sample_burn True)\<lparr>rel_executor := Finished\<rparr>"
  have "?step (sample_offered sample_burn False) (sample_offered sample_burn True)"
    using cancels [of "sample_offered sample_burn False"] by (simp add: sample_offered_def relayer_start_def)
  moreover have "?step (sample_offered sample_burn True) ?s"
    using executor_returns [of "sample_offered sample_burn True"] by (simp add: sample_offered_def relayer_start_def)
  ultimately have "?step\<^sup>*\<^sup>* (sample_relayer sample_burn) ?s" using sample_offer [OF sample_burn_accepted] by (meson converse_rtranclp_into_rtranclp rtranclp.rtrancl_refl)
  moreover have "fin_pc (rel_finders ?s ! 0) = Offering sample_transfer"
    by (rule offering_finder_never_returns [of ?s]) (simp_all add: sample_offered_def sample_finder_at_def)
  ultimately show ?thesis by (intro exI [of _ ?s]) (simp add: sample_offered_def)
qed

end
