(* ===== verification/Bridge.thy ===== *)
theory Bridge
  imports Relayer_Run XRPL_Properties
begin

text \<open>
  A relayer that has caught up with the ledger: its two scans went past a transaction and its goroutines have nothing left to do.
  Then it is done with the transfer the transaction stands for.
\<close>

section \<open>Caught-up relayers\<close>

record ('v, 'n) relayer_view =
  rv_port :: port_setup
  rv_finders :: "(finder_config \<times> ('v, 'n) Transaction list \<times> ('v, 'n) Transaction list) list"
  rv_state :: "('v, 'n) relayer_state"
  rv_rpc :: "('v, 'n) rpc_setup"
  rv_scan :: scanner_config
  rv_history :: "('v, 'n) Transaction loop_state"
  rv_recent :: "('v, 'n) Transaction loop_state"

text \<open>
  The scans of the finder \<open>cfg\<close>, started at the ledger \<open>initial\<close>: the history scan has returned with \<open>hs\<close>, a
  pass of the recent scan ended without error and left \<open>rs\<close>, and the item \<open>x\<close>, known to the server during both, lies in
  the covered ledgers.
\<close>

definition scanned_past ::
  "('v, 'n) rpc_setup \<Rightarrow> scanner_config \<Rightarrow> finder_config \<Rightarrow> ('v, 'n) Transaction loop_state \<Rightarrow> ('v, 'n) Transaction loop_state \<Rightarrow>
   ('v, 'n) tx_item \<Rightarrow> bool" where
  "scanned_past u scan cfg hs rs x \<longleftrightarrow> setup_good u \<and>
     (\<exists>n initial rs0 c l out n' k.
        retry_Do (history_attempt (rpc_sub u) (initial - XRPLRecentScanIndexesBack cfg))
          (loop_start (XRPLHistoryScanStartLedger cfg - 1) n) hs None \<and>
        attempts (recent_attempt (rpc_sub u) (rpc_cur u) scan) (loop_start (initial - XRPLRecentScanIndexesBack cfg) n) rs0 \<and>
        rpc_cur u (next_call rs0) = Inr c \<and>
        rpc_sub u (Suc (next_call rs0)) (mark rs0 + 1) (c - RecentScanSkipLastIndexes scan) = Some (l, None, out, n') \<and>
        sent rs = sent rs0 @ out \<and> x \<in> set (su_history u k) \<and> k < next_call hs \<and> k < n' \<and>
        XRPLHistoryScanStartLedger cfg \<le> item_LedgerIndex x \<and> item_LedgerIndex x \<le> c - RecentScanSkipLastIndexes scan)"

definition caught_up ::
  "('v, 'n) ripple \<Rightarrow> sdk \<Rightarrow> finder_config \<Rightarrow> ('v, 'n) tx_item \<Rightarrow> ('v, 'n) relayer_view \<Rightarrow> bool" where
  "caught_up R S cfg x v \<longleftrightarrow> chain_linked (rv_port v) \<and>
     scanned_past (rv_rpc v) (rv_scan v) cfg (rv_history v) (rv_recent v) x \<and>
     (cfg, sent (rv_history v), sent (rv_recent v)) \<in> set (rv_finders v) \<and>
     (relayer_step R S (port_get (rv_port v)) (port_send (rv_port v)))\<^sup>*\<^sup>* (relayer_start (rv_finders v)) (rv_state v) \<and>
     \<not> rel_canceled (rv_state v) \<and> weight (rv_state v) = 0"

lemma scanned_past_delivers:
  assumes "scanned_past u scan cfg hs rs x"
  shows "delivered x (sent hs @ sent rs)"
  using assms unfolding scanned_past_def by (metis scans_meet)

lemma caught_up_done:
  assumes "caught_up R S cfg x v" and "converts x t" and "buildPendingTransaction R S cfg t = Ok (Some p)"
  shows "\<exists>n n'. n' \<le> rel_calls (rv_state v) \<and>
    retry_Do (execute_attempt S (port_get (rv_port v)) (port_send (rv_port v)) p) n n' None"
proof -
  from assms(1) have v: "scanned_past (rv_rpc v) (rv_scan v) cfg (rv_history v) (rv_recent v) x"
    "(cfg, sent (rv_history v), sent (rv_recent v)) \<in> set (rv_finders v)" "\<not> rel_canceled (rv_state v)" "weight (rv_state v) = 0"
    and reach: "(relayer_step R S (port_get (rv_port v)) (port_send (rv_port v)))\<^sup>*\<^sup>* (relayer_start (rv_finders v)) (rv_state v)"
    by (auto simp: caught_up_def)
  from scanned_past_delivers [OF v(1)] assms(2) have "t \<in> set (sent (rv_history v) @ sent (rv_recent v))"
    by (auto simp: delivered_def converts_def)
  from quiet_handled [OF reach v(3,4,2) this assms(3)] relayer_invs [OF reach] show ?thesis
    by (auto simp: executor_inv_def)
qed

section \<open>Two concrete relayers\<close>

text \<open>A server that knows one burn, in ledger 5, and two relayers that have caught up with it.\<close>

definition burn_item :: "(rat, (account \<times> rat balance list) list) tx_item" where
  "burn_item = (sample_item 5)\<lparr>item_base := (item_base (sample_item 5))\<lparr>
       bt_Memos := [\<lparr>MemoData = hex_EncodeToString ''core1bob/net'', MemoType = []\<rparr>]\<rparr>,
     item_Meta := (item_Meta (sample_item 5))\<lparr>meta_AffectedNodes :=
       [([1], [\<lparr>CounterParty = [2], Balance = 0, Change = 2, bal_Currency = [7]\<rparr>])]\<rparr>\<rparr>"

definition burn_tx :: "(rat, (account \<times> rat balance list) list) Transaction" where
  "burn_tx = (sample_tx 5)\<lparr>Memos := [''core1bob/net''],
     AffectedNodes := [([1], [\<lparr>CounterParty = [2], Balance = 0, Change = 2, bal_Currency = [7]\<rparr>])]\<rparr>"

definition burn_DoJSON :: "nat \<Rightarrow> string \<Rightarrow> rpc_req \<Rightarrow> go_error + string" where
  "burn_DoJSON n url req =
     (case Params req of
        [AccountTxReq r] \<Rightarrow>
          if LedgerIndexMin r = 1 \<and> LedgerIndexMax r = 8 \<and> atr_Marker r = None then Inr ''history''
          else if LedgerIndexMin r = 9 \<and> LedgerIndexMax r = 18 \<and> atr_Marker r = None then Inr ''recent''
          else Inl (Errorf ''out of range'')
      | [] \<Rightarrow> Inr ''ledger''
      | _ \<Rightarrow> Inl (Errorf ''unknown''))"

definition burn_env :: "(rat, (account \<times> rat balance list) list) http_env" where
  "burn_env = sample_env\<lparr>DoJSON := burn_DoJSON,
     decode_account_tx := (\<lambda>b. Inr \<lparr>Transactions = (if b = ''history'' then [burn_item] else []), res_Marker = no_marker\<rparr>)\<rparr>"

definition burn_setup :: "(rat, (account \<times> rat balance list) list) rpc_setup" where
  "burn_setup = sample_setup\<lparr>su_env := burn_env, su_history := (\<lambda>n. [burn_item]), su_pos := (\<lambda>s f m. 0)\<rparr>"

lemma burn_converts: "converts burn_item burn_tx"
  unfolding converts_def by code_simp

lemma burn_accepted: "sample_accepts burn_tx"
  unfolding sample_accepts_def by code_simp

lemma burn_ledger: "item_LedgerIndex burn_item = 5"
  by (simp add: burn_item_def)

lemma burn_good: "setup_good burn_setup"
  unfolding setup_good_def serves_def
proof (intro conjI allI impI)
  show "ascending_history (su_history burn_setup)"
    by (simp add: ascending_history_def burn_setup_def burn_ledger)
next
  fix n s f m res
  assume "callRPC (su_env burn_setup) (su_cfg burn_setup) n
    (account_tx_request (su_ripple burn_setup) (su_cfg burn_setup) (su_account burn_setup) s f m)
    (decode_account_tx (su_env burn_setup)) = Inr res"
  then have "s = 1 \<and> f = 8 \<and> res = \<lparr>Transactions = [burn_item], res_Marker = no_marker\<rparr> \<or>
    s = 9 \<and> f = 18 \<and> res = \<lparr>Transactions = [], res_Marker = no_marker\<rparr>"
    by (auto simp: burn_setup_def callRPC_def burn_env_def sample_env_def burn_DoJSON_def account_tx_request_def res_bind_Inr
        split: if_splits)
  then show "answers_page (su_pos burn_setup) s f (filter (in_range s f) (su_history burn_setup n))
    (su_pos burn_setup s f m) res"
    by (auto simp: answers_page_def burn_setup_def in_range_def no_marker_def burn_ledger
        intro: exI [of _ "1 :: nat"] exI [of _ "0 :: nat"])
qed (simp add: burn_setup_def sample_setup_def)

lemma burn_history_sub: "rpc_sub burn_setup 1 1 8 = Some (4, None, [burn_tx], 2)"
  by code_simp

lemma burn_recent_sub: "rpc_sub burn_setup 2 9 18 = Some (8, None, [], 3)"
  by code_simp

lemma burn_current: "rpc_cur burn_setup n = Inr 38"
  by (simp add: rpc_cur_def GetCurrentLedger_def callRPC_def burn_setup_def burn_env_def sample_setup_def sample_env_def burn_DoJSON_def)

lemma burn_scanned_past: "scanned_past burn_setup DefaultTxScannerConfig sample_rate
  \<lparr>mark = 4, next_call = 2, sent = [burn_tx], gauge_writes = []\<rparr> \<lparr>mark = 8, next_call = 3, sent = [], gauge_writes = [8]\<rparr> burn_item"
proof -
  have "retry_Do (history_attempt (rpc_sub burn_setup) 8) (loop_start 0 1)
    \<lparr>mark = 4, next_call = 2, sent = [burn_tx], gauge_writes = []\<rparr> None"
    by (rule retry_done)
      (simp add: history_attempt_def loop_start_def burn_history_sub [simplified] resubscribe_def)
  moreover have "attempts (recent_attempt (rpc_sub burn_setup) (rpc_cur burn_setup) DefaultTxScannerConfig) (loop_start 8 1) (loop_start 8 1)"
    by (rule attempts_refl)
  ultimately show ?thesis
    unfolding scanned_past_def
    using burn_good burn_current burn_recent_sub
    by (intro conjI exI [of _ "1 :: nat"] exI [of _ "38 :: int"] exI [of _ "loop_start 8 1"] exI [of _ "8 :: int"]
        exI [of _ "[]"] exI [of _ "3 :: nat"])
      (simp_all add: sample_rate_def sample_finder_config_def loop_start_def DefaultTxScannerConfig_def burn_setup_def burn_ledger
        numeral_2_eq_2)
qed

definition burn_view :: "port_setup \<Rightarrow> (rat, (account \<times> rat balance list) list) relayer_view" where
  "burn_view e = \<lparr>rv_port = e, rv_finders = [(sample_rate, [burn_tx], [])], rv_state = sample_relayer_done burn_tx,
     rv_rpc = burn_setup, rv_scan = DefaultTxScannerConfig,
     rv_history = \<lparr>mark = 4, next_call = 2, sent = [burn_tx], gauge_writes = []\<rparr>,
     rv_recent = \<lparr>mark = 8, next_call = 3, sent = [], gauge_writes = [8]\<rparr>\<rparr>"

lemma burn_caught_up:
  assumes "chain_linked e" and "execute_attempt relayer_sdk (port_get e) (port_send e) sample_transfer 0 = Some (2, Done)"
  shows "caught_up sample_ripple relayer_sdk sample_rate burn_item (burn_view e)"
  using assms(1) burn_scanned_past relpowp_imp_rtranclp [OF sample_relayer_run [OF burn_accepted assms(2)]]
  by (simp add: caught_up_def burn_view_def weight_def finder_weight_def sample_relayer_done_def sample_finder_at_def relayer_start_def)

lemma second_attempt:
  "execute_attempt relayer_sdk (port_get second_port) (port_send second_port) sample_transfer 0 = Some (2, Done)"
  by code_simp

end
