(* ===== verification/Chain_Client.thy ===== *)
theory Chain_Client
  imports Contract_Client
begin

text \<open>
  The client of the TX blockchain (\<open>relayer/client/tx/chain.go\<close>): searching the transactions that
  spend coins of an address, newest first, page by page, back to a start date. The node, the
  transaction decoder, the SDK's search result, time parsing and the order in which the worker
  pool runs its tasks are fields of the record \<open>chain_env\<close>; \<open>'r\<close> is the node's type of a found
  transaction. Searches take the number of the call, block requests also that of the task.
\<close>

section \<open>Configuration and environment\<close>

record ChainClientConfig =
  EventsPageSize :: int
  WorkerPoolSize :: int
  ch_RequestTimeout :: int

definition DefaultChainClientConfig :: ChainClientConfig where
  "DefaultChainClientConfig = \<lparr>EventsPageSize = 100, WorkerPoolSize = 100, ch_RequestTimeout = 60 * time_Second\<rparr>"

record SearchTxsResult =
  PageTotal :: uint64
  Txs :: "tx_response list"

text \<open>
  A decoded transaction packs itself into an \<open>Any\<close> with the messages as its cached value, or,
  if it does not implement \<open>intoAny\<close>, is \<open>None\<close>. \<open>Block\<close> answers with the text of the block's time.
\<close>

record 'r chain_env =
  has_RPCClient :: bool
  TxSearch :: "nat \<Rightarrow> string \<Rightarrow> bool \<Rightarrow> int \<Rightarrow> int \<Rightarrow> string \<Rightarrow> go_error + 'r list \<times> int"
  Block :: "nat \<Rightarrow> nat \<Rightarrow> int \<Rightarrow> go_error + string"
  result_Tx :: "'r \<Rightarrow> string"
  TxDecoder :: "string \<Rightarrow> go_error + sdk_msg list option option"
  NewResponseResultTx :: "'r \<Rightarrow> sdk_msg list option \<Rightarrow> string \<Rightarrow> tx_response"
  NewSearchTxsResult :: "uint64 \<Rightarrow> uint64 \<Rightarrow> uint64 \<Rightarrow> uint64 \<Rightarrow> tx_response list \<Rightarrow> SearchTxsResult"
  pool_order :: "nat \<Rightarrow> nat \<Rightarrow> nat list"
  ParseInLocation :: "string \<Rightarrow> go_error + instant"

section \<open>Searching\<close>

definition mkTxResult :: "'r chain_env \<Rightarrow> 'r \<Rightarrow> go_error + tx_response" where
  "mkTxResult E resTx =
     res_bind (res_wrap ''failed to decode tx'' (TxDecoder E (result_Tx E resTx))) (\<lambda>txb.
       case txb of
         None \<Rightarrow> Inl (Errorf ''expecting a type implementing intoAny'')
       | Some p \<Rightarrow> Inr (NewResponseResultTx E resTx p []))"

fun formatTxResults :: "'r chain_env \<Rightarrow> 'r list \<Rightarrow> go_error + tx_response list" where
  "formatTxResults E [] = Inr []"
| "formatTxResults E (resTx # resTxs) =
     res_bind (mkTxResult E resTx) (\<lambda>out. res_bind (formatTxResults E resTxs) (\<lambda>outs. Inr (out # outs)))"

text \<open>
  The tasks of the pool: each asks for the block of its transaction; the errors are collected in
  the order in which the tasks ran.
\<close>

definition block_of :: "'r chain_env \<Rightarrow> nat \<Rightarrow> tx_response list \<Rightarrow> nat \<Rightarrow> go_error + string" where
  "block_of E n txs i = Block E n i (tx_Height (txs ! i))"

definition fill_errors :: "'r chain_env \<Rightarrow> nat \<Rightarrow> tx_response list \<Rightarrow> go_error list" where
  "fill_errors E n txs =
     concat (map (\<lambda>i. case block_of E n txs i of Inl e \<Rightarrow> [e] | Inr t \<Rightarrow> []) (pool_order E n (length txs)))"

definition fill_timestamps :: "'r chain_env \<Rightarrow> nat \<Rightarrow> tx_response list \<Rightarrow> tx_response list" where
  "fill_timestamps E n txs =
     map (\<lambda>i. case block_of E n txs i of Inl e \<Rightarrow> txs ! i | Inr t \<Rightarrow> (txs ! i)\<lparr>tx_Timestamp := t\<rparr>) [0..<length txs]"

fun Join :: "string list \<Rightarrow> string \<Rightarrow> string" where
  "Join [] sep = []"
| "Join [s] sep = s"
| "Join (s # t # ts) sep = s @ sep @ Join (t # ts) sep"

definition queryTxsByEvents ::
  "'r chain_env \<Rightarrow> nat \<Rightarrow> string list \<Rightarrow> int \<Rightarrow> int \<Rightarrow> string \<Rightarrow> go_error + SearchTxsResult" where
  "queryTxsByEvents E n events page limit orderBy =
     (let query = Join events '' AND '' in
      if \<not> has_RPCClient E then Inl (Errorf ''the RPC node is not initialized'')
      else
        res_bind (TxSearch E n query True page limit orderBy) (\<lambda>(resTxs, totalCount).
        res_bind (formatTxResults E resTxs) (\<lambda>txs.
          (let errs = fill_errors E n txs in
           if errs \<noteq> [] then
             Inl (Errorf (''failed to fill tx timestamp: ['' @ sprint_strings (map Error errs) @ '']''))
           else
             Inr (NewSearchTxsResult E (of_int totalCount) (of_nat (length txs)) (of_int page) (of_int limit)
                    (fill_timestamps E n txs))))))"

text \<open>The loop over a page: the transactions it keeps and whether it reached the start date.\<close>

fun keep_txs :: "'r chain_env \<Rightarrow> instant \<Rightarrow> tx_response list \<Rightarrow> go_error + tx_response list \<times> bool" where
  "keep_txs E startDate [] = Inr ([], False)"
| "keep_txs E startDate (txn # txns) =
     res_bind (ParseInLocation E (tx_Timestamp txn)) (\<lambda>timestamp.
       if timestamp < startDate then Inr ([], True)
       else res_bind (keep_txs E startDate txns) (\<lambda>(kept, stop).
              Inr (if tx_Code txn \<noteq> 0 then kept else txn # kept, stop)))"

text \<open>The loop over the pages, from \<open>page\<close> on with \<open>left\<close> pages to go.\<close>

fun fetch_pages ::
  "'r chain_env \<Rightarrow> ChainClientConfig \<Rightarrow> string \<Rightarrow> instant \<Rightarrow> nat \<Rightarrow> int \<Rightarrow> nat \<Rightarrow> go_error + tx_response list" where
  "fetch_pages E cfg event startDate n page 0 = Inr []"
| "fetch_pages E cfg event startDate n page (Suc left) =
     res_bind (queryTxsByEvents E n [event] page (EventsPageSize cfg) ''desc'') (\<lambda>res.
     res_bind (keep_txs E startDate (Txs res)) (\<lambda>(kept, stop).
       if stop then Inr kept
       else res_bind (fetch_pages E cfg event startDate (Suc n) (page + 1) left) (\<lambda>more. Inr (kept @ more))))"

text \<open>
  The number of pages is computed from a first search with one transaction per page, whose number of pages
  is the number of transactions. A page size of zero is a division by zero.
\<close>

definition queryTransactionsByEvents ::
  "'r chain_env \<Rightarrow> ChainClientConfig \<Rightarrow> nat \<Rightarrow> string \<Rightarrow> instant \<Rightarrow> tx_response list go" where
  "queryTransactionsByEvents E cfg n event startDate =
     (case queryTxsByEvents E n [event] 1 1 ''desc'' of
        Inl e \<Rightarrow> Err e
      | Inr res \<Rightarrow>
          if EventsPageSize cfg = 0 then Panic ''integer divide by zero''
          else
            (let n_txs = int64 (uint (PageTotal res));
                 full = Quo n_txs (EventsPageSize cfg);
                 remainder = n_txs - full * EventsPageSize cfg;
                 pagesTotal = (if remainder \<noteq> 0 then full + 1 else full)
             in case fetch_pages E cfg event startDate (Suc n) 1 (nat pagesTotal) of
                  Inl e \<Rightarrow> Err e
                | Inr txs \<Rightarrow> Ok txs))"

definition GetSpendingTransactions ::
  "'r chain_env \<Rightarrow> ChainClientConfig \<Rightarrow> nat \<Rightarrow> string \<Rightarrow> instant \<Rightarrow> tx_response list go" where
  "GetSpendingTransactions E cfg n fromAddress startDate =
     queryTransactionsByEvents E cfg n (''coin_spent.spender='' @ [CHR 0x27] @ fromAddress @ [CHR 0x27]) startDate"

section \<open>Facts\<close>

text \<open>
  What the client relies on. The node holds the found transactions \<open>rs\<close> of a query, newest first, and
  serves pages of at most 100 of them; each decodes to a response, its block tells its time, and
  the text of the time parses back. The SDK's search result holds what it is given, and with
  one transaction per page its number of pages is the number of transactions. The pool runs the tasks submitted to it.
\<close>

definition node_serves ::
  "'r chain_env \<Rightarrow> string \<Rightarrow> 'r list \<Rightarrow> ('r \<Rightarrow> tx_response) \<Rightarrow> ('r \<Rightarrow> string) \<Rightarrow> ('r \<Rightarrow> instant) \<Rightarrow> bool" where
  "node_serves E q rs resp stamp date \<longleftrightarrow>
     has_RPCClient E \<and> length rs < 2 ^ 63 \<and> sorted_wrt (\<lambda>a b. date b \<le> date a) rs \<and>
     (\<forall>n page limit. 1 \<le> page \<and> 1 \<le> limit \<and> limit \<le> 100 \<and> (page = 1 \<or> (page - 1) * limit < int (length rs)) \<longrightarrow>
        TxSearch E n q True page limit ''desc'' =
          Inr (take (nat limit) (drop (nat ((page - 1) * limit)) rs), int (length rs))) \<and>
     (\<forall>r \<in> set rs. mkTxResult E r = Inr (resp r) \<and> (\<forall>n i. Block E n i (tx_Height (resp r)) = Inr (stamp r)) \<and>
        ParseInLocation E (stamp r) = Inr (date r)) \<and>
     (\<forall>t c p l txs. Txs (NewSearchTxsResult E t c p l txs) = txs \<and> PageTotal (NewSearchTxsResult E t c p 1 txs) = t) \<and>
     (\<forall>n k. set (pool_order E n k) = {..<k})"

definition stamped :: "('r \<Rightarrow> tx_response) \<Rightarrow> ('r \<Rightarrow> string) \<Rightarrow> 'r \<Rightarrow> tx_response" where
  "stamped resp stamp r = (resp r)\<lparr>tx_Timestamp := stamp r\<rparr>"

lemma formatTxResults_map:
  assumes "\<And>r. r \<in> set rs \<Longrightarrow> mkTxResult E r = Inr (resp r)"
  shows "formatTxResults E rs = Inr (map resp rs)"
  using assms by (induction rs) simp_all

lemma filled_blocks:
  assumes "\<And>r i. r \<in> set rs \<Longrightarrow> Block E n i (tx_Height (resp r)) = Inr (stamp r)"
    and "set (pool_order E n (length rs)) = {..<length rs}"
  shows "fill_errors E n (map resp rs) = [] \<and> fill_timestamps E n (map resp rs) = map (stamped resp stamp) rs"
proof -
  have "block_of E n (map resp rs) i = Inr (stamp (rs ! i))" if "i < length rs" for i
    using assms(1) [of "rs ! i"] that by (simp add: block_of_def)
  then show ?thesis
    using assms(2) by (auto simp: fill_errors_def fill_timestamps_def stamped_def intro!: nth_equalityI)
qed

lemma keep_txs_stamped:
  assumes "\<And>r. r \<in> set rs \<Longrightarrow> ParseInLocation E (stamp r) = Inr (date r)"
  shows "keep_txs E start (map (stamped resp stamp) rs) =
    Inr (map (stamped resp stamp) (filter (\<lambda>r. tx_Code (resp r) = 0) (takeWhile (\<lambda>r. start \<le> date r) rs)),
         \<exists>r \<in> set rs. date r < start)"
  using assms by (induction rs) (auto simp: stamped_def)

lemma query_page:
  assumes "node_serves E q rs resp stamp date" and "1 \<le> page" and "1 \<le> limit" and "limit \<le> 100"
    and "page = 1 \<or> (page - 1) * limit < int (length rs)"
  shows "queryTxsByEvents E n [q] page limit ''desc'' =
    (let ys = take (nat limit) (drop (nat ((page - 1) * limit)) rs)
     in Inr (NewSearchTxsResult E (of_nat (length rs)) (of_nat (length ys)) (of_int page) (of_int limit)
          (map (stamped resp stamp) ys)))"
proof -
  let ?ys = "take (nat limit) (drop (nat ((page - 1) * limit)) rs)"
  have sub: "r \<in> set ?ys \<Longrightarrow> r \<in> set rs" for r
    by (meson in_set_dropD in_set_takeD)
  have "TxSearch E n q True page limit ''desc'' = Inr (?ys, int (length rs))"
    using assms by (simp add: node_serves_def)
  moreover have "formatTxResults E ?ys = Inr (map resp ?ys)"
    by (rule formatTxResults_map) (use assms(1) sub in \<open>auto simp: node_serves_def\<close>)
  moreover have "fill_errors E n (map resp ?ys) = [] \<and> fill_timestamps E n (map resp ?ys) = map (stamped resp stamp) ?ys"
    by (rule filled_blocks) (use assms(1) sub in \<open>auto simp: node_serves_def\<close>)
  ultimately show ?thesis
    using assms(1) by (simp add: queryTxsByEvents_def node_serves_def Let_def)
qed

lemma fetch_pages_all:
  assumes "node_serves E q rs resp stamp date" and "1 \<le> EventsPageSize cfg" and "EventsPageSize cfg \<le> 100"
    and "left = 0 \<or> (int p + int left - 1) * EventsPageSize cfg < int (length rs)"
  shows "fetch_pages E cfg q start n (int p + 1) left =
    Inr (map (stamped resp stamp) (filter (\<lambda>r. tx_Code (resp r) = 0)
      (takeWhile (\<lambda>r. start \<le> date r)
        (take (left * nat (EventsPageSize cfg)) (drop (p * nat (EventsPageSize cfg)) rs)))))"
  using assms(4)
proof (induction left arbitrary: n p)
  case (Suc left)
  let ?s = "nat (EventsPageSize cfg)"
  let ?ys = "take ?s (drop (p * ?s) rs)"
  have "int p * EventsPageSize cfg \<le> (int p + int (Suc left) - 1) * EventsPageSize cfg"
    using assms(2) by (intro mult_right_mono) auto
  then have "int p * EventsPageSize cfg < int (length rs)" using Suc.prems by simp
  moreover have pos: "nat (int p * EventsPageSize cfg) = p * ?s"
    using assms(2) by (simp add: nat_mult_distrib)
  ultimately have page: "queryTxsByEvents E n [q] (int p + 1) (EventsPageSize cfg) ''desc'' =
    Inr (NewSearchTxsResult E (of_nat (length rs)) (of_nat (length ?ys)) (of_int (int p + 1))
      (of_int (EventsPageSize cfg)) (map (stamped resp stamp) ?ys))"
    using query_page [OF assms(1), of "int p + 1" "EventsPageSize cfg" n] assms(2,3) by (simp add: Let_def)
  have txs: "Txs (NewSearchTxsResult E t c pg l xs) = xs" for t c pg l xs
    using assms(1) by (simp add: node_serves_def)
  have keep: "keep_txs E start (map (stamped resp stamp) ?ys) =
    Inr (map (stamped resp stamp) (filter (\<lambda>r. tx_Code (resp r) = 0) (takeWhile (\<lambda>r. start \<le> date r) ?ys)),
         \<exists>r \<in> set ?ys. date r < start)"
  proof (rule keep_txs_stamped)
    fix r assume "r \<in> set ?ys"
    then have "r \<in> set rs" by (meson in_set_dropD in_set_takeD)
    then show "ParseInLocation E (stamp r) = Inr (date r)" using assms(1) by (simp add: node_serves_def)
  qed
  have split: "take (Suc left * ?s) (drop (p * ?s) rs) = ?ys @ take (left * ?s) (drop (Suc p * ?s) rs)"
    by (simp add: take_add add.commute)
  have "left = 0 \<or> (int (Suc p) + int left - 1) * EventsPageSize cfg < int (length rs)"
    using Suc.prems by (simp add: algebra_simps)
  from Suc.IH [OF this, of "Suc n"] have ih: "fetch_pages E cfg q start (Suc n) (int p + 1 + 1) left =
    Inr (map (stamped resp stamp) (filter (\<lambda>r. tx_Code (resp r) = 0)
      (takeWhile (\<lambda>r. start \<le> date r) (take (left * ?s) (drop (Suc p * ?s) rs)))))"
    by (simp add: add.commute)
  show ?case
  proof (cases "\<exists>r \<in> set ?ys. date r < start")
    case True
    then have "takeWhile (\<lambda>r. start \<le> date r) (?ys @ zs) = takeWhile (\<lambda>r. start \<le> date r) ?ys" for zs
      by (auto intro!: takeWhile_append1)
    then show ?thesis using True split by (simp add: page txs keep del: take_Suc_conv_app_nth mult_Suc)
  next
    case False
    then have "takeWhile (\<lambda>r. start \<le> date r) (?ys @ zs) = ?ys @ takeWhile (\<lambda>r. start \<le> date r) zs" for zs
      by (auto intro!: takeWhile_append2 simp: not_less)
    moreover from False have all: "takeWhile (\<lambda>r. start \<le> date r) ?ys = ?ys"
      by (auto simp: takeWhile_eq_all_conv not_less)
    have "keep_txs E start (map (stamped resp stamp) ?ys) =
      Inr (map (stamped resp stamp) (filter (\<lambda>r. tx_Code (resp r) = 0) ?ys), False)"
      using keep False unfolding all by simp
    ultimately show ?thesis using split ih by (simp add: page txs del: mult_Suc)
  qed
qed simp

lemma filter_takeWhile_sorted:
  assumes "sorted_wrt (\<lambda>a b. f b \<le> (f a :: int)) xs"
  shows "filter P (takeWhile (\<lambda>x. s \<le> f x) xs) = filter (\<lambda>x. P x \<and> s \<le> f x) xs"
  using assms
proof (induction xs)
  case (Cons x xs)
  show ?case
  proof (cases "s \<le> f x")
    case False
    then have "filter (\<lambda>x. P x \<and> s \<le> f x) xs = []"
      using Cons.prems by (force simp: filter_empty_conv)
    with False show ?thesis by simp
  qed (use Cons in simp)
qed simp

lemma page_count:
  fixes k s :: int
  assumes "0 \<le> k" and "1 \<le> s"
  defines "p \<equiv> (if k - Quo k s * s \<noteq> 0 then Quo k s + 1 else Quo k s)"
  shows "0 \<le> p \<and> k \<le> p * s \<and> (p = 0 \<or> (p - 1) * s < k)"
proof -
  have q: "Quo k s = k div s"
    using assms(1,2) by (auto simp: Quo_def sgn_if)
  define d m where "d = k div s" and "m = k mod s"
  have k: "k = d * s + m" "0 \<le> m" "m < s" "0 \<le> d"
    using assms(1,2) by (simp_all add: d_def m_def pos_imp_zdiv_nonneg_iff)
  have "p = (if m \<noteq> 0 then d + 1 else d)"
    unfolding p_def q d_def [symmetric] using k(1) by simp
  with k show ?thesis by (auto simp: algebra_simps)
qed

text \<open>
  C28: Every payment is found. With a node that serves its transactions newest first,
  \<open>GetSpendingTransactions\<close> returns exactly the successful transactions of the address since the
  start date, each once and in order, stamped with the time of its block; it stops at the first
  page that reaches the start date.
\<close>

theorem spending_transactions_exact:
  assumes "node_serves E (''coin_spent.spender='' @ [CHR 0x27] @ from @ [CHR 0x27]) rs resp stamp date"
    and "1 \<le> EventsPageSize cfg" and "EventsPageSize cfg \<le> 100"
  shows "GetSpendingTransactions E cfg n from start =
    Ok (map (stamped resp stamp) (filter (\<lambda>r. tx_Code (resp r) = 0 \<and> start \<le> date r) rs))"
proof -
  let ?q = "''coin_spent.spender='' @ [CHR 0x27] @ from @ [CHR 0x27]"
  let ?k = "int (length rs)" and ?s = "EventsPageSize cfg"
  define p where "p = (if ?k - Quo ?k ?s * ?s \<noteq> 0 then Quo ?k ?s + 1 else Quo ?k ?s)"
  have p: "0 \<le> p \<and> ?k \<le> p * ?s \<and> (p = 0 \<or> (p - 1) * ?s < ?k)"
    unfolding p_def by (rule page_count) (use assms(2) in auto)
  have len: "?k < 2 ^ 63" using assms(1) by (simp add: node_serves_def)
  then have word: "int64 (uint (of_nat (length rs) :: uint64)) = ?k"
    by (simp add: int64_id uint_nat unat_of_nat)
  obtain res where res: "queryTxsByEvents E n [?q] 1 1 ''desc'' = Inr res" "PageTotal res = of_nat (length rs)"
    using query_page [OF assms(1), of 1 1 n] assms(1) by (simp add: Let_def node_serves_def)
  have "fetch_pages E cfg ?q start (Suc n) (int 0 + 1) (nat p) =
    Inr (map (stamped resp stamp) (filter (\<lambda>r. tx_Code (resp r) = 0)
      (takeWhile (\<lambda>r. start \<le> date r) (take (nat p * nat ?s) (drop (0 * nat ?s) rs)))))"
    by (rule fetch_pages_all [OF assms]) (use p in auto)
  moreover have "take (nat p * nat ?s) rs = rs"
    using p assms(2) nat_mono [of ?k "p * ?s"] by (simp add: nat_mult_distrib)
  ultimately have "fetch_pages E cfg ?q start (Suc n) 1 (nat p) =
    Inr (map (stamped resp stamp) (filter (\<lambda>r. tx_Code (resp r) = 0 \<and> start \<le> date r) rs))"
    using filter_takeWhile_sorted [of date rs] assms(1) by (simp add: node_serves_def)
  then show ?thesis
    using res assms(2) unfolding GetSpendingTransactions_def queryTransactionsByEvents_def
    by (simp add: Let_def word p_def)
qed

text \<open>A node with four transactions, at the times 9, 5, 4 and 2, of which the one at 5 failed.\<close>

definition sample_response :: "int \<Rightarrow> tx_response" where
  "sample_response r = \<lparr>tx_Height = r, TxHash = [], tx_Code = (if r = 5 then 1 else 0), tx_Tx = Some [],
     tx_Timestamp = [], tx_Events = []\<rparr>"

definition sample_node :: "int chain_env" where
  "sample_node = \<lparr>has_RPCClient = True,
     TxSearch = (\<lambda>n q prove page limit order. Inr (take (nat limit) (drop (nat ((page - 1) * limit)) [9, 5, 4, 2]), 4)),
     Block = (\<lambda>n i h. Inr (replicate (nat h) CHR ''x'')),
     result_Tx = (\<lambda>r. []), TxDecoder = (\<lambda>b. Inr (Some (Some []))),
     NewResponseResultTx = (\<lambda>r p t. sample_response r),
     NewSearchTxsResult = (\<lambda>t c p l txs. \<lparr>PageTotal = (t + l - 1) div l, Txs = txs\<rparr>),
     pool_order = (\<lambda>n k. rev [0..<k]), ParseInLocation = (\<lambda>s. Inr (int (length s)))\<rparr>"

lemma sample_node_serves:
  "node_serves sample_node q [9, 5, 4, 2] sample_response (\<lambda>r. replicate (nat r) CHR ''x'') (\<lambda>r. r)"
  by (auto simp: node_serves_def sample_node_def sample_response_def mkTxResult_def)

theorem spending_transactions_exact_witness:
  "GetSpendingTransactions sample_node (DefaultChainClientConfig\<lparr>EventsPageSize := 2\<rparr>) 0 ''core1contract'' 4 =
    Ok [(sample_response 9)\<lparr>tx_Timestamp := replicate 9 CHR ''x''\<rparr>,
        (sample_response 4)\<lparr>tx_Timestamp := replicate 4 CHR ''x''\<rparr>]"
proof -
  have "GetSpendingTransactions sample_node (DefaultChainClientConfig\<lparr>EventsPageSize := 2\<rparr>) 0 ''core1contract'' 4 =
    Ok (map (stamped sample_response (\<lambda>r. replicate (nat r) CHR ''x''))
      (filter (\<lambda>r. tx_Code (sample_response r) = 0 \<and> 4 \<le> r) [9, 5, 4, 2]))"
    by (rule spending_transactions_exact [OF sample_node_serves]) simp_all
  then show ?thesis by (simp add: stamped_def sample_response_def)
qed

end
