(* ===== verification/Go_Base64.thy ===== *)
theory Go_Base64
  imports Go_Std
begin

text \<open>
  \<open>base64.StdEncoding\<close>: decoding ignores line breaks, demands padding and does not look at the
  unused bits of the last character. The offset in the text of a decoding error is left out.
\<close>

definition b64_value :: "char \<Rightarrow> nat option" where
  "b64_value c =
     (let n = of_char c in
      if 65 \<le> n \<and> n \<le> 90 then Some (n - 65)
      else if 97 \<le> n \<and> n \<le> 122 then Some (n - 71)
      else if 48 \<le> n \<and> n \<le> 57 then Some (n + 4)
      else if n = 43 then Some 62
      else if n = 47 then Some 63
      else None)"

definition b64_char :: "nat \<Rightarrow> char" where
  "b64_char v = char_of
     (if v < 26 then v + 65 else if v < 52 then v + 71 else if v < 62 then v - 4
      else if v = 62 then 43 else 47)"

definition byte1 :: "nat \<Rightarrow> nat \<Rightarrow> char" where
  "byte1 x y = char_of (x * 4 + y div 16)"

definition byte2 :: "nat \<Rightarrow> nat \<Rightarrow> char" where
  "byte2 y z = char_of ((y mod 16) * 16 + z div 4)"

definition byte3 :: "nat \<Rightarrow> nat \<Rightarrow> char" where
  "byte3 z w = char_of ((z mod 4) * 64 + w)"

fun decode_quads :: "string \<Rightarrow> string option" where
  "decode_quads (a # b # c # d # rest) =
     (case (b64_value a, b64_value b) of
        (Some x, Some y) \<Rightarrow>
          if c = CHR ''='' then (if d = CHR ''='' \<and> rest = [] then Some [byte1 x y] else None)
          else (case b64_value c of
                  None \<Rightarrow> None
                | Some z \<Rightarrow>
                    if d = CHR ''='' then (if rest = [] then Some [byte1 x y, byte2 y z] else None)
                    else (case b64_value d of
                            None \<Rightarrow> None
                          | Some w \<Rightarrow> map_option (\<lambda>out. byte1 x y # byte2 y z # byte3 z w # out) (decode_quads rest)))
      | _ \<Rightarrow> None)"
| "decode_quads s = (if s = [] then Some [] else None)"

definition base64_DecodeString :: "string \<Rightarrow> go_error + string" where
  "base64_DecodeString s =
     (case decode_quads (filter (\<lambda>c. c \<noteq> CHR 0x0A \<and> c \<noteq> CHR 0x0D) s) of
        None \<Rightarrow> Inl (Errorf ''illegal base64 data'')
      | Some t \<Rightarrow> Inr t)"

fun base64_EncodeToString :: "string \<Rightarrow> string" where
  "base64_EncodeToString [] = []"
| "base64_EncodeToString [a] =
     [b64_char (of_char a div 4), b64_char ((of_char a mod 4) * 16), CHR ''='', CHR ''='']"
| "base64_EncodeToString [a, b] =
     [b64_char (of_char a div 4), b64_char ((of_char a mod 4) * 16 + of_char b div 16),
      b64_char ((of_char b mod 16) * 4), CHR ''='']"
| "base64_EncodeToString (a # b # c # rest) =
     b64_char (of_char a div 4) # b64_char ((of_char a mod 4) * 16 + of_char b div 16) #
     b64_char ((of_char b mod 16) * 4 + of_char c div 64) # b64_char (of_char c mod 64) #
     base64_EncodeToString rest"

section \<open>Round trip\<close>

lemma b64_char [simp]:
  assumes "n < 64"
  shows "b64_value (b64_char n) = Some n" and "b64_char n \<noteq> CHR ''=''"
    and "b64_char n \<noteq> CHR 0x0A" and "b64_char n \<noteq> CHR 0x0D"
proof -
  let ?v = "of_char (b64_char n) :: nat"
  have v: "?v = (if n < 26 then n + 65 else if n < 52 then n + 71 else if n < 62 then n - 4
      else if n = 62 then 43 else 47)"
    using assms by (simp add: b64_char_def)
  then show "b64_value (b64_char n) = Some n"
    using assms by (simp add: b64_value_def Let_def) arith
  have "?v \<noteq> 61 \<and> ?v \<noteq> 10 \<and> ?v \<noteq> 13"
    using assms unfolding v by simp arith
  then show "b64_char n \<noteq> CHR ''=''" and "b64_char n \<noteq> CHR 0x0A" and "b64_char n \<noteq> CHR 0x0D"
    by auto
qed

lemma of_char_bounds [simp]:
  fixes c d :: char
  shows "(of_char c :: nat) div 4 < 64" and "(of_char c :: nat) mod 4 * 16 + of_char d div 16 < 64"
    and "(of_char c :: nat) mod 16 * 4 + of_char d div 64 < 64" and "(of_char c :: nat) mod 64 < 64"
    and "(of_char c :: nat) mod 4 * 16 < 64" and "(of_char c :: nat) mod 16 * 4 < 64"
proof -
  have "(of_char c :: nat) < 256" "(of_char d :: nat) < 256" by simp_all
  moreover have "(of_char c :: nat) mod 4 \<le> 3" "(of_char c :: nat) mod 16 \<le> 15" by (simp_all add: less_Suc_eq_le [symmetric])
  ultimately show "(of_char c :: nat) div 4 < 64" and "(of_char c :: nat) mod 4 * 16 + of_char d div 16 < 64"
    and "(of_char c :: nat) mod 16 * 4 + of_char d div 64 < 64" and "(of_char c :: nat) mod 64 < 64"
    and "(of_char c :: nat) mod 4 * 16 < 64" and "(of_char c :: nat) mod 16 * 4 < 64"
    by (simp_all, arith+)
qed

lemma bytes_join [simp]:
  fixes a b c :: char
  shows "byte1 (of_char a div 4) (of_char a mod 4 * 16) = a"
    and "byte1 (of_char a div 4) (of_char a mod 4 * 16 + of_char b div 16) = a"
    and "byte2 (of_char a mod 4 * 16 + of_char b div 16) (of_char b mod 16 * 4) = b"
    and "byte2 (of_char a mod 4 * 16 + of_char b div 16) (of_char b mod 16 * 4 + of_char c div 64) = b"
    and "byte3 (of_char b mod 16 * 4 + of_char c div 64) (of_char c mod 64) = c"
proof -
  have "(of_char b :: nat) < 256" "(of_char c :: nat) < 256" by simp_all
  then have "(of_char b :: nat) div 16 < 16" "(of_char c :: nat) div 64 < 4" by arith+
  then show "byte1 (of_char a div 4) (of_char a mod 4 * 16) = a"
    and "byte1 (of_char a div 4) (of_char a mod 4 * 16 + of_char b div 16) = a"
    and "byte2 (of_char a mod 4 * 16 + of_char b div 16) (of_char b mod 16 * 4) = b"
    and "byte2 (of_char a mod 4 * 16 + of_char b div 16) (of_char b mod 16 * 4 + of_char c div 64) = b"
    and "byte3 (of_char b mod 16 * 4 + of_char c div 64) (of_char c mod 64) = c"
    by (simp_all add: byte1_def byte2_def byte3_def div_mult_mod_eq)
qed

lemma base64_roundtrip: "base64_DecodeString (base64_EncodeToString s) = Inr s"
proof -
  have "decode_quads (filter (\<lambda>c. c \<noteq> CHR 0x0A \<and> c \<noteq> CHR 0x0D) (base64_EncodeToString s)) = Some s"
    by (induction s rule: base64_EncodeToString.induct) simp_all
  then show ?thesis by (simp add: base64_DecodeString_def)
qed

end
