(* ===== verification/Auditor.thy ===== *)
theory Auditor
  imports Chain_Client XRPL_RPC Go_Base64
begin

text \<open>
  The auditor (\<open>relayer/audit/audit.go\<close>): it collects the contract calls of the transactions that
  spent coins of the contract, compares what they sent with what was asked for, and compares both
  with the XRPL transactions. JSON decoding, the SDK's coins and its event conversion are fields of \<open>audit_env\<close>; the
  two clients are arguments. Values printed into error texts with \<open>%v\<close> are left out.
\<close>

section \<open>Types\<close>

definition DiscrepancyTypeContractDoubleSpend :: string where
  "DiscrepancyTypeContractDoubleSpend = ''ContractDoubleSpend''"

definition DiscrepancyTypeContractSentAmountMismatch :: string where
  "DiscrepancyTypeContractSentAmountMismatch = ''ContractSentAmountMismatch''"

definition DiscrepancyTypeOrphanTXTx :: string where
  "DiscrepancyTypeOrphanTXTx = ''OrphanCoreumTx''"

definition DiscrepancyTypeInvalidRecipient :: string where
  "DiscrepancyTypeInvalidRecipient = ''InvalidRecipient''"

definition DiscrepancyTypeNotBurningXRPLTransaction :: string where
  "DiscrepancyTypeNotBurningXRPLTransaction = ''NotBurningTransfer''"

definition DiscrepancyTypeAmountMismatch :: string where
  "DiscrepancyTypeAmountMismatch = ''AmountMismatch''"

lemmas discrepancy_types = DiscrepancyTypeContractDoubleSpend_def DiscrepancyTypeContractSentAmountMismatch_def
  DiscrepancyTypeOrphanTXTx_def DiscrepancyTypeInvalidRecipient_def
  DiscrepancyTypeNotBurningXRPLTransaction_def DiscrepancyTypeAmountMismatch_def

text \<open>The keys of \<open>KnownDiscrepancies\<close>; every one of them is mapped to an amount mismatch.\<close>

definition known_hashes :: "string list" where
  "known_hashes =
    [''D0B28A44955C37F0E06D2CA63177461B18522639F1EF4E5AC171D2C45F7EA1FB'',
     ''F3E46D6FB811FAA57B57BA8DB4D345F9620BBAA40CDE2036DADBB24B6DBE66F3'',
     ''E3CB1679BA5F361F786B0FD2158DF6769C543E4DB3BC98CA4AE2C49F4D4A4BAC'',
     ''8CC3097C7D10E539488B981C6E314EE5717D5E0BB3764B099A072F4CE8E394C1'',
     ''21B22F298BF359D43B3CBFB4CC0CEB93CEFC2C43CE889880262F5B2A8A5AEE1A'',
     ''D28775A1B3F4D17CD4F6CA5639E200B95F770E394558BACFBD91C0668A1BC384'',
     ''03A8ED4177CCFEA0D72C62FB2AC432C3CB9B29F06F8E0E377BF19270BED1A7E1'',
     ''269DB1DD2265F0115F92B1FB3865BA803BB29E8906D67A06ADAA66D550B5A107'',
     ''7FB045596AAC1CCB63D70B7D2688807A79910705F1CA8CE2A525756DBCB56BF8'',
     ''49E41F712B938FDB35A88555E9E6B172BA3CC5CC87AD9F663A1D9AAC5FF2C459'',
     ''01984404B349763D7D5A7716D9A85A4F26C359E03A6598C0BE7298CBFAAA4D06'',
     ''CA6D531A777E7F863A5B4B9A12E30F093043B6D83689FA361D741296E940440F'',
     ''E4D09529FC126F34A1780E172F1EB4F9FA4BC236EF45B008CF3970E46D820AF8'',
     ''78AA3733D4E1B906D09CD20CCC09D93979F95EFC8D4289C815A1CE2E06C18AE5'',
     ''FC17D74D459D201ABD8BB5C2F36335D7A04F6ACFE5C403A13DAAB22D81760DC4'']"

definition KnownDiscrepancies :: "string \<Rightarrow> string" where
  "KnownDiscrepancies h = (if h \<in> set known_hashes then DiscrepancyTypeAmountMismatch else [])"

text \<open>\<open>disc_XRPLTx\<close> is \<open>None\<close> where the code leaves the field at its zero value, whose hash is empty.\<close>

record ('v, 'n) Discrepancy =
  disc_TXTx :: tx_response
  disc_XRPLTx :: "('v, 'n) Transaction option"
  disc_Type :: string
  disc_Description :: string

record 'p ContractCallTx =
  call_Tx :: tx_response
  call_Msg :: sdk_msg
  Payload :: 'p

record ContractCallReport =
  report_Txs :: "tx_response list"
  ThresholdBankSendRequests :: "ThresholdBankSendRequest ContractCallTx list"
  ExecutePendingRequests :: "string ContractCallTx list"
  UpdateMinAmountRequests :: "int ContractCallTx list"
  UpdateMaxAmountRequests :: "int ContractCallTx list"

definition NewContractCallReport :: ContractCallReport where
  "NewContractCallReport = \<lparr>report_Txs = [], ThresholdBankSendRequests = [], ExecutePendingRequests = [],
     UpdateMinAmountRequests = [], UpdateMaxAmountRequests = []\<rparr>"

record XRPLTokenConfig =
  aud_XRPLIssuer :: account
  aud_XRPLCurrency :: rcurrency
  aud_Multiplier :: string

record AuditorConfig =
  aud_ContractAddress :: string
  aud_TXDenom :: string
  aud_TXDecimals :: int
  aud_XRPLMemoSuffix :: string
  aud_XRPLTokens :: "XRPLTokenConfig list"
  StartDate :: instant

text \<open>
  A JSON object is read into a list of its members, in the order in which the loop over the map
  visits them. \<open>StringifyEvents\<close> gives the type and the attributes of each event.
\<close>

record audit_env =
  Unmarshal_call :: "string \<Rightarrow> go_error + (string \<times> string) list"
  Unmarshal_threshold_bank_send :: "string \<Rightarrow> go_error + ThresholdBankSendRequest"
  Unmarshal_execute_pending :: "string \<Rightarrow> go_error + string"
  Unmarshal_update_min_amount :: "string \<Rightarrow> go_error + int"
  Unmarshal_update_max_amount :: "string \<Rightarrow> go_error + int"
  StringifyEvents :: "Event list \<Rightarrow> (string \<times> (string \<times> string) list) list"
  ParseCoinNormalized :: "string \<Rightarrow> go_error + sdk_coin"
  Coins_Add :: "sdk_coin list \<Rightarrow> sdk_coin \<Rightarrow> sdk_coin list go"
  AmountOf :: "sdk_coin list \<Rightarrow> string \<Rightarrow> int go"
  Coin_String :: "sdk_coin \<Rightarrow> string"
  Coins_String :: "sdk_coin list \<Rightarrow> string"
  Int_Add :: "int \<Rightarrow> int \<Rightarrow> int go"

section \<open>Events\<close>

text \<open>
  The loop over the attributes of an event reads the attribute after a match without
  knowing that there is one: its guard compares the index of the match itself with the length.
\<close>

fun findEventSiblingAttributeValues ::
  "(string \<times> string) list \<Rightarrow> string \<Rightarrow> string \<Rightarrow> string \<Rightarrow> string list go" where
  "findEventSiblingAttributeValues [] siblingKey siblingValue nextAttrKey = Ok []"
| "findEventSiblingAttributeValues (attrItem # rest) siblingKey siblingValue nextAttrKey =
     (if fst attrItem = siblingKey \<and> snd attrItem = siblingValue then
        (case rest of
           [] \<Rightarrow> Panic ''index out of range''
         | nextAttrItem # _ \<Rightarrow>
             go_bind (findEventSiblingAttributeValues rest siblingKey siblingValue nextAttrKey) (\<lambda>vs.
               Ok (if fst nextAttrItem = nextAttrKey then snd nextAttrItem # vs else vs)))
      else findEventSiblingAttributeValues rest siblingKey siblingValue nextAttrKey)"

definition findEventsSiblingAttributeValues ::
  "audit_env \<Rightarrow> Event list \<Rightarrow> string \<Rightarrow> string \<Rightarrow> string \<Rightarrow> string \<Rightarrow> string list go" where
  "findEventsSiblingAttributeValues A events etype siblingKey siblingValue nextAttrKey =
     go_bind (go_mapM (\<lambda>ev. findEventSiblingAttributeValues (snd ev) siblingKey siblingValue nextAttrKey)
       (filter (\<lambda>ev. fst ev = etype) (StringifyEvents A events))) (\<lambda>vss. Ok (concat vss))"

fun add_coins :: "audit_env \<Rightarrow> sdk_coin list \<Rightarrow> string list \<Rightarrow> sdk_coin list go" where
  "add_coins A coins [] = Ok coins"
| "add_coins A coins (v # vs) =
     go_bind (go_of (res_wrap (''failed to parse string to count, value:'' @ v) (ParseCoinNormalized A v))) (\<lambda>coin.
     go_bind (Coins_Add A coins coin) (\<lambda>coins'. add_coins A coins' vs))"

definition sumCoinsEventsSiblingAttributeValues ::
  "audit_env \<Rightarrow> Event list \<Rightarrow> string \<Rightarrow> string \<Rightarrow> string \<Rightarrow> string \<Rightarrow> sdk_coin list go" where
  "sumCoinsEventsSiblingAttributeValues A events etype siblingKey siblingValue nextAttrKey =
     go_bind (findEventsSiblingAttributeValues A events etype siblingKey siblingValue nextAttrKey) (\<lambda>vs.
       add_coins A [] vs)"

definition decode_attribute :: "EventAttribute \<Rightarrow> EventAttribute go" where
  "decode_attribute attr =
     go_bind (go_of (res_wrap (''failed to decode base64 key string, value:'' @ attr_Key attr)
       (base64_DecodeString (attr_Key attr)))) (\<lambda>key.
     go_bind (go_of (res_wrap (''failed to decode base64 value string, value:'' @ attr_Value attr)
       (base64_DecodeString (attr_Value attr)))) (\<lambda>value.
       Ok \<lparr>attr_Key = key, attr_Value = value, attr_Index = attr_Index attr\<rparr>))"

definition convertFromBase64ToStringAttributes :: "Event list \<Rightarrow> Event list go" where
  "convertFromBase64ToStringAttributes events =
     go_mapM (\<lambda>evt. go_bind (go_mapM decode_attribute (ev_Attributes evt)) (\<lambda>attrs.
       Ok \<lparr>ev_Type = ev_Type evt, ev_Attributes = attrs\<rparr>)) events"

section \<open>The report\<close>

fun decode_calls ::
  "audit_env \<Rightarrow> tx_response \<Rightarrow> sdk_msg \<Rightarrow> (string \<times> string) list \<Rightarrow> ContractCallReport \<Rightarrow> go_error + ContractCallReport" where
  "decode_calls A txn msg [] report = Inr report"
| "decode_calls A txn msg ((methodName, methodPayload) # calls) report =
     (if methodName = ''threshold_bank_send'' then
        res_bind (Unmarshal_threshold_bank_send A methodPayload) (\<lambda>req. decode_calls A txn msg calls
          (report\<lparr>ThresholdBankSendRequests := ThresholdBankSendRequests report @ [\<lparr>call_Tx = txn, call_Msg = msg, Payload = req\<rparr>]\<rparr>))
      else if methodName = ''execute_pending'' then
        res_bind (Unmarshal_execute_pending A methodPayload) (\<lambda>req. decode_calls A txn msg calls
          (report\<lparr>ExecutePendingRequests := ExecutePendingRequests report @ [\<lparr>call_Tx = txn, call_Msg = msg, Payload = req\<rparr>]\<rparr>))
      else if methodName = ''update_min_amount'' then
        res_bind (Unmarshal_update_min_amount A methodPayload) (\<lambda>req. decode_calls A txn msg calls
          (report\<lparr>UpdateMinAmountRequests := UpdateMinAmountRequests report @ [\<lparr>call_Tx = txn, call_Msg = msg, Payload = req\<rparr>]\<rparr>))
      else if methodName = ''update_max_amount'' then
        res_bind (Unmarshal_update_max_amount A methodPayload) (\<lambda>req. decode_calls A txn msg calls
          (report\<lparr>UpdateMaxAmountRequests := UpdateMaxAmountRequests report @ [\<lparr>call_Tx = txn, call_Msg = msg, Payload = req\<rparr>]\<rparr>))
      else Inl (Errorf (''exec method not found, method:'' @ methodName)))"

definition decodeMessagePayloadToReport ::
  "audit_env \<Rightarrow> tx_response \<Rightarrow> sdk_msg \<Rightarrow> ContractCallReport \<Rightarrow> go_error + ContractCallReport" where
  "decodeMessagePayloadToReport A txn msg report =
     (case msg of
        MsgExecuteContract sndr contract payload fnds \<Rightarrow>
          res_bind (res_wrap (''failed to decode contract payload to map, raw payload:'' @ payload) (Unmarshal_call A payload))
            (\<lambda>callMap. decode_calls A txn msg callMap report)
      | _ \<Rightarrow> Inl (Errorf ''unexpected message type for the message''))"

fun decode_msgs :: "audit_env \<Rightarrow> tx_response \<Rightarrow> sdk_msg list \<Rightarrow> ContractCallReport \<Rightarrow> go_error + ContractCallReport" where
  "decode_msgs A txn [] report = Inr report"
| "decode_msgs A txn (msg # msgs) report =
     res_bind (res_wrap ''failed to decode transaction'' (decodeMessagePayloadToReport A txn msg report))
       (\<lambda>report'. decode_msgs A txn msgs report')"

fun decode_txs :: "audit_env \<Rightarrow> tx_response list \<Rightarrow> ContractCallReport \<Rightarrow> go_error + ContractCallReport" where
  "decode_txs A [] report = Inr report"
| "decode_txs A (txAny # txs) report =
     (case tx_Tx txAny of
        None \<Rightarrow> Inl (Errorf ''failed to get cached tx value'')
      | Some msgs \<Rightarrow>
          res_bind (decode_msgs A txAny msgs report) (\<lambda>report'.
            decode_txs A txs (report'\<lparr>report_Txs := report_Txs report' @ [txAny]\<rparr>)))"

definition buildContractCallReport ::
  "audit_env \<Rightarrow> AuditorConfig \<Rightarrow> (string \<Rightarrow> instant \<Rightarrow> tx_response list go) \<Rightarrow> ContractCallReport go" where
  "buildContractCallReport A cfg spending =
     go_bind (spending (aud_ContractAddress cfg) (StartDate cfg)) (\<lambda>txs. go_of (decode_txs A txs NewContractCallReport))"

section \<open>The analyses\<close>

text \<open>The coins the contract sent in a transaction; the older chain encodes its attributes in base64.\<close>

definition contract_transfers :: "audit_env \<Rightarrow> AuditorConfig \<Rightarrow> Event list \<Rightarrow> sdk_coin list go" where
  "contract_transfers A cfg events =
     sumCoinsEventsSiblingAttributeValues A events ''transfer'' ''sender'' (aud_ContractAddress cfg) ''amount''"

definition sent_coins :: "audit_env \<Rightarrow> AuditorConfig \<Rightarrow> tx_response \<Rightarrow> sdk_coin list go" where
  "sent_coins A cfg txn =
     go_bind (contract_transfers A cfg (tx_Events txn)) (\<lambda>sentCoins.
     go_bind (if sentCoins = [] then
                go_bind (convertFromBase64ToStringAttributes (tx_Events txn)) (contract_transfers A cfg)
              else Ok sentCoins) (\<lambda>sentCoins'.
       if sentCoins' = [] then
         Err (Errorf (''the tx does not contain the sent coins, tx hash:'' @ TxHash txn))
       else Ok sentCoins'))"

text \<open>The amount compared is a plain number, the one it is compared with ends in the denom.\<close>

definition sent_mismatch :: "audit_env \<Rightarrow> AuditorConfig \<Rightarrow> sdk_coin list \<Rightarrow> sdk_coin \<Rightarrow> bool go" where
  "sent_mismatch A cfg sentCoins asked =
     (if length sentCoins \<noteq> 1 then
        go_bind (AmountOf A sentCoins (aud_TXDenom cfg)) (\<lambda>a. Ok (dec_of_int a \<noteq> Coin_String A asked))
      else Ok False)"

fun call_discrepancies ::
  "audit_env \<Rightarrow> AuditorConfig \<Rightarrow> string list \<Rightarrow> int \<Rightarrow> ThresholdBankSendRequest ContractCallTx list \<Rightarrow>
   ('v, 'n) Discrepancy list go" where
  "call_discrepancies A cfg foundTxHashes totalBridged [] = Ok []"
| "call_discrepancies A cfg foundTxHashes totalBridged (req # reqs) =
     (let xrplTxHash = req_ID (Payload req); asked = req_Amount (Payload req) in
      go_bind (Int_Add A totalBridged (Amount asked)) (\<lambda>totalBridged'.
      go_bind (sent_coins A cfg (call_Tx req)) (\<lambda>sentCoins.
      go_bind (sent_mismatch A cfg sentCoins asked) (\<lambda>mismatch.
      go_bind (call_discrepancies A cfg (xrplTxHash # foundTxHashes) totalBridged' reqs) (\<lambda>discrepancies.
        Ok ((if xrplTxHash \<in> set foundTxHashes then
               [\<lparr>disc_TXTx = call_Tx req, disc_XRPLTx = None, disc_Type = DiscrepancyTypeContractDoubleSpend,
                 disc_Description = ''Found duplicated XRPL tx hash in processed transactions, hash:'' @ xrplTxHash\<rparr>]
             else []) @
            (if mismatch then
               [\<lparr>disc_TXTx = call_Tx req, disc_XRPLTx = None, disc_Type = DiscrepancyTypeContractSentAmountMismatch,
                 disc_Description = ''The amount in the tx is different from sent, txAmount:'' @ Coin_String A asked @
                   '', sentAmount:'' @ Coins_String A sentCoins\<rparr>]
             else []) @ discrepancies))))))"

definition analyzeContractCallDiscrepancies ::
  "audit_env \<Rightarrow> AuditorConfig \<Rightarrow> ContractCallReport \<Rightarrow> ('v, 'n) Discrepancy list go" where
  "analyzeContractCallDiscrepancies A cfg report = call_discrepancies A cfg [] 0 (ThresholdBankSendRequests report)"

text \<open>The loop that looks for the token of a burn: whether one was found, and its multiplier.\<close>

fun burning_token :: "('v, 'n) ripple \<Rightarrow> XRPLTokenConfig list \<Rightarrow> ('v, 'n) Transaction \<Rightarrow> bool \<times> string" where
  "burning_token R [] xrplTx = (False, ''1.0'')"
| "burning_token R (tokenCfg # tokens) xrplTx =
     (if Destination xrplTx = account_String R (aud_XRPLIssuer tokenCfg) \<and>
         account_String R (Issuer (DeliveryAmount xrplTx)) = account_String R (aud_XRPLIssuer tokenCfg) \<and>
         currency_String R (Currency (DeliveryAmount xrplTx)) = currency_String R (aud_XRPLCurrency tokenCfg)
      then (True, aud_Multiplier tokenCfg)
      else burning_token R tokens xrplTx)"

definition request_discrepancies ::
  "('v, 'n) ripple \<Rightarrow> sdk \<Rightarrow> AuditorConfig \<Rightarrow> (string \<rightharpoonup> ('v, 'n) Transaction) \<Rightarrow>
   ThresholdBankSendRequest ContractCallTx \<Rightarrow> ('v, 'n) Discrepancy list go" where
  "request_discrepancies R S cfg xrplTransactions req =
     (case xrplTransactions (req_ID (Payload req)) of
        None \<Rightarrow>
          Ok [\<lparr>disc_TXTx = call_Tx req, disc_XRPLTx = None, disc_Type = DiscrepancyTypeOrphanTXTx,
               disc_Description = ''XRPL tx not found, hash:'' @ req_ID (Payload req)\<rparr>]
      | Some xrplTx \<Rightarrow>
          (let recipient_found = ExtractAddressFromMemo S (Memos xrplTx) (aud_XRPLMemoSuffix cfg);
               xrplRecipient = AccAddress_String S (case recipient_found of None \<Rightarrow> [] | Some a \<Rightarrow> a);
               (isBurningTx, multiplier) = burning_token R (aud_XRPLTokens cfg) xrplTx;
               txAmount = Amount (req_Amount (Payload req))
           in go_bind (ConvertXRPLAmountToTXAmount R S (Value (DeliveryAmount xrplTx)) (aud_TXDecimals cfg) multiplier) (\<lambda>xrplAmount.
             Ok ((if recipient_found = None \<or> req_Recipient (Payload req) \<noteq> xrplRecipient then
                    [\<lparr>disc_TXTx = call_Tx req, disc_XRPLTx = Some xrplTx, disc_Type = DiscrepancyTypeInvalidRecipient,
                      disc_Description = ''XRPL recipient different from TX, xrplRecipient:'' @ xrplRecipient @
                        '', txRecipient:'' @ req_Recipient (Payload req)\<rparr>]
                  else []) @
                 (if \<not> isBurningTx then
                    [\<lparr>disc_TXTx = call_Tx req, disc_XRPLTx = Some xrplTx,
                      disc_Type = DiscrepancyTypeNotBurningXRPLTransaction,
                      disc_Description = ''XRPL tx is not a burning tx''\<rparr>]
                  else []) @
                 (if dec_of_int xrplAmount \<noteq> dec_of_int txAmount then
                    [\<lparr>disc_TXTx = call_Tx req, disc_XRPLTx = Some xrplTx, disc_Type = DiscrepancyTypeAmountMismatch,
                      disc_Description = ''XRPL tx amount is different from TX, xrplAmount:'' @ dec_of_int xrplAmount @
                        '', txAmount:'' @ dec_of_int txAmount\<rparr>]
                  else [])))))"

definition analyzeXrplToTXDiscrepancies ::
  "('v, 'n) ripple \<Rightarrow> sdk \<Rightarrow> AuditorConfig \<Rightarrow> ContractCallReport \<Rightarrow> (string \<rightharpoonup> ('v, 'n) Transaction) \<Rightarrow>
   ('v, 'n) Discrepancy list go" where
  "analyzeXrplToTXDiscrepancies R S cfg report xrplTransactions =
     go_bind (go_mapM (request_discrepancies R S cfg xrplTransactions) (ThresholdBankSendRequests report))
       (\<lambda>dss. Ok (concat dss))"

definition disc_hash :: "('v, 'n) Discrepancy \<Rightarrow> string" where
  "disc_hash d = (case disc_XRPLTx d of None \<Rightarrow> [] | Some x \<Rightarrow> Hash x)"

definition Audit ::
  "('v, 'n) ripple \<Rightarrow> sdk \<Rightarrow> audit_env \<Rightarrow> AuditorConfig \<Rightarrow> (string \<Rightarrow> instant \<Rightarrow> tx_response list go) \<Rightarrow>
   (string list \<Rightarrow> go_error + (string \<rightharpoonup> ('v, 'n) Transaction)) \<Rightarrow> ('v, 'n) Discrepancy list go" where
  "Audit R S A cfg spending get_xrpl =
     go_bind (buildContractCallReport A cfg spending) (\<lambda>report.
     go_bind (analyzeContractCallDiscrepancies A cfg report) (\<lambda>discrepancies.
     go_bind (go_of (get_xrpl (map (\<lambda>req. req_ID (Payload req)) (ThresholdBankSendRequests report)))) (\<lambda>xrplTxs.
     go_bind (analyzeXrplToTXDiscrepancies R S cfg report xrplTxs) (\<lambda>more.
       Ok (filter (\<lambda>d. disc_Type d \<noteq> KnownDiscrepancies (disc_hash d)) (discrepancies @ more))))))"

end
