(* ===== verification/Auditor_Properties.thy ===== *)
theory Auditor_Properties
  imports Auditor XRPL_Properties Finder_Properties Executor
begin

text \<open>
  What a clean audit means, that it accepts what the relayers do, and where the code of the
  auditor falls short of its comments.
\<close>

section \<open>The report\<close>

text \<open>A submission found in a transaction: the call of \<open>threshold_bank_send\<close> in one of its messages.\<close>

definition msg_submits :: "audit_env \<Rightarrow> sdk_msg \<Rightarrow> ThresholdBankSendRequest \<Rightarrow> bool" where
  "msg_submits A msg req \<longleftrightarrow>
     (\<exists>sndr contract payload fnds calls raw.
        msg = MsgExecuteContract sndr contract payload fnds \<and> Unmarshal_call A payload = Inr calls \<and>
        (''threshold_bank_send'', raw) \<in> set calls \<and> Unmarshal_threshold_bank_send A raw = Inr req)"

definition submits :: "audit_env \<Rightarrow> tx_response \<Rightarrow> sdk_msg \<Rightarrow> ThresholdBankSendRequest \<Rightarrow> bool" where
  "submits A t msg req \<longleftrightarrow> (\<exists>msgs. tx_Tx t = Some msgs \<and> msg \<in> set msgs \<and> msg_submits A msg req)"

lemma decode_calls_requests:
  assumes "decode_calls A txn msg calls report = Inr report'"
  shows "set (ThresholdBankSendRequests report') = set (ThresholdBankSendRequests report) \<union>
    {\<lparr>call_Tx = txn, call_Msg = msg, Payload = req\<rparr> |req. \<exists>raw. (''threshold_bank_send'', raw) \<in> set calls \<and>
       Unmarshal_threshold_bank_send A raw = Inr req}"
  using assms
proof (induction A txn msg calls report rule: decode_calls.induct)
  case (2 A txn msg m raw calls report)
  then show ?case
    by (auto simp: res_bind_Inr split: if_splits) blast+
qed simp

lemma decode_msgs_requests:
  assumes "decode_msgs A txn msgs report = Inr report'"
  shows "set (ThresholdBankSendRequests report') = set (ThresholdBankSendRequests report) \<union>
    {\<lparr>call_Tx = txn, call_Msg = msg, Payload = req\<rparr> |msg req. msg \<in> set msgs \<and> msg_submits A msg req}"
  using assms
proof (induction msgs arbitrary: report)
  case (Cons msg msgs)
  then obtain report1 where 1: "decodeMessagePayloadToReport A txn msg report = Inr report1"
    "decode_msgs A txn msgs report1 = Inr report'"
    by (auto simp: res_bind_Inr)
  from 1(1) obtain sndr contract payload fnds calls where c: "msg = MsgExecuteContract sndr contract payload fnds"
    "Unmarshal_call A payload = Inr calls" "decode_calls A txn msg calls report = Inr report1"
    by (auto simp: decodeMessagePayloadToReport_def res_bind_Inr split: sdk_msg.splits)
  from decode_calls_requests [OF c(3)] c(1,2)
  have "set (ThresholdBankSendRequests report1) = set (ThresholdBankSendRequests report) \<union>
    {\<lparr>call_Tx = txn, call_Msg = msg, Payload = req\<rparr> |req. msg_submits A msg req}"
    by (simp add: msg_submits_def)
  with Cons.IH [OF 1(2)] show ?case by auto
qed simp

lemma decode_txs_requests:
  assumes "decode_txs A txs report = Inr report'"
  shows "set (ThresholdBankSendRequests report') = set (ThresholdBankSendRequests report) \<union>
    {\<lparr>call_Tx = t, call_Msg = msg, Payload = req\<rparr> |t msg req. t \<in> set txs \<and> submits A t msg req}"
  using assms
proof (induction txs arbitrary: report)
  case (Cons t txs)
  then obtain msgs report1 where 1: "tx_Tx t = Some msgs" "decode_msgs A t msgs report = Inr report1"
    "decode_txs A txs (report1\<lparr>report_Txs := report_Txs report1 @ [t]\<rparr>) = Inr report'"
    by (auto simp: res_bind_Inr split: option.splits)
  have "submits A t msg req \<longleftrightarrow> msg \<in> set msgs \<and> msg_submits A msg req" for msg req
    using 1(1) by (simp add: submits_def)
  with decode_msgs_requests [OF 1(2)] Cons.IH [OF 1(3)] show ?case by auto
qed simp

lemma report_requests:
  assumes "buildContractCallReport A cfg spending = Ok report"
    and "spending (aud_ContractAddress cfg) (StartDate cfg) = Ok txs"
  shows "set (ThresholdBankSendRequests report) =
    {\<lparr>call_Tx = t, call_Msg = msg, Payload = req\<rparr> |t msg req. t \<in> set txs \<and> submits A t msg req}"
  using assms decode_txs_requests [of A txs NewContractCallReport report]
  by (simp add: buildContractCallReport_def NewContractCallReport_def)

section \<open>Discrepancies\<close>

lemma double_spend_iff:
  assumes "call_discrepancies A cfg found tot reqs = Ok ds"
  shows "(\<exists>d \<in> set ds. disc_Type d = DiscrepancyTypeContractDoubleSpend) \<longleftrightarrow>
    \<not> (distinct (map (\<lambda>r. req_ID (Payload r)) reqs) \<and> set found \<inter> (\<lambda>r. req_ID (Payload r)) ` set reqs = {})"
  using assms
proof (induction reqs arbitrary: found tot ds)
  case (Cons req reqs)
  from Cons.prems obtain t c m ds' where
    1: "call_discrepancies A cfg (req_ID (Payload req) # found) t reqs = Ok ds'"
    and "ds = (if req_ID (Payload req) \<in> set found then
               [\<lparr>disc_TXTx = call_Tx req, disc_XRPLTx = None, disc_Type = DiscrepancyTypeContractDoubleSpend,
                 disc_Description = ''Found duplicated XRPL tx hash in processed transactions, hash:'' @ req_ID (Payload req)\<rparr>]
             else []) @
            (if m then
               [\<lparr>disc_TXTx = call_Tx req, disc_XRPLTx = None, disc_Type = DiscrepancyTypeContractSentAmountMismatch,
                 disc_Description = ''The amount in the tx is different from sent, txAmount:'' @
                   Coin_String A (req_Amount (Payload req)) @ '', sentAmount:'' @ Coins_String A c\<rparr>]
             else []) @ ds'"
    unfolding call_discrepancies.simps Let_def go_bind_Ok by (elim exE conjE) auto
  then have "(\<exists>d \<in> set ds. disc_Type d = DiscrepancyTypeContractDoubleSpend) \<longleftrightarrow>
    (\<exists>d \<in> set ds'. disc_Type d = DiscrepancyTypeContractDoubleSpend) \<or> req_ID (Payload req) \<in> set found"
    by (auto simp: discrepancy_types)
  with Cons.IH [OF 1] show ?case by auto
qed simp

lemma known_only_amounts: "KnownDiscrepancies h \<noteq> [] \<Longrightarrow> KnownDiscrepancies h = DiscrepancyTypeAmountMismatch \<and> h \<in> set known_hashes"
  by (simp add: KnownDiscrepancies_def split: if_splits)

lemma known_no_hash: "KnownDiscrepancies [] = []"
  by (simp add: KnownDiscrepancies_def known_hashes_def)

lemma dropped_discrepancy:
  assumes "disc_Type d = KnownDiscrepancies (disc_hash d)" and "disc_Type d \<noteq> []"
  shows "disc_Type d = DiscrepancyTypeAmountMismatch \<and> (\<exists>x. disc_XRPLTx d = Some x \<and> Hash x \<in> set known_hashes)"
  using assms known_only_amounts [of "disc_hash d"] known_no_hash
  by (auto simp: disc_hash_def split: option.splits)

text \<open>Nothing of a request is reported, up to known amounts, exactly when it matches its XRPL transaction.\<close>

lemma request_clean:
  assumes "request_discrepancies R S cfg m req = Ok ds"
    and "\<And>d. d \<in> set ds \<Longrightarrow> disc_Type d = KnownDiscrepancies (disc_hash d)"
  shows "\<exists>x a. m (req_ID (Payload req)) = Some x \<and>
    ExtractAddressFromMemo S (Memos x) (aud_XRPLMemoSuffix cfg) = Some a \<and>
    req_Recipient (Payload req) = AccAddress_String S a \<and> fst (burning_token R (aud_XRPLTokens cfg) x) \<and>
    (ConvertXRPLAmountToTXAmount R S (Value (DeliveryAmount x)) (aud_TXDecimals cfg)
       (snd (burning_token R (aud_XRPLTokens cfg) x)) = Ok (Amount (req_Amount (Payload req))) \<or>
     Hash x \<in> set known_hashes)"
proof -
  have drop: "disc_Type d = DiscrepancyTypeAmountMismatch \<and> (\<exists>x. disc_XRPLTx d = Some x \<and> Hash x \<in> set known_hashes)"
    if "d \<in> set ds" "disc_Type d \<noteq> []" for d
    using dropped_discrepancy assms(2) that by blast
  show ?thesis
  proof (cases "m (req_ID (Payload req))")
    case None
    then show ?thesis
      using assms(1) drop by (auto simp: request_discrepancies_def discrepancy_types)
  next
    case (Some x)
    obtain b mu where b: "burning_token R (aud_XRPLTokens cfg) x = (b, mu)" by (cases "burning_token R (aud_XRPLTokens cfg) x")
    show ?thesis
      using assms(1) drop Some b
      by (fastforce simp: request_discrepancies_def discrepancy_types Let_def go_bind_Ok split: if_splits option.splits)
  qed
qed

lemma request_not_orphan:
  assumes "m (req_ID (Payload req)) = Some x" and "request_discrepancies R S cfg m req = Ok ds" and "d \<in> set ds"
  shows "disc_Type d \<noteq> DiscrepancyTypeOrphanTXTx"
  using assms
  by (cases "burning_token R (aud_XRPLTokens cfg) x")
    (auto simp: request_discrepancies_def go_bind_Ok Let_def discrepancy_types split: if_splits)

section \<open>The interface to the XRPL client\<close>

text \<open>What the auditor relies on of \<open>GetTransactions\<close>: an answer covers all hashes asked for.\<close>

locale xrpl_lookup =
  fixes good :: "'e \<Rightarrow> bool"
    and get :: "'e \<Rightarrow> string list \<Rightarrow> go_error + (string \<rightharpoonup> ('v, 'n) Transaction)"
  assumes get_all: "good e \<Longrightarrow> get e hs = Inr m \<Longrightarrow> dom m = set hs"
begin

lemma no_orphans:
  assumes "good e" and "Audit R S A cfg spending (get e) = Ok ds" and "d \<in> set ds"
  shows "disc_Type d \<noteq> DiscrepancyTypeOrphanTXTx"
proof -
  from assms(2) obtain report ds1 m ds2 where
    1: "analyzeContractCallDiscrepancies A cfg report = Ok ds1"
       "get e (map (\<lambda>req. req_ID (Payload req)) (ThresholdBankSendRequests report)) = Inr m"
       "analyzeXrplToTXDiscrepancies R S cfg report m = Ok ds2"
       "ds = filter (\<lambda>d. disc_Type d \<noteq> KnownDiscrepancies (disc_hash d)) (ds1 @ ds2)"
    unfolding Audit_def go_bind_Ok go_of_Ok by (elim exE conjE) auto
  have calls: "call_discrepancies A cfg found tot reqs = Ok ds' \<Longrightarrow> d \<in> set ds' \<Longrightarrow> disc_Type d \<noteq> DiscrepancyTypeOrphanTXTx"
    for found tot reqs ds'
    by (induction reqs arbitrary: found tot ds')
      (auto simp: go_bind_Ok Let_def discrepancy_types split: if_splits)
  have "dom m = (\<lambda>req. req_ID (Payload req)) ` set (ThresholdBankSendRequests report)"
    using get_all [OF assms(1) 1(2)] by simp
  then have reqs: "request_discrepancies R S cfg m req = Ok ds' \<Longrightarrow> req \<in> set (ThresholdBankSendRequests report) \<Longrightarrow>
    d \<in> set ds' \<Longrightarrow> disc_Type d \<noteq> DiscrepancyTypeOrphanTXTx" for req ds'
    using request_not_orphan by (metis domD image_eqI)
  from 1(4) assms(3) consider "d \<in> set ds1" | "d \<in> set ds2" by auto
  then show ?thesis
  proof cases
    case 1
    then show ?thesis using calls \<open>analyzeContractCallDiscrepancies A cfg report = Ok ds1\<close>
      by (auto simp: analyzeContractCallDiscrepancies_def)
  next
    case 2
    with 1(3) obtain dss where "list_all2 (\<lambda>req ds. request_discrepancies R S cfg m req = Ok ds)
      (ThresholdBankSendRequests report) dss" "d \<in> set (concat dss)"
      by (auto simp: analyzeXrplToTXDiscrepancies_def go_bind_Ok go_mapM_Ok_iff)
    then show ?thesis using reqs
      by (auto simp: list_all2_conv_all_nth in_set_conv_nth) (metis nth_mem)
  qed
qed

end

text \<open>The XRPL client keeps the promise, whichever order its pool runs the fetches in.\<close>

record ('v, 'n) fetch_setup =
  fs_env :: "('v, 'n) http_env"
  fs_cfg :: rpc_config
  fs_order :: "string list \<Rightarrow> (nat \<times> string \<times> bool) list"

definition fetch_good :: "('v, 'n) fetch_setup \<Rightarrow> bool" where
  "fetch_good e \<longleftrightarrow> (\<forall>hs. (fst \<circ> snd) ` set (fs_order e hs) = set hs)"

definition fetch_get :: "('v, 'n) fetch_setup \<Rightarrow> string list \<Rightarrow> go_error + (string \<rightharpoonup> ('v, 'n) Transaction)" where
  "fetch_get e hs = GetTransactions (fs_env e) (fs_cfg e) (fs_order e hs)"

interpretation lookup: xrpl_lookup fetch_good fetch_get
proof
  fix e :: "('v, 'n) fetch_setup" and hs m
  assume "fetch_good e" and "fetch_get e hs = Inr m"
  then show "dom m = set hs"
    using run_fetches_spec [of "fs_env e" "fs_cfg e" "fs_order e hs" Map.empty None m]
    by (auto simp: fetch_good_def fetch_get_def GetTransactions_def split: option.splits prod.splits)
qed

section \<open>Properties\<close>

text \<open>
  C23: A clean audit is meaningful. When \<open>Audit\<close> returns no discrepancy, every submission in a transaction that
  spent the contract's coins names an XRPL transaction that was fetched, whose memo
  holds the recipient it paid, that burnt a configured token, and whose converted amount is the
  one submitted (or whose hash is a known exception); and no XRPL id was submitted twice.
\<close>

theorem audit_clean_sound:
  assumes "Audit R S A cfg spending get_xrpl = Ok []"
    and "spending (aud_ContractAddress cfg) (StartDate cfg) = Ok txs"
    and "t \<in> set txs" and "submits A t msg req"
  shows "\<exists>report m x a. buildContractCallReport A cfg spending = Ok report \<and>
    distinct (map (\<lambda>r. req_ID (Payload r)) (ThresholdBankSendRequests report)) \<and>
    \<lparr>call_Tx = t, call_Msg = msg, Payload = req\<rparr> \<in> set (ThresholdBankSendRequests report) \<and>
    get_xrpl (map (\<lambda>r. req_ID (Payload r)) (ThresholdBankSendRequests report)) = Inr m \<and> m (req_ID req) = Some x \<and>
    ExtractAddressFromMemo S (Memos x) (aud_XRPLMemoSuffix cfg) = Some a \<and> req_Recipient req = AccAddress_String S a \<and>
    fst (burning_token R (aud_XRPLTokens cfg) x) \<and>
    (ConvertXRPLAmountToTXAmount R S (Value (DeliveryAmount x)) (aud_TXDecimals cfg)
       (snd (burning_token R (aud_XRPLTokens cfg) x)) = Ok (Amount (req_Amount req)) \<or> Hash x \<in> set known_hashes)"
proof -
  from assms(1) obtain report ds1 m ds2 where
    1: "buildContractCallReport A cfg spending = Ok report"
       "analyzeContractCallDiscrepancies A cfg report = Ok ds1"
       "get_xrpl (map (\<lambda>req. req_ID (Payload req)) (ThresholdBankSendRequests report)) = Inr m"
       "analyzeXrplToTXDiscrepancies R S cfg report m = Ok ds2"
       "[] = filter (\<lambda>d. disc_Type d \<noteq> KnownDiscrepancies (disc_hash d)) (ds1 @ ds2)"
    unfolding Audit_def go_bind_Ok go_of_Ok by (elim exE conjE) auto
  have none: "disc_Type d = KnownDiscrepancies (disc_hash d)" if "d \<in> set ds1 \<union> set ds2" for d
    using 1(5) [symmetric] that unfolding filter_empty_conv by auto
  have "disc_Type d \<noteq> DiscrepancyTypeContractDoubleSpend" if "d \<in> set ds1" for d
    using none [of d] that known_only_amounts [of "disc_hash d"] by (auto simp: discrepancy_types)
  then have dist: "distinct (map (\<lambda>r. req_ID (Payload r)) (ThresholdBankSendRequests report))"
    using double_spend_iff 1(2) unfolding analyzeContractCallDiscrepancies_def by blast
  let ?r = "\<lparr>call_Tx = t, call_Msg = msg, Payload = req\<rparr>"
  have mem: "?r \<in> set (ThresholdBankSendRequests report)"
    using report_requests [OF 1(1) assms(2)] assms(3,4) by blast
  from 1(4) obtain dss where dss: "list_all2 (\<lambda>req ds. request_discrepancies R S cfg m req = Ok ds)
      (ThresholdBankSendRequests report) dss" "ds2 = concat dss"
    by (auto simp: analyzeXrplToTXDiscrepancies_def go_bind_Ok go_mapM_Ok_iff)
  with mem obtain ds where ds: "request_discrepancies R S cfg m ?r = Ok ds" "set ds \<subseteq> set ds2"
    by (auto simp: list_all2_conv_all_nth in_set_conv_nth) (metis Union_upper image_eqI nth_mem)
  have "disc_Type d = KnownDiscrepancies (disc_hash d)" if "d \<in> set ds" for d
    using none ds(2) that by blast
  from request_clean [OF ds(1) this] have "\<exists>x a. m (req_ID req) = Some x \<and>
    ExtractAddressFromMemo S (Memos x) (aud_XRPLMemoSuffix cfg) = Some a \<and> req_Recipient req = AccAddress_String S a \<and>
    fst (burning_token R (aud_XRPLTokens cfg) x) \<and>
    (ConvertXRPLAmountToTXAmount R S (Value (DeliveryAmount x)) (aud_TXDecimals cfg)
       (snd (burning_token R (aud_XRPLTokens cfg) x)) = Ok (Amount (req_Amount req)) \<or> Hash x \<in> set known_hashes)"
    by simp
  with 1(1,3) dist mem show ?thesis by blast
qed

text \<open>One transaction with the submission of the sample burn, and the events of its transfer.\<close>

definition sample_audit :: audit_env where
  "sample_audit = \<lparr>Unmarshal_call = (\<lambda>p. Inr [(p, [])]),
     Unmarshal_threshold_bank_send = (\<lambda>p. Inr \<lparr>req_ID = ''AB'', req_Amount = \<lparr>sc_Denom = ''ucore'', Amount = 30\<rparr>,
       req_Recipient = ''core1bob''\<rparr>),
     Unmarshal_execute_pending = (\<lambda>p. Inr p), Unmarshal_update_min_amount = (\<lambda>p. Inr 0),
     Unmarshal_update_max_amount = (\<lambda>p. Inr 0),
     StringifyEvents = map (\<lambda>e. (ev_Type e, map (\<lambda>a. (attr_Key a, attr_Value a)) (ev_Attributes e))),
     ParseCoinNormalized = (\<lambda>s. if s = ''30ucore'' then Inr \<lparr>sc_Denom = ''ucore'', Amount = 30\<rparr> else Inl (Errorf ''invalid coin'')),
     Coins_Add = (\<lambda>cs c. Ok (c # cs)), AmountOf = (\<lambda>cs d. Ok (sum_list (map Amount (filter (\<lambda>c. sc_Denom c = d) cs)))),
     Coin_String = (\<lambda>c. dec_of_int (Amount c) @ sc_Denom c), Coins_String = (\<lambda>cs. []),
     Int_Add = (\<lambda>a b. Ok (a + b))\<rparr>"

definition sample_audit_config :: AuditorConfig where
  "sample_audit_config = \<lparr>aud_ContractAddress = ''contract'', aud_TXDenom = ''ucore'', aud_TXDecimals = 1,
     aud_XRPLMemoSuffix = ''/net'', aud_XRPLTokens = [\<lparr>aud_XRPLIssuer = [1], aud_XRPLCurrency = [7], aud_Multiplier = ''1.5''\<rparr>],
     StartDate = 0\<rparr>"

definition sample_msg :: sdk_msg where
  "sample_msg = MsgExecuteContract ''r2'' ''contract'' ''threshold_bank_send'' []"

definition sample_sending :: tx_response where
  "sample_sending = \<lparr>tx_Height = 3, TxHash = ''H'', tx_Code = 0, tx_Tx = Some [sample_msg], tx_Timestamp = [],
     tx_Events = [\<lparr>ev_Type = ''transfer'', ev_Attributes = [\<lparr>attr_Key = ''recipient'', attr_Value = ''core1bob'', attr_Index = True\<rparr>,
       \<lparr>attr_Key = ''sender'', attr_Value = ''contract'', attr_Index = True\<rparr>,
       \<lparr>attr_Key = ''amount'', attr_Value = ''30ucore'', attr_Index = True\<rparr>]\<rparr>]\<rparr>"

lemma sample_audit_clean:
  "Audit sample_ripple sample_sdk sample_audit sample_audit_config (\<lambda>a d. Ok [sample_sending])
     (\<lambda>hs. Inr (\<lambda>h. if h = ''AB'' then Some sample_burn else None)) = Ok []"
  by code_simp

lemma sample_submits: "submits sample_audit sample_sending sample_msg
    \<lparr>req_ID = ''AB'', req_Amount = \<lparr>sc_Denom = ''ucore'', Amount = 30\<rparr>, req_Recipient = ''core1bob''\<rparr>"
  by (simp add: submits_def msg_submits_def sample_sending_def sample_msg_def sample_audit_def)

theorem audit_clean_sound_witness:
  "\<exists>report m x a. buildContractCallReport sample_audit sample_audit_config (\<lambda>a d. Ok [sample_sending]) = Ok report \<and>
    distinct (map (\<lambda>r. req_ID (Payload r)) (ThresholdBankSendRequests report)) \<and>
    \<lparr>call_Tx = sample_sending, call_Msg = sample_msg,
      Payload = \<lparr>req_ID = ''AB'', req_Amount = \<lparr>sc_Denom = ''ucore'', Amount = 30\<rparr>, req_Recipient = ''core1bob''\<rparr>\<rparr>
      \<in> set (ThresholdBankSendRequests report) \<and>
    (Inr (\<lambda>h. if h = ''AB'' then Some sample_burn else None) :: go_error + _) = Inr m \<and> m ''AB'' = Some x \<and>
    ExtractAddressFromMemo sample_sdk (Memos x) ''/net'' = Some a \<and> ''core1bob'' = AccAddress_String sample_sdk a \<and>
    fst (burning_token sample_ripple (aud_XRPLTokens sample_audit_config) x) \<and>
    (ConvertXRPLAmountToTXAmount sample_ripple sample_sdk (Value (DeliveryAmount x)) 1
       (snd (burning_token sample_ripple (aud_XRPLTokens sample_audit_config) x)) = Ok 30 \<or> Hash x \<in> set known_hashes)"
  using audit_clean_sound [OF sample_audit_clean _ _ sample_submits, of "[sample_sending]"]
  by (simp add: sample_audit_config_def)

lemma burning_token_first:
  assumes "tok \<in> set toks" and "Destination x = account_String R (aud_XRPLIssuer tok)"
    and "account_String R (Issuer (DeliveryAmount x)) = account_String R (aud_XRPLIssuer tok)"
    and "currency_String R (Currency (DeliveryAmount x)) = currency_String R (aud_XRPLCurrency tok)"
    and "\<And>t'. t' \<in> set toks \<Longrightarrow> account_String R (aud_XRPLIssuer t') = account_String R (aud_XRPLIssuer tok) \<Longrightarrow>
      currency_String R (aud_XRPLCurrency t') = currency_String R (aud_XRPLCurrency tok) \<Longrightarrow> aud_Multiplier t' = aud_Multiplier tok"
  shows "burning_token R toks x = (True, aud_Multiplier tok)"
  using assms(1,5)
proof (induction toks)
  case (Cons t toks)
  show ?case
  proof (cases "account_String R (aud_XRPLIssuer t) = account_String R (aud_XRPLIssuer tok) \<and>
      currency_String R (aud_XRPLCurrency t) = currency_String R (aud_XRPLCurrency tok)")
    case True
    then show ?thesis using Cons.prems(2) [of t] assms(2-4) by simp
  next
    case False
    then have "tok \<in> set toks" using Cons.prems(1) by auto
    from Cons.IH [OF this] Cons.prems(2) have "burning_token R toks x = (True, aud_Multiplier tok)" by simp
    moreover have "burning_token R (t # toks) x = burning_token R toks x"
      using False assms(2-4) by auto
    ultimately show ?thesis by simp
  qed
qed simp

text \<open>
  The request the executor makes from a transfer the finder built gives rise to no discrepancy with
  the XRPL transaction it was built from.
\<close>

lemma finder_transfer_clean:
  assumes "buildPendingTransaction R S fcfg x = Ok (Some p)" and "sdk_ok S"
    and "XRPLMemoSuffix fcfg = aud_XRPLMemoSuffix cfg" and "TXDecimals fcfg = aud_TXDecimals cfg"
    and "\<lparr>aud_XRPLIssuer = XRPLIssuer fcfg, aud_XRPLCurrency = XRPLCurrency fcfg, aud_Multiplier = Multiplier fcfg\<rparr>
      \<in> set (aud_XRPLTokens cfg)"
    and "\<And>tok. tok \<in> set (aud_XRPLTokens cfg) \<Longrightarrow> account_String R (aud_XRPLIssuer tok) = account_String R (XRPLIssuer fcfg) \<Longrightarrow>
      currency_String R (aud_XRPLCurrency tok) = currency_String R (XRPLCurrency fcfg) \<Longrightarrow> aud_Multiplier tok = Multiplier fcfg"
    and "m (XRPLTxHash p) = Some x"
  shows "request_discrepancies R S cfg m \<lparr>call_Tx = t, call_Msg = msg, Payload = send_request S p\<rparr> = Ok []"
proof -
  note p = assms(1) [unfolded buildPendingTransaction_iff]
  then have "convertXRPLAmountToTXCoin R S fcfg (Value (DeliveryAmount x)) = Ok (TXAmount p)" by simp
  then obtain a where a: "ConvertXRPLAmountToTXAmount R S (Value (DeliveryAmount x)) (TXDecimals fcfg) (Multiplier fcfg) = Ok a"
    "NewCoin S (TXDenom fcfg) a = Ok (TXAmount p)"
    by (auto simp: convertXRPLAmountToTXCoin_def go_bind_Ok)
  with assms(2) have "Amount (TXAmount p) = a" by (simp add: sdk_ok_def) fastforce
  moreover have "burning_token R (aud_XRPLTokens cfg) x = (True, Multiplier fcfg)"
    using burning_token_first [OF assms(5), of x R] p assms(6) by simp
  ultimately show ?thesis
    using p a assms(3,4,7) by (simp add: request_discrepancies_def send_request_def)
qed

text \<open>
  The attribute search on every input: the values of the attributes with the wanted key that
  directly follow a match, or a panic when the last attribute of the event matches, because the
  guard before reading the next attribute compares the index of the match with the length.
\<close>

lemma sibling_values_or_panic:
  "findEventSiblingAttributeValues attrs k v nxt =
    (if attrs \<noteq> [] \<and> last attrs = (k, v) then Panic ''index out of range''
     else Ok (map (\<lambda>(a, b). snd b) (filter (\<lambda>(a, b). a = (k, v) \<and> fst b = nxt) (zip attrs (tl attrs)))))"
proof (induction attrs)
  case (Cons a attrs)
  then show ?case by (cases a; cases attrs) auto
qed simp

text \<open>
  The comparison of amounts never looks at the amounts. With the SDK's text of a coin, its
  number followed by its denom, and a denom that starts with a letter, a mismatch is
  reported exactly when the contract did not send exactly one kind of coin.
\<close>

lemma sent_mismatch_ignores_amounts:
  assumes "\<And>c. Coin_String A c = dec_of_int (Amount c) @ sc_Denom c"
    and "sc_Denom asked \<noteq> []" and "is_lower (hd (sc_Denom asked)) \<or> is_upper (hd (sc_Denom asked))"
    and "sent_mismatch A cfg sentCoins asked = Ok b"
  shows "b \<longleftrightarrow> length sentCoins \<noteq> 1"
proof -
  let ?l = "hd (sc_Denom asked)"
  have "?l \<noteq> CHR ''-'' \<and> \<not> is_digit ?l"
    using assms(3) by (auto simp: is_lower_def is_upper_def is_digit_def less_eq_char_def)
  then have "?l \<notin> set (dec_of_int n)" for n
    using all_digits_dec_of_nat by (auto simp: dec_of_int_def all_digits_def)
  moreover have "?l \<in> set (Coin_String A asked)"
    using assms(1,2) by simp
  ultimately have "dec_of_int n \<noteq> Coin_String A asked" for n by metis
  with assms(4) show ?thesis
    by (auto simp: sent_mismatch_def go_bind_Ok split: if_splits)
qed

text \<open>An orphan is never reported: a hash that cannot be fetched makes the whole audit fail.\<close>

lemma audit_reports_no_orphan:
  assumes "fetch_good e" and "Audit R S A cfg spending (fetch_get e) = Ok ds" and "d \<in> set ds"
  shows "disc_Type d \<noteq> DiscrepancyTypeOrphanTXTx"
  using assms by (rule lookup.no_orphans)

text \<open>The messages the auditor can read: calls of the contract with one of four methods.\<close>

definition readable_call :: "audit_env \<Rightarrow> string \<times> string \<Rightarrow> bool" where
  "readable_call A kv = (case kv of (methodName, raw) \<Rightarrow>
     if methodName = ''threshold_bank_send'' then \<not> isl (Unmarshal_threshold_bank_send A raw)
     else if methodName = ''execute_pending'' then \<not> isl (Unmarshal_execute_pending A raw)
     else if methodName = ''update_min_amount'' then \<not> isl (Unmarshal_update_min_amount A raw)
     else if methodName = ''update_max_amount'' then \<not> isl (Unmarshal_update_max_amount A raw)
     else False)"

definition readable_msg :: "audit_env \<Rightarrow> sdk_msg \<Rightarrow> bool" where
  "readable_msg A msg = (case msg of
     MsgExecuteContract sndr contract payload fnds \<Rightarrow>
       (case Unmarshal_call A payload of Inl e \<Rightarrow> False | Inr calls \<Rightarrow> list_all (readable_call A) calls)
   | _ \<Rightarrow> False)"

definition readable_tx :: "audit_env \<Rightarrow> tx_response \<Rightarrow> bool" where
  "readable_tx A t = (case tx_Tx t of None \<Rightarrow> False | Some msgs \<Rightarrow> list_all (readable_msg A) msgs)"

lemma bind_read: "(\<And>x. isl (f x) \<longleftrightarrow> \<not> P) \<Longrightarrow> isl (res_bind r f) \<longleftrightarrow> isl r \<or> \<not> P"
  by (cases r) simp_all

lemma isl_wrap [simp]: "isl (res_wrap m r) \<longleftrightarrow> isl r"
  by (cases r) simp_all

lemma calls_readable: "isl (decode_calls A txn msg calls report) \<longleftrightarrow> \<not> list_all (readable_call A) calls"
proof (induction calls arbitrary: report)
  case (Cons c calls)
  obtain m raw where c: "c = (m, raw)" by (cases c)
  show ?case unfolding c by (auto simp: readable_call_def [of A "(m, raw)"] Cons.IH bind_read)
qed simp

lemma msg_readable: "isl (decodeMessagePayloadToReport A txn msg report) \<longleftrightarrow> \<not> readable_msg A msg"
proof (cases msg)
  case (MsgExecuteContract sndr contract payload fnds)
  then show ?thesis
    by (cases "Unmarshal_call A payload") (simp_all add: decodeMessagePayloadToReport_def readable_msg_def calls_readable)
qed (simp_all add: decodeMessagePayloadToReport_def readable_msg_def)

lemma msgs_readable: "isl (decode_msgs A txn msgs report) \<longleftrightarrow> \<not> list_all (readable_msg A) msgs"
  by (induction msgs arbitrary: report) (simp_all add: msg_readable bind_read)

lemma txs_readable: "isl (decode_txs A txs report) \<longleftrightarrow> \<not> list_all (readable_tx A) txs"
  by (induction txs arbitrary: report) (simp_all add: readable_tx_def msgs_readable bind_read split: option.split)

text \<open>
  C33: An audit comes to a result only if every message of every fetched transaction is a call of the contract with one of the four
  methods the auditor knows. One other message in a transaction that spent contract coins, a foreign message or an
  update of the trusted addresses, the tokens or the owner beside a transfer, makes every audit from then on fail.
\<close>

theorem audit_needs_known_calls:
  assumes "spending (aud_ContractAddress cfg) (StartDate cfg) = Ok txs"
  shows "if list_all (readable_tx A) txs then \<exists>report. buildContractCallReport A cfg spending = Ok report
    else \<exists>e. buildContractCallReport A cfg spending = Err e \<and> Audit R S A cfg spending get_xrpl = Err e"
proof (cases "decode_txs A txs NewContractCallReport")
  case (Inl e)
  then have "buildContractCallReport A cfg spending = Err e" using assms by (simp add: buildContractCallReport_def)
  moreover from Inl have "\<not> list_all (readable_tx A) txs" using txs_readable [of A txs NewContractCallReport] by simp
  ultimately show ?thesis by (simp add: Audit_def)
next
  case (Inr report)
  then show ?thesis
    using assms txs_readable [of A txs NewContractCallReport] by (simp add: buildContractCallReport_def)
qed

text \<open>The sample submission beside an execution of a pending transaction and a message of the bank.\<close>

theorem audit_needs_known_calls_witness:
  "\<exists>e. Audit sample_ripple sample_sdk sample_audit sample_audit_config
     (\<lambda>a d. Ok [sample_sending, sample_sending\<lparr>tx_Tx := Some [sample_msg, OtherMsg ''MsgSend'']\<rparr>]) (\<lambda>hs. Inr (\<lambda>h. None)) = Err e"
  using audit_needs_known_calls [of "\<lambda>a d. Ok [sample_sending, sample_sending\<lparr>tx_Tx := Some [sample_msg, OtherMsg ''MsgSend'']\<rparr>]"
      sample_audit_config "[sample_sending, sample_sending\<lparr>tx_Tx := Some [sample_msg, OtherMsg ''MsgSend'']\<rparr>]" sample_audit
      sample_ripple sample_sdk "\<lambda>hs. Inr (\<lambda>h. None)"]
  by (auto simp: readable_tx_def readable_msg_def)

text \<open>The base64 workaround reads back the attributes of the older chain.\<close>

lemma base64_attributes_read:
  "convertFromBase64ToStringAttributes
     (map (\<lambda>e. e\<lparr>ev_Attributes := map (\<lambda>a. a\<lparr>attr_Key := base64_EncodeToString (attr_Key a),
        attr_Value := base64_EncodeToString (attr_Value a)\<rparr>) (ev_Attributes e)\<rparr>) events) = Ok events"
proof -
  have "decode_attribute (a\<lparr>attr_Key := base64_EncodeToString (attr_Key a), attr_Value := base64_EncodeToString (attr_Value a)\<rparr>) = Ok a" for a
    by (simp add: decode_attribute_def base64_roundtrip)
  then have "go_mapM decode_attribute (map (\<lambda>a. a\<lparr>attr_Key := base64_EncodeToString (attr_Key a),
        attr_Value := base64_EncodeToString (attr_Value a)\<rparr>) as) = Ok as" for as
    by (induction as) simp_all
  then show ?thesis
    unfolding convertFromBase64ToStringAttributes_def by (induction events) simp_all
qed

end
