(* ===== verification/Go_Float.thy ===== *)
theory Go_Float
  imports Go_Big "HOL-Library.Log_Nat"
begin

text \<open>
  \<open>float64\<close> as the sources use it: conversions from integers and one product. A value is the
  rational it stands for; rounding is to the nearest number of 53 significant bits, ties to
  even. The range of the exponent is not bounded: the numbers here stay far within it.
\<close>

definition round_half_even :: "rat \<Rightarrow> int" where
  "round_half_even x =
     (let f = \<lfloor>x\<rfloor>; d = x - of_int f in
      if d < 1 / 2 then f else if d > 1 / 2 then f + 1 else if even f then f else f + 1)"

text \<open>The number of bits before the binary point; not positive for values below one.\<close>

definition binary_width :: "rat \<Rightarrow> int" where
  "binary_width x = (if x \<ge> 1 then bitlen \<lfloor>x\<rfloor> else 1 - bitlen (\<lceil>1 / x\<rceil> - 1))"

definition scale_up :: "int \<Rightarrow> rat \<Rightarrow> rat" where
  "scale_up k x = (if k \<ge> 0 then x * 2 ^ nat k else x / 2 ^ nat (- k))"

definition float64 :: "rat \<Rightarrow> rat" where
  "float64 x =
     (if x = 0 then 0
      else (let k = 53 - binary_width \<bar>x\<bar> in sgn x * scale_up (- k) (of_int (round_half_even (scale_up k \<bar>x\<bar>)))))"

text \<open>Conversion to an unsigned integer truncates towards zero; the callers stay within its range.\<close>

definition uint64_of_float :: "rat \<Rightarrow> uint64" where
  "uint64_of_float x = of_int (Quo (Num x) (Denom x))"

section \<open>Exact values\<close>

lemma round_half_even_int [simp]: "round_half_even (of_int i) = i"
  by (simp add: round_half_even_def)

lemma scale_up_inverse: "scale_up (- k) (scale_up k x) = x"
  by (auto simp: scale_up_def)

lemma binary_width_bounds:
  assumes "1 \<le> x"
  shows "1 \<le> binary_width x" and "2 ^ nat (binary_width x - 1) \<le> x"
proof -
  have f: "1 \<le> \<lfloor>x\<rfloor>" using assms by simp
  then have b: "2 ^ nat (bitlen \<lfloor>x\<rfloor> - 1) \<le> \<lfloor>x\<rfloor> \<and> \<lfloor>x\<rfloor> < 2 ^ nat (bitlen \<lfloor>x\<rfloor>)"
    by (intro bitlen_bounds) simp
  show "1 \<le> binary_width x"
    using f bitlen_nonneg [of "\<lfloor>x\<rfloor>"] bitlen_eq_zero_iff [of "\<lfloor>x\<rfloor>"] assms
    by (simp add: binary_width_def)
  have "(2 :: rat) ^ nat (bitlen \<lfloor>x\<rfloor> - 1) \<le> of_int \<lfloor>x\<rfloor>"
    using b by (metis of_int_le_iff of_int_numeral of_int_power)
  also have "\<dots> \<le> x" by simp
  finally show "2 ^ nat (binary_width x - 1) \<le> x"
    using assms by (simp add: binary_width_def)
qed

text \<open>A fraction with at most \<open>k\<close> binary places and at most 53 significant bits is not rounded.\<close>

lemma float64_exact:
  assumes "1 \<le> x" and "x * 2 ^ k = of_int i" and "i < 2 ^ 53"
  shows "float64 x = x"
proof -
  let ?w = "binary_width x"
  note w = binary_width_bounds [OF assms(1)]
  have "(2 :: rat) ^ (nat (?w - 1) + k) \<le> x * 2 ^ k"
    using w(2) by (simp add: power_add)
  also have "\<dots> < 2 ^ 53"
    using assms(2,3) by (metis of_int_less_iff of_int_numeral of_int_power)
  finally have "nat (?w - 1) + k < 53"
    by (rule power_less_imp_less_exp [rotated]) simp
  with w(1) have k: "int k \<le> 53 - ?w" by linarith
  then have "nat (53 - ?w) = k + (nat (53 - ?w) - k)" by simp
  then have "scale_up (53 - ?w) x = x * 2 ^ k * 2 ^ (nat (53 - ?w) - k)"
    using k by (simp add: scale_up_def flip: power_add mult.assoc)
  then have "scale_up (53 - ?w) x = of_int (i * 2 ^ (nat (53 - ?w) - k))"
    by (simp add: assms(2))
  then have "of_int (round_half_even (scale_up (53 - ?w) x)) = scale_up (53 - ?w) x"
    by (metis round_half_even_int)
  then show ?thesis
    using assms(1) scale_up_inverse [of "53 - ?w" x] by (simp add: float64_def Let_def)
qed

lemma float64_nat:
  assumes "n < 2 ^ 53"
  shows "float64 (of_nat n) = of_nat n"
proof (cases "n = 0")
  case False
  then show ?thesis
    using float64_exact [of "of_nat n" 0 "int n"] assms by simp
qed (simp add: float64_def)

lemma float64_uminus: "float64 (- x) = - float64 x"
  by (simp add: float64_def Let_def)

lemma float64_int:
  assumes "\<bar>i\<bar> < 2 ^ 53"
  shows "float64 (of_int i) = of_int i"
proof (cases "0 \<le> i")
  case True
  then show ?thesis using float64_nat [of "nat i"] assms by simp
next
  case False
  then show ?thesis using float64_nat [of "nat (- i)"] float64_uminus [of "- of_int i"] assms by simp
qed

lemma uint64_of_float_floor:
  assumes "0 \<le> x"
  shows "uint64_of_float x = of_int \<lfloor>x\<rfloor>"
  using Quo_Num_Denom [OF assms, of 1] by (simp add: uint64_of_float_def)

end
