(* ===== verification/Metrics.thy ===== *)
theory Metrics
  imports Contract_Client Go_Float
begin

text \<open>
  Metrics and logging (\<open>relayer/metric/*.go\<close>, \<open>relayer/logger/zap.go\<close>). The Prometheus registry and push
  client, the clock and the bank query are fields of \<open>metric_env\<close>. A gauge is the floating-point
  value it was last set to, a counter the number of its increments; the gauge of the start time
  is registered and not kept. Logging an error
  increments the error counter; other log lines have no effect on the state.
\<close>

section \<open>The recorder\<close>

record Recorder =
  registry :: "string list"
  txSenderBalanceGauge :: rat
  txContractBalanceGauge :: rat
  txPendingUnapprovedTransactionsCount :: rat
  txPendingApprovedTransactionsCount :: rat
  xrplLatestLedgerIndexGauge :: rat
  xrplLatestLedgerIndex :: int
  errorsCounter :: nat

record metric_env =
  Register :: "string list \<Rightarrow> string \<Rightarrow> go_error + string list"
  counter_Write :: "nat \<Rightarrow> go_error + rat"
  bank_Balance :: "nat \<Rightarrow> string \<Rightarrow> string \<Rightarrow> go_error + int"
  Int_Int64 :: "int \<Rightarrow> int go"
  push_Add :: "nat \<Rightarrow> Recorder \<Rightarrow> go_error option"

definition NewRecorder :: "metric_env \<Rightarrow> go_error + Recorder" where
  "NewRecorder E =
     res_bind (res_wrap ''failed to register start time metric'' (Register E [] ''start_time'')) (\<lambda>g.
     res_bind (res_wrap ''failed to register tx sender balance gauge'' (Register E g ''tx_sender_balance'')) (\<lambda>g.
     res_bind (res_wrap ''failed to register tx contract balance gauge'' (Register E g ''tx_contract_balance'')) (\<lambda>g.
     res_bind (res_wrap ''failed to register xrpl latest ledger index gauge''
       (Register E g ''xrpl_latest_account_ledger_index'')) (\<lambda>g.
     res_bind (res_wrap (''failed to register errors '' @ [CHR 0xD1, CHR 0x81] @ ''ounter'') (Register E g ''errors_total'')) (\<lambda>g.
     res_bind (res_wrap ''failed to register xrpl TX pending unapproved transactions count gauge''
       (Register E g ''tx_pending_unapproved_transactions_count'')) (\<lambda>g.
     res_bind (res_wrap ''failed to register xrpl TX pending approved transactions count gauge''
       (Register E g ''tx_pending_approved_transactions_count'')) (\<lambda>g.
       Inr \<lparr>registry = g, txSenderBalanceGauge = 0, txContractBalanceGauge = 0,
         txPendingUnapprovedTransactionsCount = 0, txPendingApprovedTransactionsCount = 0,
         xrplLatestLedgerIndexGauge = 0, xrplLatestLedgerIndex = 0, errorsCounter = 0\<rparr>)))))))"

definition SetTXSenderBalance :: "int \<Rightarrow> Recorder \<Rightarrow> Recorder" where
  "SetTXSenderBalance v r = r\<lparr>txSenderBalanceGauge := float64 (of_int v)\<rparr>"

definition SetTXContractBalance :: "int \<Rightarrow> Recorder \<Rightarrow> Recorder" where
  "SetTXContractBalance v r = r\<lparr>txContractBalanceGauge := float64 (of_int v)\<rparr>"

definition SetXRPLLatestAccountLedgerIndex :: "int \<Rightarrow> Recorder \<Rightarrow> Recorder" where
  "SetXRPLLatestAccountLedgerIndex v r =
     (if v < xrplLatestLedgerIndex r then r
      else r\<lparr>xrplLatestLedgerIndexGauge := float64 (of_int v)\<rparr>)"

definition IncrementError :: "Recorder \<Rightarrow> Recorder" where
  "IncrementError r = r\<lparr>errorsCounter := errorsCounter r + 1\<rparr>"

definition GetTotalErrors :: "metric_env \<Rightarrow> Recorder \<Rightarrow> go_error + rat" where
  "GetTotalErrors E r = counter_Write E (errorsCounter r)"

definition SetTXPendingUnapprovedTransactionsCount :: "int \<Rightarrow> Recorder \<Rightarrow> Recorder" where
  "SetTXPendingUnapprovedTransactionsCount v r = r\<lparr>txPendingUnapprovedTransactionsCount := float64 (of_int v)\<rparr>"

definition SetTXPendingApprovedTransactionsCount :: "int \<Rightarrow> Recorder \<Rightarrow> Recorder" where
  "SetTXPendingApprovedTransactionsCount v r = r\<lparr>txPendingApprovedTransactionsCount := float64 (of_int v)\<rparr>"

text \<open>
  The logger of \<open>logger/zap.go\<close>: what zap does with a line is an argument; the wrapper's own \<open>Error\<close> also counts, the other
  levels are those of the embedded logger.
\<close>

datatype log_level = DebugLevel | InfoLevel | WarnLevel | ErrorLevel

record 'z ZapLogger =
  zap_Logger :: 'z
  zap_metricRecorder :: Recorder

definition NewZapLogger :: "'z \<Rightarrow> Recorder \<Rightarrow> 'z ZapLogger" where
  "NewZapLogger lg r = \<lparr>zap_Logger = lg, zap_metricRecorder = r\<rparr>"

definition ZapLogger_Error :: "(log_level \<Rightarrow> string \<Rightarrow> 'z \<Rightarrow> 'z) \<Rightarrow> string \<Rightarrow> 'z ZapLogger \<Rightarrow> 'z ZapLogger" where
  "ZapLogger_Error zap msg lg =
     lg\<lparr>zap_Logger := zap ErrorLevel msg (zap_Logger lg), zap_metricRecorder := IncrementError (zap_metricRecorder lg)\<rparr>"

definition ZapLogger_log :: "(log_level \<Rightarrow> string \<Rightarrow> 'z \<Rightarrow> 'z) \<Rightarrow> log_level \<times> string \<Rightarrow> 'z ZapLogger \<Rightarrow> 'z ZapLogger" where
  "ZapLogger_log zap line lg = (case line of (level, msg) \<Rightarrow>
     if level = ErrorLevel then ZapLogger_Error zap msg lg else lg\<lparr>zap_Logger := zap level msg (zap_Logger lg)\<rparr>)"

text \<open>Over any sequence of lines the counter counts the errors, every line reaches zap in order, and nothing else changes.\<close>

lemma logger_counts_errors:
  "fold (ZapLogger_log zap) ls lg =
    \<lparr>zap_Logger = fold (\<lambda>(level, msg). zap level msg) ls (zap_Logger lg),
     zap_metricRecorder = (zap_metricRecorder lg)\<lparr>errorsCounter := errorsCounter (zap_metricRecorder lg) +
       length (filter (\<lambda>(level, msg). level = ErrorLevel) ls)\<rparr>\<rparr>"
  by (induction ls arbitrary: lg) (auto simp: ZapLogger_log_def ZapLogger_Error_def IncrementError_def)

text \<open>What logging an error does to the metrics; the components below keep no other part of the logger.\<close>

definition log_Error :: "Recorder \<Rightarrow> Recorder" where
  "log_Error r = zap_metricRecorder (ZapLogger_Error (\<lambda>level msg z. z) [] (NewZapLogger () r))"

lemma log_Error_IncrementError [simp]: "log_Error r = IncrementError r"
  by (simp add: log_Error_def ZapLogger_Error_def NewZapLogger_def)

section \<open>The collectors\<close>

record TXRecorderConfig =
  rec_ContractAddress :: "acc_address option"
  rec_SenderAddress :: "acc_address option"
  rec_Denom :: string
  RepeatDelay :: int

definition DefaultTXRecorderConfig :: "acc_address option \<Rightarrow> acc_address option \<Rightarrow> string \<Rightarrow> TXRecorderConfig" where
  "DefaultTXRecorderConfig contractAddress senderAddress denom =
     \<lparr>rec_ContractAddress = contractAddress, rec_SenderAddress = senderAddress, rec_Denom = denom,
      RepeatDelay = 30 * time_Second\<rparr>"

definition repeat_collector :: attempt where
  "repeat_collector = Retryable (Errorf ''repeat metric collector'')"

text \<open>
  The closures of the retry helper; the state is the number of the next attempt and the
  recorder. \<open>None\<close>: the closure does not return, because \<open>Int64\<close> panics on a balance that does not fit.
\<close>

definition balance_attempt ::
  "metric_env \<Rightarrow> TXRecorderConfig \<Rightarrow> string \<Rightarrow> (int \<Rightarrow> Recorder \<Rightarrow> Recorder) \<Rightarrow> nat \<times> Recorder \<Rightarrow> ((nat \<times> Recorder) \<times> attempt) option" where
  "balance_attempt E cfg accAddress setter s =
     (case bank_Balance E (fst s) accAddress (rec_Denom cfg) of
        Inl e \<Rightarrow> Some ((Suc (fst s), log_Error (snd s)), repeat_collector)
      | Inr amt \<Rightarrow>
          (case Int_Int64 E amt of
             Ok v \<Rightarrow> Some ((Suc (fst s), setter v (snd s)), repeat_collector)
           | _ \<Rightarrow> None))"

definition pending_attempt ::
  "(nat \<Rightarrow> (go_error + PendingTransaction list \<times> PendingTransaction list) option) \<Rightarrow>
   nat \<times> Recorder \<Rightarrow> ((nat \<times> Recorder) \<times> attempt) option" where
  "pending_attempt get s =
     (case get (fst s) of
        None \<Rightarrow> None
      | Some (Inl e) \<Rightarrow> Some ((Suc (fst s), log_Error (snd s)), repeat_collector)
      | Some (Inr (unapprovedTransactions, approvedTransactions)) \<Rightarrow>
          Some ((Suc (fst s),
                 SetTXPendingApprovedTransactionsCount (int (length approvedTransactions))
                   (SetTXPendingUnapprovedTransactionsCount (int (length unapprovedTransactions)) (snd s))),
                repeat_collector))"

text \<open>What follows the retry helper: nil and a canceled context are returned, anything else is a panic.\<close>

definition loop_end :: "string \<Rightarrow> go_error option \<Rightarrow> go_error option go" where
  "loop_end what err =
     (case err of
        None \<Rightarrow> Ok None
      | Some e \<Rightarrow> if Is e ContextCanceled then Ok (Some e) else Panic (Error (Wrap what e)))"

inductive collectBalance ::
  "metric_env \<Rightarrow> TXRecorderConfig \<Rightarrow> string \<Rightarrow> (int \<Rightarrow> Recorder \<Rightarrow> Recorder) \<Rightarrow> Recorder \<Rightarrow> Recorder \<Rightarrow> go_error option go \<Rightarrow> bool"
  for E cfg accAddress setter where
  "retry_Do (balance_attempt E cfg accAddress setter) (0, r) (n, r') err \<Longrightarrow>
   collectBalance E cfg accAddress setter r r' (loop_end ''unexpected error in collect balance'' err)"

definition address_text :: "sdk \<Rightarrow> acc_address option \<Rightarrow> string" where
  "address_text S a = AccAddress_String S (case a of None \<Rightarrow> [] | Some x \<Rightarrow> x)"

definition CollectContractBalance ::
  "sdk \<Rightarrow> metric_env \<Rightarrow> TXRecorderConfig \<Rightarrow> Recorder \<Rightarrow> Recorder \<Rightarrow> go_error option go \<Rightarrow> bool" where
  "CollectContractBalance S E cfg =
     collectBalance E cfg (address_text S (rec_ContractAddress cfg)) SetTXContractBalance"

definition CollectSenderBalance ::
  "sdk \<Rightarrow> metric_env \<Rightarrow> TXRecorderConfig \<Rightarrow> Recorder \<Rightarrow> Recorder \<Rightarrow> go_error option go \<Rightarrow> bool" where
  "CollectSenderBalance S E cfg =
     collectBalance E cfg (address_text S (rec_SenderAddress cfg)) SetTXSenderBalance"

inductive collectPendingTransactions ::
  "(nat \<Rightarrow> (go_error + PendingTransaction list \<times> PendingTransaction list) option) \<Rightarrow> Recorder \<Rightarrow> Recorder \<Rightarrow> go_error option go \<Rightarrow> bool"
  for get where
  "retry_Do (pending_attempt get) (0, r) (n, r') err \<Longrightarrow>
   collectPendingTransactions get r r' (loop_end ''unexpected error in collect pending transactions'' err)"

section \<open>The pusher\<close>

record PusherConfig =
  push_URL :: string
  JobName :: string
  InstanceName :: string
  push_RequestTimeout :: int
  PushDelay :: int
  push_Username :: string
  push_Password :: string

definition DefaultPusherConfig :: "string \<Rightarrow> string \<Rightarrow> string \<Rightarrow> string \<Rightarrow> PusherConfig" where
  "DefaultPusherConfig url username password instanceName =
     \<lparr>push_URL = url, JobName = ''bridge'', InstanceName = instanceName, push_RequestTimeout = 10 * time_Second,
      PushDelay = 5 * time_Second, push_Username = username, push_Password = password\<rparr>"

definition push_attempt :: "metric_env \<Rightarrow> nat \<times> Recorder \<Rightarrow> ((nat \<times> Recorder) \<times> attempt) option" where
  "push_attempt E s =
     (case push_Add E (fst s) (snd s) of
        Some e \<Rightarrow> Some ((Suc (fst s), log_Error (snd s)), Retryable e)
      | None \<Rightarrow> Some ((Suc (fst s), snd s), Retryable (Errorf ''repeat push'')))"

inductive PushMetrics :: "metric_env \<Rightarrow> Recorder \<Rightarrow> Recorder \<Rightarrow> go_error option go \<Rightarrow> bool" for E where
  "retry_Do (push_attempt E) (0, r) (n, r') err \<Longrightarrow>
   PushMetrics E r r' (loop_end ''unexpected error in push with retry'' err)"

section \<open>Facts\<close>

text \<open>A loop whose closure always asks for another attempt ends only with its context.\<close>

lemma retry_forever:
  assumes "retry_Do f s s' err" and "\<And>t t' a. f t = Some (t', a) \<Longrightarrow> \<exists>e. a = Retryable e"
  shows "\<exists>e. err = Some e \<and> Is e ContextCanceled"
  using assms(1) by (induction rule: retry_Do.induct) (auto dest: assms(2))

lemma loop_end_canceled:
  assumes "\<exists>e. err = Some e \<and> Is e ContextCanceled"
  shows "\<exists>e. loop_end what err = Ok (Some e) \<and> Is e ContextCanceled"
  using assms by (auto simp: loop_end_def)

lemma attempts_repeat:
  "balance_attempt E cfg acc setter t = Some (t', a) \<Longrightarrow> \<exists>e. a = Retryable e"
  "pending_attempt get t = Some (t', a) \<Longrightarrow> \<exists>e. a = Retryable e"
  "push_attempt E t = Some (t', a) \<Longrightarrow> \<exists>e. a = Retryable e"
  by (auto simp: balance_attempt_def pending_attempt_def push_attempt_def repeat_collector_def
      split: sum.splits go.splits option.splits)

text \<open>The metric loops return only when their context is canceled, and never panic.\<close>

lemma metric_loops_end_canceled:
  "collectBalance E cfg acc setter r r' res \<Longrightarrow> \<exists>e. res = Ok (Some e) \<and> Is e ContextCanceled"
  "collectPendingTransactions get r r' res \<Longrightarrow> \<exists>e. res = Ok (Some e) \<and> Is e ContextCanceled"
  "PushMetrics E r r' res \<Longrightarrow> \<exists>e. res = Ok (Some e) \<and> Is e ContextCanceled"
  by (auto elim!: collectBalance.cases collectPendingTransactions.cases PushMetrics.cases
      intro!: loop_end_canceled dest!: retry_forever attempts_repeat)

lemma ledger_updates:
  assumes "xrplLatestLedgerIndex r = 0"
  shows "xrplLatestLedgerIndexGauge (fold SetXRPLLatestAccountLedgerIndex vs r) =
    (case filter (\<lambda>v. 0 \<le> v) (rev vs) of [] \<Rightarrow> xrplLatestLedgerIndexGauge r | v # _ \<Rightarrow> float64 (of_int v))"
  using assms
proof (induction vs arbitrary: r)
  case (Cons v vs)
  have "xrplLatestLedgerIndex (SetXRPLLatestAccountLedgerIndex v r) = 0"
    using Cons.prems by (simp add: SetXRPLLatestAccountLedgerIndex_def)
  from Cons.IH [OF this] Cons.prems show ?case
    by (auto simp: SetXRPLLatestAccountLedgerIndex_def split: list.splits)
qed simp

text \<open>
  The ledger gauge is the last update. The index the recorder compares with is never updated, so from a
  new recorder every update with a non-negative index sets the gauge, also when the index is
  below an earlier one: the gauge follows the last update, not the greatest.
\<close>

lemma ledger_gauge_is_last_update:
  assumes "NewRecorder E = Inr r"
  shows "xrplLatestLedgerIndexGauge (fold SetXRPLLatestAccountLedgerIndex vs r) =
    (case filter (\<lambda>v. 0 \<le> v) (rev vs) of [] \<Rightarrow> 0 | v # _ \<Rightarrow> float64 (of_int v))"
proof -
  have "xrplLatestLedgerIndex r = 0" "xrplLatestLedgerIndexGauge r = 0"
    using assms by (auto simp: NewRecorder_def res_bind_Inr)
  with ledger_updates [of r vs] show ?thesis by (simp split: list.splits)
qed

definition sample_metrics :: metric_env where
  "sample_metrics = \<lparr>Register = (\<lambda>g m. if m \<in> set g then Inl (Errorf ''duplicate metrics collector registration attempted'') else Inr (m # g)),
     counter_Write = (\<lambda>n. Inr (of_nat n)), bank_Balance = (\<lambda>n a d. Inr 5),
     Int_Int64 = (\<lambda>i. if \<bar>i\<bar> < 2 ^ 63 then Ok i else Panic ''Int64() out of bound''), push_Add = (\<lambda>n r. None)\<rparr>"

end
