(* ===== verification/Service.thy ===== *)
theory Service
  imports Watcher Metrics Auditor
begin

text \<open>
  How the relayer is put together (\<open>relayer/service/service.go\<close>): client contexts, the contract client, the
  auditor, the services of one run, and the loop that restarts them when the configuration
  changes. The network registry, the node and gRPC connections, URL parsing and keyrings (type
  \<open>'k\<close>) are fields of \<open>service_env\<close>; a connection is what it was opened for. A client context reaches the chain
  through \<open>chain_wasm\<close>. A nil sender address is the empty one.
\<close>

section \<open>Configuration\<close>

record service_XRPLTokenConfig =
  st_XRPLCurrency :: string
  st_XRPLIssuer :: string
  st_ActivationDate :: instant
  st_Multiplier :: string

record service_Config =
  svc_XRPLRPCURL :: string
  svc_XRPLHistoryScanStartLedger :: int
  svc_XRPLRecentScanIndexesBack :: int
  svc_XRPLRecentScanSkipLastIndexes :: int
  svc_XRPLMemoSuffix :: string
  svc_TXChainID :: string
  svc_TXRPCURL :: string
  svc_TXGRPCURL :: string
  svc_TXSenderAddress :: string
  svc_TXContractAddress :: string
  svc_PrometheusURL :: string
  svc_PrometheusInstanceName :: string
  svc_PrometheusUsername :: string
  svc_PrometheusPassword :: string
  svc_AuditStartDate :: instant
  svc_ConfigWatcherPollInterval :: int

record parsed_url =
  Scheme :: string
  Host :: string
  Opaque :: string

record network =
  net_ChainID :: string
  net_Denom :: string

record grpc_conn =
  grpc_target :: string
  grpc_tls :: bool

record 'k client_ctx =
  ctx_ChainID :: string
  ctx_Keyring :: 'k
  ctx_RPC :: "string option"
  ctx_GRPC :: "grpc_conn option"

record 'k service_env =
  NetworkConfigByChainID :: "string \<Rightarrow> go_error + network"
  NewClientFromNode :: "string \<Rightarrow> go_error + string"
  url_Parse :: "string \<Rightarrow> go_error + parsed_url"
  GRPCCodecProvider :: bool
  grpc_NewClient :: "string \<Rightarrow> bool \<Rightarrow> go_error + grpc_conn"
  KeyByAddress :: "'k \<Rightarrow> acc_address \<Rightarrow> go_error + string"
  ExportPrivKeyArmor :: "'k \<Rightarrow> string \<Rightarrow> string \<Rightarrow> go_error + string"
  NewInMemory :: 'k
  ImportPrivKey :: "'k \<Rightarrow> string \<Rightarrow> string \<Rightarrow> string \<Rightarrow> go_error + 'k"
  uuid_NewString :: string
  chain_wasm :: "'k client_ctx \<Rightarrow> wasm_env"
  svc_metrics :: metric_env

section \<open>Connections\<close>

definition getGRPCClientConn :: "'k service_env \<Rightarrow> string \<Rightarrow> go_error + grpc_conn" where
  "getGRPCClientConn V grpcURL =
     res_bind (res_wrap ''failed to parse grpc URL'' (url_Parse V grpcURL)) (\<lambda>parsedURL.
       if \<not> GRPCCodecProvider V then Inl (Errorf ''failed to cast codec to codec.GRPCCodecProvider)'')
       else if Scheme parsedURL = ''https'' then
         res_wrap ''failed to create grpc client'' (grpc_NewClient V (Host parsedURL) True)
       else
         (let host = (if Host parsedURL = [] then Scheme parsedURL @ '':'' @ Opaque parsedURL else Host parsedURL) in
          res_wrap ''failed to create grpc client'' (grpc_NewClient V host False)))"

definition buildTXClientContext :: "'k service_env \<Rightarrow> service_Config \<Rightarrow> 'k \<Rightarrow> go_error + 'k client_ctx" where
  "buildTXClientContext V cfg kr =
     res_bind (NetworkConfigByChainID V (svc_TXChainID cfg)) (\<lambda>network.
     res_bind (if svc_TXRPCURL cfg \<noteq> [] then
                 res_wrap ''faild to create TX RPC client''
                   (res_bind (NewClientFromNode V (svc_TXRPCURL cfg)) (\<lambda>c. Inr (Some c)))
               else Inr None) (\<lambda>rpc.
     res_bind (if svc_TXGRPCURL cfg \<noteq> [] then
                 res_bind (getGRPCClientConn V (svc_TXGRPCURL cfg)) (\<lambda>c. Inr (Some c))
               else Inr None) (\<lambda>grpc.
       Inr \<lparr>ctx_ChainID = net_ChainID network, ctx_Keyring = kr, ctx_RPC = rpc, ctx_GRPC = grpc\<rparr>)))"

section \<open>Clients\<close>

text \<open>A contract client is its configuration and its client context.\<close>

type_synonym 'k contract_client = "ContractClientConfig \<times> 'k client_ctx"

definition NewDeployContractClient :: "'k service_env \<Rightarrow> service_Config \<Rightarrow> 'k \<Rightarrow> go_error + 'k contract_client" where
  "NewDeployContractClient V cfg kr =
     res_bind (NewRecorder (svc_metrics V)) (\<lambda>_.
     res_bind (NetworkConfigByChainID V (svc_TXChainID cfg)) (\<lambda>network.
     res_bind (buildTXClientContext V cfg kr) (\<lambda>txClientCtx.
       Inr (DefaultContractClientConfig None (net_Denom network), txClientCtx))))"

definition required_address :: "sdk \<Rightarrow> service_Config \<Rightarrow> go_error + acc_address" where
  "required_address S cfg =
     (if svc_TXContractAddress cfg = [] then Inl (Errorf ''contract address is required'')
      else res_wrap ''invalid contract address'' (AccAddressFromBech32 S (svc_TXContractAddress cfg)))"

definition NewContractClient :: "sdk \<Rightarrow> 'k service_env \<Rightarrow> service_Config \<Rightarrow> 'k \<Rightarrow> go_error + 'k contract_client" where
  "NewContractClient S V cfg kr =
     res_bind (NewRecorder (svc_metrics V)) (\<lambda>_.
     res_bind (NetworkConfigByChainID V (svc_TXChainID cfg)) (\<lambda>network.
     res_bind (required_address S cfg) (\<lambda>contractAddress.
     res_bind (buildTXClientContext V cfg kr) (\<lambda>txClientCtx.
       Inr (DefaultContractClientConfig (Some contractAddress) (net_Denom network), txClientCtx)))))"

definition client_config :: "sdk \<Rightarrow> 'k service_env \<Rightarrow> 'k contract_client \<Rightarrow> nat \<Rightarrow> go_error + Config" where
  "client_config S V client n = GetContractConfig S (chain_wasm V (snd client)) (fst client) n"

section \<open>Tokens\<close>

definition issuer_of :: "('v, 'n) ripple \<Rightarrow> XRPLToken \<Rightarrow> go_error + account" where
  "issuer_of R token =
     res_wrap (''failed to convert XRPLIssuer string to type, value:'' @ tok_Issuer token)
       (NewAccountFromAddress R (tok_Issuer token))"

definition currency_of :: "('v, 'n) ripple \<Rightarrow> XRPLToken \<Rightarrow> go_error + rcurrency" where
  "currency_of R token =
     res_wrap (''failed to convert XRPLCurrency string to type, value:'' @ tok_Currency token)
       (NewCurrency R (tok_Currency token))"

fun createFindersAndAuditConfig ::
  "('v, 'n) ripple \<Rightarrow> XRPLToken list \<Rightarrow> int \<Rightarrow> int \<Rightarrow> string \<Rightarrow> string \<Rightarrow> int \<Rightarrow>
   go_error + finder_config list \<times> XRPLTokenConfig list" where
  "createFindersAndAuditConfig R [] startLedger indexesBack memoSuffix txDenom txDecimals = Inr ([], [])"
| "createFindersAndAuditConfig R (token # tokens) startLedger indexesBack memoSuffix txDenom txDecimals =
     res_bind (issuer_of R token) (\<lambda>xrplIssuer.
     res_bind (currency_of R token) (\<lambda>xrplCurrency.
     res_bind (createFindersAndAuditConfig R tokens startLedger indexesBack memoSuffix txDenom txDecimals) (\<lambda>(finders, auditCfg).
       Inr (\<lparr>XRPLIssuer = xrplIssuer, XRPLCurrency = xrplCurrency,
             ActivationDate = time_Unix (int64 (uint (tok_ActivationDate token))), Multiplier = tok_Multiplier token,
             XRPLHistoryScanStartLedger = startLedger, XRPLRecentScanIndexesBack = indexesBack,
             XRPLMemoSuffix = memoSuffix, TXDenom = txDenom, TXDecimals = txDecimals\<rparr> # finders,
            \<lparr>aud_XRPLIssuer = xrplIssuer, aud_XRPLCurrency = xrplCurrency, aud_Multiplier = tok_Multiplier token\<rparr> # auditCfg))))"

text \<open>The loop of \<open>NewAuditor\<close> over the tokens.\<close>

fun audit_tokens :: "('v, 'n) ripple \<Rightarrow> XRPLToken list \<Rightarrow> go_error + XRPLTokenConfig list" where
  "audit_tokens R [] = Inr []"
| "audit_tokens R (token # tokens) =
     res_bind (issuer_of R token) (\<lambda>xrplIssuer.
     res_bind (currency_of R token) (\<lambda>xrplCurrency.
     res_bind (audit_tokens R tokens) (\<lambda>rest.
       Inr (\<lparr>aud_XRPLIssuer = xrplIssuer, aud_XRPLCurrency = xrplCurrency, aud_Multiplier = tok_Multiplier token\<rparr> # rest))))"

text \<open>The auditor is its configuration, with the clients it will call.\<close>

definition NewAuditor ::
  "('v, 'n) ripple \<Rightarrow> sdk \<Rightarrow> 'k service_env \<Rightarrow> service_Config \<Rightarrow> 'k \<Rightarrow> nat \<Rightarrow>
   go_error + AuditorConfig \<times> rpc_config \<times> ChainClientConfig \<times> 'k client_ctx" where
  "NewAuditor R S V cfg kr n =
     res_bind (NewRecorder (svc_metrics V)) (\<lambda>_.
     res_bind (NetworkConfigByChainID V (svc_TXChainID cfg)) (\<lambda>network.
     res_bind (required_address S cfg) (\<lambda>contractAddress.
     res_bind (buildTXClientContext V cfg kr) (\<lambda>txClientCtx.
     res_bind (res_wrap ''failed to query contract config''
       (client_config S V (DefaultContractClientConfig (Some contractAddress) (net_Denom network), txClientCtx) n)) (\<lambda>contractCfg.
     res_bind (audit_tokens R (cfg_XRPLTokens contractCfg)) (\<lambda>auditTokensCfg.
       Inr (\<lparr>aud_ContractAddress = AccAddress_String S contractAddress, aud_TXDenom = net_Denom network,
             aud_TXDecimals = 6, aud_XRPLMemoSuffix = svc_XRPLMemoSuffix cfg, aud_XRPLTokens = auditTokensCfg,
             StartDate = svc_AuditStartDate cfg\<rparr>,
            DefaultRPCClientConfig (svc_XRPLRPCURL cfg), DefaultChainClientConfig, txClientCtx)))))))"

section \<open>The services of a run\<close>

record 'k Services =
  sv_Config :: service_Config
  sv_Scanner :: scanner_config
  sv_RPCClient :: rpc_config
  sv_ContractClient :: "'k contract_client"
  sv_WatcherConfig :: watcher_config
  sv_WatcherVersion :: uint64
  sv_Finders :: "finder_config list"
  sv_Executor :: executor_config
  sv_Recorder :: Recorder
  sv_Pusher :: "PusherConfig option"
  sv_Collector :: TXRecorderConfig
  sv_Auditor :: AuditorConfig

text \<open>The move of the sender's key to a keyring in memory.\<close>

definition in_memory_keyring ::
  "'k service_env \<Rightarrow> service_Config \<Rightarrow> 'k \<Rightarrow> acc_address \<Rightarrow> go_error + 'k" where
  "in_memory_keyring V cfg kr senderAddress =
     res_bind (res_wrap (''failed to get key from keyring for address:'' @ svc_TXSenderAddress cfg)
       (KeyByAddress V kr senderAddress)) (\<lambda>keyName.
     res_bind (res_wrap ''failed to export key'' (ExportPrivKeyArmor V kr keyName (uuid_NewString V))) (\<lambda>armor.
       res_wrap ''failed to import key'' (ImportPrivKey V (NewInMemory V) keyName armor (uuid_NewString V))))"

text \<open>
  \<open>NewServices\<close> queries the configuration of the contract three times: for the finders (call
  \<open>n\<close>), for the version of the watcher (call \<open>n + 1\<close>) and in \<open>NewAuditor\<close> (call \<open>n + 2\<close>).
\<close>

definition NewServices ::
  "('v, 'n) ripple \<Rightarrow> sdk \<Rightarrow> 'k service_env \<Rightarrow> service_Config \<Rightarrow> 'k \<Rightarrow> bool \<Rightarrow> nat \<Rightarrow> go_error + 'k Services" where
  "NewServices R S V cfg kr0 useInMemoryKr n =
     res_bind (NewRecorder (svc_metrics V)) (\<lambda>metricRecorder.
     res_bind (NetworkConfigByChainID V (svc_TXChainID cfg)) (\<lambda>network.
     res_bind (if svc_TXSenderAddress cfg \<noteq> [] then
                 res_wrap ''invalid sender address'' (AccAddressFromBech32 S (svc_TXSenderAddress cfg))
               else Inr []) (\<lambda>senderAddress.
     res_bind (if useInMemoryKr then in_memory_keyring V cfg kr0 senderAddress else Inr kr0) (\<lambda>kr.
     res_bind (required_address S cfg) (\<lambda>contractAddress.
     res_bind (buildTXClientContext V cfg kr) (\<lambda>txClientCtx.
       (let client = (DefaultContractClientConfig (Some contractAddress) (net_Denom network), txClientCtx) in
        res_bind (res_wrap ''failed to query initial contract config'' (client_config S V client n)) (\<lambda>contractCfg.
        res_bind (res_wrap ''failed to create finders''
          (createFindersAndAuditConfig R (cfg_XRPLTokens contractCfg) (svc_XRPLHistoryScanStartLedger cfg)
             (svc_XRPLRecentScanIndexesBack cfg) (svc_XRPLMemoSuffix cfg) (net_Denom network) 6)) (\<lambda>(txFinders, _).
        res_bind (res_wrap ''failed to initialize config watcher'' (Initialize (client_config S V client) (Suc n))) (\<lambda>currentVersion.
        res_bind (res_wrap ''failed to create auditor'' (NewAuditor R S V cfg kr (Suc (Suc n)))) (\<lambda>(auditor, _).
          Inr \<lparr>sv_Config = cfg,
            sv_Scanner = DefaultTxScannerConfig\<lparr>RecentScanSkipLastIndexes := svc_XRPLRecentScanSkipLastIndexes cfg\<rparr>,
            sv_RPCClient = DefaultRPCClientConfig (svc_XRPLRPCURL cfg), sv_ContractClient = client,
            sv_WatcherConfig = \<lparr>w_ContractAddress = contractAddress,
              PollInterval = (if svc_ConfigWatcherPollInterval cfg = 0 then 5 * 60 * time_Second
                else svc_ConfigWatcherPollInterval cfg)\<rparr>,
            sv_WatcherVersion = currentVersion, sv_Finders = txFinders,
            sv_Executor = exec_DefaultConfig senderAddress, sv_Recorder = metricRecorder,
            sv_Pusher = (if svc_PrometheusURL cfg \<noteq> [] then
                Some (DefaultPusherConfig (svc_PrometheusURL cfg) (svc_PrometheusUsername cfg)
                  (svc_PrometheusPassword cfg) (svc_PrometheusInstanceName cfg)) else None),
            sv_Collector = DefaultTXRecorderConfig (Some contractAddress) (Some senderAddress) (net_Denom network),
            sv_Auditor = auditor\<rparr>)))))))))))"

section \<open>The restart loop\<close>

text \<open>
  The loop of \<open>RunExecutorWithAutoRestart\<close>. In iteration \<open>i\<close>, \<open>ctx i\<close> is the error of the context,
  \<open>mk i\<close> the outcome of \<open>NewServices\<close> and \<open>run i s\<close> that of running the tasks of the services \<open>s\<close> in
  parallel. The result is the returned error (\<open>None\<close> inside for nil); \<open>None\<close> is a loop that does not end.
\<close>

definition is_error :: "go_error option \<Rightarrow> go_error \<Rightarrow> bool" where
  "is_error err target = (case err of None \<Rightarrow> False | Some e \<Rightarrow> Is e target)"

partial_function (option) restart_loop ::
  "(nat \<Rightarrow> go_error option) \<Rightarrow> (nat \<Rightarrow> go_error + 's) \<Rightarrow> (nat \<Rightarrow> 's \<Rightarrow> go_error option) \<Rightarrow> nat \<Rightarrow> go_error option option" where
  [code]: "restart_loop ctx mk run i =
     (case ctx i of
        Some e \<Rightarrow> Some (Some e)
      | None \<Rightarrow>
          (case mk i of
             Inl e \<Rightarrow> Some (Some (Wrap ''failed to create services'' e))
           | Inr services \<Rightarrow>
               (let err = run i services in
                if is_error err ErrConfigChanged then restart_loop ctx mk run (Suc i)
                else if is_error err ContextCanceled then Some None
                else Some err)))"

definition RunExecutorWithAutoRestart ::
  "('v, 'n) ripple \<Rightarrow> sdk \<Rightarrow> 'k service_env \<Rightarrow> service_Config \<Rightarrow> 'k \<Rightarrow> (nat \<Rightarrow> go_error option) \<Rightarrow> (nat \<Rightarrow> nat) \<Rightarrow>
   (nat \<Rightarrow> 'k Services \<Rightarrow> go_error option) \<Rightarrow> go_error option option" where
  "RunExecutorWithAutoRestart R S V cfg kr ctx calls run =
     restart_loop ctx (\<lambda>i. NewServices R S V cfg kr True (calls i)) run 0"

end
