(* ===== verification/Service_Properties.thy ===== *)
theory Service_Properties
  imports Service Auditor_Properties
begin

text \<open>
  The properties of the assembled relayer: finders and auditor agree on the tokens, the restart
  loop, and what the separate reads of the configuration may miss.
\<close>

section \<open>Finders and audit tokens\<close>

text \<open>The texts of a token convert to an issuer and a currency.\<close>

definition token_converts :: "('v, 'n) ripple \<Rightarrow> XRPLToken \<Rightarrow> account \<Rightarrow> rcurrency \<Rightarrow> bool" where
  "token_converts R t a c \<longleftrightarrow> NewAccountFromAddress R (tok_Issuer t) = Inr a \<and> NewCurrency R (tok_Currency t) = Inr c"

lemma issuer_currency_of:
  "issuer_of R t = Inr a \<and> currency_of R t = Inr c \<longleftrightarrow> token_converts R t a c"
  by (simp add: issuer_of_def currency_of_def token_converts_def)

lemma audit_tokens_set:
  assumes "audit_tokens R toks = Inr as"
  shows "set as = {\<lparr>aud_XRPLIssuer = a, aud_XRPLCurrency = c, aud_Multiplier = tok_Multiplier t\<rparr> |t a c.
    t \<in> set toks \<and> token_converts R t a c}"
  using assms
proof (induction toks arbitrary: as)
  case (Cons t toks)
  from Cons.prems obtain a c rest where 1: "token_converts R t a c" "audit_tokens R toks = Inr rest"
    "as = \<lparr>aud_XRPLIssuer = a, aud_XRPLCurrency = c, aud_Multiplier = tok_Multiplier t\<rparr> # rest"
    by (auto simp: res_bind_Inr issuer_currency_of [symmetric])
  then have "token_converts R t a' c' \<longleftrightarrow> a' = a \<and> c' = c" for a' c'
    by (auto simp: token_converts_def)
  with 1 Cons.IH [OF 1(2)] show ?case by auto blast
qed simp

lemma created_finders:
  assumes "createFindersAndAuditConfig R toks start back suf denom dec = Inr (fs, as)"
  shows "audit_tokens R toks = Inr as \<and> length fs = length toks \<and>
    (\<forall>f \<in> set fs. XRPLMemoSuffix f = suf \<and> TXDenom f = denom \<and> TXDecimals f = dec \<and>
      (\<exists>t \<in> set toks. token_converts R t (XRPLIssuer f) (XRPLCurrency f) \<and> Multiplier f = tok_Multiplier t \<and>
         ActivationDate f = time_Unix (int64 (uint (tok_ActivationDate t)))))"
  using assms
proof (induction toks arbitrary: fs as)
  case (Cons t toks)
  from Cons.prems obtain a c fs' as' where 1: "issuer_of R t = Inr a" "currency_of R t = Inr c"
    "createFindersAndAuditConfig R toks start back suf denom dec = Inr (fs', as')"
    "fs = \<lparr>XRPLIssuer = a, XRPLCurrency = c,
             ActivationDate = time_Unix (int64 (uint (tok_ActivationDate t))), Multiplier = tok_Multiplier t,
             XRPLHistoryScanStartLedger = start, XRPLRecentScanIndexesBack = back,
             XRPLMemoSuffix = suf, TXDenom = denom, TXDecimals = dec\<rparr> # fs'"
    "as = \<lparr>aud_XRPLIssuer = a, aud_XRPLCurrency = c, aud_Multiplier = tok_Multiplier t\<rparr> # as'"
    by (auto simp: res_bind_Inr)
  then have "token_converts R t a c" by (simp flip: issuer_currency_of)
  with 1 Cons.IH [OF 1(3)] show ?case by auto
qed simp

lemma NewServices_parts:
  assumes "NewServices R S V cfg kr b n = Inr s"
  obtains kr' c1 c2 denom ac ctx r1 r2 where
    "client_config S V (sv_ContractClient s) n = Inr c1"
    "createFindersAndAuditConfig R (cfg_XRPLTokens c1) (svc_XRPLHistoryScanStartLedger cfg)
       (svc_XRPLRecentScanIndexesBack cfg) (svc_XRPLMemoSuffix cfg) denom 6 = Inr (sv_Finders s, ac)"
    "client_config S V (sv_ContractClient s) (Suc n) = Inr c2" "sv_WatcherVersion s = cfg_Version c2"
    "NewAuditor R S V cfg kr' (Suc (Suc n)) = Inr (sv_Auditor s, r1, r2, snd (sv_ContractClient s))"
proof -
  from assms obtain rec net sa kr' ca ctx c1 fs ac v aud r1 r2 ctx' where
    1: "NetworkConfigByChainID V (svc_TXChainID cfg) = Inr net"
       "required_address S cfg = Inr ca" "buildTXClientContext V cfg kr' = Inr ctx"
       "client_config S V (DefaultContractClientConfig (Some ca) (net_Denom net), ctx) n = Inr c1"
       "createFindersAndAuditConfig R (cfg_XRPLTokens c1) (svc_XRPLHistoryScanStartLedger cfg)
         (svc_XRPLRecentScanIndexesBack cfg) (svc_XRPLMemoSuffix cfg) (net_Denom net) 6 = Inr (fs, ac)"
       "Initialize (client_config S V (DefaultContractClientConfig (Some ca) (net_Denom net), ctx)) (Suc n) = Inr v"
       "NewAuditor R S V cfg kr' (Suc (Suc n)) = Inr (aud, r1, r2, ctx')"
    and s: "sv_ContractClient s = (DefaultContractClientConfig (Some ca) (net_Denom net), ctx)"
       "sv_WatcherVersion s = v" "sv_Finders s = fs" "sv_Auditor s = aud"
    unfolding NewServices_def Let_def res_bind_Inr res_wrap_Inr by (elim exE conjE) (auto simp: res_bind_Inr)
  from 1(7,3) have "ctx' = ctx" by (auto simp: NewAuditor_def res_bind_Inr)
  moreover from 1(6) obtain c2 where
    "client_config S V (DefaultContractClientConfig (Some ca) (net_Denom net), ctx) (Suc n) = Inr c2" "v = cfg_Version c2"
    by (auto simp: Initialize_def res_bind_Inr)
  ultimately show thesis using that 1 s by auto
qed

lemma auditor_parts:
  assumes "NewAuditor R S V cfg kr' k = Inr (aud, r1, r2, snd (sv_ContractClient s))"
    and "NewServices R S V cfg kr b n = Inr s" and "client_config S V (sv_ContractClient s) k = Inr c3"
  shows "aud_XRPLMemoSuffix aud = svc_XRPLMemoSuffix cfg \<and> aud_TXDecimals aud = 6 \<and>
    audit_tokens R (cfg_XRPLTokens c3) = Inr (aud_XRPLTokens aud)"
proof -
  from assms(1) obtain net ca c where
    1: "NetworkConfigByChainID V (svc_TXChainID cfg) = Inr net" "required_address S cfg = Inr ca"
       "client_config S V (DefaultContractClientConfig (Some ca) (net_Denom net), snd (sv_ContractClient s)) k = Inr c"
       "audit_tokens R (cfg_XRPLTokens c) = Inr (aud_XRPLTokens aud)"
       "aud_XRPLMemoSuffix aud = svc_XRPLMemoSuffix cfg" "aud_TXDecimals aud = 6"
    unfolding NewAuditor_def res_bind_Inr res_wrap_Inr by (elim exE conjE) auto
  moreover have "fst (sv_ContractClient s) = DefaultContractClientConfig (Some ca) (net_Denom net)"
    using assms(2) 1(1,2) unfolding NewServices_def Let_def res_bind_Inr res_wrap_Inr
    by (elim exE conjE) (auto simp: res_bind_Inr)
  ultimately show ?thesis using assms(3) by (metis prod.collapse sum.inject(2))
qed

section \<open>A concrete deployment\<close>

text \<open>A deployment whose first configuration, for the first \<open>k\<close> reads, has no tokens, and whose second has one.\<close>

definition sample_token :: XRPLToken where
  "sample_token = \<lparr>tok_Currency = ''CUR'', tok_Issuer = ''rIssuer'', tok_ActivationDate = 0, tok_Multiplier = ''1.5''\<rparr>"

definition sample_version :: "bool \<Rightarrow> Config" where
  "sample_version first = \<lparr>cfg_Owner = [], cfg_TrustedAddresses = [], cfg_Threshold = 2, cfg_MinAmount = 1, cfg_MaxAmount = 40,
     cfg_XRPLTokens = (if first then [] else [sample_token]), cfg_Version = (if first then 1 else 2)\<rparr>"

definition sample_service :: "nat \<Rightarrow> nat service_env" where
  "sample_service k = \<lparr>NetworkConfigByChainID = (\<lambda>c. Inr \<lparr>net_ChainID = c, net_Denom = ''ucore''\<rparr>),
     NewClientFromNode = (\<lambda>u. Inr u), url_Parse = (\<lambda>u. Inr \<lparr>Scheme = ''https'', Host = u, Opaque = []\<rparr>),
     GRPCCodecProvider = True, grpc_NewClient = (\<lambda>t b. Inr \<lparr>grpc_target = t, grpc_tls = b\<rparr>),
     KeyByAddress = (\<lambda>kr a. Inr ''key''), ExportPrivKeyArmor = (\<lambda>kr k p. Inr ''armor''), NewInMemory = 0,
     ImportPrivKey = (\<lambda>kr k a p. Inr (Suc kr)), uuid_NewString = ''uuid'',
     chain_wasm = (\<lambda>ctx. sample_wasm\<lparr>SmartContractState := (\<lambda>n addr payload. Inr (if n < k then ''first'' else ''second'')),
       Unmarshal_config := (\<lambda>b. Inr (sample_version (b = ''first'')))\<rparr>),
     svc_metrics = sample_metrics\<rparr>"

definition sample_service_config :: service_Config where
  "sample_service_config = \<lparr>svc_XRPLRPCURL = ''url'', svc_XRPLHistoryScanStartLedger = 1, svc_XRPLRecentScanIndexesBack = 30,
     svc_XRPLRecentScanSkipLastIndexes = 20, svc_XRPLMemoSuffix = ''/net'', svc_TXChainID = ''net'', svc_TXRPCURL = ''rpc'',
     svc_TXGRPCURL = ''grpc'', svc_TXSenderAddress = ''core1bob'', svc_TXContractAddress = ''core1bob'', svc_PrometheusURL = [],
     svc_PrometheusInstanceName = [], svc_PrometheusUsername = [], svc_PrometheusPassword = [], svc_AuditStartDate = 0,
     svc_ConfigWatcherPollInterval = 0\<rparr>"

definition sample_service_finder :: finder_config where
  "sample_service_finder = \<lparr>XRPLIssuer = [1], XRPLCurrency = [7], ActivationDate = 0, Multiplier = ''1.5'',
     XRPLHistoryScanStartLedger = 1, XRPLRecentScanIndexesBack = 30, XRPLMemoSuffix = ''/net'',
     TXDenom = ''ucore'', TXDecimals = 6\<rparr>"

lemma sample_config_read:
  "client_config sample_sdk (sample_service k) (DefaultContractClientConfig (Some [9]) d, ctx) n = Inr (sample_version (n < k))"
  by (simp add: client_config_def sample_service_def GetContractConfig_def query_def need_address_def sample_wasm_def
      sample_marshal_def DefaultContractClientConfig_def)

lemma sample_services:
  "\<exists>s ctx. NewServices sample_ripple sample_sdk (sample_service k) sample_service_config 0 b 0 = Inr s \<and>
    sv_Finders s = (if 0 < k then [] else [sample_service_finder]) \<and>
    sv_ContractClient s = (DefaultContractClientConfig (Some [9]) ''ucore'', ctx)"
proof -
  note parts = sample_service_def sample_service_config_def
  have rec: "\<exists>r. NewRecorder (svc_metrics (sample_service k)) = Inr r"
    by (simp add: parts NewRecorder_def sample_metrics_def)
  have addr: "required_address sample_sdk sample_service_config = Inr [9]"
    by (simp add: parts required_address_def sample_sdk_def)
  have ctx: "\<exists>c. buildTXClientContext (sample_service k) sample_service_config kr = Inr c" for kr
    by (simp add: parts buildTXClientContext_def getGRPCClientConn_def)
  have fs: "createFindersAndAuditConfig sample_ripple (cfg_XRPLTokens (sample_version f)) 1 30 ''/net'' ''ucore'' 6 =
    Inr (if f then ([], []) else ([sample_service_finder], [\<lparr>aud_XRPLIssuer = [1], aud_XRPLCurrency = [7], aud_Multiplier = ''1.5''\<rparr>]))" for f
    by (simp add: sample_version_def sample_token_def issuer_of_def currency_of_def sample_ripple_def sample_service_finder_def int64_def time_Unix_def)
  have at: "\<exists>as. audit_tokens sample_ripple (cfg_XRPLTokens (sample_version f)) = Inr as" for f
    by (simp add: sample_version_def sample_token_def issuer_of_def currency_of_def sample_ripple_def)
  have net: "NetworkConfigByChainID (sample_service k) c = Inr \<lparr>net_ChainID = c, net_Denom = ''ucore''\<rparr>" for c
    by (simp add: parts)
  have aud: "\<exists>a. NewAuditor sample_ripple sample_sdk (sample_service k) sample_service_config kr n = Inr a" for kr n
    using rec ctx [of kr] at [of "n < k"] by (auto simp: NewAuditor_def addr net sample_config_read)
  have kr: "\<exists>kr'. (if b then in_memory_keyring (sample_service k) sample_service_config 0 [9] else Inr 0) = Inr kr'"
    by (simp add: in_memory_keyring_def parts)
  have snd: "AccAddressFromBech32 sample_sdk (svc_TXSenderAddress sample_service_config) = Inr [9]"
    by (simp add: parts sample_sdk_def)
  have fields: "svc_TXSenderAddress sample_service_config \<noteq> []" "svc_XRPLHistoryScanStartLedger sample_service_config = 1"
    "svc_XRPLRecentScanIndexesBack sample_service_config = 30" "svc_XRPLMemoSuffix sample_service_config = ''/net''"
    by (simp_all add: parts)
  obtain F A where F: "createFindersAndAuditConfig sample_ripple (cfg_XRPLTokens (sample_version (0 < k))) 1 30 ''/net'' ''ucore'' 6 = Inr (F, A)"
    "F = (if 0 < k then [] else [sample_service_finder])"
    using fs [of "0 < k"] by (cases "0 < k") auto
  obtain r kr' c a where "NewRecorder (svc_metrics (sample_service k)) = Inr r"
    "(if b then in_memory_keyring (sample_service k) sample_service_config 0 [9] else Inr 0) = Inr kr'"
    "buildTXClientContext (sample_service k) sample_service_config kr' = Inr c"
    "NewAuditor sample_ripple sample_sdk (sample_service k) sample_service_config kr' (Suc (Suc 0)) = Inr a"
    using rec kr ctx aud by blast
  then show ?thesis
    by (cases a) (simp add: NewServices_def addr net snd fields F sample_config_read Initialize_def
        del: createFindersAndAuditConfig.simps split del: if_split)
qed

lemma sample_burn_transfer:
  "buildPendingTransaction sample_ripple sample_sdk sample_service_finder sample_burn =
    Ok (Some \<lparr>TXDestination = [9], TXAmount = \<lparr>sc_Denom = ''ucore'', Amount = 3000000\<rparr>, XRPLTxHash = ''AB''\<rparr>)"
  by code_simp

section \<open>Properties\<close>

text \<open>
  Tokens that convert to issuers and currencies of the same texts have the same multiplier.
\<close>

definition tokens_separate :: "('v, 'n) ripple \<Rightarrow> XRPLToken list \<Rightarrow> bool" where
  "tokens_separate R toks \<longleftrightarrow>
     (\<forall>t \<in> set toks. \<forall>u \<in> set toks. \<forall>a c b d. token_converts R t a c \<and> token_converts R u b d \<and>
        account_String R a = account_String R b \<and> currency_String R c = currency_String R d \<longrightarrow>
        tok_Multiplier t = tok_Multiplier u)"

lemma tokens_separateD:
  assumes "tokens_separate R toks" and "t \<in> set toks" and "u \<in> set toks" and "token_converts R t a c"
    and "token_converts R u b d" and "account_String R a = account_String R b" and "currency_String R c = currency_String R d"
  shows "tok_Multiplier t = tok_Multiplier u"
  using assms unfolding tokens_separate_def by meson

text \<open>
  C25: The assembled relayer passes its own audit. Whatever transfer one of the finders of \<open>NewServices\<close> builds from an
  XRPL transaction, the request made for it gives no discrepancy with that transaction in the
  auditor of the same services, when both read the same tokens and these are separate.
\<close>

theorem services_transfers_pass_audit:
  assumes "NewServices R S V cfg kr b n = Inr s" and "sdk_ok S"
    and "client_config S V (sv_ContractClient s) n = Inr c1"
    and "client_config S V (sv_ContractClient s) (Suc (Suc n)) = Inr c3"
    and "cfg_XRPLTokens c3 = cfg_XRPLTokens c1" and "tokens_separate R (cfg_XRPLTokens c1)"
    and "f \<in> set (sv_Finders s)" and "buildPendingTransaction R S f x = Ok (Some p)" and "m (XRPLTxHash p) = Some x"
  shows "request_discrepancies R S (sv_Auditor s) m \<lparr>call_Tx = t, call_Msg = msg, Payload = send_request S p\<rparr> = Ok []"
proof -
  from assms(1) obtain kr' c2 denom ac r1 r2 where
    1: "createFindersAndAuditConfig R (cfg_XRPLTokens c1) (svc_XRPLHistoryScanStartLedger cfg)
       (svc_XRPLRecentScanIndexesBack cfg) (svc_XRPLMemoSuffix cfg) denom 6 = Inr (sv_Finders s, ac)"
       "NewAuditor R S V cfg kr' (Suc (Suc n)) = Inr (sv_Auditor s, r1, r2, snd (sv_ContractClient s))"
    using assms(3) by (elim NewServices_parts) auto
  note f = created_finders [OF 1(1), THEN conjunct2, THEN conjunct2, rule_format, OF assms(7)]
  obtain tok where tok: "tok \<in> set (cfg_XRPLTokens c1)" "token_converts R tok (XRPLIssuer f) (XRPLCurrency f)"
    "Multiplier f = tok_Multiplier tok"
    using f by blast
  have aud: "aud_XRPLMemoSuffix (sv_Auditor s) = svc_XRPLMemoSuffix cfg" "aud_TXDecimals (sv_Auditor s) = 6"
    "audit_tokens R (cfg_XRPLTokens c1) = Inr (aud_XRPLTokens (sv_Auditor s))"
    using auditor_parts [OF 1(2) assms(1,4)] assms(5) by auto
  note set_aud = audit_tokens_set [OF aud(3)]
  show ?thesis
  proof (rule finder_transfer_clean [where R = R and fcfg = f])
    show "\<lparr>aud_XRPLIssuer = XRPLIssuer f, aud_XRPLCurrency = XRPLCurrency f, aud_Multiplier = Multiplier f\<rparr>
      \<in> set (aud_XRPLTokens (sv_Auditor s))"
      using tok unfolding set_aud by auto
  next
    fix u
    assume u: "u \<in> set (aud_XRPLTokens (sv_Auditor s))"
      "account_String R (aud_XRPLIssuer u) = account_String R (XRPLIssuer f)"
      "currency_String R (aud_XRPLCurrency u) = currency_String R (XRPLCurrency f)"
    from u(1) obtain t' where "t' \<in> set (cfg_XRPLTokens c1)" "aud_Multiplier u = tok_Multiplier t'"
      "token_converts R t' (aud_XRPLIssuer u) (aud_XRPLCurrency u)"
      unfolding set_aud by auto
    with tokens_separateD [OF assms(6) _ tok(1) _ tok(2)] u(2,3) tok(3) show "aud_Multiplier u = Multiplier f"
      by simp
  qed (use f aud assms(2,8,9) in auto)
qed

lemma sample_separate: "tokens_separate R (cfg_XRPLTokens (sample_version False))"
  by (auto simp: tokens_separate_def sample_version_def)

theorem services_transfers_pass_audit_witness:
  "\<exists>s. NewServices sample_ripple sample_sdk (sample_service 0) sample_service_config 0 True 0 = Inr s \<and>
    request_discrepancies sample_ripple sample_sdk (sv_Auditor s) [''AB'' \<mapsto> sample_burn]
      \<lparr>call_Tx = sample_sending, call_Msg = sample_msg, Payload = send_request sample_sdk
        \<lparr>TXDestination = [9], TXAmount = \<lparr>sc_Denom = ''ucore'', Amount = 3000000\<rparr>, XRPLTxHash = ''AB''\<rparr>\<rparr> = Ok []"
proof -
  obtain s ctx where s: "NewServices sample_ripple sample_sdk (sample_service 0) sample_service_config 0 True 0 = Inr s"
    "sv_Finders s = [sample_service_finder]" "sv_ContractClient s = (DefaultContractClientConfig (Some [9]) ''ucore'', ctx)"
    using sample_services [of 0 True] by auto
  have "request_discrepancies sample_ripple sample_sdk (sv_Auditor s) [''AB'' \<mapsto> sample_burn]
      \<lparr>call_Tx = sample_sending, call_Msg = sample_msg, Payload = send_request sample_sdk
        \<lparr>TXDestination = [9], TXAmount = \<lparr>sc_Denom = ''ucore'', Amount = 3000000\<rparr>, XRPLTxHash = ''AB''\<rparr>\<rparr> = Ok []"
    by (rule services_transfers_pass_audit [OF s(1) sample_sdk_ok, where f = sample_service_finder and x = sample_burn
        and ?c1.0 = "sample_version False" and ?c3.0 = "sample_version False"])
      (simp_all add: s(2,3) sample_config_read sample_burn_transfer sample_separate)
  with s(1) show ?thesis by blast
qed

lemma restart_loop_skip:
  assumes "\<And>i. i < k \<Longrightarrow> ctx i = None \<and> (\<exists>s. mk i = Inr s \<and> is_error (run i s) ErrConfigChanged)"
  shows "restart_loop ctx mk run 0 = restart_loop ctx mk run k"
proof -
  have "restart_loop ctx mk run (k - j) = restart_loop ctx mk run k" if "j \<le> k" for j
    using that
  proof (induction j)
    case (Suc j)
    then have "k - Suc j < k" "Suc (k - Suc j) = k - j" by auto
    with assms [of "k - Suc j"] Suc show ?case
      by (subst restart_loop.simps) (auto simp: Let_def)
  qed simp
  from this [of k] show ?thesis by simp
qed

text \<open>
  C26: The restart loop. After any number of runs that end because the configuration changed, each followed by
  new services, the first run that ends otherwise ends the loop: with nil when the context was
  canceled, and with the error of the run in the other cases.
\<close>

theorem auto_restart_outcome:
  assumes "\<And>i. i < k \<Longrightarrow> ctx i = None \<and>
      (\<exists>s. NewServices R S V cfg kr True (calls i) = Inr s \<and> is_error (run i s) ErrConfigChanged)"
    and "ctx k = None" and "NewServices R S V cfg kr True (calls k) = Inr s"
    and "\<not> is_error (run k s) ErrConfigChanged"
  shows "RunExecutorWithAutoRestart R S V cfg kr ctx calls run =
    Some (if is_error (run k s) ContextCanceled then None else run k s)"
proof -
  let ?mk = "\<lambda>i. NewServices R S V cfg kr True (calls i)"
  have "restart_loop ctx ?mk run 0 = restart_loop ctx ?mk run k" by (rule restart_loop_skip) (use assms(1) in blast)
  also have "restart_loop ctx ?mk run k = Some (if is_error (run k s) ContextCanceled then None else run k s)"
    using assms(2-4) by (subst restart_loop.simps) (simp add: Let_def)
  finally show ?thesis by (simp add: RunExecutorWithAutoRestart_def)
qed

theorem auto_restart_outcome_witness:
  "RunExecutorWithAutoRestart sample_ripple sample_sdk (sample_service 0) sample_service_config 0 (\<lambda>i. None) (\<lambda>i. 0)
     (\<lambda>i s. Some (if i < 3 then ErrConfigChanged else ContextCanceled)) = Some None"
proof -
  obtain s where s: "NewServices sample_ripple sample_sdk (sample_service 0) sample_service_config 0 True 0 = Inr s"
    using sample_services [of 0 True] by auto
  have "\<not> is_error (Some ContextCanceled) ErrConfigChanged" "is_error (Some ContextCanceled) ContextCanceled"
    "is_error (Some ErrConfigChanged) ErrConfigChanged"
    by (simp_all add: is_error_def ErrConfigChanged_def ContextCanceled_def)
  with s auto_restart_outcome [where k = 3 and ctx = "\<lambda>i. None" and calls = "\<lambda>i. 0" and cfg = sample_service_config
      and R = sample_ripple and S = sample_sdk and V = "sample_service 0" and kr = 0 and s = s
      and run = "\<lambda>i s. Some (if i < 3 then ErrConfigChanged else ContextCanceled)"]
  show ?thesis by simp
qed

text \<open>
  A change between two reads goes unseen. The finders are made from the first read of the
  configuration and the watcher compares with the version of the second: if the configuration
  changed in between and then stays, the watcher never reports a change, and the relayer goes
  on with the tokens of the old configuration.
\<close>

lemma change_between_reads_unseen:
  assumes "NewServices R S V cfg kr b n = Inr s"
    and "client_config S V (sv_ContractClient s) n = Inr c1"
    and "client_config S V (sv_ContractClient s) (Suc n) = Inr c2"
    and "\<And>c. Tick (Inr c) \<in> set polls \<Longrightarrow> cfg_Version c = cfg_Version c2"
  shows "Watch (sv_WatcherVersion s) polls \<noteq> Some ErrConfigChanged \<and> length (sv_Finders s) = length (cfg_XRPLTokens c1)"
proof -
  from assms(1) obtain denom ac where 1:
    "createFindersAndAuditConfig R (cfg_XRPLTokens c1) (svc_XRPLHistoryScanStartLedger cfg)
       (svc_XRPLRecentScanIndexesBack cfg) (svc_XRPLMemoSuffix cfg) denom 6 = Inr (sv_Finders s, ac)"
    "sv_WatcherVersion s = cfg_Version c2"
    using assms(2,3) by (elim NewServices_parts) auto
  with created_finders [OF 1(1)] assms(4) show ?thesis
    by (auto simp: Watch_changed_iff dest: set_takeWhileD)
qed

end
