(* ===== verification/Gas_Estimation.thy ===== *)
theory Gas_Estimation
  imports Contract_Client Go_Float
begin

text \<open>
  The gas and fee estimation of the contract client (\<open>relayer/client/tx/contract.go\<close>):
  \<open>EstimateExecuteMessages\<close> and \<open>calculateGas\<close>. Packing and marshalling of protobuf messages, the
  account, simulation and fee model queries, and the SDK's decimals (type \<open>'d\<close>) are fields of \<open>gas_env\<close>;
  packed and marshalled values are byte strings.
\<close>

record 'd gas_env =
  ModeInfoAndSig :: "string \<times> string"
  Any_PubKey :: "go_error + string"
  GetSequence :: "nat \<Rightarrow> acc_address \<Rightarrow> go_error + uint64"
  Marshal_AuthInfo :: "string \<Rightarrow> string \<Rightarrow> uint64 \<Rightarrow> go_error + string"
  Any_Msg :: "sdk_msg \<Rightarrow> go_error + string"
  Marshal_TxBody :: "string list \<Rightarrow> go_error + string"
  Marshal_TxRaw :: "string \<Rightarrow> string \<Rightarrow> string list \<Rightarrow> go_error + string"
  Simulate :: "nat \<Rightarrow> string \<Rightarrow> go_error + uint64"
  InitialGasPrice :: "nat \<Rightarrow> go_error + 'd"
  LegacyNewDecFromInt :: "int \<Rightarrow> 'd"
  Dec_Mul :: "'d \<Rightarrow> 'd \<Rightarrow> 'd go"
  TruncateInt :: "'d \<Rightarrow> int"

fun any_messages :: "'d gas_env \<Rightarrow> sdk_msg list \<Rightarrow> go_error + string list" where
  "any_messages E [] = Inr []"
| "any_messages E (msg # msgs) =
     res_bind (Any_Msg E msg) (\<lambda>a. res_bind (any_messages E msgs) (\<lambda>as. Inr (a # as)))"

text \<open>The gas adjustment of the transaction factory is the client's gas multiplier.\<close>

definition calculateGas ::
  "'d gas_env \<Rightarrow> ContractClientConfig \<Rightarrow> nat \<Rightarrow> acc_address \<Rightarrow> sdk_msg list \<Rightarrow> go_error + uint64" where
  "calculateGas E c n sender msgs =
     (let (modeInfo, signature) = ModeInfoAndSig E in
      res_bind (Any_PubKey E) (\<lambda>pubKeyAny.
      res_bind (GetSequence E n sender) (\<lambda>sequence.
      res_bind (Marshal_AuthInfo E pubKeyAny modeInfo sequence) (\<lambda>simAuthInfoBytes.
      res_bind (any_messages E msgs) (\<lambda>anyMessages.
      res_bind (Marshal_TxBody E anyMessages) (\<lambda>bodyBytes.
      res_bind (Marshal_TxRaw E bodyBytes simAuthInfoBytes [signature]) (\<lambda>txBytes.
      res_bind (res_wrap ''transaction estimation failed'' (Simulate E (Suc n) txBytes)) (\<lambda>gasUsed.
        Inr (uint64_of_float (float64 (GasMultiplier c * float64 (of_nat (unat gasUsed)))))))))))))"

definition EstimateExecuteMessages ::
  "sdk \<Rightarrow> 'd gas_env \<Rightarrow> ContractClientConfig \<Rightarrow> nat \<Rightarrow> acc_address \<Rightarrow> sdk_msg list \<Rightarrow> (sdk_coin \<times> uint64) go" where
  "EstimateExecuteMessages S E c n sender msgs =
     (case calculateGas E c n sender msgs of
        Inl e \<Rightarrow> Err e
      | Inr gas \<Rightarrow>
          (case InitialGasPrice E (Suc (Suc n)) of
             Inl e \<Rightarrow> Err e
           | Inr price \<Rightarrow>
               go_bind (Dec_Mul E price (LegacyNewDecFromInt E (uint gas))) (\<lambda>d.
               go_bind (NewCoin S (cc_TXDenom c) (TruncateInt E d)) (\<lambda>coin. Ok (coin, gas)))))"

section \<open>Properties\<close>

text \<open>
  What the estimation relies on of the SDK's decimals: they stand for rationals, an integer for
  itself, a product by an integer is exact, and truncation is the floor of a non-negative one.
\<close>

definition decimals_ok :: "'d gas_env \<Rightarrow> ('d \<Rightarrow> rat) \<Rightarrow> bool" where
  "decimals_ok E v \<longleftrightarrow> (\<forall>i. v (LegacyNewDecFromInt E i) = of_int i) \<and>
     (\<forall>a i d. Dec_Mul E a (LegacyNewDecFromInt E i) = Ok d \<longrightarrow> v d = v a * of_int i) \<and>
     (\<forall>d. 0 \<le> v d \<longrightarrow> TruncateInt E d = \<lfloor>v d\<rfloor>)"

lemma calculateGas_gas:
  assumes "calculateGas E c n sender msgs = Inr gas"
  shows "\<exists>bytes used. Simulate E (Suc n) bytes = Inr used \<and>
    gas = uint64_of_float (float64 (GasMultiplier c * float64 (of_nat (unat used))))"
  using assms by (auto simp: calculateGas_def res_bind_Inr split: prod.splits)

lemma adjusted_gas:
  assumes "3 * g < 2 ^ 53"
  shows "float64 (3 / 2 * float64 (of_nat g)) = of_nat (3 * g) / 2"
proof -
  have "float64 (of_nat g) = of_nat g"
    using assms by (intro float64_nat) simp
  moreover have "float64 (of_nat (3 * g) / 2) = of_nat (3 * g) / 2"
  proof (cases "g = 0")
    case False
    then show ?thesis
      using assms by (intro float64_exact [where k = 1 and i = "int (3 * g)"]) simp_all
  qed (simp add: float64_def)
  ultimately show ?thesis by simp
qed

lemma adjusted_gas_units:
  assumes "3 * g < 2 ^ 53"
  shows "unat (uint64_of_float (float64 (3 / 2 * float64 (of_nat g)))) = 3 * g div 2"
proof -
  have "\<lfloor>of_nat (3 * g) / (2 :: rat)\<rfloor> = int (3 * g div 2)"
    using floor_divide_of_nat_eq [of "3 * g" 2, where ?'a = rat] by simp
  then have "uint64_of_float (float64 (3 / 2 * float64 (of_nat g))) = of_nat (3 * g div 2)"
    unfolding adjusted_gas [OF assms] by (subst uint64_of_float_floor) simp_all
  then show ?thesis using assms by (simp add: unat_of_nat)
qed

text \<open>
  C35: The estimate is exact. With the default multiplier 1.5, whose floating-point product is not rounded
  below 2^53/3 units of gas, the estimated gas is the simulated gas and half of it, rounded down, and the fee is the
  initial gas price times that gas, rounded down, in the chain's denom.
\<close>

theorem estimate_exact:
  assumes "EstimateExecuteMessages S E c n sender msgs = Ok (coin, gas)"
    and "GasMultiplier c = 3 / 2" and "sdk_ok S" and "decimals_ok E v"
    and "\<And>bytes used. Simulate E (Suc n) bytes = Inr used \<Longrightarrow> 3 * unat used < 2 ^ 53"
    and "\<And>k price. InitialGasPrice E k = Inr price \<Longrightarrow> 0 \<le> v price"
  shows "\<exists>bytes used price. Simulate E (Suc n) bytes = Inr used \<and> unat gas = unat used + unat used div 2 \<and>
    InitialGasPrice E (Suc (Suc n)) = Inr price \<and>
    coin = \<lparr>sc_Denom = cc_TXDenom c, Amount = \<lfloor>v price * of_nat (unat gas)\<rfloor>\<rparr>"
proof -
  from assms(1) obtain price d where 1: "calculateGas E c n sender msgs = Inr gas"
    "InitialGasPrice E (Suc (Suc n)) = Inr price" "Dec_Mul E price (LegacyNewDecFromInt E (uint gas)) = Ok d"
    "NewCoin S (cc_TXDenom c) (TruncateInt E d) = Ok coin"
    by (auto simp: EstimateExecuteMessages_def go_bind_Ok split: sum.splits)
  from calculateGas_gas [OF 1(1)] obtain bytes used where u: "Simulate E (Suc n) bytes = Inr used"
    "gas = uint64_of_float (float64 (3 / 2 * float64 (of_nat (unat used))))"
    using assms(2) by auto
  have small: "3 * unat used < 2 ^ 53" using assms(5) u(1) by blast
  have gas: "unat gas = 3 * unat used div 2"
    unfolding u(2) by (rule adjusted_gas_units [OF small])
  have d: "v d = v price * of_nat (unat gas)"
    using assms(4) 1(3) unfolding decimals_ok_def by (metis of_int_of_nat_eq uint_nat)
  moreover have "0 \<le> v d"
    unfolding d by (rule mult_nonneg_nonneg [OF assms(6) [OF 1(2)] of_nat_0_le_iff])
  ultimately have "TruncateInt E d = \<lfloor>v price * of_nat (unat gas)\<rfloor>"
    using assms(4) unfolding decimals_ok_def by metis
  then have "coin = \<lparr>sc_Denom = cc_TXDenom c, Amount = \<lfloor>v price * of_nat (unat gas)\<rfloor>\<rparr>"
    using assms(3) 1(4) unfolding sdk_ok_def by metis
  moreover have "unat gas = unat used + unat used div 2"
    unfolding gas by simp
  ultimately show ?thesis using u(1) 1(2) by blast
qed

text \<open>A simulation that uses 21 units of gas, and decimals as rationals.\<close>

definition sample_gas :: "rat gas_env" where
  "sample_gas = \<lparr>ModeInfoAndSig = ([], []), Any_PubKey = Inr [], GetSequence = (\<lambda>n a. Inr 7),
     Marshal_AuthInfo = (\<lambda>p m s. Inr []), Any_Msg = (\<lambda>m. Inr []), Marshal_TxBody = (\<lambda>as. Inr []),
     Marshal_TxRaw = (\<lambda>b a s. Inr []), Simulate = (\<lambda>n b. Inr 21), InitialGasPrice = (\<lambda>n. Inr (1 / 16)),
     LegacyNewDecFromInt = of_int, Dec_Mul = (\<lambda>a b. Ok (a * b)), TruncateInt = floor\<rparr>"

definition plain_sdk :: sdk where
  "plain_sdk = \<lparr>AccAddressFromBech32 = (\<lambda>s. Inl (Errorf ''none'')), AccAddress_String = (\<lambda>a. []),
     NewIntFromBigInt = Ok, NewCoin = (\<lambda>d a. Ok \<lparr>sc_Denom = d, Amount = a\<rparr>)\<rparr>"

lemma sample_estimate:
  "EstimateExecuteMessages plain_sdk sample_gas (DefaultContractClientConfig None ''ucore'') 0 [1] [OtherMsg []] =
    Ok (\<lparr>sc_Denom = ''ucore'', Amount = 1\<rparr>, 31)"
  by code_simp

theorem estimate_exact_witness:
  "\<exists>bytes used price. Simulate sample_gas (Suc 0) bytes = Inr used \<and> unat (31 :: uint64) = unat used + unat used div 2 \<and>
    InitialGasPrice sample_gas (Suc (Suc 0)) = Inr price \<and>
    \<lparr>sc_Denom = ''ucore'', Amount = 1\<rparr> = \<lparr>sc_Denom = cc_TXDenom (DefaultContractClientConfig None ''ucore''),
      Amount = \<lfloor>id price * of_nat (unat (31 :: uint64))\<rfloor>\<rparr>"
  by (rule estimate_exact [OF sample_estimate])
    (auto simp: DefaultContractClientConfig_def sdk_ok_def plain_sdk_def decimals_ok_def sample_gas_def)

end
