(* ===== verification/Command_Line.thy ===== *)
theory Command_Line
  imports Service Gas_Estimation
begin

text \<open>
  The commands of the relayer (\<open>relayer/cmd/main.go\<close>). A parsed command line is the record \<open>command\<close> of the
  flag library's getters; chain ids, the keyring of the client context, big integers from text and the transaction factory are fields
  of \<open>cmd_env\<close>. A command that builds a transaction returns what it hands to the factory.
  Log lines of the commands are their results.
\<close>

section \<open>Flags\<close>

definition flagXRPLRPCURL :: string where "flagXRPLRPCURL = ''xrpl-rpc-url''"
definition flagXRPLHistoryScanStartLedger :: string where "flagXRPLHistoryScanStartLedger = ''xrpl-history-scan-start-ledger''"
definition flagXRPLRecentScanIndexesBack :: string where "flagXRPLRecentScanIndexesBack = ''xrpl-recent-scan-indexes-back''"
definition flagXRPLRecentScanSkipLastIndexes :: string where "flagXRPLRecentScanSkipLastIndexes = ''xrpl-recent-scan-skip-last-indexes''"
definition flagXRPLToken :: string where "flagXRPLToken = ''xrpl-token''"
definition flagXRPLMemoSuffix :: string where "flagXRPLMemoSuffix = ''xrpl-memo-suffix''"
definition flagTXChainID :: string where "flagTXChainID = ''tx-chain-id''"
definition flagTXRPCURL :: string where "flagTXRPCURL = ''tx-rpc-url''"
definition flagTXGRPCURL :: string where "flagTXGRPCURL = ''tx-grpc-url''"
definition flagTXSenderAddress :: string where "flagTXSenderAddress = ''tx-sender-address''"
definition flagTXContractAddress :: string where "flagTXContractAddress = ''tx-contract-address''"
definition flagTXContractEvidenceIDs :: string where "flagTXContractEvidenceIDs = ''tx-contract-evidence-ids''"
definition flagTXTrustedAddress :: string where "flagTXTrustedAddress = ''tx-contract-trusted-addresses''"
definition flagTXContractTrustedAddresses :: string where "flagTXContractTrustedAddresses = ''tx-contract-trusted-addresses''"
definition flagTXContractOwnerAddress :: string where "flagTXContractOwnerAddress = ''tx-contract-owner-address''"
definition flagTXContractThreshold :: string where "flagTXContractThreshold = ''tx-contract-threshold''"
definition flagTXContractMinAmount :: string where "flagTXContractMinAmount = ''tx-contract-min-amount''"
definition flagTXContractMaxAmount :: string where "flagTXContractMaxAmount = ''tx-contract-max-amount''"
definition flagPrometheusURL :: string where "flagPrometheusURL = ''prometheus-url''"
definition flagPrometheusInstanceName :: string where "flagPrometheusInstanceName = ''prometheus-instance-name''"
definition flagPrometheusUsername :: string where "flagPrometheusUsername = ''prometheus-username''"
definition flagPrometheusPassword :: string where "flagPrometheusPassword = ''prometheus-password''"
definition flagAuditStartDate :: string where "flagAuditStartDate = ''audit-start-date''"

lemmas flag_names = flagXRPLRPCURL_def flagXRPLHistoryScanStartLedger_def flagXRPLRecentScanIndexesBack_def
  flagXRPLRecentScanSkipLastIndexes_def flagXRPLToken_def flagXRPLMemoSuffix_def flagTXChainID_def flagTXRPCURL_def
  flagTXGRPCURL_def flagTXSenderAddress_def flagTXContractAddress_def flagTXContractEvidenceIDs_def
  flagTXTrustedAddress_def flagTXContractTrustedAddresses_def flagTXContractOwnerAddress_def
  flagTXContractThreshold_def flagTXContractMinAmount_def flagTXContractMaxAmount_def flagPrometheusURL_def
  flagPrometheusInstanceName_def flagPrometheusUsername_def flagPrometheusPassword_def flagAuditStartDate_def

text \<open>
  A flag is registered with a name and a default value, whose constructor is the type of the flag. The
  names of the keyring flags are the SDK's.
\<close>

datatype flag_value = StringValue string | Int64Value int | IntValue int | SliceValue "string list"

type_synonym flag_set = "(string \<times> flag_value) list"

definition defaultHome :: string where
  "defaultHome = ''.tx-xrpl-token-migrator''"

definition addKeyringFlags :: "string \<Rightarrow> flag_set" where
  "addKeyringFlags DefaultKeyringBackend =
     [(''keyring-backend'', StringValue DefaultKeyringBackend), (''home'', StringValue defaultHome), (''keyring-dir'', StringValue [])]"

definition addTXFlags :: flag_set where
  "addTXFlags = [(flagTXRPCURL, StringValue []), (flagTXGRPCURL, StringValue []), (flagTXSenderAddress, StringValue []),
     (flagTXContractAddress, StringValue [])]"

definition addXRPLFlags :: flag_set where
  "addXRPLFlags = [(flagXRPLRPCURL, StringValue []), (flagXRPLHistoryScanStartLedger, Int64Value 0),
     (flagXRPLRecentScanIndexesBack, Int64Value 0), (flagXRPLMemoSuffix, StringValue [])]"

definition addPrometheusFlags :: flag_set where
  "addPrometheusFlags = [(flagPrometheusURL, StringValue []), (flagPrometheusInstanceName, StringValue []),
     (flagPrometheusUsername, StringValue []), (flagPrometheusPassword, StringValue [])]"

definition StartCmd_flags :: "string \<Rightarrow> flag_set" where
  "StartCmd_flags backend = addXRPLFlags @ addTXFlags @ addKeyringFlags backend @ addPrometheusFlags"

definition DeployAndInstantiateCmd_flags :: "string \<Rightarrow> flag_set" where
  "DeployAndInstantiateCmd_flags backend = addTXFlags @ addKeyringFlags backend @
     [(flagTXContractTrustedAddresses, SliceValue []), (flagTXContractOwnerAddress, StringValue []),
      (flagTXContractThreshold, IntValue 0), (flagTXContractMinAmount, StringValue []), (flagTXContractMaxAmount, StringValue [])]"

definition DeployCmd_flags :: "string \<Rightarrow> flag_set" where
  "DeployCmd_flags backend = addTXFlags @ addKeyringFlags backend"

definition BuildExecutePendingApprovedTransactionsCmd_flags :: flag_set where
  "BuildExecutePendingApprovedTransactionsCmd_flags = addTXFlags @ [(flagTXContractEvidenceIDs, SliceValue [])]"

definition AuditCmd_flags :: flag_set where
  "AuditCmd_flags = addTXFlags @ addXRPLFlags @ [(flagAuditStartDate, StringValue [])]"

definition BuildUpdateTrustedAddressesTransactionCmd_flags :: flag_set where
  "BuildUpdateTrustedAddressesTransactionCmd_flags = (flagTXTrustedAddress, SliceValue []) # addTXFlags"

definition BuildAddXRPLTokensTransactionCmd_flags :: flag_set where
  "BuildAddXRPLTokensTransactionCmd_flags = (flagXRPLToken, SliceValue []) # addTXFlags"

record command =
  flag_Lookup :: "string \<Rightarrow> bool"
  GetString :: "string \<Rightarrow> go_error + string"
  GetInt64 :: "string \<Rightarrow> go_error + int"
  GetInt :: "string \<Rightarrow> go_error + int"
  GetStringSlice :: "string \<Rightarrow> go_error + string list"

record unsigned_tx =
  utx_Fees :: sdk_coin
  utx_Gas :: uint64
  utx_ChainID :: string
  utx_Msgs :: "sdk_msg list"

record ('k, 'd) cmd_env =
  ChainIDMain :: string
  ChainIDTest :: string
  ChainIDDev :: string
  DefaultKeyringBackend :: string
  GetClientQueryContext :: "command \<Rightarrow> go_error + 'k"
  NewIntFromString :: "string \<Rightarrow> int option"
  NewFactoryCLI :: "command \<Rightarrow> go_error + unit"
  cmd_services :: "'k service_env"
  cmd_gas :: "'k client_ctx \<Rightarrow> 'd gas_env"

section \<open>Dates\<close>

text \<open>\<open>time.Date\<close> at midnight UTC and \<open>time.Parse\<close> with the layout \<open>2006-01-02\<close>; error texts are left out.\<close>

definition is_leap :: "int \<Rightarrow> bool" where
  "is_leap y = (y mod 4 = 0 \<and> (y mod 100 \<noteq> 0 \<or> y mod 400 = 0))"

definition days_in :: "nat \<Rightarrow> int \<Rightarrow> nat" where
  "days_in m y = (if m = 2 \<and> is_leap y then 29 else [0, 31, 28, 31, 30, 31, 30, 31, 31, 30, 31, 30, 31] ! m)"

definition days_before_year :: "int \<Rightarrow> int" where
  "days_before_year y = 365 * (y - 1) + (y - 1) div 4 - (y - 1) div 100 + (y - 1) div 400"

definition time_Date :: "int \<Rightarrow> nat \<Rightarrow> nat \<Rightarrow> instant" where
  "time_Date y m d =
     (days_before_year y - days_before_year 1970 + int (sum_list (map (\<lambda>k. days_in k y) [1..<m])) + int d - 1)
     * 86400 * time_Second"

definition parse_DateOnly :: "string \<Rightarrow> go_error + instant" where
  "parse_DateOnly s =
     (let y = take 4 s; m = take 2 (drop 5 s); d = take 2 (drop 8 s) in
      if length s \<noteq> 10 \<or> s ! 4 \<noteq> CHR ''-'' \<or> s ! 7 \<noteq> CHR ''-'' \<or> \<not> all_digits (y @ m @ d) then
        Inl (Errorf ''cannot parse date'')
      else if nat_of_dec m < 1 \<or> nat_of_dec m > 12 \<or> nat_of_dec d < 1 \<or>
              nat_of_dec d > days_in (nat_of_dec m) (int (nat_of_dec y)) then
        Inl (Errorf ''date out of range'')
      else Inr (time_Date (int (nat_of_dec y)) (nat_of_dec m) (nat_of_dec d)))"

section \<open>The services configuration\<close>

definition zero_Config :: service_Config where
  "zero_Config = \<lparr>svc_XRPLRPCURL = [], svc_XRPLHistoryScanStartLedger = 0, svc_XRPLRecentScanIndexesBack = 0,
     svc_XRPLRecentScanSkipLastIndexes = 0, svc_XRPLMemoSuffix = [], svc_TXChainID = [], svc_TXRPCURL = [],
     svc_TXGRPCURL = [], svc_TXSenderAddress = [], svc_TXContractAddress = [], svc_PrometheusURL = [],
     svc_PrometheusInstanceName = [], svc_PrometheusUsername = [], svc_PrometheusPassword = [],
     svc_AuditStartDate = time_Date 1 1 1, svc_ConfigWatcherPollInterval = 0\<rparr>"

definition defaultTestnetCfg :: "('k, 'd) cmd_env \<Rightarrow> service_Config" where
  "defaultTestnetCfg K = zero_Config\<lparr>svc_XRPLHistoryScanStartLedger := 20000, svc_XRPLRecentScanIndexesBack := 30000,
     svc_XRPLRecentScanSkipLastIndexes := 20, svc_XRPLMemoSuffix := ''/coreum-testnet-1/v1'',
     svc_TXChainID := ChainIDTest K, svc_AuditStartDate := time_Date 2024 12 1\<rparr>"

definition defaultMainnnetCfg :: "('k, 'd) cmd_env \<Rightarrow> service_Config" where
  "defaultMainnnetCfg K = zero_Config\<lparr>svc_XRPLHistoryScanStartLedger := 81400000, svc_XRPLRecentScanIndexesBack := 30000,
     svc_XRPLRecentScanSkipLastIndexes := 20, svc_XRPLMemoSuffix := ''/coreum-mainnet-1/v1'',
     svc_TXChainID := ChainIDMain K, svc_AuditStartDate := time_Date 2000 1 1\<rparr>"

text \<open>The setters write through a pointer: \<open>upd\<close> is the update of its target.\<close>

definition setStringIfNotEmpty :: "command \<Rightarrow> string \<Rightarrow> (string \<Rightarrow> 'c \<Rightarrow> 'c) \<Rightarrow> 'c \<Rightarrow> go_error + 'c" where
  "setStringIfNotEmpty C flagName upd v =
     (if \<not> flag_Lookup C flagName then Inr v
      else res_bind (GetString C flagName) (\<lambda>val. if val = [] then Inr v else Inr (upd val v)))"

definition setStringInt64IfNotZero :: "command \<Rightarrow> string \<Rightarrow> (int \<Rightarrow> 'c \<Rightarrow> 'c) \<Rightarrow> 'c \<Rightarrow> go_error + 'c" where
  "setStringInt64IfNotZero C flagName upd v =
     (if \<not> flag_Lookup C flagName then Inr v
      else res_bind (GetInt64 C flagName) (\<lambda>val. if val = 0 then Inr v else Inr (upd val v)))"

definition setDateIfNotEmpty :: "command \<Rightarrow> string \<Rightarrow> (instant \<Rightarrow> 'c \<Rightarrow> 'c) \<Rightarrow> 'c \<Rightarrow> go_error + 'c" where
  "setDateIfNotEmpty C flag upd v =
     res_bind (setStringIfNotEmpty C flag (\<lambda>s _. s) []) (\<lambda>dateStr.
       if dateStr = [] then Inr v
       else res_bind (parse_DateOnly dateStr) (\<lambda>val. Inr (upd val v)))"

definition setters :: "command \<Rightarrow> (service_Config \<Rightarrow> go_error + service_Config) list" where
  "setters C =
    [setStringIfNotEmpty C flagXRPLRPCURL (\<lambda>x. svc_XRPLRPCURL_update (\<lambda>_. x)),
     setStringInt64IfNotZero C flagXRPLHistoryScanStartLedger (\<lambda>x. svc_XRPLHistoryScanStartLedger_update (\<lambda>_. x)),
     setStringInt64IfNotZero C flagXRPLRecentScanIndexesBack (\<lambda>x. svc_XRPLRecentScanIndexesBack_update (\<lambda>_. x)),
     setStringInt64IfNotZero C flagXRPLRecentScanSkipLastIndexes (\<lambda>x. svc_XRPLRecentScanSkipLastIndexes_update (\<lambda>_. x)),
     setStringIfNotEmpty C flagXRPLMemoSuffix (\<lambda>x. svc_XRPLMemoSuffix_update (\<lambda>_. x)),
     setStringIfNotEmpty C flagTXRPCURL (\<lambda>x. svc_TXRPCURL_update (\<lambda>_. x)),
     setStringIfNotEmpty C flagTXGRPCURL (\<lambda>x. svc_TXGRPCURL_update (\<lambda>_. x)),
     setStringIfNotEmpty C flagTXSenderAddress (\<lambda>x. svc_TXSenderAddress_update (\<lambda>_. x)),
     setStringIfNotEmpty C flagTXContractAddress (\<lambda>x. svc_TXContractAddress_update (\<lambda>_. x)),
     setStringIfNotEmpty C flagPrometheusURL (\<lambda>x. svc_PrometheusURL_update (\<lambda>_. x)),
     setStringIfNotEmpty C flagPrometheusInstanceName (\<lambda>x. svc_PrometheusInstanceName_update (\<lambda>_. x)),
     setStringIfNotEmpty C flagPrometheusUsername (\<lambda>x. svc_PrometheusUsername_update (\<lambda>_. x)),
     setStringIfNotEmpty C flagPrometheusPassword (\<lambda>x. svc_PrometheusPassword_update (\<lambda>_. x)),
     setDateIfNotEmpty C flagAuditStartDate (\<lambda>x. svc_AuditStartDate_update (\<lambda>_. x))]"

fun run_setters :: "(service_Config \<Rightarrow> go_error + service_Config) list \<Rightarrow> service_Config \<Rightarrow> go_error + service_Config" where
  "run_setters [] cfg = Inr cfg"
| "run_setters (f # fs) cfg = res_bind (f cfg) (run_setters fs)"

text \<open>The setters are the values of a Go map, visited in no fixed order: \<open>visit\<close> is the order of a run.\<close>

definition readServicesConfig :: "('k, 'd) cmd_env \<Rightarrow> nat list \<Rightarrow> command \<Rightarrow> go_error + service_Config" where
  "readServicesConfig K visit C =
     res_bind (GetString C flagTXChainID) (\<lambda>chainID.
     res_bind
       (if chainID = ChainIDDev K then Inr ((defaultTestnetCfg K)\<lparr>svc_TXChainID := ChainIDDev K\<rparr>)
        else if chainID = ChainIDTest K then Inr (defaultTestnetCfg K)
        else if chainID = ChainIDMain K then Inr (defaultMainnnetCfg K)
        else Inl (Errorf (''unspported chain id: '' @ chainID)))
       (run_setters (map ((!) (setters C)) visit)))"

definition preProcessFlags :: "('k, 'd) cmd_env \<Rightarrow> go_error + string \<Rightarrow> go_error + network" where
  "preProcessFlags K parsed =
     res_bind parsed (\<lambda>chainID.
       if chainID = [] then Inl (Errorf (''flag '' @ flagTXChainID @ '' is required''))
       else NetworkConfigByChainID (cmd_services K) chainID)"

definition validateAccAddress :: "sdk \<Rightarrow> string \<Rightarrow> go_error + unit" where
  "validateAccAddress S address =
     res_bind (res_wrap (''invalid account address:'' @ address) (AccAddressFromBech32 S address)) (\<lambda>_. Inr ())"

section \<open>Commands\<close>

definition start_config :: "('k, 'd) cmd_env \<Rightarrow> nat list \<Rightarrow> command \<Rightarrow> go_error + service_Config \<times> 'k" where
  "start_config K visit C =
     res_bind (readServicesConfig K visit C) (\<lambda>cfg.
       if svc_PrometheusURL cfg = [] then Inl (Errorf (''flag '' @ flagPrometheusURL @ '' is required''))
       else res_bind (GetClientQueryContext K C) (\<lambda>kr. Inr (cfg, kr)))"

text \<open>The result of \<open>StartCmd\<close> is the error of the command; \<open>None\<close>: it keeps running.\<close>

definition StartCmd ::
  "('v, 'n) ripple \<Rightarrow> sdk \<Rightarrow> ('k, 'd) cmd_env \<Rightarrow> nat list \<Rightarrow> command \<Rightarrow> (nat \<Rightarrow> go_error option) \<Rightarrow> (nat \<Rightarrow> nat) \<Rightarrow>
   (nat \<Rightarrow> 'k Services \<Rightarrow> go_error option) \<Rightarrow> go_error option option" where
  "StartCmd R S K visit C ctx calls run =
     (case start_config K visit C of
        Inl e \<Rightarrow> Some (Some e)
      | Inr (cfg, kr) \<Rightarrow> RunExecutorWithAutoRestart R S (cmd_services K) cfg kr ctx calls run)"

fun validate_addresses :: "sdk \<Rightarrow> string list \<Rightarrow> go_error + unit" where
  "validate_addresses S [] = Inr ()"
| "validate_addresses S (a # as) = res_bind (validateAccAddress S a) (\<lambda>_. validate_addresses S as)"

text \<open>The flags of \<open>DeployAndInstantiateCmd\<close> and the deployment they give; the threshold is converted to 32 bits.\<close>

definition deploy_config :: "sdk \<Rightarrow> ('k, 'd) cmd_env \<Rightarrow> command \<Rightarrow> go_error + DeployAndInstantiateConfig" where
  "deploy_config S K C =
     res_bind (GetStringSlice C flagTXContractTrustedAddresses) (\<lambda>trustedAddresses.
     if trustedAddresses = [] then Inl (Errorf ''at least one trusted address must be specified'')
     else res_bind (validate_addresses S trustedAddresses) (\<lambda>_.
     res_bind (GetString C flagTXContractOwnerAddress) (\<lambda>ownerAddress.
     res_bind (validateAccAddress S ownerAddress) (\<lambda>_.
     res_bind (GetInt C flagTXContractThreshold) (\<lambda>threshold.
     if threshold \<le> 0 then Inl (Errorf ''threshold must be greater than zero'')
     else res_bind (GetString C flagTXContractMinAmount) (\<lambda>minAmountString.
       (case NewIntFromString K minAmountString of
          None \<Rightarrow> Inl (Errorf (flagTXContractMinAmount @ '' must be greater than zero''))
        | Some minAmount \<Rightarrow>
            if minAmount \<le> 0 then Inl (Errorf (flagTXContractMinAmount @ '' must be greater than zero''))
            else res_bind (GetString C flagTXContractMaxAmount) (\<lambda>maxAmountString.
              (case NewIntFromString K maxAmountString of
                 None \<Rightarrow> Inl (Errorf (flagTXContractMaxAmount @ '' must be greater or equal than '' @ flagTXContractMinAmount))
               | Some maxAmount \<Rightarrow>
                   if maxAmount < minAmount then
                     Inl (Errorf (flagTXContractMaxAmount @ '' must be greater or equal than '' @ flagTXContractMinAmount))
                   else Inr \<lparr>dep_Owner = ownerAddress, dep_Admin = ownerAddress, dep_TrustedAddresses = trustedAddresses,
                     dep_Threshold = of_int threshold, dep_MinAmount = minAmount, dep_MaxAmount = maxAmount,
                     dep_XRPLTokens = None, dep_Label = ''bank_threshold_send''\<rparr>)))))))))"

definition sender_address :: "sdk \<Rightarrow> string \<Rightarrow> service_Config \<Rightarrow> go_error + acc_address" where
  "sender_address S what cfg = res_wrap what (AccAddressFromBech32 S (svc_TXSenderAddress cfg))"

definition DeployAndInstantiateCmd ::
  "sdk \<Rightarrow> ('k, 'd) cmd_env \<Rightarrow> nat list \<Rightarrow> command \<Rightarrow> nat \<Rightarrow> go_error + acc_address" where
  "DeployAndInstantiateCmd S K visit C n =
     res_bind (readServicesConfig K visit C) (\<lambda>cfg.
     res_bind (deploy_config S K C) (\<lambda>deployCfg.
     res_bind (GetClientQueryContext K C) (\<lambda>kr.
     res_bind (NewDeployContractClient (cmd_services K) cfg kr) (\<lambda>deployClient.
     res_bind (sender_address S ''invalid sender address'' cfg) (\<lambda>senderAddress.
       DeployAndInstantiate S (chain_wasm (cmd_services K) (snd deployClient)) n senderAddress deployCfg)))))"

definition DeployCmd :: "sdk \<Rightarrow> ('k, 'd) cmd_env \<Rightarrow> nat list \<Rightarrow> command \<Rightarrow> nat \<Rightarrow> go_error + uint64" where
  "DeployCmd S K visit C n =
     res_bind (readServicesConfig K visit C) (\<lambda>cfg.
     res_bind (GetClientQueryContext K C) (\<lambda>kr.
     res_bind (NewDeployContractClient (cmd_services K) cfg kr) (\<lambda>deployClient.
     res_bind (sender_address S ''invalid sender address'' cfg) (\<lambda>senderAddress.
       Deploy S (chain_wasm (cmd_services K) (snd deployClient)) n senderAddress))))"

text \<open>The first steps the commands on an existing contract share.\<close>

definition contract_command ::
  "sdk \<Rightarrow> ('k, 'd) cmd_env \<Rightarrow> nat list \<Rightarrow> command \<Rightarrow> go_error + service_Config \<times> 'k contract_client" where
  "contract_command S K visit C =
     res_bind (readServicesConfig K visit C) (\<lambda>cfg.
     res_bind (GetClientQueryContext K C) (\<lambda>kr.
     res_bind (NewContractClient S (cmd_services K) cfg kr) (\<lambda>contractClient. Inr (cfg, contractClient))))"

definition GetContractConfigCmd :: "sdk \<Rightarrow> ('k, 'd) cmd_env \<Rightarrow> nat list \<Rightarrow> command \<Rightarrow> nat \<Rightarrow> go_error + Config" where
  "GetContractConfigCmd S K visit C n =
     res_bind (contract_command S K visit C) (\<lambda>(_, contractClient). client_config S (cmd_services K) contractClient n)"

definition pending_command ::
  "sdk \<Rightarrow> ('k, 'd) cmd_env \<Rightarrow> nat list \<Rightarrow> command \<Rightarrow> nat \<Rightarrow> (go_error + PendingTransaction list \<times> PendingTransaction list) option" where
  "pending_command S K visit C n =
     (case contract_command S K visit C of
        Inl e \<Rightarrow> Some (Inl e)
      | Inr (_, client) \<Rightarrow> GetAllPendingTransactions S (chain_wasm (cmd_services K) (snd client)) (fst client) n)"

definition GetPendingUnapprovedTransactionsCmd ::
  "sdk \<Rightarrow> ('k, 'd) cmd_env \<Rightarrow> nat list \<Rightarrow> command \<Rightarrow> nat \<Rightarrow> (go_error + PendingTransaction list) option" where
  "GetPendingUnapprovedTransactionsCmd S K visit C n =
     map_option (\<lambda>r. res_bind r (\<lambda>(unapproved, _). Inr unapproved)) (pending_command S K visit C n)"

definition GetPendingApprovedTransactionsCmd ::
  "sdk \<Rightarrow> ('k, 'd) cmd_env \<Rightarrow> nat list \<Rightarrow> command \<Rightarrow> nat \<Rightarrow> (go_error + string list) option" where
  "GetPendingApprovedTransactionsCmd S K visit C n =
     map_option (\<lambda>r. res_bind r (\<lambda>(_, approved). Inr (map EvidenceID approved))) (pending_command S K visit C n)"

text \<open>The end of the commands that build a transaction: estimate, make the factory and generate.\<close>

definition generate_tx ::
  "sdk \<Rightarrow> ('k, 'd) cmd_env \<Rightarrow> command \<Rightarrow> service_Config \<Rightarrow> 'k contract_client \<Rightarrow> nat \<Rightarrow> acc_address \<Rightarrow> sdk_msg list \<Rightarrow> unsigned_tx go"
where
  "generate_tx S K C cfg client n sndr msgs =
     go_bind (EstimateExecuteMessages S (cmd_gas K (snd client)) (fst client) n sndr msgs) (\<lambda>(fees, gas).
     go_bind (go_of (res_wrap ''failed to create tx factory'' (NewFactoryCLI K C))) (\<lambda>_.
       Ok \<lparr>utx_Fees = fees, utx_Gas = gas, utx_ChainID = svc_TXChainID cfg, utx_Msgs = msgs\<rparr>))"

definition build_command ::
  "sdk \<Rightarrow> ('k, 'd) cmd_env \<Rightarrow> nat list \<Rightarrow> command \<Rightarrow> go_error + service_Config \<times> 'k contract_client \<times> acc_address" where
  "build_command S K visit C =
     res_bind (contract_command S K visit C) (\<lambda>(cfg, client).
     res_bind (sender_address S ''invalid signer address'' cfg) (\<lambda>senderAddress. Inr (cfg, client, senderAddress)))"

definition BuildExecutePendingApprovedTransactionsCmd ::
  "sdk \<Rightarrow> ('k, 'd) cmd_env \<Rightarrow> nat list \<Rightarrow> command \<Rightarrow> nat \<Rightarrow> nat \<Rightarrow> unsigned_tx go option" where
  "BuildExecutePendingApprovedTransactionsCmd S K visit C n n' =
     (case res_bind (build_command S K visit C) (\<lambda>b.
             res_bind (GetStringSlice C flagTXContractEvidenceIDs) (\<lambda>evidenceIDs. Inr (b, evidenceIDs))) of
        Inl e \<Rightarrow> Some (Err e)
      | Inr ((cfg, client, senderAddress), evidenceIDs) \<Rightarrow>
          map_option (\<lambda>r. go_bind r (\<lambda>msgs. generate_tx S K C cfg client n' senderAddress msgs))
            (BuildExecutePendingMessages S (chain_wasm (cmd_services K) (snd client)) (fst client) n senderAddress evidenceIDs))"

definition BuildMigrateContractTransactionCmd ::
  "sdk \<Rightarrow> ('k, 'd) cmd_env \<Rightarrow> nat list \<Rightarrow> command \<Rightarrow> string \<Rightarrow> nat \<Rightarrow> unsigned_tx go" where
  "BuildMigrateContractTransactionCmd S K visit C arg n =
     go_bind (go_of (build_command S K visit C)) (\<lambda>(cfg, client, senderAddress).
     go_bind (go_wrap ''failed to parse codeID'' (ParseUint arg)) (\<lambda>codeID.
       generate_tx S K C cfg client n senderAddress [BuildMigrateContractMessage S (fst client) senderAddress codeID None]))"

fun parse_addresses :: "sdk \<Rightarrow> string list \<Rightarrow> go_error + acc_address list" where
  "parse_addresses S [] = Inr []"
| "parse_addresses S (s # ss) =
     res_bind (res_wrap (''invalid address '' @ s) (AccAddressFromBech32 S s)) (\<lambda>a.
     res_bind (parse_addresses S ss) (\<lambda>as. Inr (a # as)))"

definition BuildUpdateTrustedAddressesTransactionCmd ::
  "sdk \<Rightarrow> ('k, 'd) cmd_env \<Rightarrow> nat list \<Rightarrow> command \<Rightarrow> nat \<Rightarrow> unsigned_tx go" where
  "BuildUpdateTrustedAddressesTransactionCmd S K visit C n =
     go_bind (go_of (build_command S K visit C)) (\<lambda>(cfg, client, senderAddress).
     go_bind (go_of (GetStringSlice C flagTXTrustedAddress)) (\<lambda>trustedAddressesStr.
     go_bind (go_of (parse_addresses S trustedAddressesStr)) (\<lambda>trustedAddresses.
     go_bind (BuildUpdateTrustedAddressesTransaction S (chain_wasm (cmd_services K) (snd client)) (fst client)
       senderAddress (Some trustedAddresses)) (\<lambda>msg.
       generate_tx S K C cfg client n senderAddress [msg]))))"

definition parse_xrpl_token :: "string \<Rightarrow> XRPLToken go" where
  "parse_xrpl_token tokenStr =
     (case Split (CHR ''/'') tokenStr of
        [p0, p1, p2, p3] \<Rightarrow>
          go_bind (go_wrap (''failed to parse activation_unix_timestamp: '' @ p2) (ParseUint p2)) (\<lambda>activationUnixTimestamp.
            Ok \<lparr>tok_Currency = p1, tok_Issuer = p0, tok_ActivationDate = activationUnixTimestamp, tok_Multiplier = p3\<rparr>)
      | _ \<Rightarrow> Err (Errorf (''invalid '' @ flagXRPLToken @ '' value: '' @ tokenStr @
             '', expected format: issuer/currency/activation_unix_timestamp/multiplier'')))"

definition BuildAddXRPLTokensTransactionCmd ::
  "sdk \<Rightarrow> ('k, 'd) cmd_env \<Rightarrow> nat list \<Rightarrow> command \<Rightarrow> nat \<Rightarrow> unsigned_tx go" where
  "BuildAddXRPLTokensTransactionCmd S K visit C n =
     go_bind (go_of (build_command S K visit C)) (\<lambda>(cfg, client, senderAddress).
     go_bind (go_of (GetStringSlice C flagXRPLToken)) (\<lambda>xrplTokensStr.
     go_bind (go_mapM parse_xrpl_token xrplTokensStr) (\<lambda>xrplTokens.
     go_bind (BuildAddXRPLTokensTransaction S (chain_wasm (cmd_services K) (snd client)) (fst client)
       senderAddress (Some xrplTokens)) (\<lambda>msg.
       generate_tx S K C cfg client n senderAddress [msg]))))"

text \<open>\<open>AuditCmd\<close> reports the discrepancies; it ends without error also when there are some.\<close>

definition AuditCmd ::
  "('v, 'n) ripple \<Rightarrow> sdk \<Rightarrow> audit_env \<Rightarrow> ('k, 'd) cmd_env \<Rightarrow> nat list \<Rightarrow> command \<Rightarrow> nat \<Rightarrow>
   ('k client_ctx \<Rightarrow> ChainClientConfig \<Rightarrow> string \<Rightarrow> instant \<Rightarrow> tx_response list go) \<Rightarrow>
   (rpc_config \<Rightarrow> string list \<Rightarrow> go_error + (string \<rightharpoonup> ('v, 'n) Transaction)) \<Rightarrow> ('v, 'n) Discrepancy list go" where
  "AuditCmd R S A K visit C n spending get_xrpl =
     go_bind (go_of (readServicesConfig K visit C)) (\<lambda>cfg.
     go_bind (go_of (GetClientQueryContext K C)) (\<lambda>kr.
     go_bind (go_of (NewAuditor R S (cmd_services K) cfg kr n)) (\<lambda>(auditor, rpcCfg, chainCfg, ctx).
       Audit R S A auditor (spending ctx chainCfg) (get_xrpl rpcCfg))))"

end
