(* ===== verification/Command_Properties.thy ===== *)
theory Command_Properties
  imports Command_Line Service_Properties "HOL-Library.Multiset"
begin

text \<open>
  What the flags of a command line amount to: the order in which the Go map of setters is visited does not matter,
  which settings \<open>start\<close> cannot change, what a deployment is checked for, and how token flags are read.
\<close>

section \<open>The order of the setters\<close>

text \<open>A setter as a step on an optional configuration; \<open>None\<close> after an error.\<close>

definition setter_step :: "(service_Config \<Rightarrow> go_error + service_Config) \<Rightarrow> service_Config option \<Rightarrow> service_Config option" where
  "setter_step f oc = Option.bind oc (\<lambda>c. case f c of Inl e \<Rightarrow> None | Inr d \<Rightarrow> Some d)"

lemma setter_step_simps [simp]:
  "setter_step f None = None"
  "f c = Inl e \<Longrightarrow> setter_step f (Some c) = None"
  "f c = Inr d \<Longrightarrow> setter_step f (Some c) = Some d"
  by (simp_all add: setter_step_def)

lemma setter_steps_error [simp]: "fold setter_step fs None = None"
  by (induction fs) simp_all

lemma run_setters_fold: "run_setters fs c = Inr d \<longleftrightarrow> fold setter_step fs (Some c) = Some d"
proof (induction fs arbitrary: c)
  case Nil
  show ?case by simp
next
  case (Cons f fs)
  then show ?case by (cases "f c") simp_all
qed

text \<open>A setter reads a value that does not depend on the configuration and writes it with one update.\<close>

definition writes :: "(service_Config \<Rightarrow> go_error + service_Config) \<Rightarrow> ('x \<Rightarrow> service_Config \<Rightarrow> service_Config) \<Rightarrow> bool" where
  "writes f upd = (\<exists>r. \<forall>c. f c = res_bind r (\<lambda>v. Inr (case v of None \<Rightarrow> c | Some x \<Rightarrow> upd x c)))"

lemma writesI: "(\<And>c. f c = res_bind r (\<lambda>v. Inr (case v of None \<Rightarrow> c | Some x \<Rightarrow> upd x c))) \<Longrightarrow> writes f upd"
  unfolding writes_def by blast

lemma writes_string: "writes (setStringIfNotEmpty C flg upd) upd"
  by (rule writesI [where r = "if \<not> flag_Lookup C flg then Inr None
        else res_bind (GetString C flg) (\<lambda>v. Inr (if v = [] then None else Some v))"])
     (cases "GetString C flg"; simp add: setStringIfNotEmpty_def)

lemma writes_int: "writes (setStringInt64IfNotZero C flg upd) upd"
  by (rule writesI [where r = "if \<not> flag_Lookup C flg then Inr None
        else res_bind (GetInt64 C flg) (\<lambda>v. Inr (if v = 0 then None else Some v))"])
     (cases "GetInt64 C flg"; simp add: setStringInt64IfNotZero_def)

lemma writes_date: "writes (setDateIfNotEmpty C flg upd) upd"
proof (rule writesI)
  fix c
  let ?r = "res_bind (setStringIfNotEmpty C flg (\<lambda>s _. s) []) (\<lambda>s.
        if s = [] then Inr None else res_bind (parse_DateOnly s) (\<lambda>v. Inr (Some v)))"
  show "setDateIfNotEmpty C flg upd c = res_bind ?r (\<lambda>v. Inr (case v of None \<Rightarrow> c | Some x \<Rightarrow> upd x c))"
  proof (cases "setStringIfNotEmpty C flg (\<lambda>s _. s) []")
    case (Inr s)
    then show ?thesis by (cases "parse_DateOnly s") (simp_all add: setDateIfNotEmpty_def)
  qed (simp add: setDateIfNotEmpty_def)
qed

lemmas writes_setters = writes_string writes_int writes_date

lemma writes_commute:
  assumes "writes f u" and "writes g w" and uw: "\<And>x y c. u x (w y c) = w y (u x c)"
  shows "setter_step f \<circ> setter_step g = setter_step g \<circ> setter_step f"
proof -
  from assms obtain r q where
    f: "\<And>c. f c = res_bind r (\<lambda>v. Inr (case v of None \<Rightarrow> c | Some x \<Rightarrow> u x c))" and
    g: "\<And>c. g c = res_bind q (\<lambda>v. Inr (case v of None \<Rightarrow> c | Some x \<Rightarrow> w x c))"
    unfolding writes_def by blast
  show ?thesis
  proof
    fix oc
    show "(setter_step f \<circ> setter_step g) oc = (setter_step g \<circ> setter_step f) oc"
      by (cases oc; cases r; cases q) (simp_all add: setter_step_def f g uw del: setter_step_simps split: option.split)
  qed
qed

text \<open>Pairs of setters of a list commute.\<close>

fun pairwise_commute :: "(service_Config \<Rightarrow> go_error + service_Config) list \<Rightarrow> bool" where
  "pairwise_commute [] = True"
| "pairwise_commute (f # fs) =
     ((\<forall>g\<in>set fs. setter_step f \<circ> setter_step g = setter_step g \<circ> setter_step f) \<and> pairwise_commute fs)"

lemma pairwise_commuteD:
  "pairwise_commute fs \<Longrightarrow> f \<in> set fs \<Longrightarrow> g \<in> set fs \<Longrightarrow>
   setter_step f \<circ> setter_step g = setter_step g \<circ> setter_step f"
  by (induction fs) auto

lemma setters_commute: "pairwise_commute (setters C)"
  unfolding setters_def pairwise_commute.simps list.set ball_simps
  by (intro conjI TrueI; (rule writes_commute, rule writes_setters, rule writes_setters, simp))

lemma length_setters: "length (setters C) = 14"
  by (simp add: setters_def)

lemma setters_any_order:
  assumes v: "mset v = mset [0..<14]" and w: "mset w = mset [0..<14]"
  shows "run_setters (map ((!) (setters C)) v) c = Inr d \<longleftrightarrow> run_setters (map ((!) (setters C)) w) c = Inr d"
proof -
  have "set v = {0..<14}" using v mset_eq_setD by fastforce
  then have "set (map ((!) (setters C)) v) \<subseteq> set (setters C)"
    using length_setters [of C] by auto
  moreover have "mset (map ((!) (setters C)) v) = mset (map ((!) (setters C)) w)"
    by (simp add: v w)
  ultimately have "fold setter_step (map ((!) (setters C)) v) = fold setter_step (map ((!) (setters C)) w)"
    by (intro fold_multiset_equiv) (auto intro: pairwise_commuteD [OF setters_commute])
  then show ?thesis by (simp only: run_setters_fold)
qed

section \<open>A concrete command line\<close>

definition sample_cmd :: "(nat, rat) cmd_env" where
  "sample_cmd = \<lparr>ChainIDMain = ''coreum-mainnet-1'', ChainIDTest = ''coreum-testnet-1'', ChainIDDev = ''coreum-devnet-1'', DefaultKeyringBackend = ''os'',
     GetClientQueryContext = (\<lambda>C. res_bind (GetString C ''keyring-backend'') (\<lambda>b. if b = ''mars'' then Inl (Errorf ''unknown keyring backend'') else Inr 0)),
     NewIntFromString = (\<lambda>s. if s \<noteq> [] \<and> all_digits s then Some (int (nat_of_dec s)) else None),
     NewFactoryCLI = (\<lambda>C. Inr ()), cmd_services = sample_service 0, cmd_gas = (\<lambda>ctx. sample_gas)\<rparr>"

definition sample_args :: "string list \<Rightarrow> (string \<times> string) list \<Rightarrow> command" where
  "sample_args known given = \<lparr>flag_Lookup = (\<lambda>f. f \<in> set known),
     GetString = (\<lambda>f. Inr (case map_of given f of None \<Rightarrow> [] | Some s \<Rightarrow> s)),
     GetInt64 = (\<lambda>f. Inr (case map_of given f of None \<Rightarrow> 0 | Some s \<Rightarrow> int (nat_of_dec s))),
     GetInt = (\<lambda>f. Inr (case map_of given f of None \<Rightarrow> 0 | Some s \<Rightarrow> int (nat_of_dec s))),
     GetStringSlice = (\<lambda>f. Inr (case map_of given f of None \<Rightarrow> [] | Some s \<Rightarrow> Split (CHR '','') s))\<rparr>"

definition sample_start_args :: command where
  "sample_start_args = sample_args (flagTXChainID # map fst (StartCmd_flags ''os''))
     [(flagTXChainID, ''coreum-testnet-1''), (flagPrometheusURL, ''http://push''), (flagXRPLRecentScanIndexesBack, dec_of_nat 500)]"

lemmas sample_command_defs = sample_start_args_def sample_args_def sample_cmd_def StartCmd_flags_def
  addXRPLFlags_def addTXFlags_def addKeyringFlags_def addPrometheusFlags_def defaultHome_def flag_names

definition sample_start_config :: service_Config where
  "sample_start_config = (defaultTestnetCfg sample_cmd)\<lparr>svc_XRPLRecentScanIndexesBack := 500, svc_PrometheusURL := ''http://push''\<rparr>"

lemma sample_config_in_order: "readServicesConfig sample_cmd [0..<14] sample_start_args = Inr sample_start_config"
  by (simp add: readServicesConfig_def upt_rec setters_def setStringIfNotEmpty_def setStringInt64IfNotZero_def
      setDateIfNotEmpty_def sample_command_defs sample_start_config_def defaultTestnetCfg_def)

lemma sample_started: "start_config sample_cmd [0..<14] sample_start_args = Inr (sample_start_config, 0)"
  by (simp add: start_config_def sample_config_in_order)
    (simp add: sample_start_config_def sample_cmd_def sample_start_args_def sample_args_def flag_names)

section \<open>The configuration\<close>

text \<open>
  C27: The configuration does not depend on the order in which Go visits the map of setters. If
  one order of the fourteen setters gives a configuration, every order gives the same one; so an
  order ends in an error only when every order does.
\<close>

theorem config_independent_of_map_order:
  assumes "mset v = mset [0..<14]" and "mset w = mset [0..<14]"
  shows "readServicesConfig K v C = Inr cfg \<longleftrightarrow> readServicesConfig K w C = Inr cfg"
  unfolding readServicesConfig_def res_bind_Inr using setters_any_order [OF assms] by blast

theorem config_independent_of_map_order_witness:
  "readServicesConfig sample_cmd (rev [0..<14]) sample_start_args = Inr sample_start_config"
  using config_independent_of_map_order [of "[0..<14]" "rev [0..<14]" sample_cmd sample_start_args sample_start_config]
  by (simp add: sample_config_in_order)

lemma run_setters_keep:
  assumes "\<And>f c d. f \<in> set fs \<Longrightarrow> f c = Inr d \<Longrightarrow> P c \<Longrightarrow> P d"
  shows "run_setters fs c = Inr d \<Longrightarrow> P c \<Longrightarrow> P d"
  using assms by (induction fs arbitrary: c) (auto simp: res_bind_Inr)

lemma writes_keep:
  assumes "writes f u" and "f c = Inr d" and "P c" and "\<And>x c. P c \<Longrightarrow> P (u x c)"
  shows "P d"
  using assms by (auto simp: writes_def res_bind_Inr split: option.splits)

lemma default_skip:
  "(if b1 then Inr ((defaultTestnetCfg K)\<lparr>svc_TXChainID := i\<rparr>) else if b2 then Inr (defaultTestnetCfg K)
    else if b3 then Inr (defaultMainnnetCfg K) else Inl e) = Inr c \<Longrightarrow> svc_XRPLRecentScanSkipLastIndexes c = 20"
  by (auto simp: defaultTestnetCfg_def defaultMainnnetCfg_def split: if_splits)

lemma skip_setter_off:
  assumes "\<not> flag_Lookup C flagXRPLRecentScanSkipLastIndexes" and "f \<in> set (setters C)" and "f c = Inr d"
    and "svc_XRPLRecentScanSkipLastIndexes c = 20"
  shows "svc_XRPLRecentScanSkipLastIndexes d = 20"
proof -
  have "f = setStringInt64IfNotZero C flagXRPLRecentScanSkipLastIndexes (\<lambda>x. svc_XRPLRecentScanSkipLastIndexes_update (\<lambda>_. x)) \<or>
    (\<forall>c d. f c = Inr d \<longrightarrow> svc_XRPLRecentScanSkipLastIndexes c = 20 \<longrightarrow> svc_XRPLRecentScanSkipLastIndexes d = 20)"
    using assms(2) unfolding setters_def list.set
    by (auto elim!: writes_keep [OF writes_string] writes_keep [OF writes_int] writes_keep [OF writes_date])
  then show ?thesis using assms by (auto simp: setStringInt64IfNotZero_def)
qed

text \<open>
  The number of newest ledgers the recent scan leaves out cannot be set. \<open>readServicesConfig\<close>
  has a setter for its flag, but \<open>start\<close> does not register the flag: whatever the command line,
  the value is the default of 20, for every chain. A started relayer has a metrics URL.
\<close>

lemma start_cannot_set_skipped_ledgers:
  assumes "\<And>f. flag_Lookup C f \<Longrightarrow> f \<in> fst ` set (StartCmd_flags backend) \<union> {flagTXChainID, ''help''}" and "mset visit = mset [0..<14]"
    and "start_config K visit C = Inr (cfg, kr)"
  shows "svc_XRPLRecentScanSkipLastIndexes cfg = 20 \<and> svc_PrometheusURL cfg \<noteq> []"
proof -
  from assms(3) have "readServicesConfig K visit C = Inr cfg" and url: "svc_PrometheusURL cfg \<noteq> []"
    by (auto simp: start_config_def res_bind_Inr split: if_splits)
  then obtain c where c: "svc_XRPLRecentScanSkipLastIndexes c = 20" "run_setters (map ((!) (setters C)) visit) c = Inr cfg"
    by (auto simp: readServicesConfig_def res_bind_Inr dest: default_skip)
  have "flagXRPLRecentScanSkipLastIndexes \<notin> fst ` set (StartCmd_flags backend) \<union> {flagTXChainID, ''help''}"
    by (simp add: sample_command_defs)
  with assms(1) have off: "\<not> flag_Lookup C flagXRPLRecentScanSkipLastIndexes" by blast
  have "set visit = {0..<14}" using mset_eq_setD [OF assms(2)] by simp
  then have "set (map ((!) (setters C)) visit) \<subseteq> set (setters C)" using length_setters [of C] by auto
  with run_setters_keep [OF _ c(2), of "\<lambda>c. svc_XRPLRecentScanSkipLastIndexes c = 20"] skip_setter_off [OF off] c(1) url
  show ?thesis by blast
qed

section \<open>Deployments and tokens\<close>

lemma guard_Inr:
  "(if b then Inl e else m) = Inr d \<longleftrightarrow> \<not> b \<and> m = Inr d"
  "(case x of None \<Rightarrow> Inl e | Some y \<Rightarrow> f y) = Inr d \<longleftrightarrow> (\<exists>y. x = Some y \<and> f y = Inr d)"
  by (auto split: option.split)

lemma validate_addresses_iff: "validate_addresses S as = Inr () \<longleftrightarrow> (\<forall>a\<in>set as. \<exists>acc. AccAddressFromBech32 S a = Inr acc)"
  by (induction as) (auto simp: res_bind_Inr validateAccAddress_def)

text \<open>
  C36: What \<open>deploy-and-instantiate\<close> checks and what it does not. A deployment that passes has
  valid relayer and owner addresses and amounts with 0 < minimum <= maximum; the threshold is
  positive as typed, but only its low 32 bits reach the contract, so a positive multiple of
  4294967296 becomes zero.
\<close>

theorem deployment_checked:
  assumes "deploy_config S K C = Inr d" and "GetInt C flagTXContractThreshold = Inr t"
  shows "dep_TrustedAddresses d \<noteq> [] \<and> (\<forall>a\<in>set (dep_Owner d # dep_TrustedAddresses d). \<exists>acc. AccAddressFromBech32 S a = Inr acc) \<and>
    0 < dep_MinAmount d \<and> dep_MinAmount d \<le> dep_MaxAmount d \<and> 0 < t \<and> uint (dep_Threshold d) = t mod 2 ^ 32"
proof -
  from assms have "dep_Threshold d = word_of_int t" "0 < t" "0 < dep_MinAmount d" "dep_MinAmount d \<le> dep_MaxAmount d"
    "validate_addresses S (dep_TrustedAddresses d) = Inr ()" "validateAccAddress S (dep_Owner d) = Inr ()"
    "dep_TrustedAddresses d \<noteq> []"
    by (auto simp: deploy_config_def res_bind_Inr guard_Inr)
  then show ?thesis
    by (auto simp: validate_addresses_iff validateAccAddress_def res_bind_Inr uint_word_of_int)
qed

definition sample_deploy_args :: command where
  "sample_deploy_args = sample_args []
     [(flagTXContractTrustedAddresses, ''core1bob''), (flagTXContractOwnerAddress, ''core1bob''),
      (flagTXContractThreshold, dec_of_nat 4294967296), (flagTXContractMinAmount, dec_of_nat 5), (flagTXContractMaxAmount, dec_of_nat 7)]"

theorem deployment_checked_witness:
  "\<exists>d. deploy_config sample_sdk sample_cmd sample_deploy_args = Inr d \<and> uint (dep_Threshold d) = 0"
proof -
  obtain d where d: "deploy_config sample_sdk sample_cmd sample_deploy_args = Inr d"
    by (simp add: deploy_config_def sample_deploy_args_def sample_args_def sample_cmd_def flag_names validateAccAddress_def
        sample_sdk_def)
  have "GetInt sample_deploy_args flagTXContractThreshold = Inr 4294967296"
    by (simp add: sample_deploy_args_def sample_args_def flag_names)
  from deployment_checked [OF d this] d show ?thesis by simp
qed

lemma length_Split: "length (Split c s) = Suc (count_list s c)"
  by (induction s) (auto split: list.split)

lemma ParseUint_decimal_word: "ParseUint (dec_of_nat (unat w)) = Ok (w :: uint64)"
proof -
  have "ParseUint (dec_of_nat n) = Ok w" if "n = unat w" for n
    using ParseUint_dec_of_nat [of n] that unsigned_less [of w, where 'a = nat] by simp
  then show ?thesis by blast
qed

text \<open>
  A token flag is read back part by part: an issuer, a currency and a multiplier without
  slashes and a time stamp of 64 bits, joined by slashes, give the token of these parts; a flag
  with another number of slashes is refused.
\<close>

lemma token_flag_roundtrip:
  assumes "CHR ''/'' \<notin> set iss" "CHR ''/'' \<notin> set cur" "CHR ''/'' \<notin> set fac"
    and "count_list s (CHR ''/'') \<noteq> 3"
  shows "parse_xrpl_token (iss @ ''/'' @ cur @ ''/'' @ dec_of_nat (unat ts) @ ''/'' @ fac) =
    Ok \<lparr>tok_Currency = cur, tok_Issuer = iss, tok_ActivationDate = ts, tok_Multiplier = fac\<rparr> \<and>
    (\<exists>e. parse_xrpl_token s = Err e)"
proof
  have "CHR ''/'' \<notin> set (dec_of_nat (unat ts))"
    using all_digits_dec_of_nat [of "unat ts"] by (auto simp: all_digits_def is_digit_def)
  with assms show "parse_xrpl_token (iss @ ''/'' @ cur @ ''/'' @ dec_of_nat (unat ts) @ ''/'' @ fac) =
    Ok \<lparr>tok_Currency = cur, tok_Issuer = iss, tok_ActivationDate = ts, tok_Multiplier = fac\<rparr>"
    by (simp add: parse_xrpl_token_def Split_append_sep Split_no_sep ParseUint_decimal_word)
  have "length (Split (CHR ''/'') s) \<noteq> 4" using assms(4) by (simp add: length_Split)
  then show "\<exists>e. parse_xrpl_token s = Err e"
    by (auto simp: parse_xrpl_token_def split: list.split)
qed

end
