(* ===== verification/Root_Command.thy ===== *)
theory Root_Command
  imports Command_Properties Auditor_Properties
begin

text \<open>
  The root command and the entry point (\<open>RootCmd\<close>, \<open>VersionCmd\<close>, \<open>main\<close> in \<open>relayer/cmd/main.go\<close>). A command is a record of
  its name, its flags, the number of arguments it wants and its \<open>RunE\<close>, whose result is \<open>None\<close> when it does not return. Cobra,
  which parses the arguments and picks the command, is the argument \<open>Execute\<close>.
\<close>

section \<open>Commands\<close>

text \<open>What a run of the program is given: the environments of the commands, the numbers of their calls and the outcomes
  of the running services.\<close>

record ('v, 'n, 'k, 'd) run_env =
  re_ripple :: "('v, 'n) ripple"
  re_sdk :: sdk
  re_cmd :: "('k, 'd) cmd_env"
  re_audit :: audit_env
  re_visit :: "nat list"
  re_call :: nat
  re_later_call :: nat
  re_ctx :: "nat \<Rightarrow> go_error option"
  re_restarts :: "nat \<Rightarrow> nat"
  re_services :: "nat \<Rightarrow> 'k Services \<Rightarrow> go_error option"
  re_spending :: "'k client_ctx \<Rightarrow> ChainClientConfig \<Rightarrow> string \<Rightarrow> instant \<Rightarrow> tx_response list go"
  re_xrpl_txs :: "rpc_config \<Rightarrow> string list \<Rightarrow> go_error + (string \<rightharpoonup> ('v, 'n) Transaction)"
  GenerateOrBroadcastTxWithFactory :: "command \<Rightarrow> unsigned_tx \<Rightarrow> go_error option"

record cobra_command =
  Use :: string
  PersistentFlags :: flag_set
  ExactArgs :: "nat option"
  RunE :: "command \<Rightarrow> string list \<Rightarrow> unit go option"

text \<open>The error a command returns; values are logged.\<close>

definition returned :: "'a go \<Rightarrow> unit go" where
  "returned r = go_bind r (\<lambda>_. Ok ())"

definition nil_or :: "go_error option \<Rightarrow> unit go" where
  "nil_or e = (case e of None \<Rightarrow> Ok () | Some e \<Rightarrow> Err e)"

definition broadcast :: "('v, 'n, 'k, 'd) run_env \<Rightarrow> command \<Rightarrow> unsigned_tx go \<Rightarrow> unit go" where
  "broadcast E C r = go_bind r (\<lambda>t. nil_or (GenerateOrBroadcastTxWithFactory E C t))"

definition simple_cmd :: "string \<Rightarrow> flag_set \<Rightarrow> (command \<Rightarrow> unit go option) \<Rightarrow> cobra_command" where
  "simple_cmd use fs f = \<lparr>Use = use, PersistentFlags = fs, ExactArgs = None, RunE = (\<lambda>C _. f C)\<rparr>"

definition VersionCmd :: cobra_command where
  "VersionCmd = simple_cmd ''version'' [] (\<lambda>C. Some (Ok ()))"

definition root_StartCmd :: "('v, 'n, 'k, 'd) run_env \<Rightarrow> cobra_command" where
  "root_StartCmd E = simple_cmd ''start'' (StartCmd_flags (DefaultKeyringBackend (re_cmd E)))
     (\<lambda>C. map_option nil_or (StartCmd (re_ripple E) (re_sdk E) (re_cmd E) (re_visit E) C (re_ctx E) (re_restarts E) (re_services E)))"

definition root_DeployAndInstantiateCmd :: "('v, 'n, 'k, 'd) run_env \<Rightarrow> cobra_command" where
  "root_DeployAndInstantiateCmd E = simple_cmd ''deploy-and-instantiate'' (DeployAndInstantiateCmd_flags (DefaultKeyringBackend (re_cmd E)))
     (\<lambda>C. Some (returned (go_of (DeployAndInstantiateCmd (re_sdk E) (re_cmd E) (re_visit E) C (re_call E)))))"

definition root_DeployCmd :: "('v, 'n, 'k, 'd) run_env \<Rightarrow> cobra_command" where
  "root_DeployCmd E = simple_cmd ''deploy'' (DeployCmd_flags (DefaultKeyringBackend (re_cmd E)))
     (\<lambda>C. Some (returned (go_of (DeployCmd (re_sdk E) (re_cmd E) (re_visit E) C (re_call E)))))"

definition root_GetContractConfigCmd :: "('v, 'n, 'k, 'd) run_env \<Rightarrow> cobra_command" where
  "root_GetContractConfigCmd E = simple_cmd ''get-contract-config'' addTXFlags
     (\<lambda>C. Some (returned (go_of (GetContractConfigCmd (re_sdk E) (re_cmd E) (re_visit E) C (re_call E)))))"

definition root_GetPendingUnapprovedTransactionsCmd :: "('v, 'n, 'k, 'd) run_env \<Rightarrow> cobra_command" where
  "root_GetPendingUnapprovedTransactionsCmd E = simple_cmd ''get-pending-unapproved-transactions'' addTXFlags
     (\<lambda>C. map_option (returned \<circ> go_of) (GetPendingUnapprovedTransactionsCmd (re_sdk E) (re_cmd E) (re_visit E) C (re_call E)))"

definition root_GetPendingApprovedTransactionsCmd :: "('v, 'n, 'k, 'd) run_env \<Rightarrow> cobra_command" where
  "root_GetPendingApprovedTransactionsCmd E = simple_cmd ''get-pending-approved-transactions'' addTXFlags
     (\<lambda>C. map_option (returned \<circ> go_of) (GetPendingApprovedTransactionsCmd (re_sdk E) (re_cmd E) (re_visit E) C (re_call E)))"

definition root_BuildExecutePendingApprovedTransactionsCmd :: "('v, 'n, 'k, 'd) run_env \<Rightarrow> cobra_command" where
  "root_BuildExecutePendingApprovedTransactionsCmd E =
     simple_cmd ''build-execute-pending-approved-transaction'' BuildExecutePendingApprovedTransactionsCmd_flags
     (\<lambda>C. map_option (broadcast E C) (BuildExecutePendingApprovedTransactionsCmd (re_sdk E) (re_cmd E) (re_visit E) C
        (re_call E) (re_later_call E)))"

definition root_BuildMigrateContractTransactionCmd :: "('v, 'n, 'k, 'd) run_env \<Rightarrow> cobra_command" where
  "root_BuildMigrateContractTransactionCmd E =
     \<lparr>Use = ''build-migrate-contract-transaction [codeID]'', PersistentFlags = addTXFlags, ExactArgs = Some 1,
      RunE = (\<lambda>C args. Some (case args of
        arg # _ \<Rightarrow> broadcast E C (BuildMigrateContractTransactionCmd (re_sdk E) (re_cmd E) (re_visit E) C arg (re_call E))
      | [] \<Rightarrow> go_bind (go_of (build_command (re_sdk E) (re_cmd E) (re_visit E) C)) (\<lambda>_. Panic ''index out of range'')))\<rparr>"

definition root_BuildUpdateTrustedAddressesTransactionCmd :: "('v, 'n, 'k, 'd) run_env \<Rightarrow> cobra_command" where
  "root_BuildUpdateTrustedAddressesTransactionCmd E =
     simple_cmd ''build-update-trusted-addresses'' BuildUpdateTrustedAddressesTransactionCmd_flags
     (\<lambda>C. Some (broadcast E C (BuildUpdateTrustedAddressesTransactionCmd (re_sdk E) (re_cmd E) (re_visit E) C (re_call E))))"

definition root_BuildAddXRPLTokensTransactionCmd :: "('v, 'n, 'k, 'd) run_env \<Rightarrow> cobra_command" where
  "root_BuildAddXRPLTokensTransactionCmd E = simple_cmd ''build-add-xrpl-tokens'' BuildAddXRPLTokensTransactionCmd_flags
     (\<lambda>C. Some (broadcast E C (BuildAddXRPLTokensTransactionCmd (re_sdk E) (re_cmd E) (re_visit E) C (re_call E))))"

definition root_AuditCmd :: "('v, 'n, 'k, 'd) run_env \<Rightarrow> cobra_command" where
  "root_AuditCmd E = simple_cmd ''audit'' AuditCmd_flags
     (\<lambda>C. Some (returned (AuditCmd (re_ripple E) (re_sdk E) (re_audit E) (re_cmd E) (re_visit E) C (re_call E)
        (re_spending E) (re_xrpl_txs E))))"

text \<open>The commands of the root; \<open>keys\<close>, the command of the SDK that is added last, is left out.\<close>

definition root_commands :: "('v, 'n, 'k, 'd) run_env \<Rightarrow> cobra_command list" where
  "root_commands E = [VersionCmd, root_StartCmd E, root_DeployAndInstantiateCmd E, root_DeployCmd E, root_GetContractConfigCmd E,
     root_GetPendingUnapprovedTransactionsCmd E, root_GetPendingApprovedTransactionsCmd E,
     root_BuildExecutePendingApprovedTransactionsCmd E, root_BuildMigrateContractTransactionCmd E,
     root_BuildUpdateTrustedAddressesTransactionCmd E, root_BuildAddXRPLTokensTransactionCmd E, root_AuditCmd E]"

definition root_flags :: "('v, 'n, 'k, 'd) run_env \<Rightarrow> flag_set" where
  "root_flags E = [(flagTXChainID, StringValue (ChainIDMain (re_cmd E)))]"

definition RootCmd :: "('v, 'n, 'k, 'd) run_env \<Rightarrow> go_error + string \<Rightarrow> go_error + cobra_command list \<times> flag_set" where
  "RootCmd E parsed = res_bind (preProcessFlags (re_cmd E) parsed) (\<lambda>_. Inr (root_commands E, root_flags E))"

text \<open>The function \<open>main\<close> runs: the error it returns, or a panic.\<close>

definition main_tool ::
  "('v, 'n, 'k, 'd) run_env \<Rightarrow> go_error + string \<Rightarrow> (cobra_command list \<times> flag_set \<Rightarrow> unit go option) \<Rightarrow> unit go option" where
  "main_tool E parsed Execute =
     (case RootCmd E parsed of
        Inl e \<Rightarrow> Some (Err e)
      | Inr rootCmd \<Rightarrow>
          map_option (\<lambda>r. case r of Err e \<Rightarrow> if Is e ContextCanceled then Ok () else Err e | _ \<Rightarrow> r) (Execute rootCmd))"

section \<open>Flags of a parsed command line\<close>









section \<open>Typing of the commands\<close>
























section \<open>A concrete root command\<close>

definition sample_run_env :: "(rat, (account \<times> rat balance list) list, nat, rat) run_env" where
  "sample_run_env = \<lparr>re_ripple = sample_ripple, re_sdk = sample_sdk, re_cmd = sample_cmd,
     re_audit = sample_audit, re_visit = [0..<14], re_call = 0, re_later_call = 0,
     re_ctx = (\<lambda>i. None), re_restarts = (\<lambda>i. 0), re_services = (\<lambda>i s. Some (Wrap ''relayer stopped'' ContextCanceled)),
     re_spending = (\<lambda>ctx cfg a t. Ok []), re_xrpl_txs = (\<lambda>cfg hs. Inr (\<lambda>h. None)),
     GenerateOrBroadcastTxWithFactory = (\<lambda>C t. None)\<rparr>"





section \<open>How the program ends\<close>

text \<open>
  C38: A canceled relayer ends with success. Let the program run \<open>start\<close> on a command line with a configuration, and
  its services restart any number of times on configuration changes. If the context is canceled then, be it seen by the loop
  itself, by the construction of the next services or by the running tasks, and however often the error is wrapped on
  the way, the function that \<open>main\<close> runs returns nil.
\<close>

theorem canceled_relayer_succeeds:
  assumes "preProcessFlags (re_cmd E) parsed = Inr net"
    and "Execute (root_commands E, root_flags E) = RunE (root_StartCmd E) C []"
    and "start_config (re_cmd E) (re_visit E) C = Inr (cfg, kr)"
    and "mk = (\<lambda>i. NewServices (re_ripple E) (re_sdk E) (cmd_services (re_cmd E)) cfg kr True (re_restarts E i))"
    and "\<And>i. i < k \<Longrightarrow> re_ctx E i = None \<and> (\<exists>s. mk i = Inr s \<and> is_error (re_services E i s) ErrConfigChanged)"
    and "is_error (re_ctx E k) ContextCanceled \<or>
      re_ctx E k = None \<and> (\<exists>e. mk k = Inl e \<and> Is e ContextCanceled) \<or>
      re_ctx E k = None \<and> (\<exists>s. mk k = Inr s \<and> \<not> is_error (re_services E k s) ErrConfigChanged \<and>
        is_error (re_services E k s) ContextCanceled)"
  shows "main_tool E parsed Execute = Some (Ok ())"
proof -
  have "restart_loop (re_ctx E) mk (re_services E) 0 = restart_loop (re_ctx E) mk (re_services E) k"
    by (rule restart_loop_skip [OF assms(5)])
  moreover have "\<exists>r. restart_loop (re_ctx E) mk (re_services E) k = Some r \<and> (case r of None \<Rightarrow> True | Some e \<Rightarrow> Is e ContextCanceled)"
    using assms(6) by (subst restart_loop.simps) (auto simp: Let_def is_error_def split: option.splits)
  ultimately obtain r where r: "restart_loop (re_ctx E) mk (re_services E) 0 = Some r"
    "case r of None \<Rightarrow> True | Some e \<Rightarrow> Is e ContextCanceled" by auto
  have "RunE (root_StartCmd E) C [] = Some (nil_or r)"
    using r(1) by (simp add: root_StartCmd_def simple_cmd_def StartCmd_def assms(3) RunExecutorWithAutoRestart_def assms(4))
  with assms(1,2) r(2) show ?thesis
    by (auto simp: main_tool_def RootCmd_def nil_or_def split: option.splits)
qed

theorem canceled_relayer_succeeds_witness:
  "main_tool (sample_run_env\<lparr>re_ctx := \<lambda>i. Some (Wrap ''stopped'' ContextCanceled)\<rparr>) (Inr ''coreum-testnet-1'')
     (\<lambda>root. RunE (root_StartCmd (sample_run_env\<lparr>re_ctx := \<lambda>i. Some (Wrap ''stopped'' ContextCanceled)\<rparr>)) sample_start_args []) = Some (Ok ())"
proof (rule canceled_relayer_succeeds [where k = 0 and C = sample_start_args, OF _ refl _ refl])
  show "start_config (re_cmd (sample_run_env\<lparr>re_ctx := \<lambda>i. Some (Wrap ''stopped'' ContextCanceled)\<rparr>))
      (re_visit (sample_run_env\<lparr>re_ctx := \<lambda>i. Some (Wrap ''stopped'' ContextCanceled)\<rparr>)) sample_start_args = Inr (sample_start_config, 0)"
    using sample_started by (simp add: sample_run_env_def)
qed (simp_all add: sample_run_env_def preProcessFlags_def sample_cmd_def sample_service_def is_error_def)

end
