(* ===== verification/Go_Json.thy ===== *)
theory Go_Json
  imports Go_Std
begin

text \<open>
  JSON as \<open>encoding/json\<close> of the Go standard library writes and reads it: values, the compact text of \<open>Marshal\<close> with its
  escapes, a parser with white space and all escapes, and the round trip. A text is a list of bytes of valid UTF-8
  in which the two separators U+2028 and U+2029, which \<open>Marshal\<close> also escapes, do not occur. Numbers are integers, as in
  all values the program exchanges: the parser refuses a fraction or an exponent.
\<close>

section \<open>Values and their text\<close>

datatype json =
    JNull
  | JBool bool
  | JNum int
  | JStr string
  | JArr "json list"
  | JObj "(string \<times> json) list"

text \<open>The escapes: short ones, and \<open>u00\<close> with two hexadecimal digits for other control characters, \<open><\<close>, \<open>>\<close> and \<open>&\<close>.\<close>

definition escape_char :: "char \<Rightarrow> string" where
  "escape_char c =
     (if c = CHR 0x22 then [CHR 0x5C, CHR 0x22]
      else if c = CHR 0x5C then [CHR 0x5C, CHR 0x5C]
      else if c = CHR 0x08 then [CHR 0x5C, CHR ''b'']
      else if c = CHR 0x0C then [CHR 0x5C, CHR ''f'']
      else if c = CHR 0x0A then [CHR 0x5C, CHR ''n'']
      else if c = CHR 0x0D then [CHR 0x5C, CHR ''r'']
      else if c = CHR 0x09 then [CHR 0x5C, CHR ''t'']
      else if of_char c < (32 :: nat) \<or> c \<in> {CHR ''<'', CHR ''>'', CHR ''&''} then
        [CHR 0x5C, CHR ''u'', CHR ''0'', CHR ''0'', lower_char (hex_char (of_char c div 16)), lower_char (hex_char (of_char c mod 16))]
      else [c])"

definition quote :: "string \<Rightarrow> string" where
  "quote s = CHR 0x22 # concat (map escape_char s) @ [CHR 0x22]"

fun commas :: "string list \<Rightarrow> string" where
  "commas [] = []"
| "commas [s] = s"
| "commas (s # t # ts) = s @ CHR '','' # commas (t # ts)"

definition json_int :: "int \<Rightarrow> string" where
  "json_int i = (if i < 0 then CHR ''-'' # dec_of_nat (nat (- i)) else dec_of_nat (nat i))"

fun json_Marshal :: "json \<Rightarrow> string" where
  "json_Marshal JNull = ''null''"
| "json_Marshal (JBool b) = (if b then ''true'' else ''false'')"
| "json_Marshal (JNum i) = json_int i"
| "json_Marshal (JStr s) = quote s"
| "json_Marshal (JArr xs) = CHR ''['' # commas (map json_Marshal xs) @ '']''"
| "json_Marshal (JObj fs) = CHR ''{'' # commas (map (\<lambda>(k, v). quote k @ CHR '':'' # json_Marshal v) fs) @ ''}''"

section \<open>Reading\<close>

definition is_space :: "char \<Rightarrow> bool" where
  "is_space c \<longleftrightarrow> c \<in> {CHR '' '', CHR 0x09, CHR 0x0A, CHR 0x0D}"

definition skip_ws :: "string \<Rightarrow> string" where
  "skip_ws s = dropWhile is_space s"

text \<open>The bytes of a code point.\<close>

definition utf8 :: "nat \<Rightarrow> string" where
  "utf8 n =
     (if n < 0x80 then [char_of n]
      else if n < 0x800 then [char_of (0xC0 + n div 64), char_of (0x80 + n mod 64)]
      else if n < 0x10000 then
        [char_of (0xE0 + n div 4096), char_of (0x80 + n div 64 mod 64), char_of (0x80 + n mod 64)]
      else [char_of (0xF0 + n div 262144), char_of (0x80 + n div 4096 mod 64),
        char_of (0x80 + n div 64 mod 64), char_of (0x80 + n mod 64)])"

fun hex4 :: "string \<Rightarrow> (nat \<times> string) option" where
  "hex4 (a # b # c # d # r) =
     (case (hex_digit a, hex_digit b, hex_digit c, hex_digit d) of
        (Some x, Some y, Some z, Some w) \<Rightarrow> Some (((x * 16 + y) * 16 + z) * 16 + w, r)
      | _ \<Rightarrow> None)"
| "hex4 _ = None"

text \<open>The code point of an escape with four digits: a pair of surrogates is one code point, a lone one is replaced.\<close>

definition unicode_escape :: "string \<Rightarrow> (string \<times> string) option" where
  "unicode_escape s =
     (case hex4 s of
        None \<Rightarrow> None
      | Some (n, r) \<Rightarrow>
          if n < 0xD800 \<or> 0xE000 \<le> n then Some (utf8 n, r)
          else
            (case r of
               x # y # r' \<Rightarrow>
                 (case (if n < 0xDC00 \<and> x = CHR 0x5C \<and> y = CHR ''u'' then hex4 r' else None) of
                    Some (m, r'') \<Rightarrow>
                      if 0xDC00 \<le> m \<and> m < 0xE000 then Some (utf8 (0x10000 + (n - 0xD800) * 1024 + (m - 0xDC00)), r'')
                      else Some (utf8 0xFFFD, r)
                  | None \<Rightarrow> Some (utf8 0xFFFD, r))
             | _ \<Rightarrow> Some (utf8 0xFFFD, r)))"

definition short_escape :: "char \<Rightarrow> char option" where
  "short_escape c =
     map_of [(CHR 0x22, CHR 0x22), (CHR 0x5C, CHR 0x5C), (CHR ''/'', CHR ''/''), (CHR ''b'', CHR 0x08), (CHR ''f'', CHR 0x0C),
       (CHR ''n'', CHR 0x0A), (CHR ''r'', CHR 0x0D), (CHR ''t'', CHR 0x09)] c"

text \<open>The rest of a string literal after its opening quote; at most \<open>n\<close> characters.\<close>

fun unquote :: "nat \<Rightarrow> string \<Rightarrow> (string \<times> string) option" where
  "unquote (Suc n) (c # r) =
     (if c = CHR 0x22 then Some ([], r)
      else if of_char c < (32 :: nat) then None
      else if c \<noteq> CHR 0x5C then map_option (\<lambda>(s, t). (c # s, t)) (unquote n r)
      else
        (case r of
           [] \<Rightarrow> None
         | e # r' \<Rightarrow>
             (case (if e = CHR ''u'' then unicode_escape r' else map_option (\<lambda>x. ([x], r')) (short_escape e)) of
                None \<Rightarrow> None
              | Some (x, t) \<Rightarrow> map_option (\<lambda>(s, t). (x @ s, t)) (unquote n t))))"
| "unquote _ _ = None"

text \<open>A number: a sign, digits without leading zero, and no fraction or exponent after them.\<close>

definition json_digits :: "string \<Rightarrow> (nat \<times> string) option" where
  "json_digits s =
     (let ds = takeWhile is_digit s; r = dropWhile is_digit s in
      if ds = [] \<or> (hd ds = CHR ''0'' \<and> tl ds \<noteq> []) \<or> (r \<noteq> [] \<and> hd r \<in> {CHR ''.'', CHR ''e'', CHR ''E''}) then None
      else Some (nat_of_dec ds, r))"

definition json_number :: "string \<Rightarrow> (int \<times> string) option" where
  "json_number s =
     (case s of
        [] \<Rightarrow> None
      | c # r \<Rightarrow> if c = CHR ''-'' then map_option (\<lambda>(n, r). (- int n, r)) (json_digits r)
                else map_option (\<lambda>(n, r). (int n, r)) (json_digits s))"

definition literal :: "string \<Rightarrow> json \<Rightarrow> string \<Rightarrow> (json \<times> string) option" where
  "literal w j s = (if prefix w s then Some (j, drop (length w) s) else None)"

text \<open>The recursive descent; the first argument bounds its depth, and the length of the text is enough.\<close>

fun json_value :: "nat \<Rightarrow> string \<Rightarrow> (json \<times> string) option"
  and json_elems :: "nat \<Rightarrow> string \<Rightarrow> (json list \<times> string) option"
  and json_members :: "nat \<Rightarrow> string \<Rightarrow> ((string \<times> json) list \<times> string) option" where
  "json_value 0 s = None"
| "json_value (Suc n) s =
     (case skip_ws s of
        [] \<Rightarrow> None
      | c # r \<Rightarrow>
          if c = CHR ''n'' then literal ''null'' JNull (c # r)
          else if c = CHR ''t'' then literal ''true'' (JBool True) (c # r)
          else if c = CHR ''f'' then literal ''false'' (JBool False) (c # r)
          else if c = CHR 0x22 then map_option (\<lambda>(s, r). (JStr s, r)) (unquote (length r) r)
          else if c = CHR ''['' then
            (if prefix '']'' (skip_ws r) then Some (JArr [], tl (skip_ws r))
             else map_option (\<lambda>(xs, r). (JArr xs, r)) (json_elems n r))
          else if c = CHR ''{'' then
            (if prefix ''}'' (skip_ws r) then Some (JObj [], tl (skip_ws r))
             else map_option (\<lambda>(fs, r). (JObj fs, r)) (json_members n r))
          else map_option (\<lambda>(i, r). (JNum i, r)) (json_number (c # r)))"
| "json_elems 0 s = None"
| "json_elems (Suc n) s =
     (case json_value n s of
        None \<Rightarrow> None
      | Some (v, r) \<Rightarrow>
          (case skip_ws r of
             [] \<Rightarrow> None
           | c # r' \<Rightarrow>
               if c = CHR '','' then map_option (\<lambda>(vs, r). (v # vs, r)) (json_elems n r')
               else if c = CHR '']'' then Some ([v], r')
               else None))"
| "json_members 0 s = None"
| "json_members (Suc n) s =
     (case skip_ws s of
        [] \<Rightarrow> None
      | c # r \<Rightarrow>
          (case (if c = CHR 0x22 then unquote (length r) r else None) of
             None \<Rightarrow> None
           | Some (k, r) \<Rightarrow>
               (case skip_ws r of
                  [] \<Rightarrow> None
                | c # r \<Rightarrow>
                    (case (if c = CHR '':'' then json_value n r else None) of
                       None \<Rightarrow> None
                     | Some (v, r) \<Rightarrow>
                         (case skip_ws r of
                            [] \<Rightarrow> None
                          | c # r' \<Rightarrow>
                              if c = CHR '','' then map_option (\<lambda>(fs, r). ((k, v) # fs, r)) (json_members n r')
                              else if c = CHR ''}'' then Some ([(k, v)], r')
                              else None)))))"

definition json_Unmarshal :: "string \<Rightarrow> json option" where
  "json_Unmarshal s =
     (case json_value (Suc (length s)) s of
        None \<Rightarrow> None
      | Some (j, r) \<Rightarrow> if skip_ws r = [] then Some j else None)"

section \<open>The round trip\<close>

lemma hex_digit_lower [simp]:
  assumes "d < 16"
  shows "hex_digit (lower_char (hex_char d)) = Some d"
proof -
  have "list_all (\<lambda>d. hex_digit (lower_char (hex_char d)) = Some d) [0..<16]" by code_simp
  with assms show ?thesis by (simp add: list_all_iff)
qed

lemma unquote_short:
  assumes "escape_char c = [CHR 0x5C, e]" and "short_escape e = Some c"
  shows "unquote (Suc n) (escape_char c @ t) = map_option (\<lambda>(s, t). (c # s, t)) (unquote n t)"
proof -
  have "e \<noteq> CHR ''u''" using assms(2) by (auto simp: short_escape_def)
  with assms show ?thesis by simp
qed

lemma unquote_code:
  assumes "escape_char c = [CHR 0x5C, CHR ''u'', CHR ''0'', CHR ''0'', lower_char (hex_char (of_char c div 16)),
        lower_char (hex_char (of_char c mod 16))]" and "of_char c < (128 :: nat)"
  shows "unquote (Suc n) (escape_char c @ t) = map_option (\<lambda>(s, t). (c # s, t)) (unquote n t)"
proof -
  have "(of_char c :: nat) div 16 < 16" "(of_char c :: nat) mod 16 < 16"
    using assms(2) by simp_all
  then have "hex4 ([CHR ''0'', CHR ''0'', lower_char (hex_char (of_char c div 16)), lower_char (hex_char (of_char c mod 16))] @ t) =
    Some (of_char c, t)"
    by (simp add: hex_digit_def [of "CHR ''0''"] is_digit_def)
  then have "unicode_escape ([CHR ''0'', CHR ''0'', lower_char (hex_char (of_char c div 16)),
      lower_char (hex_char (of_char c mod 16))] @ t) = Some ([c], t)"
    using assms(2) unfolding unicode_escape_def by (simp add: utf8_def)
  with assms(1) show ?thesis by simp
qed

lemma unquote_escape:
  "unquote (Suc n) (escape_char c @ t) = map_option (\<lambda>(s, t). (c # s, t)) (unquote n t)"
proof (cases "c \<in> {CHR 0x22, CHR 0x5C, CHR 0x08, CHR 0x0C, CHR 0x0A, CHR 0x0D, CHR 0x09}")
  case True
  then have "\<exists>e. escape_char c = [CHR 0x5C, e] \<and> short_escape e = Some c"
    by (auto simp: escape_char_def short_escape_def)
  then show ?thesis using unquote_short by blast
next
  case False
  show ?thesis
  proof (cases "of_char c < (32 :: nat) \<or> c \<in> {CHR ''<'', CHR ''>'', CHR ''&''}")
    case True
    then have "of_char c < (128 :: nat)" by auto
    with False True show ?thesis by (intro unquote_code) (simp_all add: escape_char_def)
  next
    case plain: False
    with False show ?thesis by (simp add: escape_char_def)
  qed
qed

lemma escape_char_not_Nil [simp]: "escape_char c \<noteq> []"
  by (simp add: escape_char_def)

lemma unquote_quote:
  "length s < n \<Longrightarrow> unquote n (concat (map escape_char s) @ CHR 0x22 # t) = Some (s, t)"
proof (induction s arbitrary: n)
  case Nil
  then show ?case by (cases n) simp_all
next
  case (Cons c s)
  then obtain m where "n = Suc m" "length s < m" by (cases n) auto
  with Cons.IH show ?case by (simp add: unquote_escape del: unquote.simps)
qed

lemma length_escapes: "length s \<le> length (concat (map escape_char s))"
proof (induction s)
  case (Cons c s)
  then show ?case by (cases "escape_char c") simp_all
qed simp

lemma unquote_quoted: "length (concat (map escape_char s)) < n \<Longrightarrow> unquote n (concat (map escape_char s) @ CHR 0x22 # t) = Some (s, t)"
  by (rule unquote_quote) (use length_escapes [of s] in simp)

text \<open>What may follow a value.\<close>

definition ends :: "string \<Rightarrow> bool" where
  "ends s \<longleftrightarrow> s = [] \<or> hd s \<in> {CHR '','', CHR '']'', CHR ''}''}"

lemma ends_Cons [simp]: "ends (c # s) \<longleftrightarrow> c \<in> {CHR '','', CHR '']'', CHR ''}''}"
  by (simp add: ends_def)

lemma skip_ws_Cons [simp]: "\<not> is_space c \<Longrightarrow> skip_ws (c # s) = c # s"
  by (simp add: skip_ws_def)

lemma skip_ws_Nil [simp]: "skip_ws [] = []"
  by (simp add: skip_ws_def)

lemma no_space [simp]: "\<not> is_space (CHR '','')" "\<not> is_space (CHR '']'')" "\<not> is_space (CHR ''}'')" "\<not> is_space (CHR '':'')"
  "\<not> is_space (CHR 0x22)" "\<not> is_space (CHR ''['')" "\<not> is_space (CHR ''{'')" "\<not> is_space (CHR ''n'')" "\<not> is_space (CHR ''t'')"
  "\<not> is_space (CHR ''f'')" "\<not> is_space (CHR ''-'')"
  by (simp_all add: is_space_def)

lemma dec_no_leading_zero: "hd (dec_of_nat n) = CHR ''0'' \<Longrightarrow> n = 0"
proof (induction n rule: dec_of_nat.induct)
  case (1 n)
  show ?case
  proof (cases "n < 10")
    case True
    then have "n \<in> set [0..<10]" by simp
    with 1(2) show ?thesis
      by (subst (asm) dec_of_nat.simps) (auto simp: upt_rec digit_char_def char_of_def bit_iff_odd)
  next
    case False
    then have "hd (dec_of_nat (n div 10)) = CHR ''0''" using 1(2) by (subst (asm) dec_of_nat.simps) (simp add: hd_append)
    with 1(1) [OF False] False show ?thesis by simp
  qed
qed

lemma json_digits_dec:
  assumes "ends t"
  shows "json_digits (dec_of_nat n @ t) = Some (n, t)"
proof -
  have tw: "takeWhile is_digit (dec_of_nat n @ t) = dec_of_nat n" "dropWhile is_digit (dec_of_nat n @ t) = t"
    using all_digits_dec_of_nat [of n] assms
    by (cases t; auto simp: all_digits_def takeWhile_append dropWhile_append is_digit_def)+
  have "\<not> (hd (dec_of_nat n) = CHR ''0'' \<and> tl (dec_of_nat n) \<noteq> [])"
    using dec_no_leading_zero [of n] dec_of_nat.simps [of 0] by auto
  then show ?thesis using assms by (auto simp: json_digits_def Let_def tw ends_def)
qed

lemma hd_dec: "\<exists>c r. dec_of_nat n = c # r \<and> is_digit c"
  using all_digits_dec_of_nat [of n] by (cases "dec_of_nat n") (auto simp: all_digits_def)

lemma json_number_int: "ends t \<Longrightarrow> json_number (json_int i @ t) = Some (i, t)"
  using json_digits_dec [of t "nat i"] json_digits_dec [of t "nat (- i)"] hd_dec [of "nat i"]
  by (auto simp: json_number_def json_int_def is_digit_def)

section \<open>Whole values\<close>

text \<open>The parser at the text of a value, whatever may follow.\<close>

definition reads_back :: "json \<Rightarrow> bool" where
  "reads_back j \<longleftrightarrow> (\<forall>n t. ends t \<longrightarrow> length (json_Marshal j) \<le> n \<longrightarrow> json_value n (json_Marshal j @ t) = Some (j, t))"

lemma reads_backD: "reads_back j \<Longrightarrow> ends t \<Longrightarrow> length (json_Marshal j) \<le> n \<Longrightarrow> json_value n (json_Marshal j @ t) = Some (j, t)"
  by (simp add: reads_back_def)

lemma first_char: "\<exists>c r. json_Marshal j = c # r \<and> \<not> is_space c \<and> c \<noteq> CHR '']''"
  using hd_dec by (cases j) (fastforce simp: json_int_def quote_def is_space_def is_digit_def)+

lemma reads_backI:
  assumes "\<And>m t. ends t \<Longrightarrow> length (json_Marshal j) \<le> Suc m \<Longrightarrow> json_value (Suc m) (json_Marshal j @ t) = Some (j, t)"
  shows "reads_back j"
  unfolding reads_back_def
proof (intro allI impI)
  fix n t
  assume "ends t" "length (json_Marshal j) \<le> n"
  with assms first_char [of j] show "json_value n (json_Marshal j @ t) = Some (j, t)" by (cases n) auto
qed

lemma not_closing: "prefix '']'' (skip_ws (json_Marshal j @ t)) = False"
  using first_char [of j] by auto

lemma commas_Cons: "xs \<noteq> [] \<Longrightarrow> commas (x # xs) = x @ CHR '','' # commas xs"
  by (cases xs) simp_all

lemma elems_read_back:
  "\<forall>x \<in> set xs. reads_back x \<Longrightarrow> xs \<noteq> [] \<Longrightarrow> length (commas (map json_Marshal xs)) < n \<Longrightarrow>
    json_elems n (commas (map json_Marshal xs) @ CHR '']'' # t) = Some (xs, t)"
proof (induction xs arbitrary: n)
  case (Cons x xs)
  from Cons.prems(3) obtain m where n: "n = Suc m" by (cases n) auto
  show ?case
  proof (cases "xs = []")
    case True
    with Cons.prems n show ?thesis by (simp add: reads_backD)
  next
    case False
    with Cons n show ?thesis by (simp add: commas_Cons reads_backD)
  qed
qed simp

lemma members_read_back:
  "\<forall>(k, v) \<in> set fs. reads_back v \<Longrightarrow> fs \<noteq> [] \<Longrightarrow>
    length (commas (map (\<lambda>(k, v). quote k @ CHR '':'' # json_Marshal v) fs)) < n \<Longrightarrow>
    json_members n (commas (map (\<lambda>(k, v). quote k @ CHR '':'' # json_Marshal v) fs) @ CHR ''}'' # t) = Some (fs, t)"
proof (induction fs arbitrary: n)
  case (Cons f fs)
  obtain k v where f: "f = (k, v)" by (cases f)
  from Cons.prems(3) obtain m where n: "n = Suc m" by (cases n) auto
  show ?case
  proof (cases "fs = []")
    case True
    with Cons.prems n f show ?thesis by (simp add: reads_backD quote_def unquote_quoted)
  next
    case False
    with Cons n f show ?thesis by (simp add: commas_Cons reads_backD quote_def unquote_quoted)
  qed
qed simp

lemma first_of_int: "\<exists>c r. json_int i = c # r \<and> (c = CHR ''-'' \<or> is_digit c)"
  using hd_dec [of "nat i"] by (auto simp: json_int_def)

lemma digit_plain:
  "is_digit c \<Longrightarrow> \<not> is_space c \<and> c \<notin> {CHR ''n'', CHR ''t'', CHR ''f'', CHR 0x22, CHR ''['', CHR ''{''}"
  by (auto simp: is_digit_def is_space_def)

lemma number_reads_back: "reads_back (JNum i)"
proof (rule reads_backI)
  fix m t
  assume "ends t"
  obtain c r where c: "json_int i = c # r" "c = CHR ''-'' \<or> is_digit c" using first_of_int by blast
  then show "json_value (Suc m) (json_Marshal (JNum i) @ t) = Some (JNum i, t)"
    using digit_plain [of c] json_number_int [OF \<open>ends t\<close>, of i] by auto
qed

lemma array_reads_back:
  assumes "\<forall>x \<in> set xs. reads_back x"
  shows "reads_back (JArr xs)"
proof (rule reads_backI)
  fix m t
  assume n: "length (json_Marshal (JArr xs)) \<le> Suc m"
  show "json_value (Suc m) (json_Marshal (JArr xs) @ t) = Some (JArr xs, t)"
  proof (cases xs)
    case Nil
    then show ?thesis by simp
  next
    case (Cons y ys)
    have "\<not> prefix '']'' (skip_ws (commas (map json_Marshal xs) @ CHR '']'' # t))"
      using not_closing [of y "drop (length (json_Marshal y)) (commas (map json_Marshal xs) @ CHR '']'' # t)"] Cons
      by (cases ys) simp_all
    moreover have "json_elems m (commas (map json_Marshal xs) @ CHR '']'' # t) = Some (xs, t)"
      using elems_read_back [OF assms] n Cons by simp
    ultimately show ?thesis by simp
  qed
qed

lemma object_reads_back:
  assumes "\<forall>(k, v) \<in> set fs. reads_back v"
  shows "reads_back (JObj fs)"
proof (rule reads_backI)
  fix m t
  assume n: "length (json_Marshal (JObj fs)) \<le> Suc m"
  let ?fs = "commas (map (\<lambda>(k, v). quote k @ CHR '':'' # json_Marshal v) fs)"
  show "json_value (Suc m) (json_Marshal (JObj fs) @ t) = Some (JObj fs, t)"
  proof (cases fs)
    case Nil
    then show ?thesis by simp
  next
    case (Cons f gs)
    then have "\<exists>r. ?fs = CHR 0x22 # r" by (cases gs; cases f) (simp_all add: quote_def)
    then have "\<not> prefix ''}'' (skip_ws (?fs @ CHR ''}'' # t))" by auto
    moreover have "json_members m (?fs @ CHR ''}'' # t) = Some (fs, t)"
      using members_read_back [OF assms] n Cons by simp
    ultimately show ?thesis by simp
  qed
qed

lemma every_value_reads_back: "reads_back j"
proof (induction j)
  case (JObj fs)
  then show ?case by (intro object_reads_back) fastforce
next
  case (JArr xs)
  then show ?case by (intro array_reads_back) blast
qed (rule number_reads_back reads_backI; auto simp: literal_def quote_def unquote_quoted)+

text \<open>Reading what \<open>Marshal\<close> wrote gives the value back; so different values have different texts.\<close>

theorem json_Unmarshal_Marshal [simp]: "json_Unmarshal (json_Marshal j) = Some j"
  using reads_backD [OF every_value_reads_back, of "[]" j "Suc (length (json_Marshal j))"]
  by (simp add: json_Unmarshal_def ends_def)

end
