(* ===== verification/Wire.thy ===== *)
theory Wire
  imports Go_Json Executor
begin

text \<open>
  What goes over the wire between the contract client and the contract: the JSON of the requests and queries as the struct
  tags of \<open>relayer/client/tx/contract.go\<close> give it, how the contract reads it into the messages of \<open>contract/src/msg.rs\<close>,
  the JSON of the contract's answers, and how the client reads them. The encodings of types of the SDK and of
  \<open>cosmwasm_std\<close> and the JSON library of the contract are the fields of the record \<open>codecs\<close>.
\<close>

section \<open>Encodings of library types\<close>

record codecs =
  Int_MarshalJSON :: "int \<Rightarrow> json"
  Int_UnmarshalJSON :: "json \<Rightarrow> go_error + int"
  Coin_MarshalJSON :: "sdk_coin \<Rightarrow> json"
  Coin_UnmarshalJSON :: "json \<Rightarrow> go_error + sdk_coin"
  AccAddress_MarshalJSON :: "acc_address \<Rightarrow> json"
  uint128_serialize :: "uint128 \<Rightarrow> json"
  uint128_deserialize :: "json \<Rightarrow> uint128 option"
  coin_serialize :: "coin \<Rightarrow> json"
  coin_deserialize :: "json \<Rightarrow> coin option"
  serde_from_slice :: "string \<Rightarrow> json option"
  serde_to_vec :: "json \<Rightarrow> string"

section \<open>Requests of the client\<close>

definition XRPLToken_json :: "XRPLToken \<Rightarrow> json" where
  "XRPLToken_json t = JObj [(''currency'', JStr (tok_Currency t)), (''issuer'', JStr (tok_Issuer t)),
     (''activation_date'', JNum (uint (tok_ActivationDate t))), (''multiplier'', JStr (tok_Multiplier t))]"

definition ThresholdBankSendRequest_json :: "codecs \<Rightarrow> ThresholdBankSendRequest \<Rightarrow> json" where
  "ThresholdBankSendRequest_json W r = JObj [(''id'', JStr (req_ID r)), (''amount'', Coin_MarshalJSON W (req_Amount r)),
     (''recipient'', JStr (req_Recipient r))]"

text \<open>The request: a map with the method as its only key.\<close>

text \<open>A nil slice is written as null.\<close>

fun slice_json :: "('a \<Rightarrow> json) \<Rightarrow> 'a list option \<Rightarrow> json" where
  "slice_json f None = JNull"
| "slice_json f (Some xs) = JArr (map f xs)"

fun request_json :: "codecs \<Rightarrow> exec_request \<Rightarrow> json" where
  "request_json W (Req_threshold_bank_send r) = JObj [(''threshold_bank_send'', ThresholdBankSendRequest_json W r)]"
| "request_json W (Req_execute_pending e) = JObj [(''execute_pending'', JObj [(''evidence_id'', JStr e)])]"
| "request_json W (Req_update_min_amount m) = JObj [(''update_min_amount'', JObj [(''min_amount'', Int_MarshalJSON W m)])]"
| "request_json W (Req_update_max_amount m) = JObj [(''update_max_amount'', JObj [(''max_amount'', Int_MarshalJSON W m)])]"
| "request_json W (Req_update_trusted_addresses as) =
     JObj [(''update_trusted_addresses'', JObj [(''trusted_addresses'', slice_json (AccAddress_MarshalJSON W) as)])]"
| "request_json W (Req_add_xrpl_tokens ts) =
     JObj [(''add_xrpl_tokens'', JObj [(''xrpl_tokens'', slice_json XRPLToken_json ts)])]"
| "request_json W (Req_update_owner a) = JObj [(''update_owner'', JObj [(''new_owner'', JStr a)])]"

definition instantiate_json :: "codecs \<Rightarrow> instantiateRequest \<Rightarrow> json" where
  "instantiate_json W r = JObj [(''owner'', JStr (ir_Owner r)), (''trusted_addresses'', JArr (map JStr (ir_TrustedAddresses r))),
     (''threshold'', JNum (uint (ir_Threshold r))), (''min_amount'', Int_MarshalJSON W (ir_MinAmount r)),
     (''max_amount'', Int_MarshalJSON W (ir_MaxAmount r)),
     (''xrpl_tokens'', slice_json XRPLToken_json (ir_XRPLTokens r))]"

text \<open>A pointer is written as null or as what it points to.\<close>

definition word_pointer_json :: "'a::len word option \<Rightarrow> json" where
  "word_pointer_json p = (case p of None \<Rightarrow> JNull | Some x \<Rightarrow> JNum (uint x))"

definition paging_json :: "uint64 option \<Rightarrow> uint32 option \<Rightarrow> json" where
  "paging_json offset limit = JObj [(''offset'', word_pointer_json offset), (''limit'', word_pointer_json limit)]"

fun query_json :: "query_request \<Rightarrow> json" where
  "query_json Query_get_config = JObj [(''get_config'', JObj [])]"
| "query_json (Query_get_pending_transaction e) = JObj [(''get_pending_transaction'', JObj [(''evidence_id'', JStr e)])]"
| "query_json (Query_get_pending_transactions offset limit) = JObj [(''get_pending_transactions'', paging_json offset limit)]"
| "query_json (Query_get_sent_transaction i) = JObj [(''get_sent_transaction'', JObj [(''id'', JStr i)])]"
| "query_json (Query_get_sent_transactions offset limit) = JObj [(''get_sent_transactions'', paging_json offset limit)]"

section \<open>Messages of the contract\<close>

text \<open>
  The derived readers of \<open>cw_serde\<close>: a struct is an object with exactly its fields, each once, an optional field may be
  missing or null; an enum is an object with the name of the variant in snake case as its only key.
\<close>

definition serde_struct :: "string list \<Rightarrow> json \<Rightarrow> (string \<times> json) list option" where
  "serde_struct names j = (case j of
     JObj fs \<Rightarrow> if distinct (map fst fs) \<and> set (map fst fs) \<subseteq> set names then Some fs else None | _ \<Rightarrow> None)"

definition serde_field :: "(string \<times> json) list \<Rightarrow> string \<Rightarrow> (json \<Rightarrow> 'a option) \<Rightarrow> 'a option" where
  "serde_field fs k f = Option.bind (map_of fs k) f"

definition serde_option :: "(string \<times> json) list \<Rightarrow> string \<Rightarrow> (json \<Rightarrow> 'a option) \<Rightarrow> 'a option option" where
  "serde_option fs k f = (case map_of fs k of None \<Rightarrow> Some None | Some v \<Rightarrow> if v = JNull then Some None else map_option Some (f v))"

definition serde_string :: "json \<Rightarrow> string option" where
  "serde_string j = (case j of JStr s \<Rightarrow> Some s | _ \<Rightarrow> None)"

definition serde_uint :: "json \<Rightarrow> 'a::len word option" where
  "serde_uint j = (case j of JNum i \<Rightarrow> if 0 \<le> i \<and> i < 2 ^ LENGTH('a) then Some (of_int i) else None | _ \<Rightarrow> None)"

fun serde_all :: "(json \<Rightarrow> 'a option) \<Rightarrow> json list \<Rightarrow> 'a list option" where
  "serde_all f [] = Some []"
| "serde_all f (j # js) = Option.bind (f j) (\<lambda>x. map_option ((#) x) (serde_all f js))"

definition serde_vec :: "(json \<Rightarrow> 'a option) \<Rightarrow> json \<Rightarrow> 'a list option" where
  "serde_vec f j = (case j of JArr js \<Rightarrow> serde_all f js | _ \<Rightarrow> None)"

definition xrpl_token_of :: "json \<Rightarrow> xrpl_token option" where
  "xrpl_token_of j =
     Option.bind (serde_struct [''currency'', ''issuer'', ''activation_date'', ''multiplier''] j) (\<lambda>fs.
     Option.bind (serde_field fs ''currency'' serde_string) (\<lambda>c.
     Option.bind (serde_field fs ''issuer'' serde_string) (\<lambda>i.
     Option.bind (serde_field fs ''activation_date'' serde_uint) (\<lambda>d.
     Option.bind (serde_field fs ''multiplier'' serde_string) (\<lambda>m.
       Some \<lparr>currency = c, issuer = i, activation_date = d, multiplier = m\<rparr>)))))"

definition instantiate_msg_of :: "codecs \<Rightarrow> json \<Rightarrow> instantiate_msg option" where
  "instantiate_msg_of W j =
     Option.bind (serde_struct [''owner'', ''trusted_addresses'', ''threshold'', ''min_amount'', ''max_amount'', ''xrpl_tokens''] j) (\<lambda>fs.
     Option.bind (serde_field fs ''owner'' serde_string) (\<lambda>ow.
     Option.bind (serde_field fs ''trusted_addresses'' (serde_vec serde_string)) (\<lambda>as.
     Option.bind (serde_field fs ''threshold'' serde_uint) (\<lambda>th.
     Option.bind (serde_field fs ''min_amount'' (uint128_deserialize W)) (\<lambda>mn.
     Option.bind (serde_field fs ''max_amount'' (uint128_deserialize W)) (\<lambda>mx.
     Option.bind (serde_field fs ''xrpl_tokens'' (serde_vec xrpl_token_of)) (\<lambda>ts.
       Some \<lparr>im_owner = ow, im_trusted_addresses = as, im_threshold = th, im_min_amount = mn, im_max_amount = mx,
         im_xrpl_tokens = ts\<rparr>)))))))"

definition serde_variant :: "json \<Rightarrow> (string \<times> json) option" where
  "serde_variant j = (case j of JObj [(v, body)] \<Rightarrow> Some (v, body) | _ \<Rightarrow> None)"

definition threshold_bank_send_of :: "codecs \<Rightarrow> json \<Rightarrow> execute_msg option" where
  "threshold_bank_send_of W j =
     Option.bind (serde_struct [''id'', ''amount'', ''recipient''] j) (\<lambda>fs.
     Option.bind (serde_field fs ''id'' serde_string) (\<lambda>i.
     Option.bind (serde_field fs ''amount'' (coin_deserialize W)) (\<lambda>a.
     Option.bind (serde_field fs ''recipient'' serde_string) (\<lambda>r.
       Some (Contract.ThresholdBankSend i a r)))))"

text \<open>A variant with one field.\<close>

definition single_field :: "string \<Rightarrow> (json \<Rightarrow> 'a option) \<Rightarrow> ('a \<Rightarrow> 'm) \<Rightarrow> json \<Rightarrow> 'm option" where
  "single_field k f mk j = Option.bind (serde_struct [k] j) (\<lambda>fs. map_option mk (serde_field fs k f))"

definition execute_msg_of :: "codecs \<Rightarrow> json \<Rightarrow> execute_msg option" where
  "execute_msg_of W j = Option.bind (serde_variant j) (\<lambda>(v, body).
     if v = ''threshold_bank_send'' then threshold_bank_send_of W body
     else if v = ''execute_pending'' then single_field ''evidence_id'' serde_string Contract.ExecutePending body
     else if v = ''update_min_amount'' then single_field ''min_amount'' (uint128_deserialize W) Contract.UpdateMinAmount body
     else if v = ''update_max_amount'' then single_field ''max_amount'' (uint128_deserialize W) Contract.UpdateMaxAmount body
     else if v = ''update_trusted_addresses'' then
       single_field ''trusted_addresses'' (serde_vec serde_string) Contract.UpdateTrustedAddresses body
     else if v = ''add_xrpl_tokens'' then single_field ''xrpl_tokens'' (serde_vec xrpl_token_of) Contract.AddXrplTokens body
     else if v = ''update_owner'' then single_field ''new_owner'' serde_string Contract.UpdateOwner body
     else None)"

datatype query_msg =
    GetConfig
  | GetPendingTransaction string
  | GetPendingTransactions "uint64 option" "uint32 option"
  | GetSentTransaction string
  | GetSentTransactions "uint64 option" "uint32 option"

definition paging_of :: "(uint64 option \<Rightarrow> uint32 option \<Rightarrow> query_msg) \<Rightarrow> json \<Rightarrow> query_msg option" where
  "paging_of mk j =
     Option.bind (serde_struct [''offset'', ''limit''] j) (\<lambda>fs.
     Option.bind (serde_option fs ''offset'' serde_uint) (\<lambda>off.
     Option.bind (serde_option fs ''limit'' serde_uint) (\<lambda>lim. Some (mk off lim))))"

definition query_msg_of :: "json \<Rightarrow> query_msg option" where
  "query_msg_of j = Option.bind (serde_variant j) (\<lambda>(v, body).
     if v = ''get_config'' then map_option (\<lambda>_. GetConfig) (serde_struct [] body)
     else if v = ''get_pending_transaction'' then single_field ''evidence_id'' serde_string GetPendingTransaction body
     else if v = ''get_pending_transactions'' then paging_of GetPendingTransactions body
     else if v = ''get_sent_transaction'' then single_field ''id'' serde_string GetSentTransaction body
     else if v = ''get_sent_transactions'' then paging_of GetSentTransactions body
     else None)"

section \<open>Answers of the contract\<close>

definition token_serialize :: "xrpl_token \<Rightarrow> json" where
  "token_serialize t = JObj [(''currency'', JStr (currency t)), (''issuer'', JStr (issuer t)),
     (''activation_date'', JNum (uint (activation_date t))), (''multiplier'', JStr (multiplier t))]"

definition config_serialize :: "codecs \<Rightarrow> contract_config \<Rightarrow> json" where
  "config_serialize W c = JObj [(''owner'', JStr (owner c)), (''trusted_addresses'', JArr (map JStr (trusted_addresses c))),
     (''threshold'', JNum (uint (threshold c))), (''min_amount'', uint128_serialize W (min_amount c)),
     (''max_amount'', uint128_serialize W (max_amount c)), (''xrpl_tokens'', JArr (map token_serialize (xrpl_tokens c))),
     (''version'', JNum (uint (version c)))]"

definition transaction_serialize :: "codecs \<Rightarrow> transaction \<Rightarrow> json" where
  "transaction_serialize W t = JObj [(''amount'', coin_serialize W (amount t)), (''recipient'', JStr (recipient t)),
     (''evidence_providers'', JArr (map JStr (evidence_providers t)))]"

definition pending_serialize :: "codecs \<Rightarrow> pending_transaction \<Rightarrow> json" where
  "pending_serialize W p = JObj [(''evidence_id'', JStr (pt_evidence_id p)), (''amount'', coin_serialize W (pt_amount p)),
     (''recipient'', JStr (pt_recipient p)), (''evidence_providers'', JArr (map JStr (pt_evidence_providers p)))]"

definition sent_serialize :: "codecs \<Rightarrow> sent_transaction \<Rightarrow> json" where
  "sent_serialize W s = JObj [(''id'', JStr (st_id s)), (''amount'', coin_serialize W (st_amount s)),
     (''recipient'', JStr (st_recipient s)), (''evidence_providers'', JArr (map JStr (st_evidence_providers s)))]"

definition transactions_serialize :: "('t \<Rightarrow> json) \<Rightarrow> 't list \<Rightarrow> json" where
  "transactions_serialize f ts = JObj [(''transactions'', JArr (map f ts))]"

text \<open>The entry point \<open>query\<close>.\<close>

fun contract_query :: "codecs \<Rightarrow> storage \<Rightarrow> query_msg \<Rightarrow> failure + json" where
  "contract_query W st GetConfig = res_bind (get_config st) (\<lambda>c. Inr (config_serialize W c))"
| "contract_query W st (GetPendingTransaction e) = Inr (transaction_serialize W (get_pending_transaction st e))"
| "contract_query W st (GetPendingTransactions offset limit) =
     Inr (transactions_serialize (pending_serialize W) (get_pending_transactions st offset limit))"
| "contract_query W st (GetSentTransaction i) = Inr (transaction_serialize W (get_sent_transaction st i))"
| "contract_query W st (GetSentTransactions offset limit) =
     Inr (transactions_serialize (sent_serialize W) (get_sent_transactions st offset limit))"

section \<open>Reading the answers\<close>

text \<open>
  \<open>json.Unmarshal\<close> into a struct that starts at its zero value: the members are visited in order, a name matches a field up to
  the case of ASCII letters, other members are ignored, null leaves a field of a basic type as it is and empties a slice. When several
  members cannot be read, which of the errors is returned is left open.
\<close>

fun go_field :: "string \<Rightarrow> ('a \<Rightarrow> json \<Rightarrow> go_error + 'a) \<Rightarrow> 'a \<Rightarrow> (string \<times> json) list \<Rightarrow> go_error + 'a" where
  "go_field k f x [] = Inr x"
| "go_field k f x ((m, v) # ms) =
     (if to_lowercase m = k then res_bind (f x v) (\<lambda>y. go_field k f y ms) else go_field k f x ms)"

definition go_members :: "json \<Rightarrow> go_error + (string \<times> json) list" where
  "go_members j = (case j of JObj ms \<Rightarrow> Inr ms | JNull \<Rightarrow> Inr [] | _ \<Rightarrow> Inl (Errorf ''json: cannot unmarshal into a struct''))"

definition go_string :: "string \<Rightarrow> json \<Rightarrow> go_error + string" where
  "go_string x j = (case j of JStr s \<Rightarrow> Inr s | JNull \<Rightarrow> Inr x | _ \<Rightarrow> Inl (Errorf ''json: cannot unmarshal into a string''))"

definition go_uint :: "'a::len word \<Rightarrow> json \<Rightarrow> go_error + 'a word" where
  "go_uint x j = (case j of
     JNum i \<Rightarrow> if 0 \<le> i \<and> i < 2 ^ LENGTH('a) then Inr (of_int i) else Inl (Errorf ''json: cannot unmarshal number'')
   | JNull \<Rightarrow> Inr x
   | _ \<Rightarrow> Inl (Errorf ''json: cannot unmarshal into an integer''))"

fun go_all :: "(json \<Rightarrow> go_error + 'a) \<Rightarrow> json list \<Rightarrow> go_error + 'a list" where
  "go_all f [] = Inr []"
| "go_all f (j # js) = res_bind (f j) (\<lambda>x. res_bind (go_all f js) (\<lambda>xs. Inr (x # xs)))"

definition go_slice :: "(json \<Rightarrow> go_error + 'a) \<Rightarrow> 'a list \<Rightarrow> json \<Rightarrow> go_error + 'a list" where
  "go_slice f x j = (case j of JArr js \<Rightarrow> go_all f js | JNull \<Rightarrow> Inr [] | _ \<Rightarrow> Inl (Errorf ''json: cannot unmarshal into a slice''))"

definition XRPLToken_of :: "json \<Rightarrow> go_error + XRPLToken" where
  "XRPLToken_of j = res_bind (go_members j) (\<lambda>ms.
     res_bind (go_field ''currency'' go_string [] ms) (\<lambda>c.
     res_bind (go_field ''issuer'' go_string [] ms) (\<lambda>i.
     res_bind (go_field ''activation_date'' go_uint 0 ms) (\<lambda>d.
     res_bind (go_field ''multiplier'' go_string [] ms) (\<lambda>m.
       Inr \<lparr>tok_Currency = c, tok_Issuer = i, tok_ActivationDate = d, tok_Multiplier = m\<rparr>)))))"

text \<open>The zero value of \<open>sdkmath.Int\<close> is nil; every number is read, so the start value does not matter.\<close>

definition Config_of :: "codecs \<Rightarrow> json \<Rightarrow> go_error + Config" where
  "Config_of W j = res_bind (go_members j) (\<lambda>ms.
     res_bind (go_field ''owner'' go_string [] ms) (\<lambda>ow.
     res_bind (go_field ''trusted_addresses'' (go_slice (go_string [])) [] ms) (\<lambda>as.
     res_bind (go_field ''threshold'' go_uint 0 ms) (\<lambda>th.
     res_bind (go_field ''min_amount'' (\<lambda>_. Int_UnmarshalJSON W) 0 ms) (\<lambda>mn.
     res_bind (go_field ''max_amount'' (\<lambda>_. Int_UnmarshalJSON W) 0 ms) (\<lambda>mx.
     res_bind (go_field ''xrpl_tokens'' (go_slice XRPLToken_of) [] ms) (\<lambda>ts.
     res_bind (go_field ''version'' go_uint 0 ms) (\<lambda>vn.
       Inr \<lparr>cfg_Owner = ow, cfg_TrustedAddresses = as, cfg_Threshold = th, cfg_MinAmount = mn, cfg_MaxAmount = mx,
         cfg_XRPLTokens = ts, cfg_Version = vn\<rparr>))))))))"

text \<open>The fields of an embedded struct are members of the object itself.\<close>

definition Transaction_fields :: "codecs \<Rightarrow> (string \<times> json) list \<Rightarrow> go_error + tx_Transaction" where
  "Transaction_fields W ms =
     res_bind (go_field ''amount'' (\<lambda>_. Coin_UnmarshalJSON W) \<lparr>sc_Denom = [], Amount = 0\<rparr> ms) (\<lambda>a.
     res_bind (go_field ''recipient'' go_string [] ms) (\<lambda>r.
     res_bind (go_field ''evidence_providers'' (go_slice (go_string [])) [] ms) (\<lambda>ps.
       Inr \<lparr>tx_Amount = a, tx_Recipient = r, tx_EvidenceProviders = ps\<rparr>)))"

definition Transaction_of :: "codecs \<Rightarrow> json \<Rightarrow> go_error + tx_Transaction" where
  "Transaction_of W j = res_bind (go_members j) (Transaction_fields W)"

definition PendingTransaction_of :: "codecs \<Rightarrow> json \<Rightarrow> go_error + PendingTransaction" where
  "PendingTransaction_of W j = res_bind (go_members j) (\<lambda>ms.
     res_bind (go_field ''evidence_id'' go_string [] ms) (\<lambda>e.
     res_bind (Transaction_fields W ms) (\<lambda>t. Inr \<lparr>EvidenceID = e, ptx = t\<rparr>)))"

definition SentTransaction_of :: "codecs \<Rightarrow> json \<Rightarrow> go_error + SentTransaction" where
  "SentTransaction_of W j = res_bind (go_members j) (\<lambda>ms.
     res_bind (go_field ''id'' go_string [] ms) (\<lambda>i.
     res_bind (Transaction_fields W ms) (\<lambda>t. Inr \<lparr>SentID = i, stx = t\<rparr>)))"

definition queryTxsResponse_of :: "(json \<Rightarrow> go_error + 't) \<Rightarrow> json \<Rightarrow> go_error + 't list" where
  "queryTxsResponse_of f j = res_bind (go_members j) (go_field ''transactions'' (go_slice f) [])"

text \<open>The text: an error of syntax, or what the reader of the value gives.\<close>

definition go_decode :: "(json \<Rightarrow> go_error + 'a) \<Rightarrow> string \<Rightarrow> go_error + 'a" where
  "go_decode f s = (case json_Unmarshal s of None \<Rightarrow> Inl (Errorf ''invalid character'') | Some j \<Rightarrow> f j)"

section \<open>The client on the wire\<close>

text \<open>The environment of the client with the encodings of the code; the rest of \<open>E\<close> is as it was.\<close>

definition wired :: "codecs \<Rightarrow> wasm_env \<Rightarrow> wasm_env" where
  "wired W E = E\<lparr>Marshal_exec := \<lambda>r. Inr (json_Marshal (request_json W r)),
     Marshal_instantiate := \<lambda>r. Inr (json_Marshal (instantiate_json W r)),
     Marshal_query := \<lambda>q. Inr (json_Marshal (query_json q)),
     Unmarshal_config := go_decode (Config_of W), Unmarshal_tx := go_decode (Transaction_of W),
     Unmarshal_pending_txs := go_decode (queryTxsResponse_of (PendingTransaction_of W)),
     Unmarshal_sent_txs := go_decode (queryTxsResponse_of (SentTransaction_of W))\<rparr>"

text \<open>The contract called with texts; \<open>None\<close>: the text is not a message.\<close>

definition execute_text :: "codecs \<Rightarrow> host \<Rightarrow> storage \<Rightarrow> message_info \<Rightarrow> string \<Rightarrow> (failure + storage \<times> response) option" where
  "execute_text W h st info payload =
     map_option (execute h st info) (Option.bind (serde_from_slice W payload) (execute_msg_of W))"

definition instantiate_text :: "codecs \<Rightarrow> host \<Rightarrow> storage \<Rightarrow> string \<Rightarrow> (failure + storage \<times> response) option" where
  "instantiate_text W h st payload =
     map_option (instantiate h st) (Option.bind (serde_from_slice W payload) (instantiate_msg_of W))"

definition query_text :: "codecs \<Rightarrow> storage \<Rightarrow> string \<Rightarrow> (failure + string) option" where
  "query_text W st payload =
     map_option (\<lambda>q. res_bind (contract_query W st q) (\<lambda>j. Inr (serde_to_vec W j)))
       (Option.bind (serde_from_slice W payload) query_msg_of)"

section \<open>The encodings fit\<close>

text \<open>Numbers on the wire are 64-bit at most; larger amounts are texts.\<close>

fun wire_value :: "json \<Rightarrow> bool" where
  "wire_value (JNum i) = (0 \<le> i \<and> i < 2 ^ 64)"
| "wire_value (JArr js) = list_all wire_value js"
| "wire_value (JObj fs) = list_all (\<lambda>(k, v). wire_value v) fs"
| "wire_value _ = True"

text \<open>
  The libraries on both sides: an integer is read back if it has 128 bits, a coin also needs a denom, which the SDK leaves out
  when it is empty; what the contract writes is read; the JSON library of the contract reads what \<open>Marshal\<close> writes and
  \<open>Unmarshal\<close> reads what it writes.
\<close>

definition codecs_ok :: "sdk \<Rightarrow> codecs \<Rightarrow> bool" where
  "codecs_ok S W \<longleftrightarrow>
     (\<forall>i. wire_value (Int_MarshalJSON W i) \<and>
        uint128_deserialize W (Int_MarshalJSON W i) = (if 0 \<le> i \<and> i < 2 ^ 128 then Some (of_int i) else None)) \<and>
     (\<forall>c. wire_value (Coin_MarshalJSON W c) \<and>
        coin_deserialize W (Coin_MarshalJSON W c) =
          (if sc_Denom c \<noteq> [] \<and> 0 \<le> Amount c \<and> Amount c < 2 ^ 128
           then Some \<lparr>coin_denom = sc_Denom c, coin_amount = of_int (Amount c)\<rparr> else None)) \<and>
     (\<forall>a. AccAddress_MarshalJSON W a = JStr (AccAddress_String S a)) \<and>
     (\<forall>u. wire_value (uint128_serialize W u) \<and> Int_UnmarshalJSON W (uint128_serialize W u) = Inr (uint u)) \<and>
     (\<forall>c. wire_value (coin_serialize W c) \<and> Coin_UnmarshalJSON W (coin_serialize W c) = Inr (coin_to_go c)) \<and>
     (\<forall>j. wire_value j \<longrightarrow> serde_from_slice W (json_Marshal j) = Some j) \<and>
     (\<forall>j. wire_value j \<longrightarrow> json_Unmarshal (serde_to_vec W j) = Some j)"

end
