(* ===== verification/Wire_Properties.thy ===== *)
theory Wire_Properties
  imports Wire
begin

text \<open>
  The client and the contract agree on the wire: every request the client marshals is read as the message it stands for,
  every query is read and its answer comes back as what the contract stores, and so a client on the encodings of the code
  is linked to the contract in the sense of the executor's interface.
\<close>

section \<open>The laws of the encodings\<close>

lemma codecs_okD:
  assumes "codecs_ok S W"
  shows "wire_value (Int_MarshalJSON W i)"
    and "uint128_deserialize W (Int_MarshalJSON W i) = (if 0 \<le> i \<and> i < 2 ^ 128 then Some (of_int i) else None)"
    and "wire_value (Coin_MarshalJSON W c)"
    and "coin_deserialize W (Coin_MarshalJSON W c) =
      (if sc_Denom c \<noteq> [] \<and> 0 \<le> Amount c \<and> Amount c < 2 ^ 128
       then Some \<lparr>coin_denom = sc_Denom c, coin_amount = of_int (Amount c)\<rparr> else None)"
    and "AccAddress_MarshalJSON W a = JStr (AccAddress_String S a)"
    and "wire_value (uint128_serialize W u)" and "Int_UnmarshalJSON W (uint128_serialize W u) = Inr (uint u)"
    and "wire_value (coin_serialize W d)" and "Coin_UnmarshalJSON W (coin_serialize W d) = Inr (coin_to_go d)"
    and "wire_value j \<Longrightarrow> serde_from_slice W (json_Marshal j) = Some j"
    and "wire_value j \<Longrightarrow> json_Unmarshal (serde_to_vec W j) = Some j"
  using assms by (simp_all add: codecs_ok_def)

section \<open>Values on the wire\<close>

lemma wire_uint64 [simp]: "wire_value (JNum (uint (x :: uint64)))"
  using uint_lt2p [of x] by simp

lemma wire_uint32 [simp]: "wire_value (JNum (uint (x :: uint32)))"
  using uint_lt2p [of x] by simp

declare wire_value.simps(1) [simp del]

lemma wire_map [simp]: "(\<And>x. wire_value (f x)) \<Longrightarrow> list_all wire_value (map f xs)"
  by (simp add: list_all_iff)

lemma wire_tokens [simp]: "wire_value (XRPLToken_json t)" "wire_value (token_serialize u)"
  by (simp_all add: XRPLToken_json_def token_serialize_def)

lemma wire_slice [simp]: "(\<And>x. wire_value (f x)) \<Longrightarrow> wire_value (slice_json f xs)"
  by (cases xs) simp_all

lemma wire_request:
  assumes "codecs_ok S W"
  shows "wire_value (request_json W r)"
  using codecs_okD [OF assms] by (cases r) (simp_all add: ThresholdBankSendRequest_json_def)

lemma wire_instantiate:
  assumes "codecs_ok S W"
  shows "wire_value (instantiate_json W r)"
  using codecs_okD [OF assms] by (simp add: instantiate_json_def)

lemma wire_query: "wire_value (query_json q)"
  by (cases q) (simp_all add: paging_json_def word_pointer_json_def split: option.split)

lemma wire_answer:
  assumes "codecs_ok S W" and "contract_query W st q = Inr j"
  shows "wire_value j"
  using assms(2) codecs_okD [OF assms(1)]
  by (cases q)
    (auto simp: res_bind_Inr config_serialize_def transaction_serialize_def transactions_serialize_def pending_serialize_def
      sent_serialize_def)

section \<open>Requests as the contract reads them\<close>

lemma serde_uint_of [simp]: "serde_uint (JNum (uint x)) = Some x"
  using uint_lt2p [of x] by (simp add: serde_uint_def)

lemma serde_string_of [simp]: "serde_string (JStr s) = Some s"
  by (simp add: serde_string_def)

lemma serde_all_map [simp]: "(\<And>x. f (g x) = Some (h x)) \<Longrightarrow> serde_all f (map g xs) = Some (map h xs)"
  by (induction xs) simp_all

lemma serde_vec_slice [simp]:
  "(\<And>x. f (g x) = Some (h x)) \<Longrightarrow> serde_vec f (slice_json g xs) = map_option (map h) xs"
  by (cases xs) (simp_all add: serde_vec_def)

lemma serde_vec_map: "(\<And>x. f (g x) = Some (h x)) \<Longrightarrow> serde_vec f (JArr (map g xs)) = Some (map h xs)"
  by (simp add: serde_vec_def)

definition token_of_go :: "XRPLToken \<Rightarrow> xrpl_token" where
  "token_of_go t = \<lparr>currency = tok_Currency t, issuer = tok_Issuer t, activation_date = tok_ActivationDate t,
     multiplier = tok_Multiplier t\<rparr>"

lemma xrpl_token_of_json [simp]: "xrpl_token_of (XRPLToken_json t) = Some (token_of_go t)"
  by (simp add: xrpl_token_of_def XRPLToken_json_def serde_struct_def serde_field_def token_of_go_def)

text \<open>The message a request stands for; an amount outside of 128 bits, a coin without denom or a nil slice stands for none.\<close>

definition as_uint128 :: "int \<Rightarrow> uint128 option" where
  "as_uint128 i = (if 0 \<le> i \<and> i < 2 ^ 128 then Some (of_int i) else None)"

fun contract_message :: "sdk \<Rightarrow> exec_request \<Rightarrow> execute_msg option" where
  "contract_message S (Req_threshold_bank_send r) =
     (if sc_Denom (req_Amount r) = [] then None else map_option (\<lambda>_. request_msg r) (as_uint128 (Amount (req_Amount r))))"
| "contract_message S (Req_execute_pending e) = Some (Contract.ExecutePending e)"
| "contract_message S (Req_update_min_amount m) = map_option Contract.UpdateMinAmount (as_uint128 m)"
| "contract_message S (Req_update_max_amount m) = map_option Contract.UpdateMaxAmount (as_uint128 m)"
| "contract_message S (Req_update_trusted_addresses as) =
     map_option (\<lambda>xs. Contract.UpdateTrustedAddresses (map (AccAddress_String S) xs)) as"
| "contract_message S (Req_add_xrpl_tokens ts) = map_option (\<lambda>xs. Contract.AddXrplTokens (map token_of_go xs)) ts"
| "contract_message S (Req_update_owner a) = Some (Contract.UpdateOwner a)"

lemma request_message:
  assumes "codecs_ok S W"
  shows "execute_msg_of W (request_json W r) = contract_message S r"
  using codecs_okD [OF assms]
  by (cases r)
    (auto simp: execute_msg_of_def serde_variant_def threshold_bank_send_of_def ThresholdBankSendRequest_json_def serde_struct_def
      serde_field_def single_field_def as_uint128_def request_msg_def request_coin_def comp_def
      option.map_comp map_option_case split: option.split intro!: serde_vec_slice [THEN trans])

text \<open>The payload of a request, read by the contract.\<close>

definition read_message :: "codecs \<Rightarrow> string \<Rightarrow> execute_msg option" where
  "read_message W payload = Option.bind (serde_from_slice W payload) (execute_msg_of W)"

lemma read_request:
  assumes "codecs_ok S W"
  shows "read_message W (json_Marshal (request_json W r)) = contract_message S r"
  using codecs_okD(10) [OF assms wire_request [OF assms]] by (simp add: read_message_def request_message [OF assms])

definition execute_message_msg :: "sdk \<Rightarrow> acc_address \<Rightarrow> acc_address \<Rightarrow> string \<Rightarrow> sdk_msg" where
  "execute_message_msg S who addr payload = MsgExecuteContract (AccAddress_String S who) (AccAddress_String S addr) payload []"

lemma wired_build_all:
  "build_all S (wired W E) who addr reqs = Inr (map (\<lambda>r. execute_message_msg S who addr (json_Marshal (request_json W r))) reqs)"
  by (induction reqs) (simp_all add: wired_def execute_message_msg_def)

text \<open>
  C15: What the relayer and the commands submit is what the contract reads: a call of the client with requests broadcasts one
  message per request, in order, to the contract and without funds, and the contract reads each payload as the message the
  request stands for, with the same ids, addresses, tokens and amounts; an amount that does not fit 128 bits, a
  coin without a denom and a nil slice are refused.
\<close>

theorem requests_reach_contract:
  assumes "codecs_ok S W" and "ContractAddress c = Some addr"
  shows "\<exists>payloads. exec_requests S (wired W E) c n who reqs =
      BroadcastTx E n who (map (execute_message_msg S who addr) payloads) \<and>
    map (read_message W) payloads = map (contract_message S) reqs"
proof (intro exI conjI)
  show "exec_requests S (wired W E) c n who reqs =
      BroadcastTx E n who (map (execute_message_msg S who addr) (map (\<lambda>r. json_Marshal (request_json W r)) reqs))"
    by (simp add: exec_requests_def need_address_def assms(2) wired_build_all comp_def) (simp add: wired_def)
qed (simp add: read_request [OF assms(1)])

section \<open>Answers as the client reads them\<close>

lemma go_string_of [simp]: "go_string x (JStr s) = Inr s"
  by (simp add: go_string_def)

lemma go_uint_of [simp]: "go_uint x (JNum (uint y)) = Inr y"
  using uint_lt2p [of y] by (simp add: go_uint_def)

lemma go_all_map [simp]: "(\<And>x. f (g x) = Inr (h x)) \<Longrightarrow> go_all f (map g xs) = Inr (map h xs)"
  by (induction xs) simp_all

lemma go_slice_map [simp]: "(\<And>x. f (g x) = Inr (h x)) \<Longrightarrow> go_slice f y (JArr (map g xs)) = Inr (map h xs)"
  by (simp add: go_slice_def)

lemma go_slice_strings [simp]: "go_slice (go_string []) y (JArr (map JStr xs)) = Inr xs"
  using go_slice_map [of "go_string []" JStr id y xs] by simp

lemma go_members_of [simp]: "go_members (JObj ms) = Inr ms"
  by (simp add: go_members_def)

text \<open>The names of the members are in lower case.\<close>

declare to_lowercase_Cons [simp del]

lemma lower_names [simp]:
  "to_lowercase ''currency'' = ''currency''"
  "to_lowercase ''issuer'' = ''issuer''"
  "to_lowercase ''activation_date'' = ''activation_date''"
  "to_lowercase ''multiplier'' = ''multiplier''"
  "to_lowercase ''owner'' = ''owner''"
  "to_lowercase ''trusted_addresses'' = ''trusted_addresses''"
  "to_lowercase ''threshold'' = ''threshold''"
  "to_lowercase ''min_amount'' = ''min_amount''"
  "to_lowercase ''max_amount'' = ''max_amount''"
  "to_lowercase ''xrpl_tokens'' = ''xrpl_tokens''"
  "to_lowercase ''version'' = ''version''"
  "to_lowercase ''amount'' = ''amount''"
  "to_lowercase ''recipient'' = ''recipient''"
  "to_lowercase ''evidence_providers'' = ''evidence_providers''"
  "to_lowercase ''evidence_id'' = ''evidence_id''"
  "to_lowercase ''id'' = ''id''"
  "to_lowercase ''transactions'' = ''transactions''"
  by code_simp+

definition tx_to_go :: "transaction \<Rightarrow> tx_Transaction" where
  "tx_to_go t = \<lparr>tx_Amount = coin_to_go (amount t), tx_Recipient = recipient t, tx_EvidenceProviders = evidence_providers t\<rparr>"

definition sent_to_go :: "sent_transaction \<Rightarrow> SentTransaction" where
  "sent_to_go s = \<lparr>SentID = st_id s,
     stx = \<lparr>tx_Amount = coin_to_go (st_amount s), tx_Recipient = st_recipient s,
            tx_EvidenceProviders = st_evidence_providers s\<rparr>\<rparr>"

lemma XRPLToken_of_answer [simp]: "XRPLToken_of (token_serialize t) = Inr (token_to_go t)"
  by (simp add: XRPLToken_of_def token_serialize_def token_to_go_def)

lemma Config_of_answer:
  assumes "codecs_ok S W"
  shows "Config_of W (config_serialize W c) = Inr (config_to_go c)"
  by (simp add: Config_of_def config_serialize_def config_to_go_def codecs_okD [OF assms])

lemma Transaction_of_answer:
  assumes "codecs_ok S W"
  shows "Transaction_of W (transaction_serialize W t) = Inr (tx_to_go t)"
  by (simp add: Transaction_of_def Transaction_fields_def transaction_serialize_def tx_to_go_def codecs_okD [OF assms])

lemma PendingTransaction_of_answer:
  assumes "codecs_ok S W"
  shows "PendingTransaction_of W (pending_serialize W p) = Inr (pending_to_go p)"
  by (simp add: PendingTransaction_of_def Transaction_fields_def pending_serialize_def pending_to_go_def codecs_okD [OF assms])

lemma SentTransaction_of_answer:
  assumes "codecs_ok S W"
  shows "SentTransaction_of W (sent_serialize W s) = Inr (sent_to_go s)"
  by (simp add: SentTransaction_of_def Transaction_fields_def sent_serialize_def sent_to_go_def codecs_okD [OF assms])

lemma transactions_answer:
  assumes "\<And>t. f (g t) = Inr (h t)"
  shows "queryTxsResponse_of f (transactions_serialize g ts) = Inr (map h ts)"
  using assms by (simp add: queryTxsResponse_of_def transactions_serialize_def)

section \<open>Queries\<close>

fun query_message :: "query_request \<Rightarrow> query_msg" where
  "query_message Query_get_config = GetConfig"
| "query_message (Query_get_pending_transaction e) = GetPendingTransaction e"
| "query_message (Query_get_pending_transactions offset limit) = GetPendingTransactions offset limit"
| "query_message (Query_get_sent_transaction i) = GetSentTransaction i"
| "query_message (Query_get_sent_transactions offset limit) = GetSentTransactions offset limit"

lemma serde_option_pointer [simp]:
  "map_of fs k = Some (word_pointer_json p) \<Longrightarrow> serde_option fs k serde_uint = Some p"
  by (cases p) (simp_all add: serde_option_def word_pointer_json_def)

lemma query_read: "query_msg_of (query_json q) = Some (query_message q)"
  by (cases q)
    (simp_all add: query_msg_of_def serde_variant_def paging_of_def paging_json_def serde_struct_def single_field_def serde_field_def)

lemma query_texted:
  assumes "codecs_ok S W"
  shows "query_text W st (json_Marshal (query_json q)) =
    Some (res_bind (contract_query W st (query_message q)) (\<lambda>j. Inr (serde_to_vec W j)))"
  using codecs_okD(10) [OF assms wire_query] by (simp add: query_text_def query_read)

text \<open>A node that answers the smart queries to an address from a storage of the contract; a refusal is some error.\<close>

definition answers_from :: "sdk \<Rightarrow> codecs \<Rightarrow> wasm_env \<Rightarrow> acc_address \<Rightarrow> storage \<Rightarrow> nat \<Rightarrow> bool" where
  "answers_from S W E addr st n \<longleftrightarrow> (\<forall>payload.
     case query_text W st payload of
       Some (Inr resp) \<Rightarrow> SmartContractState E n (AccAddress_String S addr) payload = Inr resp
     | _ \<Rightarrow> \<exists>e. SmartContractState E n (AccAddress_String S addr) payload = Inl e)"

lemma answered_textD:
  assumes "answers_from S W E addr st n"
  shows "query_text W st payload = Some (Inr resp) \<Longrightarrow> SmartContractState E n (AccAddress_String S addr) payload = Inr resp"
    and "query_text W st payload = Some (Inl f) \<Longrightarrow> \<exists>e. SmartContractState E n (AccAddress_String S addr) payload = Inl e"
  using assms unfolding answers_from_def by (auto dest: spec [of _ payload])

lemma answered:
  assumes "codecs_ok S W" and "answers_from S W E addr st n" and "ContractAddress c = Some addr"
    and "contract_query W st (query_message q) = Inr j"
  shows "query S (wired W E) c n q (go_decode f) =
    res_wrap (''can'' @ [CHR 0x27] @ ''t unmarshal wasm contract response, raw response:'' @ serde_to_vec W j) (f j)"
proof -
  have "query_text W st (json_Marshal (query_json q)) = Some (Inr (serde_to_vec W j))"
    using query_texted [OF assms(1)] assms(4) by simp
  then have "SmartContractState E n (AccAddress_String S addr) (json_Marshal (query_json q)) = Inr (serde_to_vec W j)"
    using answered_textD [OF assms(2)] by simp
  then show ?thesis
    using codecs_okD(11) [OF assms(1) wire_answer [OF assms(1,4)]] assms(3)
    by (simp add: query_def need_address_def wired_def go_decode_def)
qed

lemma not_answered:
  assumes "codecs_ok S W" and "answers_from S W E addr st n" and "ContractAddress c = Some addr"
    and "contract_query W st (query_message q) = Inl e"
  shows "\<exists>e. query S (wired W E) c n q f = Inl e"
proof -
  have "query_text W st (json_Marshal (query_json q)) = Some (Inl e)"
    using query_texted [OF assms(1)] assms(4) by simp
  then obtain e' where "SmartContractState E n (AccAddress_String S addr) (json_Marshal (query_json q)) = Inl e'"
    using answered_textD [OF assms(2)] by blast
  then show ?thesis
    using assms(3) by (simp add: query_def need_address_def wired_def)
qed

lemma wired_readers [simp]:
  "Unmarshal_config (wired W E) = go_decode (Config_of W)" "Unmarshal_tx (wired W E) = go_decode (Transaction_of W)"
  "Unmarshal_pending_txs (wired W E) = go_decode (queryTxsResponse_of (PendingTransaction_of W))"
  "Unmarshal_sent_txs (wired W E) = go_decode (queryTxsResponse_of (SentTransaction_of W))"
  by (simp_all add: wired_def)

lemma config_read:
  assumes "codecs_ok S W" and "answers_from S W E addr st n" and "ContractAddress c = Some addr"
  shows "case CONFIG st of Some cc \<Rightarrow> GetContractConfig S (wired W E) c n = Inr (config_to_go cc)
    | None \<Rightarrow> \<exists>e. GetContractConfig S (wired W E) c n = Inl e"
proof (cases "CONFIG st")
  case None
  then have "\<exists>e. query S (wired W E) c n Query_get_config (Unmarshal_config (wired W E)) = Inl e"
    by (intro not_answered [OF assms]) (simp add: get_config_def load_config_def)
  then show ?thesis using None by (auto simp: GetContractConfig_def)
next
  case (Some cc)
  then have "contract_query W st (query_message Query_get_config) = Inr (config_serialize W cc)"
    by (simp add: get_config_def load_config_def)
  from answered [OF assms this, of "Config_of W"] show ?thesis
    using Some by (simp add: GetContractConfig_def Config_of_answer [OF assms(1)])
qed

lemma pending_read:
  assumes "codecs_ok S W" and "answers_from S W E addr st n" and "ContractAddress c = Some addr"
  shows "GetPendingTxs S (wired W E) c n offset limit = Inr (map pending_to_go (get_pending_transactions st offset limit))"
  using answered [OF assms, of "Query_get_pending_transactions offset limit" _ "queryTxsResponse_of (PendingTransaction_of W)"]
  by (simp add: GetPendingTxs_def transactions_answer PendingTransaction_of_answer [OF assms(1)])

lemma sent_read:
  assumes "codecs_ok S W" and "answers_from S W E addr st n" and "ContractAddress c = Some addr"
  shows "GetSentTxs S (wired W E) c n offset limit = Inr (map sent_to_go (get_sent_transactions st offset limit))"
  using answered [OF assms, of "Query_get_sent_transactions offset limit" _ "queryTxsResponse_of (SentTransaction_of W)"]
  by (simp add: GetSentTxs_def transactions_answer SentTransaction_of_answer [OF assms(1)])

lemma transaction_read:
  assumes "codecs_ok S W" and "answers_from S W E addr st n" and "ContractAddress c = Some addr"
  shows "GetPendingTx S (wired W E) c n e = Inr (tx_to_go (get_pending_transaction st e))"
    and "GetSentTx S (wired W E) c n i = Inr (tx_to_go (get_sent_transaction st i))"
  using answered [OF assms, of "Query_get_pending_transaction e" _ "Transaction_of W"]
    answered [OF assms, of "Query_get_sent_transaction i" _ "Transaction_of W"]
  by (simp_all add: GetPendingTx_def GetSentTx_def Transaction_of_answer [OF assms(1)])

text \<open>
  C21: The five queries of the client return what the contract stores: the configuration, an error if there is none, the pending
  or sent transaction of an id (the contract's empty transaction for an unknown id), and the pages of both maps for every
  offset and limit, absent ones included.
\<close>

theorem client_reads_storage:
  assumes "codecs_ok S W" and "answers_from S W E addr st n" and "ContractAddress c = Some addr"
  shows "(case CONFIG st of Some cc \<Rightarrow> GetContractConfig S (wired W E) c n = Inr (config_to_go cc)
      | None \<Rightarrow> \<exists>e. GetContractConfig S (wired W E) c n = Inl e) \<and>
    GetPendingTx S (wired W E) c n e = Inr (tx_to_go (get_pending_transaction st e)) \<and>
    GetSentTx S (wired W E) c n i = Inr (tx_to_go (get_sent_transaction st i)) \<and>
    GetPendingTxs S (wired W E) c n offset limit = Inr (map pending_to_go (get_pending_transactions st offset limit)) \<and>
    GetSentTxs S (wired W E) c n offset limit = Inr (map sent_to_go (get_sent_transactions st offset limit))"
  using config_read [OF assms] transaction_read [OF assms] pending_read [OF assms] sent_read [OF assms] by blast

section \<open>Encodings that satisfy the laws\<close>

text \<open>Amounts as decimal text, coins as objects, both JSON libraries the one of this development.\<close>

definition decimal_value :: "json \<Rightarrow> nat option" where
  "decimal_value j = (case j of JStr s \<Rightarrow> if s \<noteq> [] \<and> all_digits s then Some (nat_of_dec s) else None | _ \<Rightarrow> None)"

definition decimal_uint128 :: "json \<Rightarrow> uint128 option" where
  "decimal_uint128 j = Option.bind (decimal_value j) (\<lambda>n. if n < 2 ^ 128 then Some (of_nat n) else None)"

definition decimal_coin :: "string \<Rightarrow> int \<Rightarrow> json" where
  "decimal_coin d i = JObj ((if d = [] then [] else [(''denom'', JStr d)]) @ [(''amount'', JStr (dec_of_int i))])"

definition plain_codecs :: "sdk \<Rightarrow> codecs" where
  "plain_codecs S = \<lparr>Int_MarshalJSON = (\<lambda>i. JStr (dec_of_int i)),
     Int_UnmarshalJSON = (\<lambda>j. case decimal_value j of Some n \<Rightarrow> Inr (int n) | None \<Rightarrow> Inl (Errorf ''not an integer'')),
     Coin_MarshalJSON = (\<lambda>c. decimal_coin (sc_Denom c) (Amount c)),
     Coin_UnmarshalJSON = (\<lambda>j. res_bind (go_members j) (\<lambda>ms.
       res_bind (go_field ''denom'' go_string [] ms) (\<lambda>d.
       res_bind (go_field ''amount'' (\<lambda>_ j. case decimal_value j of Some n \<Rightarrow> Inr (int n) | None \<Rightarrow> Inl (Errorf ''not an integer'')) 0 ms)
         (\<lambda>a. Inr \<lparr>sc_Denom = d, Amount = a\<rparr>)))),
     AccAddress_MarshalJSON = (\<lambda>a. JStr (AccAddress_String S a)),
     uint128_serialize = (\<lambda>u. JStr (dec_of_nat (unat u))), uint128_deserialize = decimal_uint128,
     coin_serialize = (\<lambda>c. decimal_coin (coin_denom c) (uint (coin_amount c))),
     coin_deserialize = (\<lambda>j. Option.bind (serde_struct [''denom'', ''amount''] j) (\<lambda>fs.
       Option.bind (serde_field fs ''denom'' serde_string) (\<lambda>d.
       Option.bind (serde_field fs ''amount'' decimal_uint128) (\<lambda>a. Some \<lparr>coin_denom = d, coin_amount = a\<rparr>)))),
     serde_from_slice = json_Unmarshal, serde_to_vec = json_Marshal\<rparr>"

lemma decimal_value_nat [simp]: "decimal_value (JStr (dec_of_nat n)) = Some n"
  by (simp add: decimal_value_def)

lemma decimal_value_int: "decimal_value (JStr (dec_of_int i)) = (if i < 0 then None else Some (nat i))"
  using all_digits_dec_of_nat [of "nat i"] by (auto simp: decimal_value_def dec_of_int_def all_digits_def is_digit_def)

lemma decimal_uint128_int: "decimal_uint128 (JStr (dec_of_int i)) = (if 0 \<le> i \<and> i < 2 ^ 128 then Some (of_int i) else None)"
  by (auto simp: decimal_uint128_def decimal_value_int nat_less_iff)

lemma coin_names [simp]: "to_lowercase ''denom'' = ''denom''" "to_lowercase ''amount'' = ''amount''"
  by code_simp+

lemma plain_coin_read: "Coin_UnmarshalJSON (plain_codecs S) (decimal_coin d (uint a)) = Inr \<lparr>sc_Denom = d, Amount = uint a\<rparr>"
  by (simp add: plain_codecs_def decimal_coin_def decimal_value_int)

lemma plain_codecs_ok: "codecs_ok S (plain_codecs S)"
proof -
  have "coin_deserialize (plain_codecs S) (decimal_coin d i) =
      (if d \<noteq> [] \<and> 0 \<le> i \<and> i < 2 ^ 128 then Some \<lparr>coin_denom = d, coin_amount = of_int i\<rparr> else None)" for d i
    by (simp add: plain_codecs_def decimal_coin_def serde_struct_def serde_field_def decimal_uint128_int)
  moreover have "wire_value (decimal_coin d i)" for d i
    by (simp add: decimal_coin_def)
  moreover have "Coin_UnmarshalJSON (plain_codecs S) (coin_serialize (plain_codecs S) c) = Inr (coin_to_go c)" for c
    using plain_coin_read [of S "coin_denom c" "coin_amount c"] by (simp add: plain_codecs_def coin_to_go_def)
  ultimately show ?thesis
    unfolding codecs_ok_def by (simp add: plain_codecs_def decimal_uint128_int)
qed

section \<open>Samples\<close>

text \<open>A node with three pending transactions, two texts of which name a query.\<close>

definition querying :: "sdk \<Rightarrow> codecs \<Rightarrow> storage \<Rightarrow> wasm_env" where
  "querying S W st = sample_wasm\<lparr>SmartContractState := (\<lambda>n addr payload.
     case query_text W st payload of Some (Inr resp) \<Rightarrow> Inr resp | _ \<Rightarrow> Inl (Errorf ''query wasm contract failed''))\<rparr>"

lemma querying_answers: "answers_from S W (querying S W st) addr st n"
  by (simp add: answers_from_def querying_def split: option.split sum.split)

lemma sample_address: "ContractAddress sample_client = Some [3]"
  by (simp add: sample_client_def DefaultContractClientConfig_def)

theorem requests_reach_contract_witness:
  "\<exists>payloads. exec_requests sample_sdk (wired (plain_codecs sample_sdk) sample_wasm) sample_client 0 [9]
      [Req_execute_pending ''a'', Req_update_min_amount (- 1)] =
      BroadcastTx sample_wasm 0 [9] (map (execute_message_msg sample_sdk [9] [3]) payloads) \<and>
    map (read_message (plain_codecs sample_sdk)) payloads = [Some (Contract.ExecutePending ''a''), None]"
  using requests_reach_contract [OF plain_codecs_ok [of sample_sdk] sample_address, of sample_wasm 0 "[9]"
      "[Req_execute_pending ''a'', Req_update_min_amount (- 1)]"]
  by (simp add: as_uint128_def)

theorem client_reads_storage_witness:
  "let E = wired (plain_codecs sample_sdk) (querying sample_sdk (plain_codecs sample_sdk) sample_three) in
    GetContractConfig sample_sdk E sample_client 0 = Inr (config_to_go sample_config) \<and>
    GetPendingTxs sample_sdk E sample_client 0 None (Some 2) =
      Inr (map pending_to_go [to_pending ''a'' (sample_tx_of [''r1'']), to_pending ''b'' (sample_tx_of [''r1'', ''r2''])])"
  using client_reads_storage [OF plain_codecs_ok querying_answers sample_address, of sample_sdk sample_three 0 e i None "Some 2"]
  by (simp add: Let_def sample_three_def sample_start_def get_pending_transactions_def paginate_transactions_def
      DEFAULT_PAGE_LIMIT_def kv_range_def)

end
