(* ===== verification/Wire_Calls.thy ===== *)
theory Wire_Calls
  imports Wire_Properties Command_Properties
begin

text \<open>
  Calls through the wire: the messages that execute approved transactions, delivered to the contract one after another; the
  executor's interface of the contract provided by a client on the encodings of the code; and the deployment.
\<close>

section \<open>Delivering messages\<close>

definition msg_funds :: "sdk_coin list \<Rightarrow> coin list" where
  "msg_funds fs = map (\<lambda>f. \<lparr>coin_denom = sc_Denom f, coin_amount = of_int (Amount f)\<rparr>) fs"

text \<open>The chain runs the messages of a transaction in order; one that is refused undoes the transaction (\<open>None\<close>).\<close>

fun deliver :: "codecs \<Rightarrow> host \<Rightarrow> storage \<Rightarrow> sdk_msg \<Rightarrow> (storage \<times> response) option" where
  "deliver W h st (MsgExecuteContract who addr payload fs) =
     (case execute_text W h st \<lparr>sender = who, funds = msg_funds fs\<rparr> payload of Some (Inr x) \<Rightarrow> Some x | _ \<Rightarrow> None)"
| "deliver W h st m = None"

fun deliver_all :: "codecs \<Rightarrow> host \<Rightarrow> storage \<Rightarrow> sdk_msg list \<Rightarrow> (storage \<times> response list) option" where
  "deliver_all W h st [] = Some (st, [])"
| "deliver_all W h st (m # ms) = Option.bind (deliver W h st m) (\<lambda>(st1, r).
     map_option (\<lambda>(st2, rs). (st2, r # rs)) (deliver_all W h st1 ms))"

section \<open>Executing what is approved\<close>

definition approved_entry :: "contract_config \<Rightarrow> string \<times> transaction \<Rightarrow> bool" where
  "approved_entry cfg kt \<longleftrightarrow> threshold cfg \<le> of_nat (length (evidence_providers (snd kt)))"

definition entry_msg :: "sdk \<Rightarrow> codecs \<Rightarrow> acc_address \<Rightarrow> acc_address \<Rightarrow> string \<times> transaction \<Rightarrow> sdk_msg" where
  "entry_msg S W who addr kt = MsgExecuteContract (AccAddress_String S who) (AccAddress_String S addr)
     (json_Marshal (request_json W (Req_execute_pending (fst kt)))) [coin_to_go (amount (snd kt))]"

lemma kv_remove_filter: "kv_wf m \<Longrightarrow> kv_remove k m = filter (\<lambda>x. fst x \<noteq> k) m"
proof (induction k m rule: kv_remove.induct)
  case (2 k j w m)
  then have "kv_wf m" and "\<forall>x \<in> set m. fst x \<noteq> j" by (auto simp: kv_wf_def)
  then show ?case using "2.IH" by (auto simp: filter_id_conv)
qed simp

lemma entry_delivered:
  assumes "codecs_ok S W" and "\<And>x. coin_amount x \<noteq> 0 \<Longrightarrow> one_coin h [x] = Inr x"
    and "CONFIG st = Some cfg" and "kv_load (PENDING_TRANSACTIONS st) k = Some t"
    and "approved_entry cfg (k, t)" and "coin_amount (amount t) \<noteq> 0"
  shows "deliver W h st (entry_msg S W who addr (k, t)) =
    Some (send_bank_transaction h st t (extract_id_from_evidence_id k) k)"
proof -
  have "msg_funds [coin_to_go (amount t)] = [amount t]"
    by (simp add: msg_funds_def coin_to_go_def)
  moreover have "\<not> of_nat (length (evidence_providers t)) < threshold cfg"
    using assms(5) by (simp add: approved_entry_def not_less)
  ultimately show ?thesis
    using assms(2-4,6) read_request [OF assms(1), of "Req_execute_pending k"]
    by (simp add: entry_msg_def execute_text_def read_message_def [symmetric] execute_pending_def load_config_def)
qed

lemma entries_delivered:
  assumes "codecs_ok S W" and "\<And>x. coin_amount x \<noteq> 0 \<Longrightarrow> one_coin h [x] = Inr x"
    and "CONFIG st = Some cfg" and "kv_wf (PENDING_TRANSACTIONS st)" and "distinct (map fst A)"
    and "\<And>k t. (k, t) \<in> set A \<Longrightarrow>
      kv_load (PENDING_TRANSACTIONS st) k = Some t \<and> approved_entry cfg (k, t) \<and> coin_amount (amount t) \<noteq> 0"
  shows "\<exists>st' rs. deliver_all W h st (map (entry_msg S W who addr) A) = Some (st', rs) \<and> CONFIG st' = CONFIG st \<and>
    PENDING_TRANSACTIONS st' = filter (\<lambda>x. fst x \<notin> fst ` set A) (PENDING_TRANSACTIONS st) \<and>
    concat (map messages rs) = map (\<lambda>(k, t). BankSend (recipient t) [amount t]) A"
  using assms(3-6)
proof (induction A arbitrary: st)
  case (Cons x A)
  obtain k t where x: "x = (k, t)" by (cases x)
  define st1 where "st1 = fst (send_bank_transaction h st t (extract_id_from_evidence_id k) k)"
  have kt: "kv_load (PENDING_TRANSACTIONS st) k = Some t" "approved_entry cfg (k, t)" "coin_amount (amount t) \<noteq> 0"
    using Cons.prems(4) x by auto
  have first: "deliver W h st (entry_msg S W who addr (k, t)) =
      Some (send_bank_transaction h st t (extract_id_from_evidence_id k) k)"
    using assms(2) by (intro entry_delivered [OF assms(1) _ Cons.prems(1) kt])
  have pend: "PENDING_TRANSACTIONS st1 = kv_remove k (PENDING_TRANSACTIONS st)" and cfg: "CONFIG st1 = CONFIG st"
    by (simp_all add: st1_def send_bank_transaction_def)
  have "k' \<noteq> k" if "(k', t') \<in> set A" for k' t'
    using Cons.prems(3) x that by force
  then have "\<exists>st' rs. deliver_all W h st1 (map (entry_msg S W who addr) A) = Some (st', rs) \<and> CONFIG st' = CONFIG st1 \<and>
    PENDING_TRANSACTIONS st' = filter (\<lambda>x. fst x \<notin> fst ` set A) (PENDING_TRANSACTIONS st1) \<and>
    concat (map messages rs) = map (\<lambda>(k, t). BankSend (recipient t) [amount t]) A"
    using Cons.prems pend cfg
    by (intro Cons.IH) (auto simp: kv_wf_remove kv_load_remove)
  then obtain st' rs where rest: "deliver_all W h st1 (map (entry_msg S W who addr) A) = Some (st', rs)" "CONFIG st' = CONFIG st1"
    "PENDING_TRANSACTIONS st' = filter (\<lambda>x. fst x \<notin> fst ` set A) (PENDING_TRANSACTIONS st1)"
    "concat (map messages rs) = map (\<lambda>(k, t). BankSend (recipient t) [amount t]) A"
    by blast
  obtain r where r: "send_bank_transaction h st t (extract_id_from_evidence_id k) k = (st1, r)"
      "messages r = [BankSend (recipient t) [amount t]]"
    by (simp add: st1_def send_bank_transaction_def)
  have "filter (\<lambda>y. fst y \<notin> fst ` set A) (PENDING_TRANSACTIONS st1) =
      filter (\<lambda>y. fst y \<notin> fst ` set (x # A)) (PENDING_TRANSACTIONS st)"
    using x by (auto simp: pend kv_remove_filter [OF Cons.prems(2)] intro!: filter_cong)
  with rest r first cfg show ?case
    by (intro exI [of _ st'] exI [of _ "r # rs"]) (simp add: x)
qed simp

lemma key_in_filter: "distinct (map fst m) \<Longrightarrow> x \<in> set m \<Longrightarrow> fst x \<in> fst ` {y \<in> set m. P y} \<longleftrightarrow> P x"
  by (cases x) (auto dest: eq_key_imp_eq_value intro: rev_image_eqI)

text \<open>What the client reads and builds, from one storage of the contract.\<close>

lemma wired_reads_all:
  assumes "codecs_ok S W" and "\<And>n. answers_from S W E addr st n" and "ContractAddress c = Some addr"
    and "ContractPageSize c = 500" and "CONFIG st = Some cfg" and "length (PENDING_TRANSACTIONS st) + 1000 < 2 ^ 32"
  shows "GetAllPendingTransactions S (wired W E) c n =
    Some (Inr (filter (unapproved (threshold cfg)) (all_pending st), filter (\<lambda>p. \<not> unapproved (threshold cfg) p) (all_pending st)))"
proof -
  have "GetContractConfig S (wired W E) c n = Inr (config_to_go cfg)"
    using config_read [OF assms(1-3), of n] assms(5) by simp
  moreover have "GetPendingTxs S (wired W E) c n (Some offset) (Some limit) = contract_pages st n offset limit" for n offset limit
    using pending_read [OF assms(1-3)] by (simp add: contract_pages_def)
  ultimately show ?thesis
    using all_pending_read_once [OF assms(4)] assms(6) by (simp add: config_to_go_def)
qed

lemma approved_all_pending:
  "filter (\<lambda>p. \<not> unapproved (threshold cfg) p) (all_pending st) =
    map (\<lambda>(k, t). pending_to_go (to_pending k t)) (filter (approved_entry cfg) (PENDING_TRANSACTIONS st))"
proof -
  have "(\<lambda>p. \<not> unapproved (threshold cfg) p) \<circ> (pending_to_go \<circ> (\<lambda>(e, t). to_pending e t)) = approved_entry cfg"
    by (auto simp: fun_eq_iff unapproved_def approved_entry_def pending_to_go_def to_pending_def not_less)
  then show ?thesis by (simp add: all_pending_def filter_map comp_def case_prod_unfold)
qed

text \<open>
  What the SDK documents of \<open>NewCoins\<close> for one coin: a zero coin is left out, and a coin with a negative amount or
  a denom that is not valid (\<open>V\<close>) makes it panic.
\<close>

definition coins_documented :: "(string \<Rightarrow> bool) \<Rightarrow> wasm_env \<Rightarrow> bool" where
  "coins_documented V E \<longleftrightarrow> (\<forall>x.
     if Amount x = 0 then NewCoins E [x] = Ok []
     else if 0 < Amount x \<and> V (sc_Denom x) then NewCoins E [x] = Ok [x]
     else \<exists>p. NewCoins E [x] = Panic p)"

lemma amount_to_go: "coin_amount a \<noteq> 0 \<Longrightarrow> 0 < Amount (coin_to_go a)" "sc_Denom (coin_to_go a) = coin_denom a"
  by (auto simp: coin_to_go_def uint_0_iff order_less_le)

lemma documented_coin:
  assumes "coins_documented V E" and "coin_amount a \<noteq> 0"
  shows "if V (coin_denom a) then NewCoins E [coin_to_go a] = Ok [coin_to_go a] else \<exists>p. NewCoins E [coin_to_go a] = Panic p"
  using assms(1) [unfolded coins_documented_def, rule_format, of "coin_to_go a"] amount_to_go(1) [OF assms(2)]
  by (auto simp: amount_to_go(2) split: if_splits)

definition approved_view :: "contract_config \<Rightarrow> storage \<Rightarrow> PendingTransaction list" where
  "approved_view cfg st =
     map (\<lambda>(k, t). pending_to_go (to_pending k t)) (filter (approved_entry cfg) (PENDING_TRANSACTIONS st))"

lemma view_amount: "tx_Amount (ptx (pending_to_go (to_pending k t))) = coin_to_go (amount t)"
  "EvidenceID (pending_to_go (to_pending k t)) = k"
  by (simp_all add: pending_to_go_def to_pending_def)

lemma wired_execution_messages:
  assumes "codecs_ok S W" and "\<And>n. answers_from S W E addr st n" and "ContractAddress c = Some addr"
    and "ContractPageSize c = 500" and "CONFIG st = Some cfg" and "length (PENDING_TRANSACTIONS st) + 1000 < 2 ^ 32"
    and "kv_wf (PENDING_TRANSACTIONS st)" and "coins_documented V E"
    and "\<And>k t. (k, t) \<in> set (PENDING_TRANSACTIONS st) \<Longrightarrow> coin_amount (amount t) \<noteq> 0"
    and "\<And>k t. (k, t) \<in> set (filter (approved_entry cfg) (PENDING_TRANSACTIONS st)) \<Longrightarrow> V (coin_denom (amount t))"
  shows "BuildExecutePendingMessages S (wired W E) c n who [] =
    Some (Ok (map (entry_msg S W who addr) (filter (approved_entry cfg) (PENDING_TRANSACTIONS st))))"
proof -
  let ?coins = "\<lambda>t. [tx_Amount (ptx t)]"
  have ids: "map EvidenceID (approved_view cfg st) = map fst (filter (approved_entry cfg) (PENDING_TRANSACTIONS st))"
    by (auto simp: approved_view_def view_amount)
  have "distinct (map EvidenceID (approved_view cfg st))"
    unfolding ids using kv_distinct [OF assms(7)] by (rule distinct_map_filter)
  moreover have "NewCoins (wired W E) [tx_Amount (ptx p)] = Ok (?coins p)" if p: "p \<in> set (approved_view cfg st)" for p
  proof -
    from p obtain k t where kt: "(k, t) \<in> set (filter (approved_entry cfg) (PENDING_TRANSACTIONS st))"
      "p = pending_to_go (to_pending k t)"
      by (auto simp: approved_view_def)
    from documented_coin [OF assms(8) assms(9) [of k t]] assms(10) [OF kt(1)] kt show ?thesis
      by (simp add: view_amount wired_def)
  qed
  ultimately have "BuildExecutePendingMessages S (wired W E) c n who [] =
    Some (Ok (map (pending_msg S who addr (\<lambda>r. json_Marshal (request_json W r)) ?coins) (approved_view cfg st)))"
    using pending_messages_built [OF wired_reads_all [OF assms(1-6)] assms(3), where ids = "[]" and coins = ?coins]
    by (simp add: approved_all_pending approved_view_def wired_def)
  then show ?thesis by (auto simp: approved_view_def pending_msg_def entry_msg_def view_amount)
qed

lemma wired_execution_panics:
  assumes "codecs_ok S W" and "\<And>n. answers_from S W E addr st n" and "ContractAddress c = Some addr"
    and "ContractPageSize c = 500" and "CONFIG st = Some cfg" and "length (PENDING_TRANSACTIONS st) + 1000 < 2 ^ 32"
    and "coins_documented V E"
    and "\<And>k t. (k, t) \<in> set (PENDING_TRANSACTIONS st) \<Longrightarrow> coin_amount (amount t) \<noteq> 0"
    and "(k, t) \<in> set (filter (approved_entry cfg) (PENDING_TRANSACTIONS st))" and "\<not> V (coin_denom (amount t))"
  shows "\<exists>p. BuildExecutePendingMessages S (wired W E) c n who [] = Some (Panic p)"
proof -
  have coin: "if V (coin_denom (amount t)) then NewCoins (wired W E) [coin_to_go (amount t)] = Ok [coin_to_go (amount t)]
      else \<exists>p. NewCoins (wired W E) [coin_to_go (amount t)] = Panic p" if "(k, t) \<in> set (PENDING_TRANSACTIONS st)" for k t
    using documented_coin [OF assms(7) assms(8) [OF that]] by (simp add: wired_def)
  have "\<exists>p. build_pending_msgs S (wired W E) c who True [] (approved_view cfg st) = Panic p"
  proof (rule build_pending_msgs_panics [OF assms(3)])
    show "Marshal_exec (wired W E) r = Inr (json_Marshal (request_json W r))" for r by (simp add: wired_def)
    show "(\<exists>fs. NewCoins (wired W E) [tx_Amount (ptx p)] = Ok fs) \<or> (\<exists>q. NewCoins (wired W E) [tx_Amount (ptx p)] = Panic q)"
      if "p \<in> set (approved_view cfg st)" for p
      using that coin by (fastforce simp: approved_view_def view_amount split: if_splits)
    have "pending_to_go (to_pending k t) \<in> set (approved_view cfg st)"
      using assms(9) by (force simp: approved_view_def)
    moreover have "\<exists>p. NewCoins (wired W E) [coin_to_go (amount t)] = Panic p"
      using coin [of k t] assms(9,10) by simp
    ultimately show "\<exists>p \<in> set (approved_view cfg st). \<exists>q. NewCoins (wired W E) [tx_Amount (ptx p)] = Panic q"
      by (intro bexI [of _ "pending_to_go (to_pending k t)"]) (simp add: view_amount)
  qed
  then show ?thesis
    using wired_reads_all [OF assms(1-6), of n] by (auto simp: BuildExecutePendingMessages_def approved_all_pending approved_view_def)
qed

text \<open>
  C17: With the default page size the client reads every pending transaction of the contract exactly once. If the denoms of the approved
  ones are valid for the SDK, what it then builds to execute them works: one message per approved transaction in key
  order, with its amount as funds; run by the contract one after another they are all accepted, each approved
  transaction is paid once, and exactly the approved ones have left the pending transactions. If one approved denom is
  not valid, the client panics and executes none of them.
\<close>

theorem approved_pending_executed:
  assumes "codecs_ok S W" and "\<And>n. answers_from S W E addr st n" and "ContractAddress c = Some addr"
    and "ContractPageSize c = 500" and "CONFIG st = Some cfg" and "length (PENDING_TRANSACTIONS st) + 1000 < 2 ^ 32"
    and "kv_wf (PENDING_TRANSACTIONS st)" and "coins_documented V E"
    and "\<And>k t. (k, t) \<in> set (PENDING_TRANSACTIONS st) \<Longrightarrow> coin_amount (amount t) \<noteq> 0"
    and "\<And>x. coin_amount x \<noteq> 0 \<Longrightarrow> one_coin h [x] = Inr x"
  shows "GetAllPendingTransactions S (wired W E) c n =
      Some (Inr (filter (unapproved (threshold cfg)) (all_pending st), filter (\<lambda>p. \<not> unapproved (threshold cfg) p) (all_pending st))) \<and>
    (if \<forall>(k, t) \<in> set (filter (approved_entry cfg) (PENDING_TRANSACTIONS st)). V (coin_denom (amount t))
     then \<exists>msgs st' rs. BuildExecutePendingMessages S (wired W E) c n who [] = Some (Ok msgs) \<and>
       deliver_all W h st msgs = Some (st', rs) \<and>
       PENDING_TRANSACTIONS st' = filter (\<lambda>kt. \<not> approved_entry cfg kt) (PENDING_TRANSACTIONS st) \<and>
       concat (map messages rs) =
         map (\<lambda>(k, t). BankSend (recipient t) [amount t]) (filter (approved_entry cfg) (PENDING_TRANSACTIONS st))
     else \<exists>p. BuildExecutePendingMessages S (wired W E) c n who [] = Some (Panic p))"
proof -
  let ?A = "filter (approved_entry cfg) (PENDING_TRANSACTIONS st)"
  let ?valid = "\<forall>(k, t) \<in> set ?A. V (coin_denom (amount t))"
  have loads: "kv_load (PENDING_TRANSACTIONS st) k = Some t" if "(k, t) \<in> set (PENDING_TRANSACTIONS st)" for k t
    using that akv.range_load [OF assms(7)] by (simp add: kv_range_def)
  have "distinct (map fst ?A)" by (rule distinct_map_filter [OF kv_distinct [OF assms(7)]])
  moreover have "kv_load (PENDING_TRANSACTIONS st) k = Some t \<and> approved_entry cfg (k, t) \<and> coin_amount (amount t) \<noteq> 0"
    if "(k, t) \<in> set ?A" for k t
    using that loads assms(9) [of k t] by simp
  ultimately obtain st' rs where d: "deliver_all W h st (map (entry_msg S W who addr) ?A) = Some (st', rs)"
    and "PENDING_TRANSACTIONS st' = filter (\<lambda>x. fst x \<notin> fst ` set ?A) (PENDING_TRANSACTIONS st)"
    and "concat (map messages rs) = map (\<lambda>(k, t). BankSend (recipient t) [amount t]) ?A"
    using entries_delivered [OF assms(1,10,5,7), where A = ?A and who = who and addr = addr] by blast
  moreover have "filter (\<lambda>x. fst x \<notin> fst ` set ?A) (PENDING_TRANSACTIONS st) =
      filter (\<lambda>kt. \<not> approved_entry cfg kt) (PENDING_TRANSACTIONS st)"
    by (intro filter_cong) (simp_all add: key_in_filter [OF kv_distinct [OF assms(7)]])
  moreover have "BuildExecutePendingMessages S (wired W E) c n who [] = Some (Ok (map (entry_msg S W who addr) ?A))" if ?valid
    by (rule wired_execution_messages [OF assms(1-9)]) (use that in auto)
  moreover have "\<exists>p. BuildExecutePendingMessages S (wired W E) c n who [] = Some (Panic p)" if "\<not> ?valid"
  proof -
    from that obtain k t where kt: "(k, t) \<in> set ?A" "\<not> V (coin_denom (amount t))" by auto
    show ?thesis by (rule wired_execution_panics [OF assms(1-6,8) _ kt]) (rule assms(9))
  qed
  ultimately show ?thesis using wired_reads_all [OF assms(1-6)] by auto
qed

lemma sample_approved:
  "filter (approved_entry sample_config) (PENDING_TRANSACTIONS sample_three) = [(''b'', sample_tx_of [''r1'', ''r2''])]"
  by code_simp

text \<open>
  The approved transaction of the sample is executed; with the denom \<open>0ucore\<close>, to which a dishonest first submission of
  15 turns the honest ones of 150 \<open>ucore\<close> above the maximum, the client panics.
\<close>

definition sample_bad_denom :: storage where
  "sample_bad_denom = sample_three\<lparr>PENDING_TRANSACTIONS :=
     [(''b'', (sample_tx_of [''r1'', ''r2''])\<lparr>amount := \<lparr>coin_denom = ''0ucore'', coin_amount = 15\<rparr>\<rparr>)]\<rparr>"

abbreviation sample_wired :: "storage \<Rightarrow> wasm_env" where
  "sample_wired st \<equiv> wired (plain_codecs sample_sdk) (querying sample_sdk (plain_codecs sample_sdk) st)"

lemma querying_coins: "coins_documented starts_with_letter (querying sample_sdk (plain_codecs sample_sdk) st)"
  by (simp add: coins_documented_def querying_def sample_wasm_def)

lemma sample_bad_approved: "filter (approved_entry sample_config) (PENDING_TRANSACTIONS sample_bad_denom) =
    [(''b'', (sample_tx_of [''r1'', ''r2''])\<lparr>amount := \<lparr>coin_denom = ''0ucore'', coin_amount = 15\<rparr>\<rparr>)]"
  by code_simp

theorem approved_pending_executed_witness:
  "(\<exists>msgs st' rs. BuildExecutePendingMessages sample_sdk (sample_wired sample_three) sample_client 0 [9] [] = Some (Ok msgs) \<and>
      deliver_all (plain_codecs sample_sdk) sample_host sample_three msgs = Some (st', rs) \<and>
      map fst (PENDING_TRANSACTIONS st') = [''a'', ''c''] \<and> concat (map messages rs) = [BankSend ''bob'' [sample_coin 15]]) \<and>
    (\<exists>p. BuildExecutePendingMessages sample_sdk (sample_wired sample_bad_denom) sample_client 0 [9] [] = Some (Panic p))"
proof -
  have run: "if \<forall>(k, t) \<in> set (filter (approved_entry sample_config) (PENDING_TRANSACTIONS st)). starts_with_letter (coin_denom (amount t))
     then \<exists>msgs st' rs. BuildExecutePendingMessages sample_sdk (sample_wired st) sample_client 0 [9] [] = Some (Ok msgs) \<and>
       deliver_all (plain_codecs sample_sdk) sample_host st msgs = Some (st', rs) \<and>
       PENDING_TRANSACTIONS st' = filter (\<lambda>kt. \<not> approved_entry sample_config kt) (PENDING_TRANSACTIONS st) \<and>
       concat (map messages rs) = map (\<lambda>(k, t). BankSend (recipient t) [amount t])
         (filter (approved_entry sample_config) (PENDING_TRANSACTIONS st))
     else \<exists>p. BuildExecutePendingMessages sample_sdk (sample_wired st) sample_client 0 [9] [] = Some (Panic p)"
    if "CONFIG st = Some sample_config" "kv_wf (PENDING_TRANSACTIONS st)" "length (PENDING_TRANSACTIONS st) + 1000 < 2 ^ 32"
      and "\<And>k t. (k, t) \<in> set (PENDING_TRANSACTIONS st) \<Longrightarrow> coin_amount (amount t) \<noteq> 0" for st
    by (rule conjunct2 [OF approved_pending_executed [OF plain_codecs_ok querying_answers sample_address _ that(1,3,2) querying_coins that(4)]])
      (simp_all add: sample_client_def DefaultContractClientConfig_def sample_host_def)
  have "filter (\<lambda>kt. \<not> approved_entry sample_config kt) (PENDING_TRANSACTIONS sample_three) =
      [(''a'', sample_tx_of [''r1'']), (''c'', sample_tx_of [''r3''])]"
    by code_simp
  moreover have "starts_with_letter (coin_denom (amount (sample_tx_of p)))" for p
    by (simp add: sample_tx_of_def sample_coin_def starts_with_letter_def is_digit_def)
  moreover have "\<not> starts_with_letter ''0ucore''" by (simp add: starts_with_letter_def is_digit_def)
  moreover have "kv_wf (PENDING_TRANSACTIONS sample_three)" "kv_wf (PENDING_TRANSACTIONS sample_bad_denom)"
    by (simp_all add: sample_three_def sample_bad_denom_def kv_wf_def)
  moreover have "coin_amount (amount t) \<noteq> 0"
    if "(k, t) \<in> set (PENDING_TRANSACTIONS sample_three) \<union> set (PENDING_TRANSACTIONS sample_bad_denom)" for k t
    using that by (auto simp: sample_three_def sample_bad_denom_def sample_tx_of_def sample_coin_def)
  moreover have "CONFIG sample_three = Some sample_config" "CONFIG sample_bad_denom = Some sample_config"
    "length (PENDING_TRANSACTIONS sample_three) + 1000 < 2 ^ 32" "length (PENDING_TRANSACTIONS sample_bad_denom) + 1000 < 2 ^ 32"
    by (simp_all add: sample_three_def sample_bad_denom_def sample_start_def)
  ultimately show ?thesis
    using run [of sample_three] run [of sample_bad_denom]
    by (fastforce simp: sample_approved sample_bad_approved sample_tx_of_def)
qed

section \<open>The executor's contract, on the wire\<close>

text \<open>
  The chain at the level of texts: a broadcast of one submission that succeeds ran the contract on its text, one that fails with
  one of the two texts the executor looks for was refused by the contract for that reason; a smart query that is answered is
  answered from the storage of that moment. Any call may fail otherwise.
\<close>

definition executes_texts :: "codecs \<Rightarrow> port_setup \<Rightarrow> bool" where
  "executes_texts W e \<longleftrightarrow> (\<forall>payload n.
     case BroadcastTx (po_env e) n (po_sender e) [submission_msg e payload] of
       Inr x \<Rightarrow> (\<exists>resp. execute_text W (po_host e) (po_before e n) (by_relayer e) payload = Some (Inr (po_after e n, resp)))
     | Inl err \<Rightarrow>
         (Contains (Error err) (error_text EvidenceAlreadyProvided) \<or> Contains (Error err) (error_text TransferAlreadySent)) \<longrightarrow>
         po_after e n = po_before e n \<and>
         (\<exists>c. execute_text W (po_host e) (po_before e n) (by_relayer e) payload = Some (Inl (Fails c)) \<and>
            (c = TransferAlreadySent \<or> c = EvidenceAlreadyProvided)))"

definition queries_texts :: "codecs \<Rightarrow> port_setup \<Rightarrow> bool" where
  "queries_texts W e \<longleftrightarrow> (\<forall>payload n resp.
     SmartContractState (po_env e) n (AccAddress_String (po_sdk e) (po_addr e)) payload = Inr resp \<longrightarrow>
     query_text W (po_before e n) payload = Some (Inr resp))"

definition wired_port :: "codecs \<Rightarrow> port_setup \<Rightarrow> port_setup" where
  "wired_port W e = e\<lparr>po_env := wired W (po_env e)\<rparr>"

lemma wired_port_sel [simp]:
  "po_env (wired_port W e) = wired W (po_env e)" "po_cfg (wired_port W e) = po_cfg e" "po_addr (wired_port W e) = po_addr e"
  "po_sdk (wired_port W e) = po_sdk e" "po_before (wired_port W e) = po_before e"
  by (simp_all add: wired_port_def)

lemma wired_sel [simp]:
  "Marshal_exec (wired W E) r = Inr (json_Marshal (request_json W r))" "Marshal_query (wired W E) q = Inr (json_Marshal (query_json q))"
  "SmartContractState (wired W E) = SmartContractState E" "BroadcastTx (wired W E) = BroadcastTx E"
  by (simp_all add: wired_def)

lemma submission_text:
  assumes "codecs_ok S W"
    and "execute_text W h st info (json_Marshal (request_json W (Req_threshold_bank_send r))) = Some x"
  shows "execute h st info (request_msg r) = x"
  using assms(2) read_request [OF assms(1), of "Req_threshold_bank_send r"]
  by (auto simp: execute_text_def read_message_def [symmetric] split: if_splits)

lemma config_text:
  assumes "codecs_ok S W" and "query_text W st (json_Marshal (query_json Query_get_config)) = Some (Inr resp)"
    and "go_decode (Config_of W) resp = Inr c"
  shows "\<exists>cc. CONFIG st = Some cc \<and> c = config_to_go cc"
proof -
  from query_texted [OF assms(1), of st Query_get_config]
  have "query_text W st (json_Marshal (query_json Query_get_config)) =
      Some (res_bind (contract_query W st GetConfig) (\<lambda>j. Inr (serde_to_vec W j)))"
    by (simp del: query_json.simps contract_query.simps)
  with assms(2) obtain cc where cc: "CONFIG st = Some cc" "resp = serde_to_vec W (config_serialize W cc)"
    by (auto simp: get_config_def load_config_def res_bind_Inr simp del: query_json.simps split: option.splits)
  have "wire_value (config_serialize W cc)"
    by (rule wire_answer [OF assms(1), of st GetConfig]) (simp add: get_config_def load_config_def cc(1))
  then show ?thesis
    using assms(3) cc codecs_okD(11) [OF assms(1)] Config_of_answer [OF assms(1)] by (simp add: go_decode_def)
qed

text \<open>
  C16: A client on the encodings of the code implements the executor's interface of the contract: if the chain runs the contract on
  the texts it is sent and answers queries from its storage, then what the executor submits is exactly the contract's message
  with the transaction id, coin and recipient, what it reads is the contract's configuration, and an error it takes
  for done is the contract's refusal.
\<close>

theorem wired_client_is_linked:
  assumes "codecs_ok (po_sdk e) W" and "ContractAddress (po_cfg e) = Some (po_addr e)"
    and "executes_texts W e" and "queries_texts W e"
  shows "chain_linked (wired_port W e)"
proof -
  have "answers_submission (wired_port W e) r (json_Marshal (request_json W (Req_threshold_bank_send r))) n" for r n
  proof -
    let ?p = "json_Marshal (request_json W (Req_threshold_bank_send r))"
    have "case BroadcastTx (po_env e) n (po_sender e) [submission_msg e ?p] of
       Inr x \<Rightarrow> (\<exists>resp. execute_text W (po_host e) (po_before e n) (by_relayer e) ?p = Some (Inr (po_after e n, resp)))
     | Inl err \<Rightarrow>
         (Contains (Error err) (error_text EvidenceAlreadyProvided) \<or> Contains (Error err) (error_text TransferAlreadySent)) \<longrightarrow>
         po_after e n = po_before e n \<and>
         (\<exists>c. execute_text W (po_host e) (po_before e n) (by_relayer e) ?p = Some (Inl (Fails c)) \<and>
            (c = TransferAlreadySent \<or> c = EvidenceAlreadyProvided))"
      using assms(3) unfolding executes_texts_def by blast
    then show ?thesis
      using submission_text [OF assms(1)]
      by (cases "BroadcastTx (po_env e) n (po_sender e) [submission_msg e ?p]")
        (fastforce simp: answers_submission_def wired_port_def wired_def submission_msg_def by_relayer_def
          simp del: execute.simps error_text.simps request_json.simps)+
  qed
  moreover have "\<exists>cc. CONFIG (po_before e n) = Some cc \<and> c = config_to_go cc"
    if "SmartContractState (po_env e) n (AccAddress_String (po_sdk e) (po_addr e)) (json_Marshal (query_json Query_get_config)) = Inr resp"
      and "go_decode (Config_of W) resp = Inr c" for n resp c
    using that assms(4) config_text [OF assms(1)] unfolding queries_texts_def by blast
  ultimately show ?thesis
    using assms(2) unfolding chain_linked_def wired_port_sel wired_sel wired_readers
    by (auto simp del: query_json.simps request_json.simps)
qed

text \<open>
  A chain that runs the contract on the text of call 1, if it is accepted with the expected outcome, and answers queries.
\<close>

definition text_env :: "codecs \<Rightarrow> sdk \<Rightarrow> acc_address \<Rightarrow> storage \<Rightarrow> storage \<Rightarrow> wasm_env" where
  "text_env W S who st st' = sample_wasm\<lparr>
     SmartContractState := (\<lambda>n addr payload. case query_text W (if n \<le> 1 then st else st') payload of
        Some (Inr resp) \<Rightarrow> Inr resp | _ \<Rightarrow> Inl (Errorf ''query wasm contract failed'')),
     BroadcastTx := (\<lambda>n s ms. case ms of
        [MsgExecuteContract w a payload []] \<Rightarrow>
          if n = 1 \<and> map_option (map_sum id fst) (execute_text W sample_host st \<lparr>sender = AccAddress_String S who, funds = []\<rparr> payload) =
            Some (Inr st')
          then Inr \<lparr>tx_Height = 1, TxHash = ''H'', tx_Code = 0, tx_Tx = None, tx_Timestamp = [], tx_Events = []\<rparr>
          else Inl (Errorf ''out of gas'')
      | _ \<Rightarrow> Inl (Errorf ''out of gas''))\<rparr>"

definition text_port :: port_setup where
  "text_port = sample_port\<lparr>po_env := text_env (plain_codecs relayer_sdk) relayer_sdk [1] sample_start sample_voted\<rparr>"

lemma outcome_storage: "map_sum id fst z = Inr a \<longleftrightarrow> (\<exists>b. z = Inr (a, b))"
proof (cases z)
  case (Inr x)
  then show ?thesis by (cases x) simp
qed simp

lemma text_port_executes: "executes_texts (plain_codecs relayer_sdk) text_port"
proof -
  have other: "\<not> Contains ''out of gas'' (error_text EvidenceAlreadyProvided)"
    "\<not> Contains ''out of gas'' (error_text TransferAlreadySent)"
    by code_simp+
  show ?thesis
    unfolding executes_texts_def
    using other
    by (auto simp: text_port_def relayer_port_def text_env_def submission_msg_def by_relayer_def outcome_storage
        simp del: error_text.simps)
qed

lemma text_port_queries: "queries_texts (plain_codecs relayer_sdk) text_port"
  by (auto simp: queries_texts_def text_port_def relayer_port_def text_env_def split: option.splits sum.splits)

theorem wired_client_is_linked_witness:
  "chain_linked (wired_port (plain_codecs relayer_sdk) text_port)"
proof (rule wired_client_is_linked [OF _ _ text_port_executes text_port_queries])
  show "codecs_ok (po_sdk text_port) (plain_codecs relayer_sdk)"
    by (simp add: text_port_def relayer_port_def plain_codecs_ok)
qed (simp add: text_port_def relayer_port_def sample_client_def DefaultContractClientConfig_def)

section \<open>Deploying\<close>

lemma instantiate_text_read:
  assumes "codecs_ok S W"
  shows "instantiate_text W h st (json_Marshal (instantiate_json W r)) =
    map_option (instantiate h st) (instantiate_msg_of W (instantiate_json W r))"
  using codecs_okD(10) [OF assms wire_instantiate [OF assms]] by (simp add: instantiate_text_def)

lemma serde_vec_strings [simp]: "serde_vec serde_string (JArr (map JStr xs)) = Some xs"
  using serde_vec_map [of serde_string JStr id xs] by simp

lemma nil_tokens_refused:
  assumes "codecs_ok S W" and "ir_XRPLTokens r = None"
  shows "instantiate_msg_of W (instantiate_json W r) = None"
  using assms(2)
  by (simp add: instantiate_msg_of_def instantiate_json_def serde_struct_def serde_field_def serde_vec_def bind_eq_None_conv)

lemma tokens_read:
  assumes "codecs_ok S W" and "ir_XRPLTokens r = Some ts"
    and "as_uint128 (ir_MinAmount r) = Some mn" and "as_uint128 (ir_MaxAmount r) = Some mx"
  shows "instantiate_msg_of W (instantiate_json W r) = Some \<lparr>im_owner = ir_Owner r, im_trusted_addresses = ir_TrustedAddresses r,
     im_threshold = ir_Threshold r, im_min_amount = mn, im_max_amount = mx, im_xrpl_tokens = map token_of_go ts\<rparr>"
  using assms(2-4) codecs_okD(2) [OF assms(1)]
  by (simp add: instantiate_msg_of_def instantiate_json_def serde_struct_def serde_field_def as_uint128_def split: if_splits)
    (simp add: serde_vec_def)

lemma deployment_has_no_tokens: "deploy_config S K C = Inr d \<Longrightarrow> dep_XRPLTokens d = None"
  by (auto simp: deploy_config_def res_bind_Inr guard_Inr)

lemma instantiated_with_tokens:
  assumes "codecs_ok S W" and "DeployAndInstantiate S (wired W E) n who d = Inr a"
    and "\<And>k s adm i l p x. BroadcastTx E k who [MsgInstantiateContract s adm i l p] = Inr x \<Longrightarrow> instantiate_text W h st p \<noteq> None"
  shows "dep_XRPLTokens d \<noteq> None"
proof
  assume none: "dep_XRPLTokens d = None"
  let ?r = "\<lparr>ir_Owner = dep_Owner d, ir_TrustedAddresses = dep_TrustedAddresses d, ir_Threshold = dep_Threshold d,
    ir_MinAmount = dep_MinAmount d, ir_MaxAmount = dep_MaxAmount d, ir_XRPLTokens = dep_XRPLTokens d\<rparr>"
  have "Marshal_instantiate (wired W E) ?r = Inr (json_Marshal (instantiate_json W ?r))" by (simp add: wired_def)
  with assms(2) obtain i x where
    "BroadcastTx E (Suc n) who [MsgInstantiateContract (AccAddress_String S who) (dep_Admin d) i (dep_Label d)
      (json_Marshal (instantiate_json W ?r))] = Inr x"
    by (auto simp: DeployAndInstantiate_def res_bind_Inr)
  from assms(3) [OF this] show False
    using instantiate_text_read [OF assms(1)] nil_tokens_refused [OF assms(1), of ?r] none by simp
qed

text \<open>
  C34: The deployment command cannot succeed. It leaves the list of tokens nil, a nil list is written as null, and the contract reads
  a list there: whatever the flags are, a chain that instantiates only what the contract can read makes the command end
  with an error, after it has stored the code.
\<close>

theorem deployment_is_refused:
  assumes "deploy_config S K C = Inr d" and "codecs_ok S W"
    and "\<And>k s adm i l p x. BroadcastTx E k who [MsgInstantiateContract s adm i l p] = Inr x \<Longrightarrow> instantiate_text W h st p \<noteq> None"
  shows "\<exists>e. DeployAndInstantiate S (wired W E) n who d = Inl e"
proof (cases "DeployAndInstantiate S (wired W E) n who d")
  case (Inr a)
  with assms(2,3) have "dep_XRPLTokens d \<noteq> None" by (intro instantiated_with_tokens)
  then show ?thesis using deployment_has_no_tokens [OF assms(1)] by simp
qed blast

text \<open>A chain that stores the code and instantiates what the contract can read.\<close>

definition deploying_env :: "codecs \<Rightarrow> wasm_env" where
  "deploying_env W = sample_wasm\<lparr>
     BroadcastTx := (\<lambda>n s ms. case ms of
        [MsgInstantiateContract w adm i l payload] \<Rightarrow>
          if instantiate_text W sample_host empty_storage payload = None then Inl (Errorf ''Error parsing into type InstantiateMsg'')
          else BroadcastTx sample_wasm n s ms
      | _ \<Rightarrow> BroadcastTx sample_wasm n s ms),
     FindUint64EventAttribute := (\<lambda>r t k. Inr 1), FindStringEventAttribute := (\<lambda>r t k. Inr ''core1bob'')\<rparr>"

theorem deployment_is_refused_witness:
  "(\<exists>d. deploy_config sample_sdk sample_cmd sample_deploy_args = Inr d \<and>
     (\<exists>e. DeployAndInstantiate sample_sdk (wired (plain_codecs sample_sdk) (deploying_env (plain_codecs sample_sdk))) 0 [9] d = Inl e))"
proof -
  obtain d where d: "deploy_config sample_sdk sample_cmd sample_deploy_args = Inr d"
    by (simp add: deploy_config_def sample_deploy_args_def sample_args_def sample_cmd_def flag_names validateAccAddress_def
        sample_sdk_def)
  have "\<exists>e. DeployAndInstantiate sample_sdk (wired (plain_codecs sample_sdk) (deploying_env (plain_codecs sample_sdk))) 0 [9] d = Inl e"
  proof (rule deployment_is_refused [OF d plain_codecs_ok])
    show "instantiate_text (plain_codecs sample_sdk) sample_host empty_storage p \<noteq> None"
      if "BroadcastTx (deploying_env (plain_codecs sample_sdk)) k [9] [MsgInstantiateContract s adm i l p] = Inr x" for k s adm i l p x
      using that by (auto simp: deploying_env_def split: if_splits)
  qed
  with d show ?thesis by blast
qed

end
