(* ===== verification/Wire_Audit.thy ===== *)
theory Wire_Audit
  imports Wire_Properties Auditor_Properties
begin

text \<open>
  The auditor reads the payloads the client wrote: the JSON readers of \<open>audit/audit.go\<close>, and what a request of the client becomes
  in the report.
\<close>

section \<open>The readers\<close>

definition ThresholdBankSendRequest_of :: "codecs \<Rightarrow> json \<Rightarrow> go_error + ThresholdBankSendRequest" where
  "ThresholdBankSendRequest_of W j = res_bind (go_members j) (\<lambda>ms.
     res_bind (go_field ''id'' go_string [] ms) (\<lambda>i.
     res_bind (go_field ''amount'' (\<lambda>_. Coin_UnmarshalJSON W) \<lparr>sc_Denom = [], Amount = 0\<rparr> ms) (\<lambda>a.
     res_bind (go_field ''recipient'' go_string [] ms) (\<lambda>r.
       Inr \<lparr>req_ID = i, req_Amount = a, req_Recipient = r\<rparr>))))"

definition ExecutePendingRequest_of :: "json \<Rightarrow> go_error + string" where
  "ExecutePendingRequest_of j = res_bind (go_members j) (go_field ''evidence_id'' go_string [])"

definition UpdateMinAmountRequest_of :: "codecs \<Rightarrow> json \<Rightarrow> go_error + int" where
  "UpdateMinAmountRequest_of W j = res_bind (go_members j) (go_field ''min_amount'' (\<lambda>_. Int_UnmarshalJSON W) 0)"

definition UpdateMaxAmountRequest_of :: "codecs \<Rightarrow> json \<Rightarrow> go_error + int" where
  "UpdateMaxAmountRequest_of W j = res_bind (go_members j) (go_field ''max_amount'' (\<lambda>_. Int_UnmarshalJSON W) 0)"

text \<open>A map of raw messages: of members with one name the last counts; a raw message is kept as the text of its value.\<close>

definition call_map_of :: "json \<Rightarrow> go_error + (string \<times> string) list" where
  "call_map_of j = res_bind (go_members j) (\<lambda>ms.
     Inr (map (\<lambda>k. (k, case map_of (rev ms) k of Some v \<Rightarrow> json_Marshal v | None \<Rightarrow> [])) (remdups (map fst ms))))"

definition wired_audit :: "codecs \<Rightarrow> audit_env \<Rightarrow> audit_env" where
  "wired_audit W A = A\<lparr>Unmarshal_call := go_decode call_map_of,
     Unmarshal_threshold_bank_send := go_decode (ThresholdBankSendRequest_of W),
     Unmarshal_execute_pending := go_decode ExecutePendingRequest_of,
     Unmarshal_update_min_amount := go_decode (UpdateMinAmountRequest_of W),
     Unmarshal_update_max_amount := go_decode (UpdateMaxAmountRequest_of W)\<rparr>"

declare to_lowercase_Cons [simp del]

section \<open>What the auditor makes of a request\<close>

text \<open>The SDK reads back the amounts it writes, up to 256 bits.\<close>

definition amounts_read_back :: "codecs \<Rightarrow> bool" where
  "amounts_read_back W \<longleftrightarrow>
     (\<forall>i. 0 \<le> i \<and> i < 2 ^ 256 \<longrightarrow> Int_UnmarshalJSON W (Int_MarshalJSON W i) = Inr i) \<and>
     (\<forall>c. 0 \<le> Amount c \<and> Amount c < 2 ^ 256 \<longrightarrow> Coin_UnmarshalJSON W (Coin_MarshalJSON W c) = Inr c)"

fun request_amount :: "exec_request \<Rightarrow> int" where
  "request_amount (Req_threshold_bank_send r) = Amount (req_Amount r)"
| "request_amount (Req_update_min_amount m) = m"
| "request_amount (Req_update_max_amount m) = m"
| "request_amount _ = 0"

text \<open>The report with one request more.\<close>

fun reported :: "tx_response \<Rightarrow> sdk_msg \<Rightarrow> ContractCallReport \<Rightarrow> exec_request \<Rightarrow> go_error + ContractCallReport" where
  "reported txn msg rp (Req_threshold_bank_send r) =
     Inr (rp\<lparr>ThresholdBankSendRequests := ThresholdBankSendRequests rp @ [\<lparr>call_Tx = txn, call_Msg = msg, Payload = r\<rparr>]\<rparr>)"
| "reported txn msg rp (Req_execute_pending e) =
     Inr (rp\<lparr>ExecutePendingRequests := ExecutePendingRequests rp @ [\<lparr>call_Tx = txn, call_Msg = msg, Payload = e\<rparr>]\<rparr>)"
| "reported txn msg rp (Req_update_min_amount m) =
     Inr (rp\<lparr>UpdateMinAmountRequests := UpdateMinAmountRequests rp @ [\<lparr>call_Tx = txn, call_Msg = msg, Payload = m\<rparr>]\<rparr>)"
| "reported txn msg rp (Req_update_max_amount m) =
     Inr (rp\<lparr>UpdateMaxAmountRequests := UpdateMaxAmountRequests rp @ [\<lparr>call_Tx = txn, call_Msg = msg, Payload = m\<rparr>]\<rparr>)"
| "reported txn msg rp (Req_update_trusted_addresses as) = Inl (Errorf ''exec method not found, method:update_trusted_addresses'')"
| "reported txn msg rp (Req_add_xrpl_tokens ts) = Inl (Errorf ''exec method not found, method:add_xrpl_tokens'')"
| "reported txn msg rp (Req_update_owner a) = Inl (Errorf ''exec method not found, method:update_owner'')"

lemma wired_audit_sel [simp]:
  "Unmarshal_call (wired_audit W A) = go_decode call_map_of"
  "Unmarshal_threshold_bank_send (wired_audit W A) = go_decode (ThresholdBankSendRequest_of W)"
  "Unmarshal_execute_pending (wired_audit W A) = go_decode ExecutePendingRequest_of"
  "Unmarshal_update_min_amount (wired_audit W A) = go_decode (UpdateMinAmountRequest_of W)"
  "Unmarshal_update_max_amount (wired_audit W A) = go_decode (UpdateMaxAmountRequest_of W)"
  by (simp_all add: wired_audit_def)

lemma call_read: "go_decode call_map_of (json_Marshal (JObj [(k, v)])) = Inr [(k, json_Marshal v)]"
  by (simp add: go_decode_def call_map_of_def del: json_Marshal.simps)

lemma value_read: "go_decode f (json_Marshal j) = f j"
  by (simp add: go_decode_def)

lemma payload_read:
  "decodeMessagePayloadToReport (wired_audit W A) txn (execute_message_msg S who addr (json_Marshal (JObj [(k, v)]))) rp =
    decode_calls (wired_audit W A) txn (execute_message_msg S who addr (json_Marshal (JObj [(k, v)]))) [(k, json_Marshal v)] rp"
  unfolding decodeMessagePayloadToReport_def execute_message_msg_def
  by (simp add: call_read del: json_Marshal.simps decode_calls.simps)

lemma readers_of_requests:
  assumes "amounts_read_back W"
  shows "0 \<le> Amount (req_Amount r) \<Longrightarrow> Amount (req_Amount r) < 2 ^ 256 \<Longrightarrow>
      ThresholdBankSendRequest_of W (ThresholdBankSendRequest_json W r) = Inr r"
    and "ExecutePendingRequest_of (JObj [(''evidence_id'', JStr e)]) = Inr e"
    and "0 \<le> i \<Longrightarrow> i < 2 ^ 256 \<Longrightarrow> UpdateMinAmountRequest_of W (JObj [(''min_amount'', Int_MarshalJSON W i)]) = Inr i"
    and "0 \<le> i \<Longrightarrow> i < 2 ^ 256 \<Longrightarrow> UpdateMaxAmountRequest_of W (JObj [(''max_amount'', Int_MarshalJSON W i)]) = Inr i"
  using assms
  by (simp_all add: amounts_read_back_def ThresholdBankSendRequest_of_def ThresholdBankSendRequest_json_def ExecutePendingRequest_of_def
      UpdateMinAmountRequest_of_def UpdateMaxAmountRequest_of_def)

text \<open>
  C24: The auditor reads exactly what the relayers wrote: the payload of a request of the client becomes an entry of the report
  with the same id, coin, recipient, evidence id or amount, together with its transaction and message; the three requests
  that change the trusted addresses, the tokens or the owner are an error.
\<close>

theorem audit_reads_requests:
  assumes "amounts_read_back W" and "0 \<le> request_amount r" and "request_amount r < 2 ^ 256"
  shows "decodeMessagePayloadToReport (wired_audit W A) txn (execute_message_msg S who addr (json_Marshal (request_json W r))) rp =
    reported txn (execute_message_msg S who addr (json_Marshal (request_json W r))) rp r"
  using assms(2,3)
  by (cases r)
    (simp_all add: payload_read value_read readers_of_requests [OF assms(1)] del: json_Marshal.simps)

lemma plain_amounts: "amounts_read_back (plain_codecs S)"
proof -
  have "Coin_UnmarshalJSON (plain_codecs S) (decimal_coin (sc_Denom c) (Amount c)) = Inr c" if "0 \<le> Amount c" for c :: sdk_coin
    using that by (simp add: plain_codecs_def decimal_coin_def decimal_value_int)
  moreover have "Coin_MarshalJSON (plain_codecs S) c = decimal_coin (sc_Denom c) (Amount c)" for c
    by (simp add: plain_codecs_def)
  moreover have "Int_UnmarshalJSON (plain_codecs S) (Int_MarshalJSON (plain_codecs S) i) = Inr i" if "0 \<le> i" for i
    using that by (simp add: plain_codecs_def decimal_value_int)
  ultimately show ?thesis by (simp add: amounts_read_back_def)
qed

theorem audit_reads_requests_witness:
  "decodeMessagePayloadToReport (wired_audit (plain_codecs sample_sdk) sample_audit) sample_sending
     (execute_message_msg sample_sdk [9] [3] (json_Marshal (request_json (plain_codecs sample_sdk) (Req_update_min_amount 7))))
     NewContractCallReport =
   Inr (NewContractCallReport\<lparr>UpdateMinAmountRequests := [\<lparr>call_Tx = sample_sending,
     call_Msg = execute_message_msg sample_sdk [9] [3] (json_Marshal (request_json (plain_codecs sample_sdk) (Req_update_min_amount 7))),
     Payload = 7\<rparr>]\<rparr>)"
  using audit_reads_requests [OF plain_amounts [of sample_sdk], where r = "Req_update_min_amount 7" and A = sample_audit and
      txn = sample_sending and S = sample_sdk and who = "[9]" and addr = "[3]" and rp = NewContractCallReport]
  by (simp add: NewContractCallReport_def del: json_Marshal.simps request_json.simps)

end
