(* ===== verification/Payouts.thy ===== *)
theory Payouts
  imports Delivery
begin

text \<open>
  What the contract pays out of its own funds. As long as evidence ids are unambiguous, the amount of a pending transaction is the
  amount of every submission that joins it, so the limits of the configuration, which are compared with the submission,
  bound the payment; a payment by \<open>execute_pending\<close> is covered by the funds sent along.
\<close>

section \<open>Submissions with unambiguous texts\<close>

definition plain_submission :: "execute_msg \<Rightarrow> bool" where
  "plain_submission m = (case m of
     Contract.ThresholdBankSend i a r \<Rightarrow> CHR ''-'' \<notin> set (i @ coin_denom a @ r) \<and> plain_denom (coin_denom a)
   | _ \<Rightarrow> True)"

definition plain_pending :: "storage \<Rightarrow> bool" where
  "plain_pending st \<longleftrightarrow> (\<forall>(k, t) \<in> set (PENDING_TRANSACTIONS st). plain_denom (coin_denom (amount t)))"

lemma dash_free_lower: "CHR ''-'' \<notin> set s \<Longrightarrow> CHR ''-'' \<notin> set (to_lowercase s)"
  by (auto simp: to_lowercase_def) (metis lower_char_dash)

text \<open>A submission joins a transaction of its own amount.\<close>

lemma joined_amount:
  assumes "storage_inv h st" and "plain_pending st" and "displays_coins h" and "plain_submission (Contract.ThresholdBankSend i a r)"
  shows "coin_amount (amount (joined_tx h st s i a r)) = coin_amount a \<and> plain_denom (coin_denom (amount (joined_tx h st s i a r)))"
proof (cases "kv_load (PENDING_TRANSACTIONS st) (build_evidence_id h (normalize_id i) a r)")
  case None
  then show ?thesis using assms(4) by (simp add: joined_tx_def plain_submission_def)
next
  case (Some t)
  from kv_load_SomeD [OF Some] assms(1,2) have "pending_ok h (build_evidence_id h (normalize_id i) a r) t"
    and plain: "plain_denom (coin_denom (amount t))"
    by (auto simp: storage_inv_def plain_pending_def)
  then obtain j where key: "build_evidence_id h (normalize_id j) (amount t) (recipient t) = build_evidence_id h (normalize_id i) a r"
    by (auto simp: pending_ok_def)
  have "three_parts (build_evidence_id h (normalize_id i) a r)"
    using assms(4) by (intro three_parts_evidence [OF assms(3)]) (auto simp: plain_submission_def normalize_id_def dash_free_lower)
  from same_evidence_same_transfer [OF key this assms(3) plain] have "coin_amount (amount t) = coin_amount a"
    using assms(4) by (simp add: plain_submission_def)
  with Some plain show ?thesis by (simp add: joined_tx_def)
qed

lemma plain_pending_removed:
  "(st', r) = send_bank_transaction h st t i e \<Longrightarrow> plain_pending st \<Longrightarrow> plain_pending st'"
  using set_kv_remove [of e "PENDING_TRANSACTIONS st"] by (fastforce simp: send_bank_transaction_def plain_pending_def)

lemma plain_pending_execute:
  assumes "execute h st info m = Inr (st', r)" and "storage_inv h st" and "plain_pending st" and "displays_coins h"
    and "plain_submission m"
  shows "plain_pending st'"
  using assms(1)
proof (cases rule: execute_cases)
  case (send i a rc)
  from send(2) show ?thesis
  proof (cases rule: threshold_bank_send_cases)
    case (1 c)
    then show ?thesis using plain_pending_removed assms(3) by blast
  next
    case (2 c)
    have "plain_denom (coin_denom (amount (joined_tx h st (sender info) i a rc)))"
      using joined_amount [OF assms(2-4)] assms(5) send(1) by blast
    with 2 assms(3) set_kv_save [of "build_evidence_id h (normalize_id i) a rc" "joined_tx h st (sender info) i a rc" "PENDING_TRANSACTIONS st"]
    show ?thesis by (fastforce simp: plain_pending_def)
  qed
next
  case (pending e)
  from pending(2) show ?thesis
    by (rule execute_pending_cases) (use plain_pending_removed assms(3) in blast)
next
  case config
  then show ?thesis using assms(3) by (auto simp: config_update_def plain_pending_def)
qed

lemma run_plain_pending:
  assumes "contract_run h st es" and "\<And>ev. ev \<in> set es \<Longrightarrow> plain_submission (ce_msg ev)" and "displays_coins h"
  shows "plain_pending st"
  using assms
proof (induction rule: contract_run.induct)
  case (run_instantiate m st r)
  then show ?case by (auto simp: instantiate_def Let_def res_bind_Inr plain_pending_def set_contract_version_def empty_storage_def
      split: if_splits)
next
  case (run_execute st es c info m st' r)
  have "storage_inv h st" using run_run_inv [OF run_execute(1)] by (simp add: run_inv_def)
  moreover have "plain_submission m" using run_execute.prems(1) [of "\<lparr>ce_config = c, ce_info = info, ce_msg = m, ce_resp = r\<rparr>"] by simp
  ultimately show ?case
    using plain_pending_execute [OF run_execute(3)] run_execute.IH run_execute.prems by simp
next
  case (run_migrate st es ca no st' r)
  then show ?case using migrate_kept [OF run_migrate(2)] by (simp add: plain_pending_def)
qed

text \<open>
  C5: What leaves the contract's own funds is bounded by the configuration of that moment. When ids, denoms and recipients have no
  dash and denoms do not start with a digit, every payment a submission triggers has the amount of that
  submission, between the minimum and the maximum amount; every other payment is made by \<open>execute_pending\<close> and covered
  by exactly the coin sent with the call.
\<close>

theorem payouts_within_limits:
  assumes "contract_run h st es" and "CONFIG st = Some c" and "execute h st info m = Inr (st', r)"
    and "BankSend to cs \<in> set (messages r)" and "displays_coins h"
    and "\<And>ev. ev \<in> set es \<Longrightarrow> plain_submission (ce_msg ev)" and "plain_submission m"
  shows "\<exists>a. cs = [a] \<and>
    (case m of
       Contract.ThresholdBankSend i b rc \<Rightarrow> coin_amount a = coin_amount b \<and> min_amount c \<le> coin_amount a \<and> coin_amount a \<le> max_amount c
     | Contract.ExecutePending e \<Rightarrow> one_coin h (funds info) = Inr a
     | _ \<Rightarrow> False)"
  using assms(3)
proof (cases rule: execute_cases)
  case (send i b rc)
  have inv: "storage_inv h st" using run_run_inv [OF assms(1)] by (simp add: run_inv_def)
  from send(2) show ?thesis
  proof (cases rule: threshold_bank_send_cases)
    case (1 c')
    have "coin_amount (amount (joined_tx h st (sender info) i b rc)) = coin_amount b"
      using joined_amount [OF inv run_plain_pending [OF assms(1,6,5)] assms(5)] assms(7) send(1) by blast
    with 1 assms(2,4) send(1) show ?thesis
      by (auto simp: submission_ok_def reaches_quorum_def send_bank_transaction_def)
  next
    case (2 c')
    then show ?thesis using assms(4) by simp
  qed
next
  case (pending e)
  from pending(2) show ?thesis
    by (rule execute_pending_cases) (use assms(4) pending(1) in \<open>auto simp: send_bank_transaction_def\<close>)
next
  case config
  then show ?thesis using assms(4) by simp
qed

text \<open>The second of two submissions of 15 between the limits 10 and 20.\<close>

theorem payouts_within_limits_witness:
  "\<exists>a. [sample_coin 15] = [a] \<and> coin_amount a = 15 \<and> 10 \<le> coin_amount a \<and> coin_amount a \<le> 20"
proof -
  have "\<exists>a. [sample_coin 15] = [a] \<and> (case Contract.ThresholdBankSend ''AB'' (sample_coin 15) ''bob'' of
       Contract.ThresholdBankSend i b rc \<Rightarrow> coin_amount a = coin_amount b \<and> min_amount sample_config \<le> coin_amount a \<and>
         coin_amount a \<le> max_amount sample_config
     | Contract.ExecutePending e \<Rightarrow> one_coin sample_host (funds (by_sender ''r2'')) = Inr a
     | _ \<Rightarrow> False)"
    by (rule payouts_within_limits [OF sample_run_voted _ sample_payment, where to = "''bob''"])
      (simp_all add: sample_voted_def sample_start_def sample_paid_resp_def displays_coins_def sample_host_def plain_submission_def
        sample_coin_def plain_denom_def is_digit_def)
  then show ?thesis by (simp add: sample_coin_def sample_config_def)
qed

section \<open>One payment for one evidence id\<close>

text \<open>An event that sends coins for the evidence id: by a submission that completes the quorum, or by \<open>execute_pending\<close>.\<close>

definition pays :: "host \<Rightarrow> string \<Rightarrow> contract_event \<Rightarrow> bool" where
  "pays h e ev \<longleftrightarrow> messages (ce_resp ev) \<noteq> [] \<and>
     (case ce_msg ev of
        Contract.ThresholdBankSend i a r \<Rightarrow> build_evidence_id h (normalize_id i) a r = e
      | Contract.ExecutePending k \<Rightarrow> k = e
      | _ \<Rightarrow> False)"

text \<open>Paid and recorded: the id of the evidence id is a sent one and the evidence id is not pending.\<close>

definition closed :: "string \<Rightarrow> storage \<Rightarrow> bool" where
  "closed e st \<longleftrightarrow> kv_has (SENT_TRANSACTIONS st) (extract_id_from_evidence_id e) \<and> kv_load (PENDING_TRANSACTIONS st) e = None"

lemma own_id:
  assumes "displays_coins h" and "three_parts (build_evidence_id h (normalize_id i) a r)"
  shows "extract_id_from_evidence_id (build_evidence_id h (normalize_id i) a r) = normalize_id i"
  using extract_id_three_parts [OF assms(2,1)] by (simp add: normalize_id_def)

lemma closed_removed:
  "closed e st \<Longrightarrow> kv_wf (PENDING_TRANSACTIONS st) \<Longrightarrow> (st', r) = send_bank_transaction h st t i k \<Longrightarrow> closed e st'"
  by (auto simp: closed_def send_bank_transaction_def kv_load_remove)

lemma closed_sent:
  assumes "(st', r) = send_bank_transaction h st t (extract_id_from_evidence_id e) e" and "kv_wf (PENDING_TRANSACTIONS st)"
  shows "closed e st'"
  using assms by (auto simp: closed_def send_bank_transaction_def kv_load_remove)

text \<open>A payment finds the evidence id open and closes it, and a closed one stays closed.\<close>

lemma pays_closes:
  assumes "execute h st info m = Inr (st', r)" and "kv_wf (PENDING_TRANSACTIONS st)" and "displays_coins h" and "three_parts e"
    and "pays h e \<lparr>ce_config = c, ce_info = info, ce_msg = m, ce_resp = r\<rparr>"
  shows "\<not> closed e st \<and> closed e st'"
  using assms(1)
proof (cases rule: execute_cases)
  case (send i a rc)
  with assms(3-5) have e: "build_evidence_id h (normalize_id i) a rc = e" "extract_id_from_evidence_id e = normalize_id i"
      "messages r \<noteq> []"
    using own_id by (auto simp: pays_def)
  from send(2) show ?thesis
  proof (cases rule: threshold_bank_send_cases)
    case (1 c')
    with e have "(st', r) = send_bank_transaction h st (joined_tx h st (sender info) i a rc) (extract_id_from_evidence_id e) e"
      by simp
    from closed_sent [OF this assms(2)] 1 e show ?thesis by (simp add: submission_ok_def closed_def)
  qed (use e in simp)
next
  case (pending k)
  with assms(5) have "k = e" by (simp add: pays_def)
  from pending(2) show ?thesis
    by (rule execute_pending_cases) (use closed_sent [OF _ assms(2)] \<open>k = e\<close> in \<open>auto simp: closed_def\<close>)
qed (use assms(5) in \<open>simp add: pays_def\<close>)

lemma closed_execute:
  assumes "execute h st info m = Inr (st', r)" and "kv_wf (PENDING_TRANSACTIONS st)" and "displays_coins h" and "three_parts e"
    and "closed e st"
  shows "closed e st'"
  using assms(1)
proof (cases rule: execute_cases)
  case (send i a rc)
  from send(2) show ?thesis
  proof (cases rule: threshold_bank_send_cases)
    case (1 c')
    then show ?thesis using closed_removed assms(2,5) by blast
  next
    case (2 c')
    then have "build_evidence_id h (normalize_id i) a rc \<noteq> e"
      using own_id [OF assms(3)] assms(4,5) by (auto simp: submission_ok_def closed_def)
    then show ?thesis using 2 assms(2,5) by (auto simp: closed_def kv_load_save)
  qed
next
  case (pending k)
  from pending(2) show ?thesis
    by (rule execute_pending_cases) (use closed_removed assms(2,5) in blast)
next
  case config
  then show ?thesis using assms(5) by (auto simp: closed_def config_update_def)
qed

text \<open>A closed evidence id is refused by both messages.\<close>

lemma closed_refuses:
  assumes "displays_coins h" and "three_parts e" and "closed e st"
  shows "execute h st info (Contract.ExecutePending e) \<noteq> Inr (st', r)"
    and "build_evidence_id h (normalize_id i) a rc = e \<Longrightarrow>
      execute h st info (Contract.ThresholdBankSend i a rc) \<noteq> Inr (st', r)"
proof -
  show "execute h st info (Contract.ExecutePending e) \<noteq> Inr (st', r)"
    using assms(3) by (auto simp: closed_def execute_pending_def res_bind_Inr)
  assume "build_evidence_id h (normalize_id i) a rc = e"
  then have "kv_has (SENT_TRANSACTIONS st) (normalize_id i)" using own_id [OF assms(1)] assms(2,3) by (auto simp: closed_def)
  then show "execute h st info (Contract.ThresholdBankSend i a rc) \<noteq> Inr (st', r)"
    by (auto simp: threshold_bank_send_def Let_def res_bind_Inr split: if_splits)
qed

lemma run_paid_closed:
  "contract_run h st es \<Longrightarrow> displays_coins h \<Longrightarrow> three_parts e \<Longrightarrow> ev \<in> set es \<Longrightarrow> pays h e ev \<Longrightarrow> closed e st"
proof (induction rule: contract_run.induct)
  case (run_execute st es c info m st' r)
  have wf: "kv_wf (PENDING_TRANSACTIONS st)"
    using run_run_inv [OF run_execute(1)] by (simp add: run_inv_def storage_inv_def)
  from run_execute show ?case
    using pays_closes [OF run_execute(3) wf] closed_execute [OF run_execute(3) wf] by auto
next
  case (run_migrate st es ca no st' r)
  then show ?case using migrate_kept [OF run_migrate(2)] by (simp add: closed_def)
qed simp

text \<open>
  C12: No transfer is paid twice. Over a whole run, an evidence id with unambiguous parts is paid at most once, by submissions and
  by \<open>execute_pending\<close> together; once it was paid, \<open>execute_pending\<close> of it fails in every later
  state, and so does every submission that has it.
\<close>

theorem evidence_paid_once:
  assumes "contract_run h st es" and "displays_coins h" and "three_parts e"
  shows "length (filter (pays h e) es) \<le> 1 \<and>
    ((\<exists>ev \<in> set es. pays h e ev) \<longrightarrow>
       (\<forall>info st' r. execute h st info (Contract.ExecutePending e) \<noteq> Inr (st', r)) \<and>
       (\<forall>info i a rc st' r. build_evidence_id h (normalize_id i) a rc = e \<longrightarrow>
          execute h st info (Contract.ThresholdBankSend i a rc) \<noteq> Inr (st', r)))"
proof
  show "length (filter (pays h e) es) \<le> 1"
    using assms
  proof (induction rule: contract_run.induct)
    case (run_execute st es c info m st' r)
    let ?ev = "\<lparr>ce_config = c, ce_info = info, ce_msg = m, ce_resp = r\<rparr>"
    have wf: "kv_wf (PENDING_TRANSACTIONS st)"
      using run_run_inv [OF run_execute(1)] by (simp add: run_inv_def storage_inv_def)
    show ?case
    proof (cases "pays h e ?ev")
      case True
      from pays_closes [OF run_execute(3) wf assms(2,3) True] have "filter (pays h e) es = []"
        using run_paid_closed [OF run_execute(1) assms(2,3)] by (auto simp: filter_empty_conv)
      then show ?thesis using True by simp
    next
      case False
      then show ?thesis using run_execute.IH run_execute.prems by simp
    qed
  qed simp_all
  show "(\<exists>ev \<in> set es. pays h e ev) \<longrightarrow>
       (\<forall>info st' r. execute h st info (Contract.ExecutePending e) \<noteq> Inr (st', r)) \<and>
       (\<forall>info i a rc st' r. build_evidence_id h (normalize_id i) a rc = e \<longrightarrow>
          execute h st info (Contract.ThresholdBankSend i a rc) \<noteq> Inr (st', r))"
    using run_paid_closed [OF assms] closed_refuses [OF assms(2,3)] by blast
qed

text \<open>The paid transfer of the sample: its evidence id is neither executed nor submitted again.\<close>

theorem evidence_paid_once_witness:
  "\<not> (\<exists>st' r. execute sample_host sample_paid (by_sender ''r3'')
      (Contract.ThresholdBankSend ''Ab'' (sample_coin 15) ''bob'') = Inr (st', r)) \<and>
    pays sample_host ''ab-15ucore-bob''
      \<lparr>ce_config = sample_config, ce_info = by_sender ''r2'', ce_msg = Contract.ThresholdBankSend ''AB'' (sample_coin 15) ''bob'',
        ce_resp = sample_paid_resp\<rparr>"
proof -
  have "displays_coins sample_host" by (simp add: displays_coins_def sample_host_def)
  moreover have "three_parts ''ab-15ucore-bob''" by code_simp
  moreover have "build_evidence_id sample_host (normalize_id ''Ab'') (sample_coin 15) ''bob'' = ''ab-15ucore-bob''"
    by code_simp
  moreover have pays: "pays sample_host ''ab-15ucore-bob''
      \<lparr>ce_config = sample_config, ce_info = by_sender ''r2'', ce_msg = Contract.ThresholdBankSend ''AB'' (sample_coin 15) ''bob'',
        ce_resp = sample_paid_resp\<rparr>"
    by code_simp
  ultimately show ?thesis
    using evidence_paid_once [OF sample_states(2)] by fastforce
qed

end
