(* ===== verification/Signer.thy ===== *)
theory Signer
  imports Ripple_Data
begin

text \<open>
  The XRPL signers (\<open>relayer/client/xrpl/signer.go\<close>): one reads its key from a keyring, the other
  holds it. Private keys are of type \<open>'k\<close>, transactions of type \<open>'t\<close>; key bytes, hashing and the
  signing functions of the rippled packages are fields of \<open>sign_env\<close>, signing returns the signed
  transaction. All calls pass the sequence 0.
\<close>

section \<open>Keys\<close>

text \<open>The key interface of the crypto package.\<close>

record key_methods =
  key_Id :: "uint32 \<Rightarrow> 8 word list"
  key_Private :: "uint32 \<Rightarrow> 8 word list"
  key_Public :: "uint32 \<Rightarrow> 8 word list"

text \<open>
  An entry of a keyring: not a local key, a local one without private key, with a private key of
  another type, or with a usable one.
\<close>

datatype 'k keyring_entry = NotLocal | NoPrivKey | OtherPrivKey | LocalPrivKey 'k

record ('k, 't) sign_env =
  PrivKey_Bytes :: "'k \<Rightarrow> 8 word list"
  PubKey_Bytes :: "'k \<Rightarrow> 8 word list"
  Sha256RipeMD160 :: "8 word list \<Rightarrow> 8 word list"
  ripple_Sign :: "'t \<Rightarrow> key_methods \<Rightarrow> uint32 \<Rightarrow> go_error + 't"
  ripple_MultiSign :: "'t \<Rightarrow> key_methods \<Rightarrow> uint32 \<Rightarrow> account \<Rightarrow> go_error + 't"
  GetSignature :: "'t \<Rightarrow> 8 word list"
  GetPublicKey :: "'t \<Rightarrow> 8 word list"
  keyring_Key :: "string \<Rightarrow> go_error + 'k keyring_entry"

definition xrplPrivKey_Public :: "('k, 't) sign_env \<Rightarrow> 'k \<Rightarrow> uint32 \<Rightarrow> 8 word list" where
  "xrplPrivKey_Public E k sq = PubKey_Bytes E k"

definition xrplPrivKey_Private :: "('k, 't) sign_env \<Rightarrow> 'k \<Rightarrow> uint32 \<Rightarrow> 8 word list" where
  "xrplPrivKey_Private E k sq = PrivKey_Bytes E k"

definition xrplPrivKey_Id :: "('k, 't) sign_env \<Rightarrow> 'k \<Rightarrow> uint32 \<Rightarrow> 8 word list" where
  "xrplPrivKey_Id E k sq = Sha256RipeMD160 E (xrplPrivKey_Public E k sq)"

definition xrplPrivKey :: "('k, 't) sign_env \<Rightarrow> 'k \<Rightarrow> key_methods" where
  "xrplPrivKey E k = \<lparr>key_Id = xrplPrivKey_Id E k, key_Private = xrplPrivKey_Private E k, key_Public = xrplPrivKey_Public E k\<rparr>"

text \<open>\<open>copy\<close> into a zeroed array of \<open>n\<close> bytes: an account has 20, a public key 33.\<close>

definition copy_array :: "nat \<Rightarrow> 8 word list \<Rightarrow> 8 word list" where
  "copy_array n bs = take n (bs @ replicate n 0)"

definition ExtractAccountFromXRPLKey :: "('k, 't) sign_env \<Rightarrow> 'k \<Rightarrow> account" where
  "ExtractAccountFromXRPLKey E k = copy_array 20 (xrplPrivKey_Id E k 0)"

definition ExtractPubKeyFromXRPLKey :: "('k, 't) sign_env \<Rightarrow> 'k \<Rightarrow> 8 word list" where
  "ExtractPubKeyFromXRPLKey E k = copy_array 33 (xrplPrivKey_Public E k 0)"

section \<open>The signer with a private key\<close>

record xrpl_Signer =
  signer_Account :: account
  TxnSignature :: "8 word list"
  SigningPubKey :: "8 word list"

definition PrivKeyTxSigner_Sign :: "('k, 't) sign_env \<Rightarrow> 'k \<Rightarrow> 't \<Rightarrow> go_error + 't" where
  "PrivKeyTxSigner_Sign E k txn =
     res_wrap ''failed to sign XRPL transaction with keyring'' (ripple_Sign E txn (xrplPrivKey E k) 0)"

definition PrivKeyTxSigner_MultiSign :: "('k, 't) sign_env \<Rightarrow> 'k \<Rightarrow> 't \<Rightarrow> go_error + 't \<times> xrpl_Signer" where
  "PrivKeyTxSigner_MultiSign E k txn =
     (let acc = ExtractAccountFromXRPLKey E k in
      res_bind (ripple_MultiSign E txn (xrplPrivKey E k) 0 acc) (\<lambda>txn'.
        Inr (txn', \<lparr>signer_Account = acc, TxnSignature = GetSignature E txn', SigningPubKey = GetPublicKey E txn'\<rparr>)))"

definition PrivKeyTxSigner_Account :: "('k, 't) sign_env \<Rightarrow> 'k \<Rightarrow> account" where
  "PrivKeyTxSigner_Account E k = ExtractAccountFromXRPLKey E k"

definition PrivKeyTxSigner_PubKey :: "('k, 't) sign_env \<Rightarrow> 'k \<Rightarrow> 8 word list" where
  "PrivKeyTxSigner_PubKey E k = ExtractPubKeyFromXRPLKey E k"

section \<open>The signer with a keyring\<close>

text \<open>The field of the local record is read without a check that the entry is local.\<close>

definition extractXRPLPrivKey :: "('k, 't) sign_env \<Rightarrow> string \<Rightarrow> 'k go" where
  "extractXRPLPrivKey E keyName =
     (case keyring_Key E keyName of
        Inl e \<Rightarrow> Err (Wrap (''failed to get key from the keyring, key name:'' @ keyName) e)
      | Inr NotLocal \<Rightarrow> nil_deref
      | Inr NoPrivKey \<Rightarrow> Err (Errorf (''private key is not available, key name:'' @ keyName))
      | Inr OtherPrivKey \<Rightarrow> Err (Errorf ''unable to cast any to cryptotypes.PrivKey'')
      | Inr (LocalPrivKey priv) \<Rightarrow> Ok priv)"

definition KeyringTxSigner_Sign :: "('k, 't) sign_env \<Rightarrow> 't \<Rightarrow> string \<Rightarrow> 't go" where
  "KeyringTxSigner_Sign E txn keyName =
     go_bind (extractXRPLPrivKey E keyName) (\<lambda>key.
       go_of (res_wrap ''failed to sign XRPL transaction with keyring'' (ripple_Sign E txn (xrplPrivKey E key) 0)))"

definition KeyringTxSigner_MultiSign :: "('k, 't) sign_env \<Rightarrow> 't \<Rightarrow> string \<Rightarrow> ('t \<times> xrpl_Signer) go" where
  "KeyringTxSigner_MultiSign E txn keyName =
     go_bind (extractXRPLPrivKey E keyName) (\<lambda>key.
       (let acc = ExtractAccountFromXRPLKey E key in
        go_bind (go_of (ripple_MultiSign E txn (xrplPrivKey E key) 0 acc)) (\<lambda>txn'.
          Ok (txn', \<lparr>signer_Account = acc, TxnSignature = GetSignature E txn', SigningPubKey = GetPublicKey E txn'\<rparr>))))"

definition KeyringTxSigner_Account :: "('k, 't) sign_env \<Rightarrow> string \<Rightarrow> account go" where
  "KeyringTxSigner_Account E keyName =
     go_bind (extractXRPLPrivKey E keyName) (\<lambda>key. Ok (ExtractAccountFromXRPLKey E key))"

definition KeyringTxSigner_PubKey :: "('k, 't) sign_env \<Rightarrow> string \<Rightarrow> (8 word list) go" where
  "KeyringTxSigner_PubKey E keyName =
     go_bind (extractXRPLPrivKey E keyName) (\<lambda>key. Ok (ExtractPubKeyFromXRPLKey E key))"

section \<open>Facts\<close>

lemma copy_array_length [simp]: "length (copy_array n bs) = n"
  by (simp add: copy_array_def)

lemma copy_array_id: "length bs = n \<Longrightarrow> copy_array n bs = bs"
  by (simp add: copy_array_def)

text \<open>Both signers do the same with the same key.\<close>

lemma keyring_signer_agrees:
  assumes "keyring_Key E keyName = Inr (LocalPrivKey k)"
  shows "KeyringTxSigner_Sign E txn keyName = go_of (PrivKeyTxSigner_Sign E k txn)"
    and "KeyringTxSigner_MultiSign E txn keyName = go_of (PrivKeyTxSigner_MultiSign E k txn)"
    and "KeyringTxSigner_Account E keyName = Ok (PrivKeyTxSigner_Account E k)"
    and "KeyringTxSigner_PubKey E keyName = Ok (PrivKeyTxSigner_PubKey E k)"
  using assms
  by (simp_all add: KeyringTxSigner_Sign_def PrivKeyTxSigner_Sign_def KeyringTxSigner_MultiSign_def
      PrivKeyTxSigner_MultiSign_def KeyringTxSigner_Account_def PrivKeyTxSigner_Account_def
      KeyringTxSigner_PubKey_def PrivKeyTxSigner_PubKey_def extractXRPLPrivKey_def Let_def
      go_of_bind)

text \<open>The account a multi-signature names is the account of the signer's key, in 20 bytes.\<close>

lemma multisign_account:
  assumes "KeyringTxSigner_MultiSign E txn keyName = Ok (txn', s)"
  shows "KeyringTxSigner_Account E keyName = Ok (signer_Account s) \<and> length (signer_Account s) = 20"
  using assms
  by (auto simp: KeyringTxSigner_MultiSign_def KeyringTxSigner_Account_def ExtractAccountFromXRPLKey_def
      go_bind_Ok Let_def)

end
