(* ===== verification/Test_Chains.thy ===== *)
theory Test_Chains
  imports XRPL_RPC Signer Contract_Client Go_Float
begin

text \<open>
  The chains of the integration tests (\<open>integration-tests/*.go\<close>): accounts of the XRP ledger are generated and funded through
  the signer and the RPC client of the relayer, the TX chain is set up from its queries. A failed \<open>require\<close> ends a test:
  it is an \<open>Err\<close> here. Seeds, keyring operations, number formatting and the testing library of the TX chain are
  arguments; the keys of a keyring are a map, and the mutex that orders fundings is left out.
\<close>

section \<open>The XRP ledger\<close>

definition XRPLHDPath :: string where
  "XRPLHDPath = ''m/44'' @ [CHR 0x27] @ ''/144'' @ [CHR 0x27] @ ''/0'' @ [CHR 0x27] @ ''/0/0''"

definition ReserveToActivateAccount :: rat where
  "ReserveToActivateAccount = 10"

type_synonym 'k keyring = "string \<rightharpoonup> 'k keyring_entry"

record XRPLChainConfig =
  xc_RPCAddress :: string
  xc_FundingSeed :: string

record 'k XRPLChain =
  xch_cfg :: XRPLChainConfig
  xch_keyring :: "'k keyring"
  xch_rpc :: rpc_config

record ('v, 'a) Payment =
  pay_Destination :: account
  pay_Amount :: 'a
  pay_Type :: string
  pay_Base :: "'v tx_base"
  pay_Signature :: "8 word list"

text \<open>The libraries: private key bytes are text to be encoded; a mnemonic is random, so it takes the number of the call.\<close>

record ('s, 'k, 'v, 'a) test_env =
  NewSeedFromAddress :: "string \<Rightarrow> go_error + 's"
  seed_Private :: "'s \<Rightarrow> uint32 \<Rightarrow> string"
  ImportPrivKeyHex :: "'k keyring \<Rightarrow> string \<Rightarrow> string \<Rightarrow> string \<Rightarrow> go_error + 'k keyring"
  NewMnemonic :: "nat \<Rightarrow> 'k keyring \<Rightarrow> string \<Rightarrow> string \<Rightarrow> go_error + 'k keyring \<times> string"
  kr_NewAccount :: "'k keyring \<Rightarrow> string \<Rightarrow> string \<Rightarrow> string \<Rightarrow> go_error + 'k keyring"
  Sprintf_f :: "rat \<Rightarrow> string"
  NewAmount :: "string \<Rightarrow> go_error + 'a"
  zero_base :: "'v tx_base"
  Raw :: "('v, 'a) Payment \<Rightarrow> go_error + string"
  GetHash :: "('v, 'a) Payment \<Rightarrow> string"

definition faucetKeyringKeyName :: string where
  "faucetKeyringKeyName = ''faucet''"

definition extractPrivateKeyFromSeed :: "('s, 'k, 'v, 'a) test_env \<Rightarrow> string \<Rightarrow> go_error + string" where
  "extractPrivateKeyFromSeed T seedPhrase =
     res_bind (res_wrap ''failed to create rippledata seed from seed phrase'' (NewSeedFromAddress T seedPhrase)) (\<lambda>seed.
       Inr (hex_EncodeToString (seed_Private T seed 0)))"

definition createInMemoryKeyring :: "'k keyring" where
  "createInMemoryKeyring = Map.empty"

definition NewXRPLChain :: "('s, 'k, 'v, 'a) test_env \<Rightarrow> XRPLChainConfig \<Rightarrow> go_error + 'k XRPLChain" where
  "NewXRPLChain T cfg =
     res_bind (extractPrivateKeyFromSeed T (xc_FundingSeed cfg)) (\<lambda>faucetPrivateKey.
     res_bind (res_wrap ''failed to import private key to keyring''
       (ImportPrivKeyHex T createInMemoryKeyring faucetKeyringKeyName faucetPrivateKey ''secp256k1'')) (\<lambda>kr.
       Inr \<lparr>xch_cfg = cfg, xch_keyring = kr, xch_rpc = DefaultRPCClientConfig (xc_RPCAddress cfg)\<rparr>))"

text \<open>The signing environment on a keyring.\<close>

definition with_keyring :: "('k, 't) sign_env \<Rightarrow> 'k keyring \<Rightarrow> ('k, 't) sign_env" where
  "with_keyring E kr = E\<lparr>keyring_Key := (\<lambda>n. case kr n of None \<Rightarrow> Inl (Errorf (n @ ''.info: key not found'')) | Some e \<Rightarrow> Inr e)\<rparr>"

text \<open>The key is made in a keyring of its own and imported again under its address.\<close>

definition GenEmptyAccount ::
  "('s, 'k, 'v, 'a) test_env \<Rightarrow> ('v, 'n) ripple \<Rightarrow> ('k, 't) sign_env \<Rightarrow> nat \<Rightarrow> 'k XRPLChain \<Rightarrow> (account \<times> 'k XRPLChain) go" where
  "GenEmptyAccount T R E n c =
     go_bind (go_of (NewMnemonic T n createInMemoryKeyring ''signer'' XRPLHDPath)) (\<lambda>(kr, mnemonic).
     go_bind (KeyringTxSigner_Account (with_keyring E kr) ''signer'') (\<lambda>acc.
     go_bind (go_of (kr_NewAccount T (xch_keyring c) (account_String R acc) mnemonic XRPLHDPath)) (\<lambda>kr'.
       Ok (acc, c\<lparr>xch_keyring := kr'\<rparr>))))"

definition chain_AutoFillTx ::
  "('v, 'n) ripple \<Rightarrow> ('v, 'n) http_env \<Rightarrow> 'k XRPLChain \<Rightarrow> nat \<Rightarrow> 'v tx_base \<Rightarrow> account \<Rightarrow> 'v tx_base go" where
  "chain_AutoFillTx R H c n base acc = AutoFillTx R H (xch_rpc c) n base acc 1"

text \<open>The signed payment of a funding; the query for the account is call \<open>n\<close>.\<close>

definition fund_payment ::
  "('s, 'k, 'v, 'a) test_env \<Rightarrow> ('v, 'n) ripple \<Rightarrow> ('v, 'n) http_env \<Rightarrow> ('k, ('v, 'a) Payment) sign_env \<Rightarrow> 'k XRPLChain \<Rightarrow> nat \<Rightarrow>
   account \<Rightarrow> rat \<Rightarrow> ('v, 'a) Payment go" where
  "fund_payment T R H E c n acc amt =
     go_bind (go_of (NewAmount T (Sprintf_f T amt @ ''XRP''))) (\<lambda>xrpAmount.
     go_bind (KeyringTxSigner_Account (with_keyring E (xch_keyring c)) faucetKeyringKeyName) (\<lambda>fundingAcc.
     go_bind (chain_AutoFillTx R H c n (zero_base T) fundingAcc) (\<lambda>base.
       KeyringTxSigner_Sign (with_keyring E (xch_keyring c))
         \<lparr>pay_Destination = acc, pay_Amount = xrpAmount, pay_Type = ''Payment'', pay_Base = base, pay_Signature = []\<rparr> faucetKeyringKeyName)))"

definition test_end :: "go_error option \<Rightarrow> unit go" where
  "test_end r = (case r of None \<Rightarrow> Ok () | Some e \<Rightarrow> Err e)"

inductive FundAccount ::
  "('s, 'k, 'v, 'a) test_env \<Rightarrow> ('v, 'n) ripple \<Rightarrow> ('v, 'n) http_env \<Rightarrow> ('k, ('v, 'a) Payment) sign_env \<Rightarrow> 'k XRPLChain \<Rightarrow> nat \<Rightarrow>
   account \<Rightarrow> rat \<Rightarrow> unit go \<Rightarrow> bool"
  for T :: "('s, 'k, 'v, 'a) test_env" and R :: "('v, 'n) ripple" and H E c n acc amt where
  fund_error: "fund_payment T R H E c n acc amt = Err e \<Longrightarrow> FundAccount T R H E c n acc amt (Err e)"
| fund_panic: "fund_payment T R H E c n acc amt = Panic p \<Longrightarrow> FundAccount T R H E c n acc amt (Panic p)"
| fund_submitted: "fund_payment T R H E c n acc amt = Ok txn \<Longrightarrow>
    SubmitAndAwaitSuccess H (xch_rpc c) (Suc n) (Raw T txn) (GetHash T txn) r \<Longrightarrow>
    FundAccount T R H E c n acc amt (test_end r)"

definition CreateAccount ::
  "('s, 'k, 'v, 'a) test_env \<Rightarrow> ('v, 'n) ripple \<Rightarrow> ('v, 'n) http_env \<Rightarrow> ('k, ('v, 'a) Payment) sign_env \<Rightarrow> 'k XRPLChain \<Rightarrow> nat \<Rightarrow>
   account \<Rightarrow> rat \<Rightarrow> unit go \<Rightarrow> bool" where
  "CreateAccount T R H E c n acc amt = FundAccount T R H E c n acc (float64 (amt + ReserveToActivateAccount))"

text \<open>A transaction signed with the key under the account's address, and submitted; its base was filled by call \<open>n\<close>.\<close>

inductive SignAndSubmitTx ::
  "('s, 'k, 'v, 'a) test_env \<Rightarrow> ('v, 'n) ripple \<Rightarrow> ('v, 'n) http_env \<Rightarrow> ('k, ('v, 'a) Payment) sign_env \<Rightarrow> 'k XRPLChain \<Rightarrow> nat \<Rightarrow>
   ('v, 'a) Payment \<Rightarrow> account \<Rightarrow> unit go \<Rightarrow> bool"
  for T :: "('s, 'k, 'v, 'a) test_env" and R :: "('v, 'n) ripple" and H E c n txn acc where
  sign_error: "KeyringTxSigner_Sign (with_keyring E (xch_keyring c)) txn (account_String R acc) = Err e \<Longrightarrow>
    SignAndSubmitTx T R H E c n txn acc (Err e)"
| sign_panic: "KeyringTxSigner_Sign (with_keyring E (xch_keyring c)) txn (account_String R acc) = Panic p \<Longrightarrow>
    SignAndSubmitTx T R H E c n txn acc (Panic p)"
| sign_submitted: "KeyringTxSigner_Sign (with_keyring E (xch_keyring c)) txn (account_String R acc) = Ok txn' \<Longrightarrow>
    SubmitAndAwaitSuccess H (xch_rpc c) n (Raw T txn') (GetHash T txn') r \<Longrightarrow>
    SignAndSubmitTx T R H E c n txn acc (test_end r)"

inductive AutoFillSignAndSubmitTx ::
  "('s, 'k, 'v, 'a) test_env \<Rightarrow> ('v, 'n) ripple \<Rightarrow> ('v, 'n) http_env \<Rightarrow> ('k, ('v, 'a) Payment) sign_env \<Rightarrow> 'k XRPLChain \<Rightarrow> nat \<Rightarrow>
   ('v, 'a) Payment \<Rightarrow> account \<Rightarrow> unit go \<Rightarrow> bool"
  for T :: "('s, 'k, 'v, 'a) test_env" and R :: "('v, 'n) ripple" and H E c n txn acc where
  fill_error: "chain_AutoFillTx R H c n (pay_Base txn) acc = Err e \<Longrightarrow> AutoFillSignAndSubmitTx T R H E c n txn acc (Err e)"
| fill_panic: "chain_AutoFillTx R H c n (pay_Base txn) acc = Panic p \<Longrightarrow> AutoFillSignAndSubmitTx T R H E c n txn acc (Panic p)"
| filled: "chain_AutoFillTx R H c n (pay_Base txn) acc = Ok base \<Longrightarrow>
    SignAndSubmitTx T R H E c (Suc n) (txn\<lparr>pay_Base := base\<rparr>) acc out \<Longrightarrow> AutoFillSignAndSubmitTx T R H E c n txn acc out"

definition GenAccount ::
  "('s, 'k, 'v, 'a) test_env \<Rightarrow> ('v, 'n) ripple \<Rightarrow> ('v, 'n) http_env \<Rightarrow> ('k, ('v, 'a) Payment) sign_env \<Rightarrow> 'k XRPLChain \<Rightarrow> nat \<Rightarrow>
   rat \<Rightarrow> (account \<times> 'k XRPLChain) go \<Rightarrow> bool" where
  "GenAccount T R H E c n amt out \<longleftrightarrow>
     (case GenEmptyAccount T R E n c of
        Ok (acc, c') \<Rightarrow> \<exists>r. CreateAccount T R H E c' (Suc n) acc amt r \<and> out = go_bind r (\<lambda>_. Ok (acc, c'))
      | Err e \<Rightarrow> out = Err e
      | Panic p \<Rightarrow> out = Panic p)"

lemma test_end_Ok [simp]: "test_end r = Ok u \<longleftrightarrow> r = None" "Ok u = test_end r \<longleftrightarrow> r = None"
  by (auto simp: test_end_def split: option.splits)

inductive_cases FundAccountE: "FundAccount T R H E c n acc amt (Ok u)"

text \<open>
  A funded account: the node accepted a payment to it of the amount and its reserve, from the faucet's account with the sequence
  the node told, a fee for one signature, signed by the faucet's key.
\<close>

lemma created_account_is_paid:
  assumes "CreateAccount T R H E c n acc amt (Ok ())"
  obtains a payer info s fee txn where "NewAmount T (Sprintf_f T (float64 (amt + 10)) @ ''XRP'') = Inr a"
    and "KeyringTxSigner_Account (with_keyring E (xch_keyring c)) ''faucet'' = Ok payer"
    and "AccountInfo H (xch_rpc c) n payer = Inr info" and "acc_Sequence info = Some s" and "NewNativeValue R 10 = Inr fee"
    and "KeyringTxSigner_Sign (with_keyring E (xch_keyring c))
      \<lparr>pay_Destination = acc, pay_Amount = a, pay_Type = ''Payment'',
       pay_Base = (zero_base T)\<lparr>base_Fee := fee, base_Account := payer, base_Sequence := s\<rparr>, pay_Signature = []\<rparr> ''faucet'' = Ok txn"
    and "SubmitAndAwaitSuccess H (xch_rpc c) (Suc n) (Raw T txn) (GetHash T txn) None"
proof -
  have "FundAccount T R H E c n acc (float64 (amt + 10)) (Ok ())"
    using assms by (simp add: CreateAccount_def ReserveToActivateAccount_def)
  then obtain txn where txn: "fund_payment T R H E c n acc (float64 (amt + 10)) = Ok txn"
    "SubmitAndAwaitSuccess H (xch_rpc c) (Suc n) (Raw T txn) (GetHash T txn) None"
    by (rule FundAccountE) (auto dest: sym)
  from txn(1) obtain a payer base where
    f: "NewAmount T (Sprintf_f T (float64 (amt + 10)) @ ''XRP'') = Inr a"
      "KeyringTxSigner_Account (with_keyring E (xch_keyring c)) ''faucet'' = Ok payer"
      "chain_AutoFillTx R H c n (zero_base T) payer = Ok base"
      "KeyringTxSigner_Sign (with_keyring E (xch_keyring c))
        \<lparr>pay_Destination = acc, pay_Amount = a, pay_Type = ''Payment'', pay_Base = base, pay_Signature = []\<rparr> ''faucet'' = Ok txn"
    by (auto simp: fund_payment_def go_bind_Ok faucetKeyringKeyName_def)
  from f(3) obtain info s fee where "AccountInfo H (xch_rpc c) n payer = Inr info" "acc_Sequence info = Some s"
    "NewNativeValue R 10 = Inr fee" "base = (zero_base T)\<lparr>base_Fee := fee, base_Account := payer, base_Sequence := s\<rparr>"
    by (auto simp: chain_AutoFillTx_def AutoFillTx_def calculateFee_def DefaultXRPLBaseFee_def nil_deref_def
        split: sum.splits option.splits)
  with f txn(2) that show thesis by simp
qed

text \<open>
  A generated account can sign: with a keyring that stores the key of the mnemonic under the given name, the chain's keyring has the
  account's key under its address, and keeps the others.
\<close>

definition keyring_ok :: "('s, 'k, 'v, 'a) test_env \<Rightarrow> (string \<Rightarrow> string \<Rightarrow> 'k) \<Rightarrow> bool" where
  "keyring_ok T key \<longleftrightarrow>
     (\<forall>n kr name path kr' m. NewMnemonic T n kr name path = Inr (kr', m) \<longrightarrow> kr' = kr(name \<mapsto> LocalPrivKey (key m path))) \<and>
     (\<forall>kr name m path kr'. kr_NewAccount T kr name m path = Inr kr' \<longrightarrow> kr' = kr(name \<mapsto> LocalPrivKey (key m path)))"

lemma generated_account_signs:
  assumes "GenEmptyAccount T R E n c = Ok (acc, c')" and "keyring_ok T key"
  shows "KeyringTxSigner_Account (with_keyring E (xch_keyring c')) (account_String R acc) = Ok acc \<and>
    (\<forall>name. name \<noteq> account_String R acc \<longrightarrow> xch_keyring c' name = xch_keyring c name)"
proof -
  from assms(1) obtain kr m kr' where 1: "NewMnemonic T n createInMemoryKeyring ''signer'' XRPLHDPath = Inr (kr, m)"
    "KeyringTxSigner_Account (with_keyring E kr) ''signer'' = Ok acc"
    "kr_NewAccount T (xch_keyring c) (account_String R acc) m XRPLHDPath = Inr kr'" "c' = c\<lparr>xch_keyring := kr'\<rparr>"
    by (auto simp: GenEmptyAccount_def go_bind_Ok)
  then have kr: "kr = createInMemoryKeyring(''signer'' \<mapsto> LocalPrivKey (key m XRPLHDPath))"
    "kr' = (xch_keyring c)(account_String R acc \<mapsto> LocalPrivKey (key m XRPLHDPath))"
    using assms(2) unfolding keyring_ok_def by blast+
  with 1(2) have "acc = ExtractAccountFromXRPLKey (with_keyring E kr) (key m XRPLHDPath)"
    by (simp add: KeyringTxSigner_Account_def extractXRPLPrivKey_def with_keyring_def)
  then show ?thesis
    using 1(4) kr
    by (simp add: KeyringTxSigner_Account_def extractXRPLPrivKey_def with_keyring_def ExtractAccountFromXRPLKey_def xrplPrivKey_Id_def
        xrplPrivKey_Public_def)
qed

section \<open>The TX chain\<close>

record TXChainConfig =
  tc_RPCAddress :: string
  GRPCAddress :: string
  FundingMnemonic :: string
  ContractPath :: string
  PreviousContractPath :: string

record chain_settings =
  set_ChainID :: string
  AddressPrefix :: string
  set_GasPrice :: rat
  set_CoinType :: uint32

record sdk_global =
  prefix_Account :: "string \<times> string"
  prefix_Validator :: "string \<times> string"
  prefix_ConsensusNode :: "string \<times> string"
  global_CoinType :: uint32

text \<open>The package variables the set-up reads and writes.\<close>

record 'net test_globals =
  g_txCfg :: TXChainConfig
  g_xrplCfg :: XRPLChainConfig
  ChosenNetwork :: "'net option"
  sdk_config :: sdk_global

record ('g, 'net, 'chain) tx_test_env =
  DialGRPCClient :: "string \<Rightarrow> go_error + 'g"
  QueryChainSettings :: "'g \<Rightarrow> chain_settings go"
  InitialGasPrice :: "'g \<Rightarrow> go_error + rat"
  NetworkConfigByChainID :: "string \<Rightarrow> go_error + 'net"
  NewCoreumChain :: "'g \<Rightarrow> chain_settings \<Rightarrow> string \<Rightarrow> 'chain"
  constant_CoinType :: uint32

record 'chain TXChain =
  txc_cfg :: TXChainConfig
  txc_chain :: 'chain

definition setSDKConfig :: "uint32 \<Rightarrow> string \<Rightarrow> 'net test_globals \<Rightarrow> 'net test_globals" where
  "setSDKConfig coinType addressPrefix G = G\<lparr>sdk_config :=
     \<lparr>prefix_Account = (addressPrefix, addressPrefix @ ''pub''),
      prefix_Validator = (addressPrefix @ ''valoper'', addressPrefix @ ''valoperpub''),
      prefix_ConsensusNode = (addressPrefix @ ''valcons'', addressPrefix @ ''valconspub''), global_CoinType = coinType\<rparr>\<rparr>"

text \<open>The chain keeps the package variable \<open>txCfg\<close>, not its argument.\<close>

definition NewTXChain ::
  "('g, 'net, 'chain) tx_test_env \<Rightarrow> 'net test_globals \<Rightarrow> TXChainConfig \<Rightarrow> ('net test_globals \<times> 'chain TXChain) go" where
  "NewTXChain D G cfg =
     go_bind (go_of (DialGRPCClient D (GRPCAddress cfg))) (\<lambda>txGRPCClient.
     go_bind (QueryChainSettings D txGRPCClient) (\<lambda>settings.
     go_bind (go_of (InitialGasPrice D txGRPCClient)) (\<lambda>gasPrice.
       (let txSettings = settings\<lparr>set_GasPrice := gasPrice, set_CoinType := constant_CoinType D\<rparr> in
        go_bind (go_of (NetworkConfigByChainID D (set_ChainID txSettings))) (\<lambda>networkCfg.
          Ok (setSDKConfig (constant_CoinType D) (AddressPrefix txSettings) (G\<lparr>ChosenNetwork := Some networkCfg\<rparr>),
              \<lparr>txc_cfg = g_txCfg G, txc_chain = NewCoreumChain D txGRPCClient txSettings (FundingMnemonic cfg)\<rparr>))))))"

text \<open>The flags of the tests and their defaults; \<open>f\<close> is what the command line gives.\<close>

definition flag_or :: "(string \<rightharpoonup> string) \<Rightarrow> string \<Rightarrow> string \<Rightarrow> string" where
  "flag_or f name def = (case f name of None \<Rightarrow> def | Some v \<Rightarrow> v)"

definition test_tx_flags :: "(string \<rightharpoonup> string) \<Rightarrow> TXChainConfig" where
  "test_tx_flags f = \<lparr>tc_RPCAddress = flag_or f ''tx-rpc-address'' ''http://localhost:26657'',
     GRPCAddress = flag_or f ''tx-grpc-address'' ''localhost:9090'',
     FundingMnemonic = flag_or f ''tx-funding-mnemonic''
       ''sad hobby filter tray ordinary gap half web cat hard call mystery describe member round trend friend beyond such clap frozen segment fan mistake'',
     ContractPath = flag_or f ''tx-contract-path'' ''../../contract/artifacts/coreumbridge_xrpl.wasm'',
     PreviousContractPath = flag_or f ''tx-previous-contract-path'' ''../../bin/coreumbridge-xrpl-v1.1.0.wasm''\<rparr>"

definition test_xrpl_flags :: "(string \<rightharpoonup> string) \<Rightarrow> XRPLChainConfig" where
  "test_xrpl_flags f = \<lparr>xc_RPCAddress = flag_or f ''xrpl-rpc-address'' ''http://localhost:5005'',
     xc_FundingSeed = flag_or f ''xrpl-funding-seed'' ''snoPBrXtMeMyMHUVTgbuqAfg1SUTb''\<rparr>"

definition testXRPLTokens :: "XRPLToken list" where
  "testXRPLTokens =
     [\<lparr>tok_Currency = ''434F524500000000000000000000000000000000'', tok_Issuer = ''raSEP47QAwU6jsZU493znUD2iGNHDQEyvA'',
       tok_ActivationDate = 946684800, tok_Multiplier = ''1.0''\<rparr>,
      \<lparr>tok_Currency = ''58434F5245000000000000000000000000000000'', tok_Issuer = ''rawnyFwFLkntQttzBgEFiASg5iB5ULdKpX'',
       tok_ActivationDate = 946684800, tok_Multiplier = ''1.0''\<rparr>,
      \<lparr>tok_Currency = ''534F4C4F00000000000000000000000000000000'', tok_Issuer = ''rHZwvHEs56GCmHupwjA4RY7oPA3EoAJWuN'',
       tok_ActivationDate = 946684800, tok_Multiplier = ''1.25''\<rparr>]"

text \<open>After the flags are parsed: both chains, or a panic.\<close>

definition init_chains ::
  "('g, 'net, 'chain) tx_test_env \<Rightarrow> ('s, 'k, 'v, 'a) test_env \<Rightarrow> 'net test_globals \<Rightarrow>
   ('net test_globals \<times> 'chain TXChain \<times> 'k XRPLChain) go" where
  "init_chains D T G =
     (case NewTXChain D G (g_txCfg G) of
        Panic p \<Rightarrow> Panic p
      | Err e \<Rightarrow> Panic (Error (Wrap ''failed to init TX chain'' e))
      | Ok (G', txChain) \<Rightarrow>
          (case NewXRPLChain T (g_xrplCfg G') of
             Inl e \<Rightarrow> Panic (Error (Wrap ''failed to init XRPL chain'' e))
           | Inr xrplChain \<Rightarrow> Ok (G', txChain, xrplChain)))"

lemma new_tx_chain_keeps_global:
  assumes "NewTXChain D G cfg = Ok (G', txChain)"
  shows "txc_cfg txChain = g_txCfg G \<and> g_txCfg G' = g_txCfg G \<and> g_xrplCfg G' = g_xrplCfg G \<and> ChosenNetwork G' \<noteq> None"
  using assms by (auto simp: NewTXChain_def go_bind_Ok Let_def setSDKConfig_def)

text \<open>Set-up ends with both chains on their parsed configuration, or panics: it never returns an error.\<close>

lemma init_chains_outcome:
  "case init_chains D T G of
     Ok (G', txChain, xrplChain) \<Rightarrow> txc_cfg txChain = g_txCfg G \<and> xch_cfg xrplChain = g_xrplCfg G \<and>
       URL (xch_rpc xrplChain) = xc_RPCAddress (g_xrplCfg G)
   | Err e \<Rightarrow> False
   | Panic p \<Rightarrow> True"
proof (cases "NewTXChain D G (g_txCfg G)")
  case (Ok x)
  obtain G' txChain where x: "x = (G', txChain)" by (cases x)
  show ?thesis
  proof (cases "NewXRPLChain T (g_xrplCfg G')")
    case (Inr xrplChain)
    then have "xch_cfg xrplChain = g_xrplCfg G' \<and> URL (xch_rpc xrplChain) = xc_RPCAddress (g_xrplCfg G')"
      by (auto simp: NewXRPLChain_def DefaultRPCClientConfig_def res_bind_Inr)
    with Inr Ok x show ?thesis
      using new_tx_chain_keeps_global [of D G "g_txCfg G" G' txChain] by (simp add: init_chains_def)
  qed (use Ok x in \<open>simp add: init_chains_def\<close>)
qed (simp_all add: init_chains_def)

text \<open>The currencies of the test tokens have the format the contract asks for, and no two tokens share one.\<close>

lemma test_tokens_well_formed:
  "list_all (\<lambda>t. length (tok_Currency t) = 40 \<and> list_all (\<lambda>c. hex_digit c \<noteq> None) (tok_Currency t)) testXRPLTokens \<and>
    distinct (map (\<lambda>t. (tok_Issuer t, tok_Currency t)) testXRPLTokens)"
  by code_simp

end
