(* ===== verification/Spec2Isabelle.thy ===== *)
theory Spec2Isabelle
  imports Contract_Properties XRPL_Properties Finder_Properties Client_Properties Bridge Auditor_Properties
    Service_Properties Root_Command Wire_Calls Wire_Audit Payouts Test_Chains
begin

text \<open>
  A verification library of the XRPL to TX token migrator.

  \<^bold>\<open>The program.\<close> Holders of a token on the XRP ledger burn it by a payment to its issuer whose memo names an
  address on the TX chain. Relayers (Go, \<open>src/relayer\<close>) watch the issuers: the RPC client and the scanner
  (\<open>client/xrpl\<close>) page through the account transactions, a finder per token (\<open>finder\<close>) turns burns into pending
  transfers, and the executor (\<open>executor\<close>) submits them through the contract client (\<open>client/tx/contract.go\<close>) to
  the CosmWasm contract (Rust, \<open>src/contract\<close>). The contract sends the coins once \<open>threshold\<close> trusted relayers
  submitted the same transfer; above a maximum amount it waits for a separate call. A watcher (\<open>watcher\<close>)
  restarts the relayer when the contract configuration changes (\<open>service\<close>), metrics are collected and
  pushed (\<open>metric\<close>), an auditor (\<open>audit\<close>) compares the two ledgers afterwards, and the commands (\<open>cmd\<close>) put
  the parts together.

  \<^bold>\<open>Theories and sources.\<close>
  \<^item> \<open>Prelude\<close>: machine types, Go errors with wrapping, the outcome of a Go call (value, error, panic), the
    retry helper as an inductive relation with its rules. \<open>Go_Std\<close>, \<open>Go_Big\<close>, \<open>Go_Float\<close>, \<open>Go_Base64\<close>, \<open>Go_Json\<close>: what
    the sources use of the Go and Rust standard libraries (text, numerals, hexadecimal, \<open>big.Rat\<close> with its number
    syntax, \<open>float64\<close> with its rounding, base64, JSON values with their text and a parser), with round trips.
  \<^item> \<open>Storage\<close>: the ordered maps of the contract, behind the locale \<open>kv_map\<close>. \<open>Contract\<close>: \<open>contract.rs\<close>, \<open>msg.rs\<close>,
    \<open>state.rs\<close>, \<open>error.rs\<close>; one definition per entry point, query and helper on the record \<open>storage\<close>.
    \<open>Contract_Safety\<close>: each entry point by cases and the storage invariant. \<open>Contract_Runs\<close>: runs from
    instantiation as an inductive relation, and the abstract board of votes. \<open>Contract_Properties\<close>: quorum, single
    delivery, the invariant, versions, refinement of the board, authority of the owner, evidence
    ids, migration, and behaviours recorded as findings.
  \<^item> \<open>Ripple_Data\<close> (\<open>model.go\<close>), \<open>XRPL_RPC\<close> (\<open>rpc.go\<close>), \<open>XRPL_Pages\<close>, \<open>XRPL_Scanner\<close> (\<open>scanner.go\<close>),
    \<open>XRPL_Properties\<close>: requests, paging, the two scans under the retry helper; the scans leave no gap whatever
    fails, they are complete, paging returns, fetching is all or nothing. The locale \<open>tx_provider\<close> is what
    the scanner relies on; it is interpreted on the RPC client.
  \<^item> \<open>Finder\<close>, \<open>Finder_Properties\<close> (\<open>finder.go\<close>): which ledger transactions are accepted, the burn check, the exact
    rounding of converted amounts, and that what leaves the finder is covered by the changes of the issuer's balances.
  \<^item> \<open>Contract_Client\<close>, \<open>Gas_Estimation\<close>, \<open>Client_Properties\<close> (\<open>contract.go\<close>): messages, queries, error
    recognisers, reading all pending transactions (locale \<open>paged_query\<close>) and the gas estimate.
  \<^item> \<open>Wire\<close>, \<open>Wire_Properties\<close>, \<open>Wire_Calls\<close> (\<open>contract.go\<close>, \<open>msg.rs\<close>): the JSON of requests, queries and answers on both sides.
    Every request is read as the message it stands for, every query returns what is stored, what is built to execute
    approved transactions is accepted, as long as the SDK accepts their denoms, a client with this JSON implements the locale \<open>contract_port\<close>, and what the
    deployment command sends is not a message. \<open>Wire_Audit\<close> (\<open>audit.go\<close>): the auditor reads what the client wrote.
  \<^item> \<open>Executor\<close>, \<open>Watcher\<close> (\<open>executor.go\<close>, \<open>watcher/*.go\<close>): the submission loop over the locale \<open>contract_port\<close>,
    interpreted on the contract client in front of the contract model; polling of the version.
  \<^item> \<open>Delivery\<close>: evidence stays on record, and no transfer within the maximum stays pending with a quorum, so transfers that enough
    executors are done with are paid. \<open>Relayer_Run\<close> (\<open>finder.go\<close>, \<open>executor.go\<close>): the goroutines of a relayer and their
    unbuffered channels as a step relation; nothing is lost or invented, nothing deadlocks, steps are bounded, and a
    finder can hang after the shutdown. \<open>Bridge\<close>: a relayer whose scans went past a transaction and whose
    goroutines have come to rest is done with it. \<open>Payouts\<close>: what leaves the contract's own funds stays within its limits, and no
    evidence id is paid twice.
  \<^item> \<open>Chain_Client\<close> (\<open>chain.go\<close>), \<open>Auditor\<close>, \<open>Auditor_Properties\<close> (\<open>audit.go\<close>, locale \<open>xrpl_lookup\<close>): the search for
    spending transactions is exact, a clean audit is sound, and where the audit is blind.
  \<^item> \<open>Metrics\<close> (\<open>recorder.go\<close>, \<open>tx.go\<close>, \<open>pusher.go\<close>, \<open>zap.go\<close>), \<open>Signer\<close> (\<open>signer.go\<close>), \<open>Service\<close>, \<open>Service_Properties\<close>
    (\<open>service.go\<close>), \<open>Command_Line\<close>, \<open>Command_Properties\<close>, \<open>Root_Command\<close> (\<open>main.go\<close>): gauges and loops, both signers agree,
    the assembled services pass their own audit, the restart loop, the configuration read from flags in any order
    of the Go map, what a deployment is checked for, the typing of the flags, how the program ends.
  \<^item> \<open>Test_Chains\<close> (\<open>integration-tests/*.go\<close>): the chains of the tests; a created account was paid by the faucet with the
    reserve on top, a generated one can sign.
  \<^item> This theory: the two properties that span all parts: coins leave the contract only for burns the finders accept, and
    these burns are paid once enough relayers have caught up.

  \<^bold>\<open>Conventions.\<close> An \<open>Inl\<close> is a returned error; where Go can panic the type \<open>go\<close> has a third outcome. Calls to the
  outside are numbered, so that a service may answer differently each time and fail at any call. Code
  outside the repository (the SDK, rippled packages, HTTP, Prometheus, the keyring, CosmWasm's host) is a
  field of a record that the definitions take as argument; the hypotheses on these fields that a property needs
  stand in its statement. Functions of the SDK
  that read flags get the command line, those that panic have the outcome \<open>Panic\<close>. The client's marshallers are such fields too, and \<open>wired\<close> sets them to the JSON of the
  code; JSON of the SDK's own types and of the XRPL node stays a parameter. \<open>w\<close>-bit integers are words; \<open>sdkmath.Int\<close> and big integers are HOL integers. The scans are
  loops of their own whose channel is the list of what was sent; the finders and the executor interleave as steps
  of \<open>Relayer_Run\<close>. Cancellation is an end of the retry helper there and a step here.

  \<^bold>\<open>Loops.\<close> Loops over lists are structural recursions. Loops that may run for ever (paging, reading pending
  transactions, the search of the chain client, the restart loop) are partial functions into option, and their
  properties state that they return, under the hypotheses given there; loops under the retry helper are runs of an
  inductive relation. Only the JSON
  parser has a bound on its depth, the length of the text, which is enough: reading what was written gives it back.

  \<^bold>\<open>Not modelled.\<close> Cobra and pflag (parsing and dispatch; the model says which flags and commands exist and what a parsed
  command line gives), the \<open>keys\<close> command of the SDK, log output, mutexes and the pool of goroutines (the order in which tasks end is an
  argument where results could depend on it), constructors that only store their arguments, the build
  scripts, the contexts and timeouts of the integration tests and the tests themselves. Texts that Go prints
  with \<open>%v\<close> into errors are left out.
\<close>

section \<open>From burn to transfer\<close>

text \<open>
  A message an honest relayer may submit: when it is a transfer, it is the executor's request for
  what a finder builds from a ledger transaction, of an amount the contract can read.
\<close>

definition honest_submission ::
  "('v, 'n) ripple \<Rightarrow> sdk \<Rightarrow> finder_config list \<Rightarrow> ('v, 'n) Transaction list \<Rightarrow> execute_msg \<Rightarrow> bool" where
  "honest_submission R S fs xs m =
     (case m of
        Contract.ThresholdBankSend i a r \<Rightarrow>
          list_ex (\<lambda>f. list_ex (\<lambda>x.
            case buildPendingTransaction R S f x of
              Ok (Some p) \<Rightarrow> 0 \<le> Amount (TXAmount p) \<and> Amount (TXAmount p) < 2 ^ 128 \<and> m = request_msg (send_request S p)
            | _ \<Rightarrow> False) xs) fs
      | _ \<Rightarrow> True)"

lemma honest_submissionD:
  assumes "honest_submission R S fs xs m" and "msg_evidence h m = Some e"
  obtains f x p where "f \<in> set fs" "x \<in> set xs" "buildPendingTransaction R S f x = Ok (Some p)"
    "0 \<le> Amount (TXAmount p)" "Amount (TXAmount p) < 2 ^ 128"
    "e = build_evidence_id h (normalize_id (XRPLTxHash p)) (request_coin (send_request S p)) (AccAddress_String S (TXDestination p))"
proof (cases m)
  case (ThresholdBankSend i a r)
  with assms(2) have e: "e = build_evidence_id h (normalize_id i) a r" by simp
  from assms(1) ThresholdBankSend obtain f x where f: "f \<in> set fs" "x \<in> set xs"
    "case buildPendingTransaction R S f x of
       Ok (Some p) \<Rightarrow> 0 \<le> Amount (TXAmount p) \<and> Amount (TXAmount p) < 2 ^ 128 \<and> m = request_msg (send_request S p)
     | _ \<Rightarrow> False"
    by (auto simp: honest_submission_def list_ex_iff)
  then obtain p where "buildPendingTransaction R S f x = Ok (Some p)" by (auto split: go.splits option.splits)
  with f that [of f x p] e ThresholdBankSend show thesis
    by (simp add: request_msg_def) (simp add: send_request_def)
qed (use assms(2) in auto)

lemma honest_among:
  assumes "distinct P" and "finite B" and "card B < length P"
  shows "\<exists>p\<in>set P. p \<notin> B"
proof (rule ccontr)
  assume "\<not> ?thesis"
  then have "card (set P) \<le> card B" using assms(2) by (intro card_mono) auto
  with assms(1,3) show False by (simp add: distinct_card)
qed

text \<open>
  C1: Transfers come from burns. Take a run of the contract in which every relayer outside a set \<open>B\<close> of
  fewer than \<open>threshold\<close> addresses submits only what the finders build from ledger transactions.
  Then every coin that leaves the contract belongs to such a transaction: a validated successful
  payment to the issuer of a configured token, with its converted amount, its denom and its memo
  address (texts up to letter case); whatever the relayers in \<open>B\<close> submit.
\<close>

theorem transfers_come_from_burns:
  assumes "contract_run h st es" and "CONFIG st = Some c"
    and "execute h st info m = Inr (st', r)" and "BankSend to cs \<in> set (messages r)"
    and "finite B" and "card B < unat (threshold c)"
    and "\<And>ev. ev \<in> set (\<lparr>ce_config = c, ce_info = info, ce_msg = m, ce_resp = r\<rparr> # es) \<Longrightarrow> sender (ce_info ev) \<notin> B \<Longrightarrow>
      honest_submission R S fs xs (ce_msg ev)"
    and "\<And>f x p. f \<in> set fs \<Longrightarrow> x \<in> set xs \<Longrightarrow> buildPendingTransaction R S f x = Ok (Some p) \<Longrightarrow> plain_transfer S p"
    and "displays_coins h"
    and "\<And>a. a \<in> set cs \<Longrightarrow> plain_denom (coin_denom a)"
  shows "\<exists>f x p a. f \<in> set fs \<and> x \<in> set xs \<and> buildPendingTransaction R S f x = Ok (Some p) \<and>
    Validated x \<and> TransactionResult x = ''tesSUCCESS'' \<and> TransactionType x = ''Payment'' \<and>
    Destination x = account_String R (XRPLIssuer f) \<and>
    cs = [a] \<and> uint (coin_amount a) = Amount (TXAmount p) \<and>
    to_lowercase (coin_denom a) = to_lowercase (sc_Denom (TXAmount p)) \<and>
    to_lowercase to = to_lowercase (AccAddress_String S (TXDestination p))"
proof -
  let ?es = "\<lparr>ce_config = c, ce_info = info, ce_msg = m, ce_resp = r\<rparr> # es"
  from run_sends_quorum [OF assms(1-4)] obtain i a P where P: "cs = [a]" "distinct P" "unat (threshold c) \<le> length P"
    "\<forall>p \<in> set P. \<exists>ev \<in> set ?es. supports h (build_evidence_id h i a to) p ev"
    by blast
  with honest_among [OF P(2) assms(5)] assms(6) obtain q where "q \<in> set P" "q \<notin> B" by auto
  with P(4) obtain ev where ev: "ev \<in> set ?es" "supports h (build_evidence_id h i a to) q ev" by blast
  then have "honest_submission R S fs xs (ce_msg ev)" "msg_evidence h (ce_msg ev) = Some (build_evidence_id h i a to)"
    using assms(7) \<open>q \<notin> B\<close> by (auto simp: supports_def)
  then obtain f x p where p: "f \<in> set fs" "x \<in> set xs" "buildPendingTransaction R S f x = Ok (Some p)"
    "0 \<le> Amount (TXAmount p)" "Amount (TXAmount p) < 2 ^ 128"
    "build_evidence_id h i a to =
      build_evidence_id h (normalize_id (XRPLTxHash p)) (request_coin (send_request S p)) (AccAddress_String S (TXDestination p))"
    by (rule honest_submissionD)
  have plain: "plain_transfer S p" using p assms(8) by blast
  have "coin_amount a = of_int (Amount (TXAmount p)) \<and> to_lowercase (coin_denom a) = to_lowercase (sc_Denom (TXAmount p)) \<and>
    to_lowercase to = to_lowercase (AccAddress_String S (TXDestination p))"
    using same_evidence_same_transfer [OF p(6) _ assms(9)] plain_transfer_evidence [OF plain assms(9)] assms(10) [of a] P(1)
    by (simp add: request_coin_def send_request_def)
  moreover have "uint (of_int (Amount (TXAmount p)) :: uint128) = Amount (TXAmount p)"
    using p(4,5) by (simp add: uint_word_of_int_eq take_bit_int_eq_self)
  ultimately show ?thesis
    using p(1-3) P(1) buildPendingTransaction_iff [THEN iffD1, OF p(3)] by auto
qed

text \<open>A run in which two relayers of three confirm the burn of the sample.\<close>

definition sample_bob_transfer :: PendingTXSendTransaction where
  "sample_bob_transfer = \<lparr>TXDestination = [9], TXAmount = \<lparr>sc_Denom = ''ucore'', Amount = 15\<rparr>, XRPLTxHash = ''AB''\<rparr>"

definition sample_bob_msg :: execute_msg where
  "sample_bob_msg = Contract.ThresholdBankSend ''AB'' (sample_coin 15) ''core1bob''"

definition sample_bob_pending :: storage where
  "sample_bob_pending = sample_start\<lparr>PENDING_TRANSACTIONS :=
     [(''ab-15ucore-core1bob'', \<lparr>amount = sample_coin 15, recipient = ''core1bob'', evidence_providers = [''r1'']\<rparr>)]\<rparr>"

definition sample_bob_sent :: "storage \<times> response" where
  "sample_bob_sent =
    (sample_start\<lparr>SENT_TRANSACTIONS := [(''ab'', \<lparr>amount = sample_coin 15, recipient = ''core1bob'',
           evidence_providers = [''r1'', ''r2'']\<rparr>)]\<rparr>,
     \<lparr>attributes = [(''result'', ''sent''), (''recipient'', ''core1bob''), (''amount'', ''15ucore''),
        (''evidence_id'', ''ab-15ucore-core1bob'')], messages = [BankSend ''core1bob'' [sample_coin 15]]\<rparr>)"

lemma sample_bob_build:
  "buildPendingTransaction sample_ripple sample_sdk sample_rate sample_burn = Ok (Some sample_bob_transfer)"
  by code_simp

lemma sample_bob_vote: "execute sample_host sample_start (by_sender ''r1'') sample_bob_msg =
  Inr (sample_bob_pending, \<lparr>attributes = [(''result'', ''pending''), (''evidence_id'', ''ab-15ucore-core1bob'')], messages = []\<rparr>)"
  by code_simp

lemma sample_bob_send:
  "execute sample_host sample_bob_pending (by_sender ''r2'') sample_bob_msg = Inr (fst sample_bob_sent, snd sample_bob_sent)"
  by code_simp

lemma sample_bob_honest: "honest_submission sample_ripple sample_sdk [sample_rate] [sample_burn] sample_bob_msg"
proof -
  have "sample_bob_msg = request_msg (send_request sample_sdk sample_bob_transfer)"
    by code_simp
  moreover have "0 \<le> Amount (TXAmount sample_bob_transfer) \<and> Amount (TXAmount sample_bob_transfer) < 2 ^ 128"
    by (simp add: sample_bob_transfer_def)
  ultimately show ?thesis
    unfolding honest_submission_def by (cases sample_bob_msg) (simp_all add: sample_bob_build sample_bob_msg_def)
qed

theorem transfers_come_from_burns_witness:
  "\<exists>f x p a. f \<in> set [sample_rate] \<and> x \<in> set [sample_burn] \<and>
    buildPendingTransaction sample_ripple sample_sdk f x = Ok (Some p) \<and>
    Validated x \<and> TransactionResult x = ''tesSUCCESS'' \<and> TransactionType x = ''Payment'' \<and>
    Destination x = account_String sample_ripple (XRPLIssuer f) \<and>
    [sample_coin 15] = [a] \<and> uint (coin_amount a) = Amount (TXAmount p) \<and>
    to_lowercase (coin_denom a) = to_lowercase (sc_Denom (TXAmount p)) \<and>
    to_lowercase ''core1bob'' = to_lowercase (AccAddress_String sample_sdk (TXDestination p))"
proof (rule transfers_come_from_burns [where B = "{''r3''}" and h = sample_host and fs = "[sample_rate]" and xs = "[sample_burn]"
    and R = sample_ripple and S = sample_sdk])
  show "contract_run sample_host sample_bob_pending [\<lparr>ce_config = sample_config, ce_info = by_sender ''r1'', ce_msg = sample_bob_msg,
      ce_resp = \<lparr>attributes = [(''result'', ''pending''), (''evidence_id'', ''ab-15ucore-core1bob'')], messages = []\<rparr>\<rparr>]"
    by (rule run_execute [OF run_instantiate [OF sample_instantiate] _ sample_bob_vote]) (simp add: sample_start_def)
  show "execute sample_host sample_bob_pending (by_sender ''r2'') sample_bob_msg = Inr (fst sample_bob_sent, snd sample_bob_sent)"
    by (rule sample_bob_send)
  show "plain_transfer sample_sdk p" if "f \<in> set [sample_rate]" "x \<in> set [sample_burn]"
    "buildPendingTransaction sample_ripple sample_sdk f x = Ok (Some p)" for f x p
  proof -
    from that have "p = sample_bob_transfer" by (simp add: sample_bob_build)
    then show ?thesis
      by (simp add: sample_bob_transfer_def plain_transfer_def plain_denom_def is_digit_def sample_sdk_def)
  qed
qed (auto simp: sample_bob_pending_def sample_start_def sample_bob_sent_def sample_config_def sample_host_def sample_bob_honest
    sample_coin_def plain_denom_def is_digit_def displays_coins_def)

section \<open>Every burn is paid\<close>

text \<open>
  C2: Burns are paid. Let \<open>x\<close> be an entry of the issuer's history on the ledger that the finder for \<open>cfg\<close>
  accepts as the burn \<open>p\<close>, and let \<open>V\<close> be as many relayers with different accounts as the threshold asks for, each caught
  up: its scans went past \<open>x\<close>, whatever failed on the way, and its goroutines have come to rest after some interleaving
  of their steps, without cancellation. Then the contract has sent the transfer, if its amount is between the
  minimum and the maximum. The relayers run independently, each against its own server and connection; of the other accounts
  it is only assumed that the maximum is not changed and that denoms do not begin with a digit.
\<close>

theorem burns_are_paid:
  assumes "contract_run h st es" and "\<And>ev. ev \<in> set es \<Longrightarrow> steady_msg (ce_msg ev)" and "displays_coins h"
    and "CONFIG st = Some c" and "distinct (map (\<lambda>v. port_who (rv_port v)) V)" and "unat (threshold c) \<le> length V"
    and "\<And>v. v \<in> set V \<Longrightarrow> caught_up R S cfg x v \<and> po_host (rv_port v) = h"
    and "\<And>v k. v \<in> set V \<Longrightarrow> k < rel_calls (rv_state v) \<Longrightarrow> leads_to h (po_after (rv_port v) k) st"
    and "\<And>v k cc. v \<in> set V \<Longrightarrow> k < rel_calls (rv_state v) \<Longrightarrow> CONFIG (po_before (rv_port v) k) = Some cc \<Longrightarrow>
      uint (min_amount cc) \<le> Amount (TXAmount p)"
    and "converts x t" and "buildPendingTransaction R S cfg t = Ok (Some p)"
    and "plain_transfer S p" and "0 \<le> Amount (TXAmount p)" and "Amount (TXAmount p) \<le> uint (max_amount c)"
  shows "kv_has (SENT_TRANSACTIONS st) (normalize_id (Hash t))"
proof -
  let ?Q = "map (\<lambda>v. (rv_port v, rel_calls (rv_state v))) V"
  have "XRPLTxHash p = Hash t" using buildPendingTransaction_iff [THEN iffD1, OF assms(11)] by auto
  moreover have "kv_has (SENT_TRANSACTIONS st) (normalize_id (XRPLTxHash p))"
  proof (rule done_transfers_are_paid [where Q = ?Q, OF assms(1-4) _ _ _ _ _ assms(12-14)])
    show "distinct (map (\<lambda>(e, m). port_who e) ?Q)" using assms(5) by (simp add: comp_def)
    show "chain_linked e \<and> po_host e = h \<and>
        (\<exists>n n'. n' \<le> m \<and> retry_Do (execute_attempt S (port_get e) (port_send e) p) n n' None)"
      if "(e, m) \<in> set ?Q" for e m
      using that assms(7) caught_up_done [OF _ assms(10,11)] by (auto simp: caught_up_def)
  qed (use assms(6,8,9) in auto)
  ultimately show ?thesis by simp
qed

theorem burns_are_paid_witness: "kv_has (SENT_TRANSACTIONS sample_paid) (normalize_id (Hash burn_tx))"
proof (rule burns_are_paid [where V = "[burn_view sample_port, burn_view second_port]" and h = sample_host and
    cfg = sample_rate and R = sample_ripple and S = relayer_sdk and p = sample_transfer and x = burn_item and
    c = sample_config])
  show "caught_up sample_ripple relayer_sdk sample_rate burn_item v \<and> po_host (rv_port v) = sample_host"
    if "v \<in> set [burn_view sample_port, burn_view second_port]" for v
    using that burn_caught_up [OF sample_port_linked sample_attempt] burn_caught_up [OF second_port_linked second_attempt]
    by (auto simp: burn_view_def relayer_port_def)
  show "leads_to sample_host (po_after (rv_port v) k) sample_paid"
    if "v \<in> set [burn_view sample_port, burn_view second_port]" for v k
    using that sample_leads by (auto simp: burn_view_def relayer_port_def)
  show "buildPendingTransaction sample_ripple relayer_sdk sample_rate burn_tx = Ok (Some sample_transfer)"
    using burn_accepted by (simp add: sample_accepts_def)
qed (rule sample_states(2) burn_converts | auto simp: burn_view_def relayer_port_def sample_paid_def sample_voted_def sample_start_def sample_config_def displays_coins_def
    sample_host_def port_who_def relayer_sdk_def plain_transfer_def plain_denom_def sample_transfer_def is_digit_def sample_coin_def split: if_splits)+

end
